(* ===== verification/AOS_Prelude.thy ===== *)
theory AOS_Prelude
  imports Complex_Main "HOL-Library.Log_Nat" "HOL-Library.Sublist"
begin

text \<open>
  The shared prelude: JSON values and the JavaScript number conversions the services use, the
  state-and-exception monad in which every service method is written, its \<open>keeps\<close> calculus for
  invariants, the generic running-total ledger, and the generic transition system. Nothing here
  is specific to one service.
\<close>

named_theorems keeps_intro \<open>rules that push an invariant through a service method\<close>
named_theorems run_simps \<open>rules that run a service method on a world\<close>

section \<open>JSON values\<close>

text \<open>
  A JSON number is a finite double; every finite double is a rational. An absent property
  (JavaScript's undefined) is \<^term>\<open>None\<close> of an option.
\<close>

datatype json =
    JNull
  | JBool bool
  | JNum rat
  | JStr string
  | JArr "json list"
  | JObj "(string \<times> json) list"

text \<open>Property access \<open>o.k\<close> on a value that is not \<open>null\<close>.\<close>

fun jget :: "json \<Rightarrow> string \<Rightarrow> json option" where
  "jget (JObj kvs) k = map_of kvs k"
| "jget _ k = None"

text \<open>Truthiness of a JSON value, and of an optional string (\<open>!s\<close> is its negation).\<close>

fun js_truthy :: "json \<Rightarrow> bool" where
  "js_truthy JNull = False"
| "js_truthy (JBool b) = b"
| "js_truthy (JNum x) = (x \<noteq> 0)"
| "js_truthy (JStr s) = (s \<noteq> [])"
| "js_truthy (JArr _) = True"
| "js_truthy (JObj _) = True"

definition str_truthy :: "string option \<Rightarrow> bool" where
  "str_truthy s = (case s of None \<Rightarrow> False | Some x \<Rightarrow> x \<noteq> [])"

text \<open>The nullish coalescing operator \<open>a ?? b\<close> where both sides may be absent.\<close>

definition orElse :: "'a option \<Rightarrow> 'a option \<Rightarrow> 'a option" where
  "orElse a b = (case a of None \<Rightarrow> b | Some x \<Rightarrow> Some x)"

definition getOr :: "'a option \<Rightarrow> 'a \<Rightarrow> 'a" where
  "getOr a d = (case a of None \<Rightarrow> d | Some x \<Rightarrow> x)"

lemma getOr_simps [simp]: "getOr None d = d" "getOr (Some x) d = x"
  by (simp_all add: getOr_def)

lemma orElse_simps [simp]: "orElse None b = b" "orElse (Some x) b = Some x"
  by (simp_all add: orElse_def)

lemma str_truthy_simps [simp]: "str_truthy None = False" "str_truthy (Some x) = (x \<noteq> [])"
  by (simp_all add: str_truthy_def)

definition jstr_opt :: "string option \<Rightarrow> json" where
  "jstr_opt s = (case s of None \<Rightarrow> JNull | Some x \<Rightarrow> JStr x)"

text \<open>An object literal drops the properties whose value is undefined when it is serialised.\<close>

fun jobj :: "(string \<times> json option) list \<Rightarrow> json" where
  "jobj kvs = JObj (map (\<lambda>(k, v). (k, the v)) (filter (\<lambda>(k, v). v \<noteq> None) kvs))"

section \<open>JavaScript numbers\<close>

definition is_integer :: "rat \<Rightarrow> bool" where
  "is_integer x = (of_int \<lfloor>x\<rfloor> = x)"

definition max_safe_integer :: int where
  "max_safe_integer = 2 ^ 53 - 1"

definition is_safe_integer :: "rat \<Rightarrow> bool" where
  "is_safe_integer x = (is_integer x \<and> \<bar>\<lfloor>x\<rfloor>\<bar> \<le> max_safe_integer)"

text \<open>\<open>Math.round\<close> rounds half up.\<close>

definition js_round :: "rat \<Rightarrow> int" where
  "js_round x = \<lfloor>x + 1 / 2\<rfloor>"

text \<open>
  \<open>Number(b)\<close> of a BigInt: exact up to \<open>2^53\<close>, else rounded to 53 significant bits, ties to
  even. All amounts are far below the range where a double overflows.
\<close>

definition round53 :: "nat \<Rightarrow> nat" where
  "round53 n =
     (let k = floorlog 2 n - 53; q = n div 2 ^ k; r = n mod 2 ^ k; half = 2 ^ (k - 1) in
      if k = 0 then n
      else (if half < r \<or> (r = half \<and> odd q) then q + 1 else q) * 2 ^ k)"

definition js_Number :: "int \<Rightarrow> rat" where
  "js_Number x =
     (if \<bar>x\<bar> \<le> 2 ^ 53 then of_int x else of_int (sgn x * int (round53 (nat \<bar>x\<bar>))))"

lemma js_Number_exact: "\<bar>x\<bar> \<le> 2 ^ 53 \<Longrightarrow> js_Number x = of_int x"
  by (simp add: js_Number_def)

text \<open>
  The double nearest to a rational, ties to even, for the magnitudes that occur (zero, or from
  \<open>2^-16\<close> up to overflow); an integer up to \<open>2^53\<close> is its own double. Arithmetic on numbers rounds its
  exact result this way.
\<close>

definition round_half_even :: "rat \<Rightarrow> int" where
  "round_half_even x =
     (let f = \<lfloor>x\<rfloor>; r = x - of_int f in
      if r < 1 / 2 then f else if 1 / 2 < r then f + 1 else if even f then f else f + 1)"

definition to_double :: "rat \<Rightarrow> rat" where
  "to_double x =
     (if is_integer x \<and> \<bar>x\<bar> \<le> 2 ^ 53 then x
      else let y = \<bar>x\<bar> * 2 ^ 16; m = floorlog 2 (nat \<lfloor>y\<rfloor>) - 1 in
        sgn x * of_int (round_half_even (y * 2 ^ 52 / 2 ^ m)) * 2 ^ m / 2 ^ 52 / 2 ^ 16)"

lemma to_double_int: "\<bar>n\<bar> \<le> 2 ^ 53 \<Longrightarrow> to_double (of_int n) = of_int n"
proof -
  assume "\<bar>n\<bar> \<le> 2 ^ 53"
  then have "of_int \<bar>n\<bar> \<le> (of_int (2 ^ 53) :: rat)" by (subst of_int_le_iff)
  then show ?thesis by (simp add: to_double_def is_integer_def)
qed

text \<open>\<open>Number(b) / 100\<close>.\<close>

definition js_div100 :: "int \<Rightarrow> rat" where
  "js_div100 b = to_double (js_Number b / 100)"

text \<open>BigInt division truncates towards zero.\<close>

definition bigint_div :: "int \<Rightarrow> int \<Rightarrow> int" where
  "bigint_div a b = sgn a * sgn b * (\<bar>a\<bar> div \<bar>b\<bar>)"

lemma bigint_div_nonneg: "0 \<le> a \<Longrightarrow> 0 < b \<Longrightarrow> bigint_div a b = a div b"
  by (auto simp: bigint_div_def sgn_if)

text \<open>
  Comparisons of numbers, with the values that are not finite: every comparison with \<open>NaN\<close> is false.
\<close>

datatype js_num = NaN | NegInf | Fin rat | PosInf

fun js_lt :: "js_num \<Rightarrow> js_num \<Rightarrow> bool" where
  "js_lt (Fin x) (Fin y) = (x < y)"
| "js_lt NegInf (Fin y) = True"
| "js_lt NegInf PosInf = True"
| "js_lt (Fin x) PosInf = True"
| "js_lt _ _ = False"

definition js_le :: "js_num \<Rightarrow> js_num \<Rightarrow> bool" where
  "js_le x y = (x \<noteq> NaN \<and> y \<noteq> NaN \<and> \<not> js_lt y x)"

lemma js_le_Fin [simp]: "js_le (Fin x) (Fin y) = (x \<le> y)"
  by (simp add: js_le_def not_less)

text \<open>\<open>Math.min\<close>.\<close>

definition js_min :: "js_num \<Rightarrow> js_num \<Rightarrow> js_num" where
  "js_min x y = (if x = NaN \<or> y = NaN then NaN else if js_lt y x then y else x)"

text \<open>The range of a PostgreSQL BIGINT column.\<close>

definition in_int8 :: "int \<Rightarrow> bool" where
  "in_int8 x = (- (2 ^ 63) \<le> x \<and> x < 2 ^ 63)"

text \<open>Decimal rendering, as in template literals and \<open>toString\<close>.\<close>

definition digit_char :: "nat \<Rightarrow> char" where
  "digit_char d = char_of (48 + d)"

fun show_nat :: "nat \<Rightarrow> string" where
  "show_nat n = (if n < 10 then [digit_char n] else show_nat (n div 10) @ [digit_char (n mod 10)])"

declare show_nat.simps [simp del]

definition show_int :: "int \<Rightarrow> string" where
  "show_int i = (if i < 0 then ''-'' @ show_nat (nat (- i)) else show_nat (nat i))"

text \<open>The UTF-8 bytes of the dash that several messages contain.\<close>

definition em_dash :: string where
  "em_dash = [CHR 0xE2, CHR 0x80, CHR 0x94]"

section \<open>The state-and-exception monad\<close>

text \<open>
  An async method is a function of the world; it ends with a value (\<open>Inr\<close>) or a thrown exception
  (\<open>Inl\<close>) and in either case with the world it has produced so far: a statement that was executed
  before the exception stays executed.
\<close>

type_synonym ('s, 'e, 'a) sm = "'s \<Rightarrow> ('e + 'a) \<times> 's"

definition ret :: "'a \<Rightarrow> ('s, 'e, 'a) sm" where
  "ret x = (\<lambda>s. (Inr x, s))"

definition throw :: "'e \<Rightarrow> ('s, 'e, 'a) sm" where
  "throw e = (\<lambda>s. (Inl e, s))"

definition bnd :: "('s, 'e, 'a) sm \<Rightarrow> ('a \<Rightarrow> ('s, 'e, 'b) sm) \<Rightarrow> ('s, 'e, 'b) sm" where
  "bnd m f = (\<lambda>s. case m s of (Inl e, s') \<Rightarrow> (Inl e, s') | (Inr x, s') \<Rightarrow> f x s')"

abbreviation seqm :: "('s, 'e, 'a) sm \<Rightarrow> ('s, 'e, 'b) sm \<Rightarrow> ('s, 'e, 'b) sm" where
  "seqm m n \<equiv> bnd m (\<lambda>_. n)"

definition catch :: "('s, 'e, 'a) sm \<Rightarrow> ('e \<Rightarrow> ('s, 'e, 'a) sm) \<Rightarrow> ('s, 'e, 'a) sm" where
  "catch m h = (\<lambda>s. case m s of (Inl e, s') \<Rightarrow> h e s' | (Inr x, s') \<Rightarrow> (Inr x, s'))"

definition lift_sum :: "'e + 'a \<Rightarrow> ('s, 'e, 'a) sm" where
  "lift_sum r = (\<lambda>s. (r, s))"

fun foreach :: "'a list \<Rightarrow> ('a \<Rightarrow> ('s, 'e, unit) sm) \<Rightarrow> ('s, 'e, unit) sm" where
  "foreach [] f = ret ()"
| "foreach (x # xs) f = bnd (f x) (\<lambda>_. foreach xs f)"

fun mapM :: "('a \<Rightarrow> ('s, 'e, 'b) sm) \<Rightarrow> 'a list \<Rightarrow> ('s, 'e, 'b list) sm" where
  "mapM f [] = ret []"
| "mapM f (x # xs) = bnd (f x) (\<lambda>y. bnd (mapM f xs) (\<lambda>ys. ret (y # ys)))"

lemma ret_run [run_simps]: "ret x s = (Inr x, s)"
  by (simp add: ret_def)

lemma throw_run [run_simps]: "throw e s = (Inl e, s)"
  by (simp add: throw_def)

lemma lift_sum_run [run_simps]: "lift_sum r s = (r, s)"
  by (simp add: lift_sum_def)

lemma bnd_run [run_simps]:
  "m s = (Inr x, s') \<Longrightarrow> bnd m f s = f x s'"
  "m s = (Inl e, s') \<Longrightarrow> bnd m f s = (Inl e, s')"
  by (simp_all add: bnd_def)

lemma catch_run [run_simps]:
  "m s = (Inr x, s') \<Longrightarrow> catch m h s = (Inr x, s')"
  "m s = (Inl e, s') \<Longrightarrow> catch m h s = h e s'"
  by (simp_all add: catch_def)

lemma bnd_ret [simp]: "bnd (ret x) f = f x"
  by (simp add: bnd_def ret_def)

lemma bnd_throw [simp]: "bnd (throw e) f = throw e"
  by (simp add: bnd_def throw_def)

lemma bnd_assoc: "bnd (bnd m f) g = bnd m (\<lambda>x. bnd (f x) g)"
  by (rule ext) (simp add: bnd_def split: prod.split sum.split)

lemma bnd_InrE:
  assumes "bnd m f s = (Inr y, s')"
  obtains x s1 where "m s = (Inr x, s1)" "f x s1 = (Inr y, s')"
  using assms by (auto simp: bnd_def split: prod.splits sum.splits)

lemma bnd_cases:
  obtains (ok) x s1 where "m s = (Inr x, s1)" "bnd m f s = f x s1"
        | (err) e s1 where "m s = (Inl e, s1)" "bnd m f s = (Inl e, s1)"
  by (cases "m s"; cases "fst (m s)") (auto simp: bnd_def)

lemma find_SomeD: "find P xs = Some x \<Longrightarrow> x \<in> set xs \<and> P x"
  by (induction xs) (auto split: if_splits)

lemma find_snoc: "\<forall>y \<in> set xs. \<not> P y \<Longrightarrow> P x \<Longrightarrow> find P (xs @ [x]) = Some x"
  by (induction xs) auto

lemma fst_run: "fst p = r \<Longrightarrow> p = (r, snd p)"
  by (cases p) simp

section \<open>Invariants of methods\<close>

text \<open>
  \<open>keeps P m\<close>: whatever \<open>m\<close> returns or throws, it leaves a state with \<open>P\<close> when it starts in one.
\<close>

definition keeps :: "('s \<Rightarrow> bool) \<Rightarrow> ('s, 'e, 'a) sm \<Rightarrow> bool" where
  "keeps P m = (\<forall>s. P s \<longrightarrow> P (snd (m s)))"

lemma keepsD: "keeps P m \<Longrightarrow> P s \<Longrightarrow> P (snd (m s))"
  by (simp add: keeps_def)

lemma keepsD2: "keeps P m \<Longrightarrow> P s \<Longrightarrow> m s = (r, s') \<Longrightarrow> P s'"
  by (auto simp: keeps_def dest!: spec[of _ s])

lemma keepsI: "(\<And>s. P s \<Longrightarrow> P (snd (m s))) \<Longrightarrow> keeps P m"
  by (simp add: keeps_def)

lemma keeps_ret [keeps_intro]: "keeps P (ret x)"
  by (simp add: keeps_def ret_def)

lemma keeps_throw [keeps_intro]: "keeps P (throw e)"
  by (simp add: keeps_def throw_def)

lemma keeps_lift_sum [keeps_intro]: "keeps P (lift_sum r)"
  by (simp add: keeps_def lift_sum_def)

lemma keeps_bnd [keeps_intro]:
  assumes "keeps P m" "\<And>x. keeps P (f x)"
  shows "keeps P (bnd m f)"
proof (rule keepsI)
  fix s assume "P s"
  then show "P (snd (bnd m f s))"
    by (rule_tac m = m and s = s and f = f in bnd_cases)
      (use assms in \<open>auto dest: keepsD keepsD2\<close>)
qed

lemma keeps_catch [keeps_intro]:
  assumes "keeps P m" "\<And>e. keeps P (h e)"
  shows "keeps P (catch m h)"
proof (rule keepsI)
  fix s assume P: "P s"
  show "P (snd (catch m h s))"
    using keepsD2 [OF assms(1) P] assms(2)
    by (cases "m s"; cases "fst (m s)") (auto simp: catch_def dest: keepsD)
qed

lemma keeps_if [keeps_intro]:
  "(c \<Longrightarrow> keeps P m) \<Longrightarrow> (\<not> c \<Longrightarrow> keeps P n) \<Longrightarrow> keeps P (if c then m else n)"
  by simp

lemma keeps_case_option [keeps_intro]:
  "(v = None \<Longrightarrow> keeps P m) \<Longrightarrow> (\<And>x. v = Some x \<Longrightarrow> keeps P (f x)) \<Longrightarrow>
     keeps P (case v of None \<Rightarrow> m | Some x \<Rightarrow> f x)"
  by (cases v) auto

lemma keeps_case_sum [keeps_intro]:
  "(\<And>x. v = Inl x \<Longrightarrow> keeps P (f x)) \<Longrightarrow> (\<And>x. v = Inr x \<Longrightarrow> keeps P (g x)) \<Longrightarrow>
     keeps P (case v of Inl x \<Rightarrow> f x | Inr x \<Rightarrow> g x)"
  by (cases v) auto

lemma keeps_case_prod [keeps_intro]:
  "(\<And>x y. v = (x, y) \<Longrightarrow> keeps P (f x y)) \<Longrightarrow> keeps P (case v of (x, y) \<Rightarrow> f x y)"
  by (cases v) auto

lemma keeps_Let [keeps_intro]: "keeps P (f t) \<Longrightarrow> keeps P (Let t f)"
  by simp

lemma keeps_foreach [keeps_intro]:
  "(\<And>x. x \<in> set xs \<Longrightarrow> keeps P (f x)) \<Longrightarrow> keeps P (foreach xs f)"
  by (induction xs) (auto intro!: keeps_intro)

lemma keeps_mapM [keeps_intro]:
  "(\<And>x. x \<in> set xs \<Longrightarrow> keeps P (f x)) \<Longrightarrow> keeps P (mapM f xs)"
  by (induction xs) (auto intro!: keeps_intro)

section \<open>Running-total ledgers\<close>

text \<open>
  Both money tables of the schema (LedgerEntry per account, BucketLedgerEntry per treasury bucket)
  are append-only lists in which a row carries, beside its own amount, the running total of its
  owner at the time of the row. The contract is stated once: \<open>owner\<close> of a row, its signed
  contribution \<open>delta\<close>, its stored total \<open>cum\<close>, and which rows \<open>counts\<close> in the total; a row that
  does not count contributes nothing.
\<close>

definition total_by :: "('r \<Rightarrow> 'k) \<Rightarrow> ('r \<Rightarrow> int) \<Rightarrow> 'k \<Rightarrow> 'r list \<Rightarrow> int" where
  "total_by owner delta k rs = sum_list (map delta (filter (\<lambda>r. owner r = k) rs))"

text \<open>\<open>running_by\<close> reads the rows newest first.\<close>

fun running_by ::
  "('r \<Rightarrow> 'k) \<Rightarrow> ('r \<Rightarrow> int) \<Rightarrow> ('r \<Rightarrow> int) \<Rightarrow> ('r \<Rightarrow> bool) \<Rightarrow> 'r list \<Rightarrow> bool" where
  "running_by owner delta cum counts [] = True"
| "running_by owner delta cum counts (r # rs) =
     (running_by owner delta cum counts rs \<and>
      (counts r \<longrightarrow> cum r = total_by owner delta (owner r) (r # rs)))"

definition run_ok_by ::
  "('r \<Rightarrow> 'k) \<Rightarrow> ('r \<Rightarrow> int) \<Rightarrow> ('r \<Rightarrow> int) \<Rightarrow> ('r \<Rightarrow> bool) \<Rightarrow> 'r list \<Rightarrow> bool" where
  "run_ok_by owner delta cum counts rs = running_by owner delta cum counts (rev rs)"

definition latest_by :: "('r \<Rightarrow> 'k) \<Rightarrow> ('r \<Rightarrow> bool) \<Rightarrow> 'k \<Rightarrow> 'r list \<Rightarrow> 'r option" where
  "latest_by owner counts k rs = find (\<lambda>r. owner r = k \<and> counts r) (rev rs)"

locale running_ledger =
  fixes owner :: "'r \<Rightarrow> 'k"
    and delta :: "'r \<Rightarrow> int"
    and cum :: "'r \<Rightarrow> int"
    and counts :: "'r \<Rightarrow> bool"
  assumes delta_uncounted: "\<not> counts r \<Longrightarrow> delta r = 0"
begin

abbreviation total where "total \<equiv> total_by owner delta"
abbreviation running where "running \<equiv> running_by owner delta cum counts"
abbreviation run_ok where "run_ok \<equiv> run_ok_by owner delta cum counts"
abbreviation latest where "latest \<equiv> latest_by owner counts"

lemma total_Nil [simp]: "total k [] = 0"
  by (simp add: total_by_def)

lemma total_Cons [simp]: "total k (r # rs) = (if owner r = k then delta r else 0) + total k rs"
  by (simp add: total_by_def)

lemma total_append [simp]: "total k (rs @ ss) = total k rs + total k ss"
  by (induction rs) auto

lemma total_rev [simp]: "total k (rev rs) = total k rs"
  by (induction rs) auto

lemma run_ok_Nil [simp]: "run_ok []"
  by (simp add: run_ok_by_def)

lemma run_ok_snoc:
  "run_ok (rs @ [r]) \<longleftrightarrow> run_ok rs \<and> (counts r \<longrightarrow> cum r = total (owner r) rs + delta r)"
  by (auto simp: run_ok_by_def)

lemma latest_snoc:
  "latest k (rs @ [r]) = (if owner r = k \<and> counts r then Some r else latest k rs)"
  by (simp add: latest_by_def)

text \<open>The stored total of the newest row equals the sum over all rows.\<close>

lemma latest_total:
  assumes "run_ok rs"
  shows "total k rs = (case latest k rs of None \<Rightarrow> 0 | Some r \<Rightarrow> cum r)"
  using assms
proof (induction rs rule: rev_induct)
  case Nil
  then show ?case by (simp add: latest_by_def)
next
  case (snoc r rs)
  then show ?case
    by (auto simp: run_ok_snoc latest_snoc delta_uncounted)
qed

lemma total_map:
  assumes "\<And>r. r \<in> set rs \<Longrightarrow> owner (f r) = owner r \<and> delta (f r) = delta r"
  shows "total k (map f rs) = total k rs"
  using assms by (induction rs) auto

lemma running_map:
  assumes "\<And>r. r \<in> set rs \<Longrightarrow>
    owner (f r) = owner r \<and> delta (f r) = delta r \<and> cum (f r) = cum r \<and> counts (f r) = counts r"
  shows "running (map f rs) = running rs"
  using assms by (induction rs) (auto simp: total_map)

lemma run_ok_map:
  assumes "\<And>r. r \<in> set rs \<Longrightarrow>
    owner (f r) = owner r \<and> delta (f r) = delta r \<and> cum (f r) = cum r \<and> counts (f r) = counts r"
  shows "run_ok (map f rs) = run_ok rs"
  unfolding run_ok_by_def rev_map using assms by (subst running_map) auto

lemma latest_owner: "latest k rs = Some r \<Longrightarrow> r \<in> set rs \<and> owner r = k \<and> counts r"
proof (induction rs rule: rev_induct)
  case Nil
  then show ?case by (simp add: latest_by_def)
next
  case (snoc x rs)
  then show ?case by (auto simp: latest_snoc split: if_splits)
qed

end

section \<open>Transition systems\<close>

text \<open>Reachability and the invariant rule, once for every step relation of the development.\<close>

locale transition_system =
  fixes init :: "'s \<Rightarrow> bool"
    and step :: "'s \<Rightarrow> 's \<Rightarrow> bool"
    and inv :: "'s \<Rightarrow> bool"
  assumes inv_init: "init s \<Longrightarrow> inv s"
    and inv_step: "inv s \<Longrightarrow> step s t \<Longrightarrow> inv t"
begin

inductive reach :: "'s \<Rightarrow> bool" where
  reach_init: "init s \<Longrightarrow> reach s"
| reach_step: "reach s \<Longrightarrow> step s t \<Longrightarrow> reach t"

lemma reach_inv: "reach s \<Longrightarrow> inv s"
  by (induction rule: reach.induct) (auto intro: inv_init inv_step)

lemma steps_inv: "step\<^sup>*\<^sup>* s t \<Longrightarrow> inv s \<Longrightarrow> inv t"
  by (induction rule: rtranclp_induct) (auto intro: inv_step)

end

end
