(* ===== verification/AOS_Store.thy ===== *)
theory AOS_Store
  imports AOS_Prelude
begin

text \<open>
  The data model of \<open>prisma/schema.prisma\<close> (enums, one record per model, the database as a record
  of tables in insertion order), the world a service method runs in (database, audit table, BullMQ
  queues, outgoing HTTP calls, the Nomba token cache), the environment (clock, id generation, HTTP
  peers, cryptographic primitives, database faults), and the Prisma statements the services issue,
  each with the unique, foreign-key and range constraints of the schema.
\<close>

section \<open>Errors\<close>

datatype error_code =
    MISSING_API_KEY | INVALID_API_KEY | API_KEY_REVOKED | API_KEY_EXPIRED | INVALID_ADMIN_SECRET
  | VALIDATION_ERROR | INVALID_RULE_SET
  | BUSINESS_NOT_FOUND | DUPLICATE_EMAIL
  | CUSTOMER_NOT_FOUND
  | ACCOUNT_NOT_FOUND | ACCOUNT_NOT_ACTIVE | ACCOUNT_ALREADY_CLOSED | ACCOUNT_TERMINAL_STATE
  | DUPLICATE_ACCOUNT_REF
  | RULE_NOT_FOUND | RULE_CONFLICT | PERCENTAGE_SUM_EXCEEDS_100
  | INSUFFICIENT_BUCKET_BALANCE | BUCKET_NOT_FOUND
  | DEMO_MODE_ONLY
  | NOMBA_API_ERROR | INVALID_WEBHOOK_SIGNATURE
  | IDEMPOTENCY_KEY_CONFLICT
  | INTERNAL_ERROR

text \<open>
  Database errors by their Prisma code: unique conflict, foreign key, value out of range, row to
  update missing, serialization failure, a value the client itself refuses, anything else.
\<close>

datatype db_error = P2002 | P2003 | P2020 | P2025 | P2034 | ValidationFailed | OtherDb string

text \<open>A thrown value: a Nest HTTP exception (status, code, message), a Prisma error, another Error.\<close>

datatype exn = HttpExn nat error_code string | DbExn db_error | JsExn string

abbreviation BadRequest :: "error_code \<Rightarrow> string \<Rightarrow> exn" where "BadRequest \<equiv> HttpExn 400"
abbreviation Unauthorized :: "error_code \<Rightarrow> string \<Rightarrow> exn" where "Unauthorized \<equiv> HttpExn 401"
abbreviation NotFound :: "error_code \<Rightarrow> string \<Rightarrow> exn" where "NotFound \<equiv> HttpExn 404"
abbreviation Conflict :: "error_code \<Rightarrow> string \<Rightarrow> exn" where "Conflict \<equiv> HttpExn 409"
abbreviation Unprocessable :: "error_code \<Rightarrow> string \<Rightarrow> exn" where "Unprocessable \<equiv> HttpExn 422"
abbreviation BadGateway :: "error_code \<Rightarrow> string \<Rightarrow> exn" where "BadGateway \<equiv> HttpExn 502"

section \<open>Enums\<close>

datatype bucket_type = PAYROLL | TAX_RESERVE | OPERATIONS | MARKETING | SAVINGS | CUSTOM
datatype kyc_tier = TIER_0 | TIER_1 | TIER_2 | TIER_3
datatype account_status = ACTIVE | SUSPENDED | EXPIRED | CLOSED
datatype execution_model = SEQUENTIAL | PARALLEL
datatype rule_trigger = INFLOW_RECEIVED | TIME_ELAPSED | TIER_CHANGED | CUSTOM_EVENT
datatype rule_action =
  SUSPEND_ACCOUNT | REACTIVATE_ACCOUNT | EXPIRE_ACCOUNT | NOTIFY_WEBHOOK | RELEASE_FUNDS
  | FLAG_FOR_REVIEW
datatype rule_status = RuleACTIVE | RuleARCHIVED | RuleFLAGGED_FOR_REVIEW
datatype archived_reason = CLOSED_BEFORE_COMPLETION | SUPERSEDED_BY_UPDATE | MANUALLY_ARCHIVED
datatype execution_status = ExPENDING | ExCOMPLETED | ExFAILED | ExRETRYING | ExARCHIVED
datatype ledger_direction = INFLOW | OUTFLOW
datatype reconciliation_status = RecPENDING | MATCHED | UNMATCHED | FLAGGED
datatype bucket_entry_type = CREDIT | DEBIT
datatype settlement_destination = BANK_ACCOUNT | NOMBA_ACCOUNT | INTERNAL_BUCKET | WEBHOOK
datatype settlement_status = StPENDING | StPROCESSING | StCOMPLETED | StFAILED | StCANCELLED
datatype audit_action =
    BUSINESS_CREATED | API_KEY_CREATED | API_KEY_REVOKED
  | CUSTOMER_CREATED | CUSTOMER_RENAMED | KYC_TIER_CHANGED
  | ACCOUNT_CREATED | ACCOUNT_SUSPENDED | ACCOUNT_REACTIVATED | ACCOUNT_EXPIRED | ACCOUNT_CLOSED
  | ACCOUNT_STATUS_OVERRIDE
  | RULES_UPDATED | RULE_FLAGGED_KYC_CHANGE | RULE_ARCHIVED
  | RULE_ACTION_COMPLETED | RULE_ACTION_FAILED
  | AudINFLOW_RECEIVED | CUSTOM_EVENT_PROCESSED | DUPLICATE_EVENT_DISCARDED
  | UNKNOWN_ACCOUNT_WEBHOOK
  | TREASURY_BUCKET_CREATED | TREASURY_BUCKET_CLOSED | TREASURY_WITHDRAWAL_INITIATED
  | TREASURY_WITHDRAWAL_COMPLETED | TREASURY_WITHDRAWAL_FAILED | ALLOCATE_FUNDS | BUCKET_TRANSFER
  | SETTLEMENT_RESERVED | SETTLEMENT_COMPLETED | SETTLEMENT_FAILED | SETTLEMENT_CANCELLED

fun show_status :: "account_status \<Rightarrow> string" where
  "show_status ACTIVE = ''ACTIVE''"
| "show_status SUSPENDED = ''SUSPENDED''"
| "show_status EXPIRED = ''EXPIRED''"
| "show_status CLOSED = ''CLOSED''"

fun show_tier :: "kyc_tier \<Rightarrow> string" where
  "show_tier TIER_0 = ''TIER_0''"
| "show_tier TIER_1 = ''TIER_1''"
| "show_tier TIER_2 = ''TIER_2''"
| "show_tier TIER_3 = ''TIER_3''"

fun show_destination :: "settlement_destination \<Rightarrow> string" where
  "show_destination BANK_ACCOUNT = ''BANK_ACCOUNT''"
| "show_destination NOMBA_ACCOUNT = ''NOMBA_ACCOUNT''"
| "show_destination INTERNAL_BUCKET = ''INTERNAL_BUCKET''"
| "show_destination WEBHOOK = ''WEBHOOK''"

section \<open>Rows\<close>

text \<open>Instants are milliseconds; money columns are BigInt kobo.\<close>

record business =
  biz_id :: string
  biz_name :: string
  biz_email :: string
  biz_webhookUrl :: "string option"
  biz_nombaAccountId :: "string option"
  biz_nombaSubAccountId :: "string option"
  biz_nombaClientId :: "string option"
  biz_nombaClientSecret :: "string option"
  biz_nombaWebhookSecret :: "string option"
  biz_createdAt :: int

record apiKey =
  key_id :: string
  key_keyHash :: string
  key_keyPrefix :: string
  key_name :: string
  key_businessId :: string
  key_lastUsedAt :: "int option"
  key_expiresAt :: "int option"
  key_revokedAt :: "int option"
  key_createdAt :: int

record customer =
  cus_id :: string
  cus_displayName :: string
  cus_kycTier :: kyc_tier
  cus_bvnRef :: "string option"
  cus_email :: "string option"
  cus_phone :: "string option"
  cus_kycVerificationProvider :: "string option"
  cus_kycVerificationRef :: "string option"
  cus_businessId :: string
  cus_parentId :: "string option"
  cus_createdAt :: int

record nameHistoryEntry =
  nh_id :: string
  nh_customerId :: string
  nh_previousName :: string
  nh_newName :: string
  nh_reason :: "string option"
  nh_changedBy :: string
  nh_changedAt :: int

record account =
  acc_id :: string
  acc_accountRef :: string
  acc_nombaAccountId :: string
  acc_accountNumber :: string
  acc_bankName :: string
  acc_status :: account_status
  acc_executionModel :: execution_model
  acc_accountNameAtCreation :: string
  acc_customerId :: "string option"
  acc_businessId :: string
  acc_closedAt :: "int option"
  acc_closedReason :: "string option"
  acc_createdAt :: int

record rule =
  rul_id :: string
  rul_accountId :: string
  rul_trigger :: rule_trigger
  rul_condition :: json
  rul_action :: rule_action
  rul_payload :: json
  rul_priority :: int
  rul_status :: rule_status
  rul_kycTierAtCreation :: kyc_tier
  rul_archivedAt :: "int option"
  rul_archivedReason :: "archived_reason option"
  rul_createdAt :: int

record ruleExecution =
  rex_id :: string
  rex_ruleId :: string
  rex_accountId :: string
  rex_triggeredByLedgerEntryId :: "string option"
  rex_triggeredBy :: string
  rex_status :: execution_status
  rex_attempt :: nat
  rex_nextRetryAt :: "int option"
  rex_nombaApiResponse :: json
  rex_errorMessage :: "string option"
  rex_archivedReason :: "archived_reason option"
  rex_completedAt :: "int option"

record ledgerEntry =
  led_id :: string
  led_accountId :: string
  led_nombaTransactionRef :: string
  led_nombaEventId :: string
  led_direction :: ledger_direction
  led_amountKobo :: int
  led_currency :: string
  led_senderName :: "string option"
  led_senderAccountNumber :: "string option"
  led_senderBankCode :: "string option"
  led_narration :: "string option"
  led_customerNameSnapshot :: string
  led_kycTierAtTime :: kyc_tier
  led_cumulativeAmountKobo :: int
  led_reconciliationStatus :: reconciliation_status
  led_receivedAt :: int
  led_createdAt :: int

record treasuryBucket =
  bkt_id :: string
  bkt_bucketRef :: string
  bkt_name :: string
  bkt_bucketType :: bucket_type
  bkt_description :: "string option"
  bkt_status :: account_status
  bkt_businessId :: string
  bkt_settlementType :: "settlement_destination option"
  bkt_settlementAccountName :: "string option"
  bkt_settlementAccountNumber :: "string option"
  bkt_settlementBankCode :: "string option"
  bkt_closedAt :: "int option"
  bkt_closedReason :: "string option"
  bkt_createdAt :: int

record bucketLedgerEntry =
  ble_id :: string
  ble_bucketId :: string
  ble_entryType :: bucket_entry_type
  ble_amountKobo :: int
  ble_cumulativeAmountKobo :: int
  ble_reference :: string
  ble_sourceLedgerEntryId :: "string option"
  ble_narration :: "string option"
  ble_createdAt :: int

record settlement =
  stl_id :: string
  stl_bucketId :: string
  stl_businessId :: string
  stl_amountKobo :: int
  stl_status :: settlement_status
  stl_destinationType :: settlement_destination
  stl_destinationAccountName :: "string option"
  stl_destinationAccountNumber :: "string option"
  stl_destinationBankCode :: "string option"
  stl_destinationBucketRef :: "string option"
  stl_nombaTransferReference :: "string option"
  stl_failureReason :: "string option"
  stl_initiatedBy :: string
  stl_completedAt :: "int option"
  stl_createdAt :: int

text \<open>What the webhook worker reads from a job (\<open>InflowPayload\<close>), and the payload of a retry job.\<close>

record inflowPayload =
  inf_eventId :: string
  inf_transactionRef :: string
  inf_accountNumber :: string
  inf_amountKobo :: rat
  inf_senderName :: "string option"
  inf_senderAccountNumber :: "string option"
  inf_senderBankCode :: "string option"
  inf_narration :: "string option"
  inf_eventType :: "string option"

record retryPayload =
  rty_ruleExecutionId :: string
  rty_attempt :: nat
  rty_maxAttempts :: nat
  rty_errorMessage :: "string option"

record processedEvent =
  pev_id :: string
  pev_eventId :: string
  pev_eventType :: string
  pev_accountRef :: "string option"
  pev_businessId :: "string option"
  pev_payload :: inflowPayload
  pev_processedAt :: int

record auditLogEntry =
  aud_id :: string
  aud_accountId :: "string option"
  aud_customerId :: "string option"
  aud_businessId :: "string option"
  aud_actor :: string
  aud_action :: audit_action
  aud_beforeState :: json
  aud_afterState :: json
  aud_reasonCode :: "string option"
  aud_metadata :: json
  aud_requestId :: "string option"
  aud_occurredAt :: int

record idempotencyKey =
  idk_id :: string
  idk_key :: string
  idk_businessId :: string
  idk_method :: string
  idk_path :: string
  idk_requestHash :: string
  idk_responseStatus :: nat
  idk_responseBody :: json

section \<open>Database, world and environment\<close>

record database =
  t_business :: "business list"
  t_apiKey :: "apiKey list"
  t_customer :: "customer list"
  t_nameHistory :: "nameHistoryEntry list"
  t_account :: "account list"
  t_rule :: "rule list"
  t_ruleExecution :: "ruleExecution list"
  t_ledgerEntry :: "ledgerEntry list"
  t_processedEvent :: "processedEvent list"
  t_bucket :: "treasuryBucket list"
  t_bucketLedger :: "bucketLedgerEntry list"
  t_settlement :: "settlement list"
  t_idempotencyKey :: "idempotencyKey list"

datatype http_req =
  HttpReq (req_method: string) (req_url: string) (req_headers: "(string \<times> string) list") (req_body: json)

text \<open>An HTTP exchange ends with a response (status and body) or with a transport error.\<close>

datatype http_resp = HttpResp int json | NetError string

text \<open>
  The audit table stands apart from the database because AuditService writes through its own
  connection: an audit row survives the rollback of the transaction it was written beside. The
  queues live in Redis; a webhook job holds the JSON its producer gave. \<open>outbox\<close> records the HTTP calls made, \<open>tick\<close> counts effects and indexes
  the environment's answers.
\<close>

record world =
  db :: database
  auditLog :: "auditLogEntry list"
  webhookQueue :: "json list"
  retryQueue :: "retryPayload list"
  outbox :: "http_req list"
  tokenCache :: "string \<rightharpoonup> string \<times> int option"
  tick :: nat

text \<open>
  What the program does not contain: the clock, the id generators, the database's own failures,
  the HTTP peers, the text of Prisma errors, the implementation-defined parsing of date strings, the
  URL check of Zod, the conversions of text (to numbers, BigInts and from and to JSON), the cryptographic primitives, and the configuration.
\<close>

record env =
  env_now :: "nat \<Rightarrow> int"
  env_cuid :: "nat \<Rightarrow> string"
  env_uuid :: "nat \<Rightarrow> string"
  env_fault :: "nat \<Rightarrow> db_error option"
  env_http :: "nat \<Rightarrow> http_req \<Rightarrow> http_resp"
  env_queue_fault :: "nat \<Rightarrow> string option"
  env_db_message :: "db_error \<Rightarrow> string"
  env_requestId :: "string option"
  env_parse_date :: "string \<Rightarrow> int option"
  env_zod_url :: "string \<Rightarrow> string option"
  env_to_number :: "json \<Rightarrow> js_num"
  env_to_bigint :: "json \<Rightarrow> int option"
  env_to_string :: "json \<Rightarrow> string"
  env_stringify :: "json \<Rightarrow> string"
  env_parse_json :: "string \<Rightarrow> json option"
  env_sha256 :: "string \<Rightarrow> string"
  env_hmac :: "string \<Rightarrow> string \<Rightarrow> string"
  env_random :: "nat \<Rightarrow> string"
  env_aes_seal :: "string \<Rightarrow> string \<Rightarrow> string \<Rightarrow> string \<times> string"
  env_aes_open :: "string \<Rightarrow> string \<Rightarrow> string \<Rightarrow> string \<Rightarrow> string option"
  cfg_mock :: bool
  cfg_admin_secret :: string
  cfg_encryption_key :: string
  cfg_nomba_base_url :: string

type_synonym 'a act = "(world, exn, 'a) sm"

text \<open>\<open>error.message\<close> of a thrown value.\<close>

fun exn_message :: "env \<Rightarrow> exn \<Rightarrow> string" where
  "exn_message e (HttpExn _ _ m) = m"
| "exn_message e (DbExn d) = env_db_message e d"
| "exn_message e (JsExn m) = m"

fun is_http :: "exn \<Rightarrow> bool" where
  "is_http (HttpExn _ _ _) = True"
| "is_http _ = False"

text \<open>\<open>BigInt(x)\<close> throws a RangeError on a number that is not an integer.\<close>

definition js_BigInt :: "rat \<Rightarrow> exn + int" where
  "js_BigInt x =
     (if is_integer x then Inr \<lfloor>x\<rfloor> else Inl (JsExn ''cannot be converted to a BigInt''))"

lemma js_BigInt_value: "js_BigInt x = Inr n \<Longrightarrow> of_int n = x"
  by (auto simp: js_BigInt_def is_integer_def split: if_splits)

text \<open>
  \<open>Number(v)\<close>, \<open>BigInt(v)\<close> and \<open>String(v)\<close> of a JSON value. What a text or an array converts to is the
  environment's.
\<close>

fun to_number :: "env \<Rightarrow> json \<Rightarrow> js_num" where
  "to_number e (JNum x) = Fin x"
| "to_number e (JBool b) = Fin (if b then 1 else 0)"
| "to_number e JNull = Fin 0"
| "to_number e (JObj _) = NaN"
| "to_number e j = env_to_number e j"

fun to_bigint :: "env \<Rightarrow> json \<Rightarrow> exn + int" where
  "to_bigint e (JNum x) = js_BigInt x"
| "to_bigint e (JBool b) = Inr (if b then 1 else 0)"
| "to_bigint e JNull = Inl (JsExn ''Cannot convert null to a BigInt'')"
| "to_bigint e j =
     (case env_to_bigint e j of
        None \<Rightarrow> Inl (JsExn ''Cannot convert value to a BigInt'')
      | Some n \<Rightarrow> Inr n)"

fun to_str :: "env \<Rightarrow> json \<Rightarrow> string" where
  "to_str e (JStr s) = s"
| "to_str e j = env_to_string e j"

text \<open>
  \<open>s ? new Date(s) : undefined\<close> as a value of a statement: absent or empty strings give none; a
  string that is no date makes the statement fail.
\<close>

definition date_bound :: "env \<Rightarrow> string option \<Rightarrow> exn + int option" where
  "date_bound e s =
     (if \<not> str_truthy s then Inr None
      else case env_parse_date e (the s) of
             None \<Rightarrow> Inl (DbExn ValidationFailed)
           | Some t \<Rightarrow> Inr (Some t))"

section \<open>Statements and transactions\<close>

definition prisma :: "env \<Rightarrow> (nat \<Rightarrow> database \<Rightarrow> db_error + ('a \<times> database)) \<Rightarrow> 'a act" where
  "prisma e q = (\<lambda>w.
     case env_fault e (tick w) of
       Some f \<Rightarrow> (Inl (DbExn f), w\<lparr>tick := Suc (tick w)\<rparr>)
     | None \<Rightarrow>
         (case q (tick w) (db w) of
            Inl f \<Rightarrow> (Inl (DbExn f), w\<lparr>tick := Suc (tick w)\<rparr>)
          | Inr (x, d) \<Rightarrow> (Inr x, w\<lparr>db := d, tick := Suc (tick w)\<rparr>)))"

definition query :: "env \<Rightarrow> (database \<Rightarrow> 'a) \<Rightarrow> 'a act" where
  "query e f = prisma e (\<lambda>n d. Inr (f d, d))"

text \<open>
  \<open>prisma.$transaction\<close>: an exception inside, or a failure to commit, restores the tables. HTTP
  calls, queue jobs and audit rows are outside the transaction and stay.
\<close>

definition transaction :: "env \<Rightarrow> 'a act \<Rightarrow> 'a act" where
  "transaction e m = (\<lambda>w.
     case m w of
       (Inl x, w') \<Rightarrow> (Inl x, w'\<lparr>db := db w\<rparr>)
     | (Inr a, w') \<Rightarrow>
         (case env_fault e (tick w') of
            Some f \<Rightarrow> (Inl (DbExn f), w'\<lparr>db := db w, tick := Suc (tick w')\<rparr>)
          | None \<Rightarrow> (Inr a, w'\<lparr>tick := Suc (tick w')\<rparr>)))"

definition now :: "env \<Rightarrow> int act" where
  "now e = (\<lambda>w. (Inr (env_now e (tick w)), w))"

definition uuidv4 :: "env \<Rightarrow> string act" where
  "uuidv4 e = (\<lambda>w. (Inr (env_uuid e (tick w)), w\<lparr>tick := Suc (tick w)\<rparr>))"

definition http_call :: "env \<Rightarrow> http_req \<Rightarrow> http_resp act" where
  "http_call e r = (\<lambda>w.
     (Inr (env_http e (tick w) r), w\<lparr>outbox := outbox w @ [r], tick := Suc (tick w)\<rparr>))"

lemmas effect_defs = prisma_def query_def transaction_def now_def uuidv4_def http_call_def

text \<open>Invariants of the database: the tables alone decide them.\<close>

abbreviation keeps_db :: "(database \<Rightarrow> bool) \<Rightarrow> 'a act \<Rightarrow> bool" where
  "keeps_db J m \<equiv> keeps (\<lambda>w. J (db w)) m"

lemma keeps_prisma:
  assumes "\<And>n d x d'. J d \<Longrightarrow> q n d = Inr (x, d') \<Longrightarrow> J d'"
  shows "keeps_db J (prisma e q)"
  using assms by (auto simp: keeps_def prisma_def split: option.split sum.split)

lemma keeps_query [keeps_intro]: "keeps_db J (query e f)"
  by (auto simp: query_def intro: keeps_prisma)

lemma keeps_transaction [keeps_intro]: "keeps_db J m \<Longrightarrow> keeps_db J (transaction e m)"
  by (auto simp: keeps_def transaction_def split: prod.split sum.split option.split)

lemma keeps_now [keeps_intro]: "keeps P (now e)"
  by (simp add: keeps_def now_def)

lemma keeps_uuid [keeps_intro]: "keeps_db J (uuidv4 e)"
  by (simp add: keeps_def uuidv4_def)

lemma keeps_http [keeps_intro]: "keeps_db J (http_call e r)"
  by (simp add: keeps_def http_call_def)

section \<open>A weakest-precondition calculus over the database\<close>

text \<open>
  \<open>wp d Q E m\<close>: run on any world whose database is \<open>d\<close>, the method \<open>m\<close> either returns a value and
  a database that satisfy \<open>Q\<close>, or throws and leaves a database that satisfies \<open>E\<close>. The rules follow
  the syntax of a method, so \<open>intro wp_rules\<close> reduces a method to its verification conditions.
\<close>

definition wp :: "database \<Rightarrow> ('a \<Rightarrow> database \<Rightarrow> bool) \<Rightarrow> (database \<Rightarrow> bool) \<Rightarrow> 'a act \<Rightarrow> bool" where
  "wp d Q E m =
     (\<forall>w. db w = d \<longrightarrow>
        (case m w of (Inr x, w') \<Rightarrow> Q x (db w') | (Inl _, w') \<Rightarrow> E (db w')))"

named_theorems wp_rules \<open>syntax-directed rules of the calculus\<close>

lemma wp_ret [wp_rules]: "Q x d \<Longrightarrow> wp d Q E (ret x)"
  by (simp add: wp_def ret_def)

lemma wp_throw [wp_rules]: "E d \<Longrightarrow> wp d Q E (throw x)"
  by (simp add: wp_def throw_def)

lemma wp_lift_sum [wp_rules]: "(\<And>x. r = Inr x \<Longrightarrow> Q x d) \<Longrightarrow> E d \<Longrightarrow> wp d Q E (lift_sum r)"
  by (cases r) (simp_all add: wp_def lift_sum_def)

lemma wp_bnd [wp_rules]: "wp d (\<lambda>x d'. wp d' Q E (f x)) E m \<Longrightarrow> wp d Q E (bnd m f)"
  by (fastforce simp: wp_def bnd_def split: prod.splits sum.splits)

lemma wp_catch [wp_rules]: "wp d Q (\<lambda>d'. \<forall>x. wp d' Q E (h x)) m \<Longrightarrow> wp d Q E (catch m h)"
  by (fastforce simp: wp_def catch_def split: prod.splits sum.splits)

lemma wp_prisma:
  "(\<And>n x d'. q n d = Inr (x, d') \<Longrightarrow> Q x d') \<Longrightarrow> E d \<Longrightarrow> wp d Q E (prisma e q)"
  by (auto simp: wp_def prisma_def split: option.split sum.split)

lemma wp_query [wp_rules]: "Q (f d) d \<Longrightarrow> E d \<Longrightarrow> wp d Q E (query e f)"
  by (auto simp: query_def intro: wp_prisma)

lemma wp_transaction [wp_rules]:
  "wp d Q (\<lambda>_. True) m \<Longrightarrow> E d \<Longrightarrow> wp d Q E (transaction e m)"
  by (fastforce simp: wp_def transaction_def split: prod.splits sum.splits option.splits)

lemma wp_now [wp_rules]: "(\<And>t. Q t d) \<Longrightarrow> wp d Q E (now e)"
  by (simp add: wp_def now_def)

lemma wp_uuid [wp_rules]: "(\<And>u. Q u d) \<Longrightarrow> wp d Q E (uuidv4 e)"
  by (simp add: wp_def uuidv4_def)

lemma wp_http [wp_rules]: "(\<And>r. Q r d) \<Longrightarrow> wp d Q E (http_call e q)"
  by (simp add: wp_def http_call_def)

lemma wp_if [wp_rules]:
  "(c \<Longrightarrow> wp d Q E m) \<Longrightarrow> (\<not> c \<Longrightarrow> wp d Q E n) \<Longrightarrow> wp d Q E (if c then m else n)"
  by simp

lemma wp_case_option [wp_rules]:
  "(v = None \<Longrightarrow> wp d Q E m) \<Longrightarrow> (\<And>x. v = Some x \<Longrightarrow> wp d Q E (f x)) \<Longrightarrow>
     wp d Q E (case v of None \<Rightarrow> m | Some x \<Rightarrow> f x)"
  by (cases v) auto

lemma wp_case_prod [wp_rules]:
  "(\<And>x y. v = (x, y) \<Longrightarrow> wp d Q E (f x y)) \<Longrightarrow> wp d Q E (case v of (x, y) \<Rightarrow> f x y)"
  by (cases v) auto

lemma wp_Let [wp_rules]: "wp d Q E (f t) \<Longrightarrow> wp d Q E (Let t f)"
  by simp

lemma wp_keeps: "keeps_db J m \<Longrightarrow> J d \<Longrightarrow> wp d (\<lambda>_. J) J m"
  by (fastforce simp: wp_def keeps_def split: prod.splits sum.splits)

lemma wp_conseq:
  "wp d Q E m \<Longrightarrow> (\<And>x d'. Q x d' \<Longrightarrow> Q' x d') \<Longrightarrow> (\<And>d'. E d' \<Longrightarrow> E' d') \<Longrightarrow> wp d Q' E' m"
  by (fastforce simp: wp_def split: prod.splits sum.splits)

lemma wpD_Inr: "wp d Q E m \<Longrightarrow> db w = d \<Longrightarrow> m w = (Inr x, w') \<Longrightarrow> Q x (db w')"
  by (auto simp: wp_def dest!: spec [of _ w])

lemma wpD_Inl: "wp d Q E m \<Longrightarrow> db w = d \<Longrightarrow> m w = (Inl x, w') \<Longrightarrow> E (db w')"
  by (auto simp: wp_def dest!: spec [of _ w])

lemma wp_run:
  "wp (db w) Q E m \<Longrightarrow> case m w of (Inl _, w') \<Rightarrow> E (db w') | (Inr x, w') \<Rightarrow> Q x (db w')"
  by (auto simp: wp_def)

text \<open>A method that can only throw.\<close>

lemma wp_refuses:
  assumes "wp (db w) (\<lambda>_ _. False) E m"
  shows "isl (fst (m w)) \<and> E (db (snd (m w)))"
  using wpD_Inr [OF assms refl] wpD_Inl [OF assms refl]
  by (cases "m w"; cases "fst (m w)") auto

lemma keeps_from_wp:
  assumes "\<And>d. J d \<Longrightarrow> wp d (\<lambda>_. J) J m"
  shows "keeps_db J m"
proof (rule keepsI)
  fix w :: world assume "J (db w)"
  from assms [OF this] show "J (db (snd (m w)))"
    by (cases "m w"; cases "fst (m w)") (auto dest: wpD_Inr wpD_Inl)
qed

section \<open>Invariants that read the clock\<close>

text \<open>
  Creation times are compared by the code, so some invariants relate the rows to the current
  instant. \<open>timed P m\<close>: \<open>m\<close> keeps \<open>P\<close> of the tick and the database, and the tick never goes back. A
  transaction that rolls back restores the tables but not the clock, hence \<open>tick_mono\<close>.
\<close>

definition tick_mono :: "(nat \<Rightarrow> database \<Rightarrow> bool) \<Rightarrow> bool" where
  "tick_mono P = (\<forall>n d. P n d \<longrightarrow> P (Suc n) d)"

definition timed :: "(nat \<Rightarrow> database \<Rightarrow> bool) \<Rightarrow> 'a act \<Rightarrow> bool" where
  "timed P m =
     (\<forall>w. P (tick w) (db w) \<longrightarrow> P (tick (snd (m w))) (db (snd (m w))) \<and> tick w \<le> tick (snd (m w)))"

named_theorems timed_intro \<open>rules that push a clock-dependent invariant through a method\<close>

lemma tick_monoD: "tick_mono P \<Longrightarrow> P n d \<Longrightarrow> n \<le> m \<Longrightarrow> P m d"
  by (induction m) (auto simp: tick_mono_def le_Suc_eq)

lemma timedD:
  "timed P m \<Longrightarrow> P (tick w) (db w) \<Longrightarrow> P (tick (snd (m w))) (db (snd (m w)))"
  by (simp add: timed_def)

lemma timed_ret [timed_intro]: "timed P (ret x)"
  by (simp add: timed_def ret_def)

lemma timed_throw [timed_intro]: "timed P (throw x)"
  by (simp add: timed_def throw_def)

lemma timed_lift_sum [timed_intro]: "timed P (lift_sum x)"
  by (simp add: timed_def lift_sum_def)

lemma timed_bnd [timed_intro]:
  assumes "timed P m" "\<And>x. timed P (f x)"
  shows "timed P (bnd m f)"
  unfolding timed_def
proof (intro allI impI)
  fix w :: world assume P: "P (tick w) (db w)"
  show "P (tick (snd (bnd m f w))) (db (snd (bnd m f w))) \<and> tick w \<le> tick (snd (bnd m f w))"
  proof (cases rule: bnd_cases [where m = m and s = w and f = f])
    case (ok x s)
    with assms(1) P have "P (tick s) (db s)" "tick w \<le> tick s" by (auto simp: timed_def)
    moreover from this(1) assms(2) [of x]
    have "P (tick (snd (f x s))) (db (snd (f x s)))" "tick s \<le> tick (snd (f x s))"
      by (auto simp: timed_def)
    ultimately show ?thesis using ok by simp
  next
    case (err x s)
    with assms(1) P show ?thesis by (auto simp: timed_def)
  qed
qed

lemma timed_catch [timed_intro]:
  assumes "timed P m" "\<And>x. timed P (h x)"
  shows "timed P (catch m h)"
  unfolding timed_def
proof (intro allI impI)
  fix w :: world assume P: "P (tick w) (db w)"
  obtain r s where m: "m w = (r, s)" by (cases "m w")
  with assms(1) P have s: "P (tick s) (db s)" "tick w \<le> tick s" by (auto simp: timed_def)
  have h: "P (tick (snd (h x s))) (db (snd (h x s))) \<and> tick s \<le> tick (snd (h x s))" for x
    using assms(2) s(1) by (simp add: timed_def)
  then have "tick w \<le> tick (snd (h x s))" for x using s(2) le_trans by blast
  with m s h show "P (tick (snd (catch m h w))) (db (snd (catch m h w))) \<and>
      tick w \<le> tick (snd (catch m h w))"
    by (cases r) (auto simp: catch_def)
qed

lemma timed_prisma:
  assumes "tick_mono P" and "\<And>n d x d'. P n d \<Longrightarrow> q n d = Inr (x, d') \<Longrightarrow> P (Suc n) d'"
  shows "timed P (prisma e q)"
  using assms by (auto simp: timed_def prisma_def tick_mono_def split: option.split sum.split)

lemma timed_query [timed_intro]: "tick_mono P \<Longrightarrow> timed P (query e f)"
  unfolding query_def by (rule timed_prisma) (auto simp: tick_mono_def)

lemma timed_transaction [timed_intro]:
  assumes "tick_mono P" "timed P m"
  shows "timed P (transaction e m)"
  unfolding timed_def
proof (intro allI impI)
  fix w :: world assume P: "P (tick w) (db w)"
  obtain r s where m: "m w = (r, s)" by (cases "m w")
  with assms(2) P have s: "P (tick s) (db s)" "tick w \<le> tick s" by (auto simp: timed_def)
  then have "P (tick s) (db w)" "P (Suc (tick s)) (db w)" "P (Suc (tick s)) (db s)"
    using assms(1) P tick_monoD [OF assms(1)] by (auto simp: tick_mono_def)
  with m s show "P (tick (snd (transaction e m w))) (db (snd (transaction e m w))) \<and>
      tick w \<le> tick (snd (transaction e m w))"
    by (cases r) (auto simp: transaction_def split: option.split)
qed

lemma timed_now [timed_intro]: "timed P (now e)"
  by (simp add: timed_def now_def)

lemma timed_uuid [timed_intro]: "tick_mono P \<Longrightarrow> timed P (uuidv4 e)"
  by (simp add: timed_def uuidv4_def tick_mono_def)

lemma timed_http [timed_intro]: "tick_mono P \<Longrightarrow> timed P (http_call e r)"
  by (simp add: timed_def http_call_def tick_mono_def)

lemma timed_if [timed_intro]:
  "(c \<Longrightarrow> timed P m) \<Longrightarrow> (\<not> c \<Longrightarrow> timed P n) \<Longrightarrow> timed P (if c then m else n)"
  by simp

lemma timed_case_option [timed_intro]:
  "timed P m \<Longrightarrow> (\<And>x. timed P (f x)) \<Longrightarrow> timed P (case v of None \<Rightarrow> m | Some x \<Rightarrow> f x)"
  by (cases v) auto

lemma timed_case_prod [timed_intro]:
  "(\<And>x y. timed P (f x y)) \<Longrightarrow> timed P (case v of (x, y) \<Rightarrow> f x y)"
  by (cases v) auto

lemma timed_Let [timed_intro]: "timed P (f t) \<Longrightarrow> timed P (Let t f)"
  by simp

section \<open>Queries\<close>

definition update_rows :: "('r \<Rightarrow> bool) \<Rightarrow> ('r \<Rightarrow> 'r) \<Rightarrow> 'r list \<Rightarrow> 'r list" where
  "update_rows P f rs = map (\<lambda>r. if P r then f r else r) rs"

text \<open>\<open>findFirst\<close> with \<open>orderBy\<close>: the first of the largest rows under a strict "newer than".\<close>

fun newest :: "('r \<Rightarrow> 'r \<Rightarrow> bool) \<Rightarrow> 'r list \<Rightarrow> 'r option" where
  "newest newer [] = None"
| "newest newer (r # rs) =
     (case newest newer rs of None \<Rightarrow> Some r | Some s \<Rightarrow> if newer s r then Some s else Some r)"

text \<open>
  \<open>skip\<close> and \<open>take\<close> of \<open>findMany\<close>: a number that is no integer, or does not fit, is refused by the client, as is
  a negative \<open>skip\<close>; a negative \<open>take\<close> counts from the end.
\<close>

definition prisma_int :: "js_num \<Rightarrow> exn + int" where
  "prisma_int x =
     (case x of
        Fin r \<Rightarrow> if is_integer r \<and> in_int8 \<lfloor>r\<rfloor> then Inr \<lfloor>r\<rfloor> else Inl (DbExn ValidationFailed)
      | _ \<Rightarrow> Inl (DbExn ValidationFailed))"

definition row_window :: "int \<Rightarrow> int \<Rightarrow> 'r list \<Rightarrow> 'r list" where
  "row_window skipN takeN rs =
     (if 0 \<le> takeN then take (nat takeN) (drop (nat skipN) rs)
      else rev (take (nat (- takeN)) (drop (nat skipN) (rev rs))))"

text \<open>A stable ascending sort, as \<open>orderBy: asc\<close> returns the rows.\<close>

definition order_asc :: "('r \<Rightarrow> int) \<Rightarrow> 'r list \<Rightarrow> 'r list" where
  "order_asc f rs = sort_key f rs"

definition order_desc :: "('r \<Rightarrow> int) \<Rightarrow> 'r list \<Rightarrow> 'r list" where
  "order_desc f rs = sort_key (\<lambda>r. - f r) rs"

definition sum_by :: "('r \<Rightarrow> int) \<Rightarrow> 'r list \<Rightarrow> int" where
  "sum_by f rs = sum_list (map f rs)"

lemma update_rows_Nil [simp]: "update_rows P f [] = []"
  by (simp add: update_rows_def)

lemma update_rows_Cons [simp]:
  "update_rows P f (r # rs) = (if P r then f r else r) # update_rows P f rs"
  by (simp add: update_rows_def)

lemma update_rows_append [simp]:
  "update_rows P f (rs @ ss) = update_rows P f rs @ update_rows P f ss"
  by (simp add: update_rows_def)

lemma length_update_rows [simp]: "length (update_rows P f rs) = length rs"
  by (simp add: update_rows_def)

lemma map_update_rows:
  "(\<And>r. P r \<Longrightarrow> g (f r) = g r) \<Longrightarrow> map g (update_rows P f rs) = map g rs"
  by (auto simp: update_rows_def)

lemma set_update_rows:
  "x \<in> set (update_rows P f rs) \<longleftrightarrow> (\<exists>r \<in> set rs. x = (if P r then f r else r))"
  by (auto simp: update_rows_def)

lemma sum_by_Nil [simp]: "sum_by f [] = 0"
  by (simp add: sum_by_def)

lemma sum_by_Cons [simp]: "sum_by f (r # rs) = f r + sum_by f rs"
  by (simp add: sum_by_def)

lemma sum_by_append [simp]: "sum_by f (rs @ ss) = sum_by f rs + sum_by f ss"
  by (simp add: sum_by_def)

lemma newest_snoc_last:
  assumes "\<And>s. s \<in> set rs \<Longrightarrow> newer r s"
  shows "newest newer (rs @ [r]) = Some r"
  using assms by (induction rs) auto

end
