(* ===== verification/Audit_Service.thy ===== *)
theory Audit_Service
  imports AOS_Store
begin

text \<open>
  \<open>src/audit\<close>: AuditService.log, which writes one row of the audit table and never throws. Every
  other service logs through it, so its contract (it always returns, and it touches nothing but
  the audit table) is the locale \<open>audit_sink\<close>, proved once for the code's \<open>log\<close> and used by every
  client.
\<close>

record auditLogParams =
  alp_accountId :: "string option"
  alp_customerId :: "string option"
  alp_businessId :: "string option"
  alp_actor :: string
  alp_action :: audit_action
  alp_beforeState :: "json option"
  alp_afterState :: "json option"
  alp_reasonCode :: "string option"
  alp_metadata :: "json option"
  alp_requestId :: "string option"

text \<open>Parameters with only the two mandatory fields; a call site sets the others.\<close>

definition auditParams :: "string \<Rightarrow> audit_action \<Rightarrow> auditLogParams" where
  "auditParams actor action = \<lparr>
     alp_accountId = None, alp_customerId = None, alp_businessId = None, alp_actor = actor,
     alp_action = action, alp_beforeState = None, alp_afterState = None, alp_reasonCode = None,
     alp_metadata = None, alp_requestId = None\<rparr>"

text \<open>\<open>prisma.auditLogEntry.create\<close>: the account, when given, must exist.\<close>

definition create_auditLogEntry :: "env \<Rightarrow> (string \<Rightarrow> int \<Rightarrow> auditLogEntry) \<Rightarrow> unit act" where
  "create_auditLogEntry e mk = (\<lambda>w.
     let r = mk (env_cuid e (tick w)) (env_now e (tick w)); w' = w\<lparr>tick := Suc (tick w)\<rparr> in
     case env_fault e (tick w) of
       Some f \<Rightarrow> (Inl (DbExn f), w')
     | None \<Rightarrow>
         if (case aud_accountId r of None \<Rightarrow> False
             | Some a \<Rightarrow> a \<notin> set (map acc_id (t_account (db w))))
         then (Inl (DbExn P2003), w')
         else (Inr (), w'\<lparr>auditLog := auditLog w @ [r]\<rparr>))"

definition audit_row :: "env \<Rightarrow> auditLogParams \<Rightarrow> string \<Rightarrow> int \<Rightarrow> auditLogEntry" where
  "audit_row e p i t =
     (let requestId = orElse (alp_requestId p) (env_requestId e) in
      \<lparr>aud_id = i, aud_accountId = alp_accountId p, aud_customerId = alp_customerId p,
       aud_businessId = alp_businessId p, aud_actor = alp_actor p, aud_action = alp_action p,
       aud_beforeState = getOr (alp_beforeState p) JNull,
       aud_afterState = getOr (alp_afterState p) JNull,
       aud_reasonCode = alp_reasonCode p, aud_metadata = getOr (alp_metadata p) JNull,
       aud_requestId = requestId, aud_occurredAt = t\<rparr>)"

definition AuditService_log :: "env \<Rightarrow> auditLogParams \<Rightarrow> unit act" where
  "AuditService_log e p = catch (create_auditLogEntry e (audit_row e p)) (\<lambda>_. ret ())"

locale audit_sink =
  fixes log :: "auditLogParams \<Rightarrow> unit act"
  assumes log_returns: "fst (log p w) = Inr ()"
    and log_frame: "\<exists>a. snd (log p w) = w\<lparr>auditLog := a, tick := Suc (tick w)\<rparr>"
    and log_appends: "prefix (auditLog w) (auditLog (snd (log p w)))"
begin

lemma log_db [simp]: "db (snd (log p w)) = db w"
  using log_frame [of p w] by auto

lemma log_outbox [simp]: "outbox (snd (log p w)) = outbox w"
  using log_frame [of p w] by auto

lemma log_queues [simp]:
  "webhookQueue (snd (log p w)) = webhookQueue w" "retryQueue (snd (log p w)) = retryQueue w"
  using log_frame [of p w] by auto

lemma log_tokenCache [simp]: "tokenCache (snd (log p w)) = tokenCache w"
  using log_frame [of p w] by auto

lemma log_tick [simp]: "tick (snd (log p w)) = Suc (tick w)"
  using log_frame [of p w] by auto

lemma log_run: "log p w = (Inr (), snd (log p w))"
  using log_returns [of p w] by (metis prod.collapse)

lemma log_bnd [run_simps, simp]: "bnd (log p) f w = f () (snd (log p w))"
  using log_run by (rule bnd_run(1))

lemma log_keeps_db [keeps_intro]: "keeps_db J (log p)"
  by (simp add: keeps_def)

lemma log_wp [wp_rules]: "Q () d \<Longrightarrow> wp d Q E (log p)"
  unfolding wp_def by (subst log_run) simp

lemma log_timed [timed_intro]: "tick_mono P \<Longrightarrow> timed P (log p)"
  by (simp add: timed_def tick_mono_def)

lemma log_keeps_outbox: "keeps (\<lambda>w. J (outbox w)) (log p)"
  by (simp add: keeps_def)

end

interpretation audit: audit_sink "AuditService_log e" for e
proof
  fix p w
  show "fst (AuditService_log e p w) = Inr ()"
    by (auto simp: AuditService_log_def create_auditLogEntry_def catch_def ret_def Let_def
        split: option.split)
  show "\<exists>a. snd (AuditService_log e p w) = w\<lparr>auditLog := a, tick := Suc (tick w)\<rparr>"
    by (cases w)
      (auto simp: AuditService_log_def create_auditLogEntry_def catch_def ret_def Let_def
        split: option.split)
  show "prefix (auditLog w) (auditLog (snd (AuditService_log e p w)))"
    by (auto simp: AuditService_log_def create_auditLogEntry_def catch_def ret_def Let_def
        split: option.split)
qed

lemma audit_log_written:
  assumes "env_fault e (tick w) = None" "alp_accountId p = None"
  shows "auditLog (snd (AuditService_log e p w)) =
           auditLog w @ [audit_row e p (env_cuid e (tick w)) (env_now e (tick w))]"
  using assms
  by (simp add: AuditService_log_def create_auditLogEntry_def catch_def Let_def audit_row_def)

end
