(* ===== verification/AOS_Tables.thy ===== *)
theory AOS_Tables
  imports Audit_Service
begin

text \<open>
  The write statements the services issue, table by table: \<open>create\<close> with the unique, foreign-key and
  range constraints of \<open>prisma/schema.prisma\<close>, \<open>update\<close> by a unique key, \<open>updateMany\<close>. The locale
  \<open>unique_table\<close> states what a unique constraint promises to the code above it, and is proved for
  every create statement whose table has one the code relies on.
\<close>

section \<open>Generic statements\<close>

text \<open>The first violated constraint decides the error.\<close>

fun first_violation :: "(bool \<times> db_error) list \<Rightarrow> db_error option" where
  "first_violation [] = None"
| "first_violation ((bad, x) # cs) = (if bad then Some x else first_violation cs)"

lemma first_violation_None: "first_violation cs = None \<longleftrightarrow> (\<forall>(bad, x) \<in> set cs. \<not> bad)"
  by (induction cs rule: first_violation.induct) auto

definition create_row ::
  "env \<Rightarrow> (database \<Rightarrow> 'r \<Rightarrow> (bool \<times> db_error) list) \<Rightarrow> (database \<Rightarrow> 'r list) \<Rightarrow>
   ('r list \<Rightarrow> database \<Rightarrow> database) \<Rightarrow> (string \<Rightarrow> int \<Rightarrow> 'r) \<Rightarrow> 'r act" where
  "create_row e constraints rows put mk = prisma e (\<lambda>n d.
     let r = mk (env_cuid e n) (env_now e n) in
     case first_violation (constraints d r) of
       Some x \<Rightarrow> Inl x
     | None \<Rightarrow> Inr (r, put (rows d @ [r]) d))"

definition update_row ::
  "env \<Rightarrow> (database \<Rightarrow> 'r list) \<Rightarrow> ('r list \<Rightarrow> database \<Rightarrow> database) \<Rightarrow>
   ('r \<Rightarrow> bool) \<Rightarrow> ('r \<Rightarrow> 'r) \<Rightarrow> 'r act" where
  "update_row e rows put P f = prisma e (\<lambda>n d.
     case find P (rows d) of
       None \<Rightarrow> Inl P2025
     | Some r \<Rightarrow> Inr (f r, put (update_rows P f (rows d)) d))"

definition update_many ::
  "env \<Rightarrow> (database \<Rightarrow> 'r list) \<Rightarrow> ('r list \<Rightarrow> database \<Rightarrow> database) \<Rightarrow>
   ('r \<Rightarrow> bool) \<Rightarrow> ('r \<Rightarrow> 'r) \<Rightarrow> nat act" where
  "update_many e rows put P f = prisma e (\<lambda>n d.
     Inr (length (filter P (rows d)), put (update_rows P f (rows d)) d))"

lemma create_row_ok:
  assumes "create_row e cs rows put mk w = (Inr r, w')"
  shows "r = mk (env_cuid e (tick w)) (env_now e (tick w))"
    and "first_violation (cs (db w) r) = None"
    and "w' = w\<lparr>db := put (rows (db w) @ [r]) (db w), tick := Suc (tick w)\<rparr>"
    and "env_fault e (tick w) = None"
  using assms by (auto simp: create_row_def prisma_def Let_def split: option.splits)

lemma create_row_okD:
  "create_row e cs rows put mk w = (Inr r, w') \<Longrightarrow>
     first_violation (cs (db w) r) = None \<and>
     w' = w\<lparr>db := put (rows (db w) @ [r]) (db w), tick := Suc (tick w)\<rparr>"
  by (auto simp: create_row_def prisma_def Let_def split: option.splits)

lemma create_row_err:
  "create_row e cs rows put mk w = (Inl x, w') \<Longrightarrow> w' = w\<lparr>tick := Suc (tick w)\<rparr>"
  by (auto simp: create_row_def prisma_def Let_def split: option.splits)

lemma create_row_run:
  assumes "env_fault e (tick w) = None"
    and "first_violation (cs (db w) (mk (env_cuid e (tick w)) (env_now e (tick w)))) = None"
  shows "create_row e cs rows put mk w =
    (Inr (mk (env_cuid e (tick w)) (env_now e (tick w))),
     w\<lparr>db := put (rows (db w) @ [mk (env_cuid e (tick w)) (env_now e (tick w))]) (db w),
       tick := Suc (tick w)\<rparr>)"
  using assms by (simp add: create_row_def prisma_def Let_def)

lemma create_row_violation:
  assumes "env_fault e (tick w) = None"
    and "first_violation (cs (db w) (mk (env_cuid e (tick w)) (env_now e (tick w)))) = Some x"
  shows "create_row e cs rows put mk w = (Inl (DbExn x), w\<lparr>tick := Suc (tick w)\<rparr>)"
  using assms by (simp add: create_row_def prisma_def Let_def)

lemma keeps_create_row:
  assumes "\<And>n d r. J d \<Longrightarrow> r = mk (env_cuid e n) (env_now e n) \<Longrightarrow>
    first_violation (cs d r) = None \<Longrightarrow> J (put (rows d @ [r]) d)"
  shows "keeps_db J (create_row e cs rows put mk)"
  unfolding create_row_def
  by (rule keeps_prisma) (auto simp: Let_def assms split: option.splits)

lemma keeps_update_row:
  assumes "\<And>d. J d \<Longrightarrow> J (put (update_rows P f (rows d)) d)"
  shows "keeps_db J (update_row e rows put P f)"
  unfolding update_row_def
  by (rule keeps_prisma) (auto simp: assms split: option.splits)

lemma keeps_update_many:
  assumes "\<And>d. J d \<Longrightarrow> J (put (update_rows P f (rows d)) d)"
  shows "keeps_db J (update_many e rows put P f)"
  unfolding update_many_def by (rule keeps_prisma) (auto simp: assms)

lemma wp_create_row [wp_rules]:
  assumes "\<And>i t. first_violation (cs d (mk i t)) = None \<Longrightarrow> Q (mk i t) (put (rows d @ [mk i t]) d)"
    and "E d"
  shows "wp d Q E (create_row e cs rows put mk)"
  unfolding create_row_def
  by (rule wp_prisma) (auto simp: Let_def assms split: option.splits)

lemma wp_update_row [wp_rules]:
  assumes "\<And>r. find P (rows d) = Some r \<Longrightarrow> Q (f r) (put (update_rows P f (rows d)) d)" and "E d"
  shows "wp d Q E (update_row e rows put P f)"
  unfolding update_row_def
  by (rule wp_prisma) (auto simp: assms split: option.splits)

lemma wp_update_many [wp_rules]:
  assumes "Q (length (filter P (rows d))) (put (update_rows P f (rows d)) d)" and "E d"
  shows "wp d Q E (update_many e rows put P f)"
  unfolding update_many_def by (rule wp_prisma) (auto simp: assms)

lemma timed_create_row:
  assumes "tick_mono P"
    and "\<And>n d r. P n d \<Longrightarrow> r = mk (env_cuid e n) (env_now e n) \<Longrightarrow> P (Suc n) (put (rows d @ [r]) d)"
  shows "timed P (create_row e cs rows put mk)"
  unfolding create_row_def
  by (rule timed_prisma) (auto simp: Let_def assms split: option.splits)

lemma timed_update_row:
  assumes "tick_mono P" and "\<And>n d. P n d \<Longrightarrow> P n (put (update_rows Q f (rows d)) d)"
  shows "timed P (update_row e rows put Q f)"
proof -
  have "P n d \<Longrightarrow> P (Suc n) (put (update_rows Q f (rows d)) d)" for n d
    using assms by (simp add: tick_mono_def)
  with assms(1) show ?thesis
    unfolding update_row_def by (intro timed_prisma) (auto split: option.splits)
qed

section \<open>The contract of a unique constraint\<close>

locale unique_table =
  fixes rows :: "database \<Rightarrow> 'r list"
    and ukey :: "'r \<Rightarrow> 'k"
    and ins :: "(string \<Rightarrow> int \<Rightarrow> 'r) \<Rightarrow> 'r act"
  assumes ins_appends: "ins mk w = (Inr r, w') \<Longrightarrow> rows (db w') = rows (db w) @ [r]"
    and ins_fresh: "ins mk w = (Inr r, w') \<Longrightarrow> ukey r \<notin> set (map ukey (rows (db w)))"
    and ins_fails: "ins mk w = (Inl x, w') \<Longrightarrow> db w' = db w"
begin

lemma ins_cases:
  obtains (ok) r w' where "ins mk w = (Inr r, w')" "rows (db w') = rows (db w) @ [r]"
                          "ukey r \<notin> set (map ukey (rows (db w)))"
        | (err) x w' where "ins mk w = (Inl x, w')" "db w' = db w"
proof (cases "ins mk w")
  case (Pair r w')
  with that show ?thesis
    by (cases r) (blast dest: ins_appends ins_fresh ins_fails)+
qed

lemma keeps_unique: "keeps_db (\<lambda>d. distinct (map ukey (rows d))) (ins mk)"
proof (rule keepsI)
  fix w :: world assume "distinct (map ukey (rows (db w)))"
  then show "distinct (map ukey (rows (db (snd (ins mk w)))))"
    by (rule_tac mk = mk and w = w in ins_cases) auto
qed

lemma keeps_prefix: "keeps_db (\<lambda>d. prefix l (rows d)) (ins mk)"
proof (rule keepsI)
  fix w :: world assume "prefix l (rows (db w))"
  then show "prefix l (rows (db (snd (ins mk w))))"
    by (rule_tac mk = mk and w = w in ins_cases) (auto intro: prefix_prefix)
qed

text \<open>A key that is present cannot be inserted again.\<close>

lemma ins_duplicate:
  assumes "\<And>i t. ukey (mk i t) = k" and "k \<in> set (map ukey (rows (db w)))"
    and "\<And>r w'. ins mk w = (Inr r, w') \<Longrightarrow> \<exists>i t. r = mk i t"
  shows "\<exists>x w'. ins mk w = (Inl x, w') \<and> db w' = db w"
  using assms by (rule_tac mk = mk and w = w in ins_cases) (metis, blast)

end

section \<open>Tables\<close>

definition missing :: "('r \<Rightarrow> string) \<Rightarrow> 'r list \<Rightarrow> string \<Rightarrow> bool" where
  "missing key rs i = (i \<notin> set (map key rs))"

definition missing_opt :: "('r \<Rightarrow> string) \<Rightarrow> 'r list \<Rightarrow> string option \<Rightarrow> bool" where
  "missing_opt key rs i = (case i of None \<Rightarrow> False | Some x \<Rightarrow> x \<notin> set (map key rs))"

definition taken :: "('r \<Rightarrow> 'k) \<Rightarrow> 'r list \<Rightarrow> 'r \<Rightarrow> bool" where
  "taken key rs r = (key r \<in> set (map key rs))"

definition create_business :: "env \<Rightarrow> (string \<Rightarrow> int \<Rightarrow> business) \<Rightarrow> business act" where
  "create_business e = create_row e (\<lambda>d r.
     [(taken biz_id (t_business d) r, P2002), (taken biz_email (t_business d) r, P2002)])
     t_business (\<lambda>rs d. d\<lparr>t_business := rs\<rparr>)"

definition create_apiKey :: "env \<Rightarrow> (string \<Rightarrow> int \<Rightarrow> apiKey) \<Rightarrow> apiKey act" where
  "create_apiKey e = create_row e (\<lambda>d r.
     [(taken key_id (t_apiKey d) r, P2002), (taken key_keyHash (t_apiKey d) r, P2002),
      (missing biz_id (t_business d) (key_businessId r), P2003)])
     t_apiKey (\<lambda>rs d. d\<lparr>t_apiKey := rs\<rparr>)"

definition create_customer :: "env \<Rightarrow> (string \<Rightarrow> int \<Rightarrow> customer) \<Rightarrow> customer act" where
  "create_customer e = create_row e (\<lambda>d r.
     [(taken cus_id (t_customer d) r, P2002),
      (missing biz_id (t_business d) (cus_businessId r), P2003),
      (missing_opt cus_id (t_customer d) (cus_parentId r), P2003)])
     t_customer (\<lambda>rs d. d\<lparr>t_customer := rs\<rparr>)"

definition create_nameHistoryEntry ::
  "env \<Rightarrow> (string \<Rightarrow> int \<Rightarrow> nameHistoryEntry) \<Rightarrow> nameHistoryEntry act" where
  "create_nameHistoryEntry e = create_row e (\<lambda>d r.
     [(taken nh_id (t_nameHistory d) r, P2002),
      (missing cus_id (t_customer d) (nh_customerId r), P2003)])
     t_nameHistory (\<lambda>rs d. d\<lparr>t_nameHistory := rs\<rparr>)"

definition create_account :: "env \<Rightarrow> (string \<Rightarrow> int \<Rightarrow> account) \<Rightarrow> account act" where
  "create_account e = create_row e (\<lambda>d r.
     [(taken acc_id (t_account d) r, P2002), (taken acc_accountRef (t_account d) r, P2002),
      (taken acc_nombaAccountId (t_account d) r, P2002),
      (taken acc_accountNumber (t_account d) r, P2002),
      (missing_opt cus_id (t_customer d) (acc_customerId r), P2003),
      (missing biz_id (t_business d) (acc_businessId r), P2003)])
     t_account (\<lambda>rs d. d\<lparr>t_account := rs\<rparr>)"

definition create_rule :: "env \<Rightarrow> (string \<Rightarrow> int \<Rightarrow> rule) \<Rightarrow> rule act" where
  "create_rule e = create_row e (\<lambda>d r.
     [(taken rul_id (t_rule d) r, P2002), (missing acc_id (t_account d) (rul_accountId r), P2003)])
     t_rule (\<lambda>rs d. d\<lparr>t_rule := rs\<rparr>)"

definition create_ruleExecution ::
  "env \<Rightarrow> (string \<Rightarrow> int \<Rightarrow> ruleExecution) \<Rightarrow> ruleExecution act" where
  "create_ruleExecution e = create_row e (\<lambda>d r.
     [(taken rex_id (t_ruleExecution d) r, P2002),
      (missing rul_id (t_rule d) (rex_ruleId r), P2003),
      (missing acc_id (t_account d) (rex_accountId r), P2003),
      (missing_opt led_id (t_ledgerEntry d) (rex_triggeredByLedgerEntryId r), P2003)])
     t_ruleExecution (\<lambda>rs d. d\<lparr>t_ruleExecution := rs\<rparr>)"

definition create_ledgerEntry :: "env \<Rightarrow> (string \<Rightarrow> int \<Rightarrow> ledgerEntry) \<Rightarrow> ledgerEntry act" where
  "create_ledgerEntry e = create_row e (\<lambda>d r.
     [(\<not> in_int8 (led_amountKobo r), P2020), (\<not> in_int8 (led_cumulativeAmountKobo r), P2020),
      (taken led_id (t_ledgerEntry d) r, P2002),
      (taken led_nombaTransactionRef (t_ledgerEntry d) r, P2002),
      (missing acc_id (t_account d) (led_accountId r), P2003)])
     t_ledgerEntry (\<lambda>rs d. d\<lparr>t_ledgerEntry := rs\<rparr>)"

definition create_processedEvent ::
  "env \<Rightarrow> (string \<Rightarrow> int \<Rightarrow> processedEvent) \<Rightarrow> processedEvent act" where
  "create_processedEvent e = create_row e (\<lambda>d r.
     [(taken pev_id (t_processedEvent d) r, P2002),
      (taken pev_eventId (t_processedEvent d) r, P2002)])
     t_processedEvent (\<lambda>rs d. d\<lparr>t_processedEvent := rs\<rparr>)"

definition bkt_key :: "treasuryBucket \<Rightarrow> string \<times> string" where
  "bkt_key b = (bkt_businessId b, bkt_bucketRef b)"

definition create_treasuryBucket ::
  "env \<Rightarrow> (string \<Rightarrow> int \<Rightarrow> treasuryBucket) \<Rightarrow> treasuryBucket act" where
  "create_treasuryBucket e = create_row e (\<lambda>d r.
     [(taken bkt_id (t_bucket d) r, P2002), (taken bkt_key (t_bucket d) r, P2002),
      (missing biz_id (t_business d) (bkt_businessId r), P2003)])
     t_bucket (\<lambda>rs d. d\<lparr>t_bucket := rs\<rparr>)"

definition create_bucketLedgerEntry ::
  "env \<Rightarrow> (string \<Rightarrow> int \<Rightarrow> bucketLedgerEntry) \<Rightarrow> bucketLedgerEntry act" where
  "create_bucketLedgerEntry e = create_row e (\<lambda>d r.
     [(\<not> in_int8 (ble_amountKobo r), P2020), (\<not> in_int8 (ble_cumulativeAmountKobo r), P2020),
      (taken ble_id (t_bucketLedger d) r, P2002), (taken ble_reference (t_bucketLedger d) r, P2002),
      (missing bkt_id (t_bucket d) (ble_bucketId r), P2003),
      (missing_opt led_id (t_ledgerEntry d) (ble_sourceLedgerEntryId r), P2003)])
     t_bucketLedger (\<lambda>rs d. d\<lparr>t_bucketLedger := rs\<rparr>)"

definition create_settlement :: "env \<Rightarrow> (string \<Rightarrow> int \<Rightarrow> settlement) \<Rightarrow> settlement act" where
  "create_settlement e = create_row e (\<lambda>d r.
     [(\<not> in_int8 (stl_amountKobo r), P2020),
      (taken stl_id (t_settlement d) r, P2002),
      (missing bkt_id (t_bucket d) (stl_bucketId r), P2003),
      (missing biz_id (t_business d) (stl_businessId r), P2003)])
     t_settlement (\<lambda>rs d. d\<lparr>t_settlement := rs\<rparr>)"

definition idk_ukey :: "idempotencyKey \<Rightarrow> string \<times> string" where
  "idk_ukey k = (idk_businessId k, idk_key k)"

definition create_idempotencyKey ::
  "env \<Rightarrow> (string \<Rightarrow> int \<Rightarrow> idempotencyKey) \<Rightarrow> idempotencyKey act" where
  "create_idempotencyKey e = create_row e (\<lambda>d r.
     [(taken idk_id (t_idempotencyKey d) r, P2002),
      (taken idk_ukey (t_idempotencyKey d) r, P2002),
      (missing biz_id (t_business d) (idk_businessId r), P2003)])
     t_idempotencyKey (\<lambda>rs d. d\<lparr>t_idempotencyKey := rs\<rparr>)"

text \<open>The update statements: by id, or by another unique column.\<close>

definition update_account :: "env \<Rightarrow> string \<Rightarrow> (account \<Rightarrow> account) \<Rightarrow> account act" where
  "update_account e i f = update_row e t_account (\<lambda>rs d. d\<lparr>t_account := rs\<rparr>) (\<lambda>r. acc_id r = i) f"

definition update_rule :: "env \<Rightarrow> string \<Rightarrow> (rule \<Rightarrow> rule) \<Rightarrow> rule act" where
  "update_rule e i f = update_row e t_rule (\<lambda>rs d. d\<lparr>t_rule := rs\<rparr>) (\<lambda>r. rul_id r = i) f"

definition updateMany_rule :: "env \<Rightarrow> (rule \<Rightarrow> bool) \<Rightarrow> (rule \<Rightarrow> rule) \<Rightarrow> nat act" where
  "updateMany_rule e P f = update_many e t_rule (\<lambda>rs d. d\<lparr>t_rule := rs\<rparr>) P f"

definition update_ruleExecution ::
  "env \<Rightarrow> string \<Rightarrow> (ruleExecution \<Rightarrow> ruleExecution) \<Rightarrow> ruleExecution act" where
  "update_ruleExecution e i f =
     update_row e t_ruleExecution (\<lambda>rs d. d\<lparr>t_ruleExecution := rs\<rparr>) (\<lambda>r. rex_id r = i) f"

definition updateMany_ruleExecution ::
  "env \<Rightarrow> (ruleExecution \<Rightarrow> bool) \<Rightarrow> (ruleExecution \<Rightarrow> ruleExecution) \<Rightarrow> nat act" where
  "updateMany_ruleExecution e P f = update_many e t_ruleExecution (\<lambda>rs d. d\<lparr>t_ruleExecution := rs\<rparr>) P f"

definition update_ledgerEntry ::
  "env \<Rightarrow> (ledgerEntry \<Rightarrow> bool) \<Rightarrow> (ledgerEntry \<Rightarrow> ledgerEntry) \<Rightarrow> ledgerEntry act" where
  "update_ledgerEntry e P f = update_row e t_ledgerEntry (\<lambda>rs d. d\<lparr>t_ledgerEntry := rs\<rparr>) P f"

definition update_customer :: "env \<Rightarrow> string \<Rightarrow> (customer \<Rightarrow> customer) \<Rightarrow> customer act" where
  "update_customer e i f = update_row e t_customer (\<lambda>rs d. d\<lparr>t_customer := rs\<rparr>) (\<lambda>r. cus_id r = i) f"

definition update_bucket ::
  "env \<Rightarrow> string \<Rightarrow> (treasuryBucket \<Rightarrow> treasuryBucket) \<Rightarrow> treasuryBucket act" where
  "update_bucket e i f = update_row e t_bucket (\<lambda>rs d. d\<lparr>t_bucket := rs\<rparr>) (\<lambda>r. bkt_id r = i) f"

definition update_apiKey :: "env \<Rightarrow> string \<Rightarrow> (apiKey \<Rightarrow> apiKey) \<Rightarrow> apiKey act" where
  "update_apiKey e i f = update_row e t_apiKey (\<lambda>rs d. d\<lparr>t_apiKey := rs\<rparr>) (\<lambda>r. key_id r = i) f"

definition update_business :: "env \<Rightarrow> string \<Rightarrow> (business \<Rightarrow> business) \<Rightarrow> business act" where
  "update_business e i f = update_row e t_business (\<lambda>rs d. d\<lparr>t_business := rs\<rparr>) (\<lambda>r. biz_id r = i) f"

text \<open>A settlement's transfer reference is unique where it is set.\<close>

definition update_settlement :: "env \<Rightarrow> string \<Rightarrow> (settlement \<Rightarrow> settlement) \<Rightarrow> settlement act" where
  "update_settlement e i f = prisma e (\<lambda>n d.
     case find (\<lambda>r. stl_id r = i) (t_settlement d) of
       None \<Rightarrow> Inl P2025
     | Some r \<Rightarrow>
         if stl_nombaTransferReference (f r) \<noteq> None \<and>
            stl_nombaTransferReference (f r)
              \<in> set (map stl_nombaTransferReference (filter (\<lambda>s. stl_id s \<noteq> i) (t_settlement d)))
         then Inl P2002
         else Inr (f r, d\<lparr>t_settlement := update_rows (\<lambda>r. stl_id r = i) f (t_settlement d)\<rparr>))"

lemma keeps_update_settlement:
  assumes "\<And>d. J d \<Longrightarrow> J (d\<lparr>t_settlement := update_rows (\<lambda>r. stl_id r = i) f (t_settlement d)\<rparr>)"
  shows "keeps_db J (update_settlement e i f)"
  unfolding update_settlement_def
  by (rule keeps_prisma) (auto simp: assms split: option.splits if_splits)

lemma wp_update_settlement [wp_rules]:
  assumes "\<And>r. find (\<lambda>r. stl_id r = i) (t_settlement d) = Some r \<Longrightarrow>
      Q (f r) (d\<lparr>t_settlement := update_rows (\<lambda>r. stl_id r = i) f (t_settlement d)\<rparr>)"
    and "E d"
  shows "wp d Q E (update_settlement e i f)"
  unfolding update_settlement_def
  by (rule wp_prisma) (auto simp: assms split: option.splits if_splits)

lemmas create_defs =
  create_business_def create_apiKey_def create_customer_def create_nameHistoryEntry_def
  create_account_def create_rule_def create_ruleExecution_def create_ledgerEntry_def
  create_processedEvent_def create_treasuryBucket_def create_bucketLedgerEntry_def
  create_settlement_def create_idempotencyKey_def

lemmas update_stmt_defs =
  update_account_def update_rule_def updateMany_rule_def update_ruleExecution_def
  updateMany_ruleExecution_def update_ledgerEntry_def update_customer_def update_bucket_def
  update_apiKey_def update_business_def

lemmas constraint_defs = taken_def missing_def missing_opt_def

text \<open>Every table whose unique constraint the code uses as a gate meets the contract.\<close>

interpretation u_ledger: unique_table t_ledgerEntry led_nombaTransactionRef "create_ledgerEntry e" for e
  by unfold_locales
    (auto simp: create_defs constraint_defs dest!: create_row_okD create_row_err split: if_splits)

interpretation u_event: unique_table t_processedEvent pev_eventId "create_processedEvent e" for e
  by unfold_locales
    (auto simp: create_defs constraint_defs dest!: create_row_okD create_row_err split: if_splits)

interpretation u_bucketLedger: unique_table t_bucketLedger ble_reference "create_bucketLedgerEntry e" for e
  by unfold_locales
    (auto simp: create_defs constraint_defs dest!: create_row_okD create_row_err split: if_splits)

interpretation u_bucket: unique_table t_bucket bkt_key "create_treasuryBucket e" for e
  by unfold_locales
    (auto simp: create_defs constraint_defs dest!: create_row_okD create_row_err split: if_splits)

interpretation u_account: unique_table t_account acc_accountNumber "create_account e" for e
  by unfold_locales
    (auto simp: create_defs constraint_defs dest!: create_row_okD create_row_err split: if_splits)

interpretation u_settlement: unique_table t_settlement stl_id "create_settlement e" for e
  by unfold_locales
    (auto simp: create_defs constraint_defs dest!: create_row_okD create_row_err split: if_splits)

interpretation u_apiKey: unique_table t_apiKey key_keyHash "create_apiKey e" for e
  by unfold_locales
    (auto simp: create_defs constraint_defs dest!: create_row_okD create_row_err split: if_splits)

interpretation u_business: unique_table t_business biz_email "create_business e" for e
  by unfold_locales
    (auto simp: create_defs constraint_defs dest!: create_row_okD create_row_err split: if_splits)

interpretation u_idempotency: unique_table t_idempotencyKey idk_ukey "create_idempotencyKey e" for e
  by unfold_locales
    (auto simp: create_defs constraint_defs dest!: create_row_okD create_row_err split: if_splits)

section \<open>Frame rules: a statement on one table leaves the invariants of the others\<close>

text \<open>
  An invariant that reads the database through a projection \<open>g\<close> is kept by every statement on a
  table that \<open>g\<close> ignores.
\<close>

lemma keeps_create_frame:
  assumes "\<And>rs d. g (put rs d) = g d"
  shows "keeps_db (\<lambda>d. J (g d)) (create_row e cs rows put mk)"
  by (rule keeps_create_row) (simp add: assms)

lemma keeps_update_frame:
  assumes "\<And>rs d. g (put rs d) = g d"
  shows "keeps_db (\<lambda>d. J (g d)) (update_row e rows put P f)"
  by (rule keeps_update_row) (simp add: assms)

lemma keeps_update_many_frame:
  assumes "\<And>rs d. g (put rs d) = g d"
  shows "keeps_db (\<lambda>d. J (g d)) (update_many e rows put P f)"
  by (rule keeps_update_many) (simp add: assms)

end
