(* ===== verification/AOS_Demo.thy ===== *)
theory AOS_Demo
  imports AOS_Tables
begin

text \<open>
  A small concrete environment and database on which the theorems with hypotheses are instantiated:
  one business with one customer, one account, two treasury buckets, a clock that ticks once per
  effect, distinct generated ids, no database faults.
\<close>

definition demo_env :: env where
  "demo_env = \<lparr>
     env_now = int, env_cuid = (\<lambda>n. replicate (Suc n) (CHR ''c'')),
     env_uuid = (\<lambda>n. replicate (Suc n) (CHR ''u'')),
     env_fault = (\<lambda>_. None), env_http = (\<lambda>_ _. HttpResp 200 (JObj [])),
     env_queue_fault = (\<lambda>_. None), env_db_message = (\<lambda>_. ''db''), env_requestId = None,
     env_parse_date = (\<lambda>_. None), env_zod_url = Some,
     env_to_number = (\<lambda>_. NaN), env_to_bigint = (\<lambda>_. None), env_to_string = (\<lambda>_. []),
     env_stringify = (\<lambda>_. []), env_parse_json = (\<lambda>_. None), env_sha256 = (\<lambda>s. CHR ''h'' # s),
     env_hmac = (\<lambda>k s. k @ s), env_random = (\<lambda>n. replicate (Suc n) (CHR ''r'')),
     env_aes_seal = (\<lambda>k iv s. (rev s, k)),
     env_aes_open = (\<lambda>k iv c t. if t = k then Some (rev c) else None),
     cfg_mock = True, cfg_admin_secret = ''admin'', cfg_encryption_key = ''key'',
     cfg_nomba_base_url = ''https://nomba''\<rparr>"

definition demo_business :: business where
  "demo_business = \<lparr>biz_id = ''b1'', biz_name = ''Biz'', biz_email = ''b@x'', biz_webhookUrl = None,
     biz_nombaAccountId = None, biz_nombaSubAccountId = None, biz_nombaClientId = None,
     biz_nombaClientSecret = None, biz_nombaWebhookSecret = None, biz_createdAt = 0\<rparr>"

definition demo_customer :: customer where
  "demo_customer = \<lparr>cus_id = ''k1'', cus_displayName = ''Ada'', cus_kycTier = TIER_1, cus_bvnRef = None,
     cus_email = None, cus_phone = None, cus_kycVerificationProvider = None,
     cus_kycVerificationRef = None, cus_businessId = ''b1'', cus_parentId = None, cus_createdAt = 0\<rparr>"

definition demo_account :: account where
  "demo_account = \<lparr>acc_id = ''a1'', acc_accountRef = ''acc-1'', acc_nombaAccountId = ''n1'',
     acc_accountNumber = ''0001'', acc_bankName = ''Bank'', acc_status = ACTIVE,
     acc_executionModel = SEQUENTIAL, acc_accountNameAtCreation = ''Ada'', acc_customerId = Some ''k1'',
     acc_businessId = ''b1'', acc_closedAt = None, acc_closedReason = None, acc_createdAt = 0\<rparr>"

definition demo_bucket :: "string \<Rightarrow> string \<Rightarrow> treasuryBucket" where
  "demo_bucket i ref = \<lparr>bkt_id = i, bkt_bucketRef = ref, bkt_name = ref, bkt_bucketType = PAYROLL,
     bkt_description = None, bkt_status = ACTIVE, bkt_businessId = ''b1'', bkt_settlementType = None,
     bkt_settlementAccountName = None, bkt_settlementAccountNumber = None,
     bkt_settlementBankCode = None, bkt_closedAt = None, bkt_closedReason = None, bkt_createdAt = 0\<rparr>"

definition demo_db :: database where
  "demo_db = \<lparr>t_business = [demo_business], t_apiKey = [], t_customer = [demo_customer],
     t_nameHistory = [], t_account = [demo_account], t_rule = [], t_ruleExecution = [],
     t_ledgerEntry = [], t_processedEvent = [],
     t_bucket = [demo_bucket ''bk1'' ''payroll'', demo_bucket ''bk2'' ''tax''],
     t_bucketLedger = [], t_settlement = [], t_idempotencyKey = []\<rparr>"

definition demo_world :: world where
  "demo_world = \<lparr>db = demo_db, auditLog = [], webhookQueue = [], retryQueue = [], outbox = [],
     tokenCache = Map.empty, tick = 0\<rparr>"

lemmas demo_defs =
  demo_env_def demo_business_def demo_customer_def demo_account_def demo_bucket_def demo_db_def
  demo_world_def

end
