(* ===== verification/Crypto_Utils.thy ===== *)
theory Crypto_Utils
  imports AOS_Demo
begin

text \<open>
  \<open>src/common/utils/crypto.utils.ts\<close>. Byte buffers are strings of characters below 256; AES-256-GCM,
  SHA-256, HMAC and the random source are parameters of the environment. What the code itself
  contributes (the \<open>iv:ciphertext:tag\<close> format, the hexadecimal coding, the key derivation, the
  comparison through keyed digests) is modelled and proved.
\<close>

section \<open>Hexadecimal coding\<close>

definition hex_digit :: "nat \<Rightarrow> char" where
  "hex_digit n = (if n < 10 then char_of (48 + n) else char_of (87 + n))"

text \<open>\<open>buffer.toString('hex')\<close>.\<close>

fun to_hex :: "string \<Rightarrow> string" where
  "to_hex [] = []"
| "to_hex (c # cs) = hex_digit (of_char c div 16) # hex_digit (of_char c mod 16) # to_hex cs"

definition hex_value :: "char \<Rightarrow> nat option" where
  "hex_value c =
     (let n = of_char c in
      if 48 \<le> n \<and> n \<le> 57 then Some (n - 48)
      else if 97 \<le> n \<and> n \<le> 102 then Some (n - 87)
      else if 65 \<le> n \<and> n \<le> 70 then Some (n - 55)
      else None)"

text \<open>\<open>Buffer.from(s, 'hex')\<close>: decoding stops at the first pair that is not hexadecimal.\<close>

fun from_hex :: "string \<Rightarrow> string" where
  "from_hex (a # b # cs) =
     (case (hex_value a, hex_value b) of
        (Some x, Some y) \<Rightarrow> char_of (16 * x + y) # from_hex cs
      | _ \<Rightarrow> [])"
| "from_hex _ = []"

text \<open>\<open>s.split(c)\<close> for a one-character separator.\<close>

fun split_on :: "char \<Rightarrow> string \<Rightarrow> string list" where
  "split_on c [] = [[]]"
| "split_on c (x # xs) =
     (if x = c then [] # split_on c xs
      else case split_on c xs of [] \<Rightarrow> [[x]] | p # ps \<Rightarrow> (x # p) # ps)"

section \<open>The functions of the module\<close>

definition randomBytes :: "env \<Rightarrow> string act" where
  "randomBytes e = (\<lambda>w. (Inr (env_random e (tick w)), w\<lparr>tick := Suc (tick w)\<rparr>))"

definition encrypt :: "env \<Rightarrow> string \<Rightarrow> string \<Rightarrow> string act" where
  "encrypt e plaintext key =
     bnd (randomBytes e) (\<lambda>iv.
     case env_aes_seal e key iv plaintext of
       (encrypted, authTag) \<Rightarrow>
         ret (to_hex iv @ '':'' @ to_hex encrypted @ '':'' @ to_hex authTag))"

definition decrypt :: "env \<Rightarrow> string \<Rightarrow> string \<Rightarrow> exn + string" where
  "decrypt e ciphertext key =
     (case split_on (CHR '':'') ciphertext of
        [ivHex, encrypted, authTagHex] \<Rightarrow>
          (case env_aes_open e key (from_hex ivHex) (from_hex encrypted) (from_hex authTagHex) of
             None \<Rightarrow> Inl (JsExn ''Unsupported state or unable to authenticate data'')
           | Some decrypted \<Rightarrow> Inr decrypted)
      | _ \<Rightarrow> Inl (JsExn ''Invalid encrypted payload format''))"

definition deriveKey :: "env \<Rightarrow> string \<Rightarrow> string" where
  "deriveKey e raw =
     (if length raw = 64 \<and> (\<forall>c \<in> set raw. hex_value c \<noteq> None) then from_hex raw
      else env_sha256 e raw)"

definition timingSafeCompare :: "env \<Rightarrow> string \<Rightarrow> string \<Rightarrow> bool act" where
  "timingSafeCompare e a b =
     bnd (randomBytes e) (\<lambda>key. ret (env_hmac e key a = env_hmac e key b))"

lemma keeps_randomBytes [keeps_intro]: "keeps_db J (randomBytes e)"
  by (simp add: keeps_def randomBytes_def)

lemma wp_randomBytes [wp_rules]: "(\<And>r. Q r d) \<Longrightarrow> wp d Q E (randomBytes e)"
  by (simp add: wp_def randomBytes_def)

section \<open>Lemmas\<close>

text \<open>What the cipher promises: opening what was sealed under the same key and nonce.\<close>

definition aes_gcm_correct :: "env \<Rightarrow> bool" where
  "aes_gcm_correct e =
     (\<forall>key iv s. env_aes_open e key iv (fst (env_aes_seal e key iv s)) (snd (env_aes_seal e key iv s))
        = Some s)"

lemma less_16_cases:
  "n < (16 :: nat) \<Longrightarrow>
     n \<in> {0, 1, 2, 3, 4, 5, 6, 7, 8, 9, 10, 11, 12, 13, 14, 15}"
  by (simp, presburger)

lemma hex_value_digit: "n < 16 \<Longrightarrow> hex_value (hex_digit n) = Some n"
  by (drule less_16_cases) (auto simp: hex_value_def hex_digit_def Let_def)

lemma high_nibble: "of_char c div 16 < (16 :: nat)"
  using nat_of_char_less_256 [of c] by linarith

lemma from_to_hex [simp]: "from_hex (to_hex s) = s"
  by (induction s) (simp_all add: hex_value_digit high_nibble)

lemma colon_not_hex: "CHR '':'' \<notin> set (to_hex s)"
proof -
  have "CHR '':'' \<noteq> hex_digit n" if "n < 16" for n
  proof
    assume "CHR '':'' = hex_digit n"
    then have "hex_value (CHR '':'') = Some n" using hex_value_digit [OF that] by simp
    then show False by (simp add: hex_value_def Let_def)
  qed
  then show ?thesis by (induction s) (auto simp: high_nibble)
qed

lemma split_on_append:
  "c \<notin> set xs \<Longrightarrow> split_on c (xs @ c # ys) = xs # split_on c ys"
  by (induction xs) auto

lemma split_on_none: "c \<notin> set xs \<Longrightarrow> split_on c xs = [xs]"
  by (induction xs) auto

lemma encrypt_run:
  "encrypt e s key w =
     (Inr (to_hex (env_random e (tick w)) @ '':'' @
           to_hex (fst (env_aes_seal e key (env_random e (tick w)) s)) @ '':'' @
           to_hex (snd (env_aes_seal e key (env_random e (tick w)) s))),
      w\<lparr>tick := Suc (tick w)\<rparr>)"
  by (simp add: encrypt_def randomBytes_def bnd_def ret_def case_prod_beta)

lemma decrypt_sealed:
  "aes_gcm_correct e \<Longrightarrow>
     decrypt e (to_hex iv @ '':'' @ to_hex (fst (env_aes_seal e key iv s)) @ '':'' @
                to_hex (snd (env_aes_seal e key iv s))) key = Inr s"
  by (simp add: decrypt_def split_on_append split_on_none colon_not_hex aes_gcm_correct_def)

lemma keeps_encrypt [keeps_intro]: "keeps_db J (encrypt e s key)"
  by (simp add: keeps_def encrypt_run)

lemma timingSafeCompare_run:
  "timingSafeCompare e a b w =
     (Inr (env_hmac e (env_random e (tick w)) a = env_hmac e (env_random e (tick w)) b),
      w\<lparr>tick := Suc (tick w)\<rparr>)"
  by (simp add: timingSafeCompare_def randomBytes_def bnd_def ret_def)

section \<open>Properties\<close>

text \<open>\<open>decrypt\<close> inverts \<open>encrypt\<close>: whatever the plaintext, the key and the random nonce, the stored
  string is split and decoded back to the plaintext, provided the cipher opens what it seals.\<close>

theorem decrypt_encrypt:
  assumes "aes_gcm_correct e"
  shows "\<exists>c. fst (encrypt e s key w) = Inr c \<and> decrypt e c key = Inr s"
  using decrypt_sealed [OF assms] by (simp add: encrypt_run)

theorem decrypt_encrypt_witness:
  "\<exists>c. fst (encrypt demo_env ''p:q'' ''k'' demo_world) = Inr c \<and> decrypt demo_env c ''k'' = Inr ''p:q''"
  by (rule decrypt_encrypt) (simp add: aes_gcm_correct_def demo_env_def)

text \<open>\<open>timingSafeCompare\<close> never rejects equal strings, and it accepts different ones only when their digests
  collide under the random key of the call.\<close>

theorem timingSafeCompare_equality:
  "fst (timingSafeCompare e a a w) = Inr True \<and>
   (fst (timingSafeCompare e a b w) = Inr (a = b) \<or>
    a \<noteq> b \<and> env_hmac e (env_random e (tick w)) a = env_hmac e (env_random e (tick w)) b)"
  by (auto simp: timingSafeCompare_run)

end
