(* ===== verification/Auth_Service.thy ===== *)
theory Auth_Service
  imports Crypto_Utils
begin

text \<open>
  \<open>src/auth\<close>: AuthService (admin secret, business registration, encrypted Nomba credentials, API keys)
  and ApiKeyGuard. Secrets are encrypted before they are stored and only digests of API keys are.
  The \<open>updatedAt\<close> columns, which Prisma maintains, are not modelled.
\<close>

text \<open>
  A field of a credentials DTO may be absent, \<open>null\<close> (which the decorator \<open>IsOptional\<close> lets through), or a text:
  \<^term>\<open>None\<close>, \<^term>\<open>Some None\<close> and \<^term>\<open>Some (Some x)\<close>.
\<close>

type_synonym nullable = "string option option"

record credentialsDto =
  cd_nombaAccountId :: nullable
  cd_nombaSubAccountId :: nullable
  cd_nombaClientId :: nullable
  cd_nombaClientSecret :: nullable
  cd_nombaWebhookSecret :: nullable
  cd_webhookUrl :: nullable

record registerBusinessDto = credentialsDto +
  rb_name :: string
  rb_email :: string

record decryptedCredentials =
  dc_nombaAccountId :: string
  dc_nombaSubAccountId :: string
  dc_nombaClientId :: string
  dc_nombaClientSecret :: string
  dc_nombaWebhookSecret :: string

definition encryptionKey :: "env \<Rightarrow> string" where
  "encryptionKey e = deriveKey e (cfg_encryption_key e)"

text \<open>The cipher refuses a value that is no text.\<close>

definition encrypt_opt :: "env \<Rightarrow> nullable \<Rightarrow> nullable act" where
  "encrypt_opt e s =
     (case s of
        None \<Rightarrow> ret None
      | Some None \<Rightarrow> throw (JsExn ''The data argument must be of type string'')
      | Some (Some x) \<Rightarrow> bnd (encrypt e x (encryptionKey e)) (\<lambda>c. ret (Some (Some c))))"

text \<open>The patch has the DTO's fields, the two secrets encrypted; an absent field stays absent.\<close>

definition encryptCredentials :: "env \<Rightarrow> 'a credentialsDto_scheme \<Rightarrow> credentialsDto act" where
  "encryptCredentials e dto =
     bnd (encrypt_opt e (cd_nombaClientSecret dto)) (\<lambda>clientSecret.
     bnd (encrypt_opt e (cd_nombaWebhookSecret dto)) (\<lambda>webhookSecret.
     ret \<lparr>cd_nombaAccountId = cd_nombaAccountId dto, cd_nombaSubAccountId = cd_nombaSubAccountId dto,
          cd_nombaClientId = cd_nombaClientId dto, cd_nombaClientSecret = clientSecret,
          cd_nombaWebhookSecret = webhookSecret, cd_webhookUrl = cd_webhookUrl dto\<rparr>))"

definition getDecryptedCredentials :: "env \<Rightarrow> business \<Rightarrow> exn + decryptedCredentials" where
  "getDecryptedCredentials e b =
     (if \<not> str_truthy (biz_nombaAccountId b) \<or> \<not> str_truthy (biz_nombaSubAccountId b) \<or>
         \<not> str_truthy (biz_nombaClientId b) \<or> \<not> str_truthy (biz_nombaClientSecret b) \<or>
         \<not> str_truthy (biz_nombaWebhookSecret b)
      then Inl (JsExn ''Nomba credentials are not fully configured for this business'')
      else case decrypt e (the (biz_nombaClientSecret b)) (encryptionKey e) of
             Inl x \<Rightarrow> Inl x
           | Inr clientSecret \<Rightarrow>
               (case decrypt e (the (biz_nombaWebhookSecret b)) (encryptionKey e) of
                  Inl x \<Rightarrow> Inl x
                | Inr webhookSecret \<Rightarrow> Inr
                    \<lparr>dc_nombaAccountId = the (biz_nombaAccountId b),
                     dc_nombaSubAccountId = the (biz_nombaSubAccountId b),
                     dc_nombaClientId = the (biz_nombaClientId b),
                     dc_nombaClientSecret = clientSecret, dc_nombaWebhookSecret = webhookSecret\<rparr>))"

definition decryptWebhookSecret :: "env \<Rightarrow> string \<Rightarrow> exn + string" where
  "decryptWebhookSecret e encrypted = decrypt e encrypted (encryptionKey e)"

definition assertAdminSecret :: "env \<Rightarrow> string \<Rightarrow> unit act" where
  "assertAdminSecret e provided =
     bnd (timingSafeCompare e provided (cfg_admin_secret e)) (\<lambda>same.
       if \<not> same then throw (Unauthorized INVALID_ADMIN_SECRET ''Invalid admin secret'') else ret ())"

definition business_row :: "registerBusinessDto \<Rightarrow> credentialsDto \<Rightarrow> string \<Rightarrow> int \<Rightarrow> business" where
  "business_row dto p i t = \<lparr>
     biz_id = i, biz_name = rb_name dto, biz_email = rb_email dto,
     biz_webhookUrl = getOr (cd_webhookUrl p) None,
     biz_nombaAccountId = getOr (cd_nombaAccountId p) None,
     biz_nombaSubAccountId = getOr (cd_nombaSubAccountId p) None,
     biz_nombaClientId = getOr (cd_nombaClientId p) None,
     biz_nombaClientSecret = getOr (cd_nombaClientSecret p) None,
     biz_nombaWebhookSecret = getOr (cd_nombaWebhookSecret p) None, biz_createdAt = t\<rparr>"

definition registerBusiness :: "env \<Rightarrow> registerBusinessDto \<Rightarrow> string \<Rightarrow> (string \<times> string) act" where
  "registerBusiness e dto adminSecret =
     seqm (assertAdminSecret e adminSecret)
       (catch
         (bnd (encryptCredentials e dto) (\<lambda>encryptedCredentials.
          bnd (create_business e (business_row dto encryptedCredentials)) (\<lambda>b.
          ret (biz_id b, biz_name b))))
         (\<lambda>err.
           if err = DbExn P2002
           then throw (Conflict DUPLICATE_EMAIL
             (''A business with email '' @ [CHR 0x27] @ rb_email dto @ [CHR 0x27] @ '' already exists''))
           else throw err))"

text \<open>\<open>update\<close> with the patch as its data: an undefined field is left as it is, \<open>null\<close> clears the column.\<close>

definition apply_patch :: "credentialsDto \<Rightarrow> business \<Rightarrow> business" where
  "apply_patch p b = b\<lparr>
     biz_webhookUrl := getOr (cd_webhookUrl p) (biz_webhookUrl b),
     biz_nombaAccountId := getOr (cd_nombaAccountId p) (biz_nombaAccountId b),
     biz_nombaSubAccountId := getOr (cd_nombaSubAccountId p) (biz_nombaSubAccountId b),
     biz_nombaClientId := getOr (cd_nombaClientId p) (biz_nombaClientId b),
     biz_nombaClientSecret := getOr (cd_nombaClientSecret p) (biz_nombaClientSecret b),
     biz_nombaWebhookSecret := getOr (cd_nombaWebhookSecret p) (biz_nombaWebhookSecret b)\<rparr>"

definition updateBusinessCredentials ::
  "env \<Rightarrow> string \<Rightarrow> credentialsDto \<Rightarrow> string \<Rightarrow> (string \<times> string \<times> bool) act" where
  "updateBusinessCredentials e businessId dto adminSecret =
     seqm (assertAdminSecret e adminSecret) (
     bnd (query e (\<lambda>d. find (\<lambda>b. biz_id b = businessId) (t_business d))) (\<lambda>existing.
     case existing of
       None \<Rightarrow> throw (NotFound BUSINESS_NOT_FOUND ''Business not found'')
     | Some b \<Rightarrow>
         bnd (encryptCredentials e dto) (\<lambda>patch.
         bnd (update_business e businessId (apply_patch patch)) (\<lambda>updated.
         ret (biz_id updated, biz_name updated,
              orElse (getOr (cd_nombaAccountId dto) None) (biz_nombaAccountId b) \<noteq> None \<and>
              orElse (getOr (cd_nombaSubAccountId dto) None) (biz_nombaSubAccountId b) \<noteq> None \<and>
              orElse (getOr (cd_nombaClientId dto) None) (biz_nombaClientId b) \<noteq> None \<and>
              orElse (getOr (cd_nombaClientSecret dto) None) (biz_nombaClientSecret b) \<noteq> None \<and>
              orElse (getOr (cd_nombaWebhookSecret dto) None) (biz_nombaWebhookSecret b) \<noteq> None)))))"

section \<open>API keys\<close>

record createApiKeyDto =
  ck_businessId :: string
  ck_name :: string
  ck_expiresAt :: "string option"

record createApiKeyResult =
  kr_keyId :: string
  kr_key :: string
  kr_prefix :: string
  kr_name :: string

definition key_hash :: "env \<Rightarrow> string \<Rightarrow> string" where
  "key_hash e rawKey = to_hex (env_sha256 e rawKey)"

definition apiKey_row ::
  "createApiKeyDto \<Rightarrow> string \<Rightarrow> string \<Rightarrow> int option \<Rightarrow> string \<Rightarrow> int \<Rightarrow> apiKey" where
  "apiKey_row dto keyHash keyPrefix expiresAt i t = \<lparr>
     key_id = i, key_keyHash = keyHash, key_keyPrefix = keyPrefix, key_name = ck_name dto,
     key_businessId = ck_businessId dto, key_lastUsedAt = None, key_expiresAt = expiresAt,
     key_revokedAt = None, key_createdAt = t\<rparr>"

definition createApiKey :: "env \<Rightarrow> createApiKeyDto \<Rightarrow> string \<Rightarrow> createApiKeyResult act" where
  "createApiKey e dto adminSecret =
     seqm (assertAdminSecret e adminSecret) (
     bnd (randomBytes e) (\<lambda>bytes.
     let rawKey = ''acctos_live_'' @ to_hex bytes;
         keyHash = key_hash e rawKey;
         keyPrefix = take 20 rawKey in
     bnd (lift_sum (date_bound e (ck_expiresAt dto))) (\<lambda>expiresAt.
     bnd (create_apiKey e (apiKey_row dto keyHash keyPrefix expiresAt)) (\<lambda>apiKey.
     seqm (AuditService_log e ((auditParams ''admin'' API_KEY_CREATED)\<lparr>
             alp_businessId := Some (ck_businessId dto),
             alp_metadata := Some (JObj [(''keyId'', JStr (key_id apiKey)),
               (''keyPrefix'', JStr keyPrefix), (''name'', JStr (ck_name dto))])\<rparr>))
       (ret \<lparr>kr_keyId = key_id apiKey, kr_key = rawKey, kr_prefix = keyPrefix,
             kr_name = key_name apiKey\<rparr>)))))"

definition find_key :: "string \<Rightarrow> database \<Rightarrow> apiKey option" where
  "find_key keyHash d = find (\<lambda>k. key_keyHash k = keyHash) (t_apiKey d)"

definition key_business :: "apiKey \<Rightarrow> database \<Rightarrow> business option" where
  "key_business k d = find (\<lambda>b. biz_id b = key_businessId k) (t_business d)"

text \<open>\<open>findUnique\<close> with \<open>include: business\<close>: a key without its business is an inconsistent result.\<close>

definition find_key_with_business ::
  "env \<Rightarrow> string \<Rightarrow> (apiKey \<times> business) option act" where
  "find_key_with_business e keyHash = prisma e (\<lambda>n d.
     case find_key keyHash d of
       None \<Rightarrow> Inr (None, d)
     | Some k \<Rightarrow>
         (case key_business k d of
            None \<Rightarrow> Inl (OtherDb ''Inconsistent query result'')
          | Some b \<Rightarrow> Inr (Some (k, b), d)))"

text \<open>The update of \<open>lastUsedAt\<close> is not awaited and its failure is ignored.\<close>

definition validateApiKey :: "env \<Rightarrow> string \<Rightarrow> (apiKey \<times> business) act" where
  "validateApiKey e rawKey =
     bnd (find_key_with_business e (key_hash e rawKey)) (\<lambda>found.
     case found of
       None \<Rightarrow> throw (Unauthorized INVALID_API_KEY ''Invalid API key'')
     | Some (k, b) \<Rightarrow>
         if key_revokedAt k \<noteq> None
         then throw (Unauthorized error_code.API_KEY_REVOKED ''API key has been revoked'')
         else bnd (now e) (\<lambda>t.
           if (case key_expiresAt k of None \<Rightarrow> False | Some x \<Rightarrow> x < t)
           then throw (Unauthorized API_KEY_EXPIRED ''API key has expired'')
           else seqm (catch (seqm (update_apiKey e (key_id k) (\<lambda>r. r\<lparr>key_lastUsedAt := Some t\<rparr>)) (ret ()))
                        (\<lambda>_. ret ()))
                  (ret (k, b))))"

definition revokeApiKey :: "env \<Rightarrow> string \<Rightarrow> string \<Rightarrow> string \<Rightarrow> unit act" where
  "revokeApiKey e keyId businessId actor =
     bnd (query e (\<lambda>d. find (\<lambda>k. key_id k = keyId \<and> key_businessId k = businessId) (t_apiKey d)))
       (\<lambda>apiKey.
     case apiKey of
       None \<Rightarrow> throw (NotFound INVALID_API_KEY ''API key not found'')
     | Some k \<Rightarrow>
         bnd (now e) (\<lambda>t.
         seqm (update_apiKey e keyId (\<lambda>r. r\<lparr>key_revokedAt := Some t\<rparr>))
           (AuditService_log e ((auditParams actor audit_action.API_KEY_REVOKED)\<lparr>
             alp_businessId := Some businessId,
             alp_metadata := Some (JObj [(''keyId'', JStr keyId),
               (''keyPrefix'', JStr (key_keyPrefix k)), (''name'', JStr (key_name k))])\<rparr>))))"

record apiKeyListItem =
  kl_id :: string
  kl_prefix :: string
  kl_name :: string
  kl_lastUsedAt :: "int option"
  kl_createdAt :: int
  kl_revokedAt :: "int option"

definition listApiKeys :: "env \<Rightarrow> string \<Rightarrow> apiKeyListItem list act" where
  "listApiKeys e businessId =
     bnd (query e (\<lambda>d. order_desc key_createdAt (filter (\<lambda>k. key_businessId k = businessId) (t_apiKey d))))
       (\<lambda>keys.
     ret (map (\<lambda>k. \<lparr>kl_id = key_id k, kl_prefix = key_keyPrefix k, kl_name = key_name k,
       kl_lastUsedAt = key_lastUsedAt k, kl_createdAt = key_createdAt k,
       kl_revokedAt = key_revokedAt k\<rparr>) keys))"

record businessProfile =
  bp_id :: string
  bp_name :: string
  bp_email :: string
  bp_webhookUrl :: "string option"
  bp_nombaAccountId :: "string option"
  bp_nombaSubAccountId :: "string option"
  bp_nombaClientId :: "string option"
  bp_nombaClientSecretSet :: bool
  bp_nombaWebhookSecretSet :: bool
  bp_hasNombaCredentials :: bool
  bp_createdAt :: int

definition getMyBusiness :: "env \<Rightarrow> string \<Rightarrow> businessProfile act" where
  "getMyBusiness e businessId =
     bnd (query e (\<lambda>d. find (\<lambda>b. biz_id b = businessId) (t_business d))) (\<lambda>found.
     case found of
       None \<Rightarrow> throw (JsExn ''Business not found'')
     | Some b \<Rightarrow> ret
         \<lparr>bp_id = biz_id b, bp_name = biz_name b, bp_email = biz_email b,
          bp_webhookUrl = biz_webhookUrl b, bp_nombaAccountId = biz_nombaAccountId b,
          bp_nombaSubAccountId = biz_nombaSubAccountId b, bp_nombaClientId = biz_nombaClientId b,
          bp_nombaClientSecretSet = str_truthy (biz_nombaClientSecret b),
          bp_nombaWebhookSecretSet = str_truthy (biz_nombaWebhookSecret b),
          bp_hasNombaCredentials =
            (str_truthy (biz_nombaAccountId b) \<and> str_truthy (biz_nombaSubAccountId b) \<and>
             str_truthy (biz_nombaClientId b) \<and> str_truthy (biz_nombaClientSecret b) \<and>
             str_truthy (biz_nombaWebhookSecret b)),
          bp_createdAt = biz_createdAt b\<rparr>)"

text \<open>ApiKeyGuard: the business of the request, or \<^term>\<open>None\<close> on a public route.\<close>

definition canActivate :: "env \<Rightarrow> bool \<Rightarrow> string option \<Rightarrow> (apiKey \<times> business) option act" where
  "canActivate e isPublic rawKey =
     (if isPublic then ret None
      else if \<not> str_truthy rawKey then throw (Unauthorized MISSING_API_KEY ''Missing API key'')
      else bnd (validateApiKey e (the rawKey)) (\<lambda>r. ret (Some r)))"

section \<open>Lemmas\<close>

lemma wp_encrypt [wp_rules]:
  assumes "\<And>c. c \<noteq> [] \<Longrightarrow> (aes_gcm_correct e \<Longrightarrow> decrypt e c key = Inr s) \<Longrightarrow> Q c d"
  shows "wp d Q E (encrypt e s key)"
  unfolding wp_def encrypt_run using assms decrypt_sealed by auto

text \<open>A stored field holds a secret: both absent, or the stored text decrypts to it.\<close>

definition seals :: "env \<Rightarrow> nullable \<Rightarrow> nullable \<Rightarrow> bool" where
  "seals e plain stored =
     (case plain of
        None \<Rightarrow> stored = None
      | Some None \<Rightarrow> False
      | Some (Some s) \<Rightarrow>
          (\<exists>c. stored = Some (Some c) \<and> c \<noteq> [] \<and> (aes_gcm_correct e \<longrightarrow> decrypt e c (encryptionKey e) = Inr s)))"

lemma wp_encrypt_opt [wp_rules]:
  assumes "\<And>c. seals e s c \<Longrightarrow> Q c d" and "E d"
  shows "wp d Q E (encrypt_opt e s)"
  unfolding encrypt_opt_def by (intro wp_rules assms(2)) (auto intro!: assms(1) simp: seals_def)

lemma wp_encryptCredentials [wp_rules]:
  assumes "\<And>c v. seals e (cd_nombaClientSecret dto) c \<Longrightarrow> seals e (cd_nombaWebhookSecret dto) v \<Longrightarrow>
    Q \<lparr>cd_nombaAccountId = cd_nombaAccountId dto, cd_nombaSubAccountId = cd_nombaSubAccountId dto,
       cd_nombaClientId = cd_nombaClientId dto, cd_nombaClientSecret = c,
       cd_nombaWebhookSecret = v, cd_webhookUrl = cd_webhookUrl dto\<rparr> d" and "E d"
  shows "wp d Q E (encryptCredentials e dto)"
  unfolding encryptCredentials_def by (intro wp_rules assms)

lemma wp_assertAdminSecret [wp_rules]:
  assumes "Q () d" and "E d"
  shows "wp d Q E (assertAdminSecret e secret)"
  using assms by (auto simp: wp_def assertAdminSecret_def bnd_def timingSafeCompare_run throw_def ret_def)

lemma wp_find_key_with_business [wp_rules]:
  assumes "find_key h d = None \<Longrightarrow> Q None d"
    and "\<And>k b. find_key h d = Some k \<Longrightarrow> key_business k d = Some b \<Longrightarrow> Q (Some (k, b)) d"
    and "E d"
  shows "wp d Q E (find_key_with_business e h)"
  unfolding find_key_with_business_def
  by (rule wp_prisma) (auto intro: assms split: option.splits)

lemma find_key_SomeD: "find_key h d = Some k \<Longrightarrow> k \<in> set (t_apiKey d) \<and> key_keyHash k = h"
  by (auto simp: find_key_def find_Some_iff)

lemma key_business_SomeD:
  "key_business k d = Some b \<Longrightarrow> b \<in> set (t_business d) \<and> biz_id b = key_businessId k"
  by (auto simp: key_business_def find_Some_iff)

section \<open>Properties\<close>

text \<open>C28: a registered business gets its secrets back: when registration with all five Nomba credentials
  (each non-empty) returns, the stored row decrypts to exactly the credentials that were given.\<close>

theorem registered_credentials_roundtrip:
  assumes "aes_gcm_correct e"
    and "registerBusiness e dto adminSecret w = (Inr (i, n), w')"
    and "cd_nombaAccountId dto = Some (Some a)" "a \<noteq> []"
    and "cd_nombaSubAccountId dto = Some (Some sa)" "sa \<noteq> []"
    and "cd_nombaClientId dto = Some (Some c)" "c \<noteq> []"
    and "cd_nombaClientSecret dto = Some (Some cs)" and "cd_nombaWebhookSecret dto = Some (Some ws)"
  shows "\<exists>b \<in> set (t_business (db w')). biz_id b = i \<and> biz_email b = rb_email dto \<and>
    getDecryptedCredentials e b = Inr
      \<lparr>dc_nombaAccountId = a, dc_nombaSubAccountId = sa, dc_nombaClientId = c,
       dc_nombaClientSecret = cs, dc_nombaWebhookSecret = ws\<rparr>"
proof -
  let ?Q = "\<lambda>r d. \<exists>b \<in> set (t_business d). biz_id b = fst r \<and> biz_email b = rb_email dto \<and>
    getDecryptedCredentials e b = Inr
      \<lparr>dc_nombaAccountId = a, dc_nombaSubAccountId = sa, dc_nombaClientId = c,
       dc_nombaClientSecret = cs, dc_nombaWebhookSecret = ws\<rparr>"
  have "wp (db w) ?Q (\<lambda>_. True) (registerBusiness e dto adminSecret)"
    unfolding registerBusiness_def create_business_def
    by (intro wp_rules)
      (use assms in \<open>auto intro!: wp_rules simp: seals_def business_row_def getDecryptedCredentials_def\<close>)
  from wpD_Inr [OF this refl assms(2)] show ?thesis by simp
qed

definition demo_register :: registerBusinessDto where
  "demo_register = \<lparr>cd_nombaAccountId = Some (Some ''acct''), cd_nombaSubAccountId = Some (Some ''sub''),
     cd_nombaClientId = Some (Some ''cid''), cd_nombaClientSecret = Some (Some ''s1''),
     cd_nombaWebhookSecret = Some (Some ''s2''), cd_webhookUrl = None, rb_name = ''New'', rb_email = ''n@x''\<rparr>"

theorem registered_credentials_roundtrip_witness:
  "\<exists>b. getDecryptedCredentials demo_env b = Inr
      \<lparr>dc_nombaAccountId = ''acct'', dc_nombaSubAccountId = ''sub'', dc_nombaClientId = ''cid'',
       dc_nombaClientSecret = ''s1'', dc_nombaWebhookSecret = ''s2''\<rparr>"
proof -
  let ?m = "registerBusiness demo_env demo_register ''admin'' demo_world"
  have "fst ?m = Inr (''cccc'', ''New'')" by code_simp
  then have ok: "?m = (Inr (''cccc'', ''New''), snd ?m)" by (rule fst_run)
  have aes: "aes_gcm_correct demo_env" by (simp add: aes_gcm_correct_def demo_env_def)
  from registered_credentials_roundtrip [OF aes ok, of "''acct''" "''sub''" "''cid''" "''s1''" "''s2''"]
  show ?thesis by (auto simp: demo_register_def)
qed

text \<open>C27: an accepted API key is a stored key of the returned business that is neither revoked nor
  expired: \<open>validateApiKey\<close> returns only rows whose digest is that of the presented key.\<close>

theorem validateApiKey_sound:
  assumes "validateApiKey e rawKey w = (Inr (k, b), w')"
  shows "k \<in> set (t_apiKey (db w)) \<and> b \<in> set (t_business (db w)) \<and>
    key_keyHash k = key_hash e rawKey \<and> biz_id b = key_businessId k \<and> key_revokedAt k = None \<and>
    (\<forall>x. key_expiresAt k = Some x \<longrightarrow> env_now e (Suc (tick w)) \<le> x)"
  using assms
  by (auto simp: validateApiKey_def find_key_with_business_def prisma_def now_def ret_def throw_def
      elim!: bnd_InrE dest!: find_key_SomeD key_business_SomeD split: option.splits if_splits)

definition demo_key :: createApiKeyDto where
  "demo_key = \<lparr>ck_businessId = ''b1'', ck_name = ''K'', ck_expiresAt = None\<rparr>"

definition demo_key_world :: world where
  "demo_key_world = snd (createApiKey demo_env demo_key ''admin'' demo_world)"

definition demo_raw_key :: string where
  "demo_raw_key = kr_key (projr (fst (createApiKey demo_env demo_key ''admin'' demo_world)))"

theorem validateApiKey_sound_witness:
  "\<exists>k b. fst (validateApiKey demo_env demo_raw_key demo_key_world) = Inr (k, b) \<and>
     key_keyHash k = key_hash demo_env demo_raw_key"
proof -
  let ?m = "validateApiKey demo_env demo_raw_key demo_key_world"
  have "isl (fst ?m) = False" by code_simp
  then obtain k b where "fst ?m = Inr (k, b)" by (cases "fst ?m") auto
  with validateApiKey_sound [OF fst_run, OF this] show ?thesis by blast
qed

text \<open>None of the administrative operations does anything without the admin secret: with a text whose digest
  under the random key of the call differs from that of the secret they throw and the database is unchanged.\<close>

theorem admin_secret_required:
  assumes "env_hmac e (env_random e (tick w)) secret \<noteq> env_hmac e (env_random e (tick w)) (cfg_admin_secret e)"
  shows "isl (fst (registerBusiness e dto secret w)) \<and> db (snd (registerBusiness e dto secret w)) = db w \<and>
    isl (fst (updateBusinessCredentials e i cdto secret w)) \<and>
    db (snd (updateBusinessCredentials e i cdto secret w)) = db w \<and>
    isl (fst (createApiKey e kdto secret w)) \<and> db (snd (createApiKey e kdto secret w)) = db w"
proof -
  from assms have "assertAdminSecret e secret w =
      (Inl (Unauthorized INVALID_ADMIN_SECRET ''Invalid admin secret''), w\<lparr>tick := Suc (tick w)\<rparr>)"
    by (simp add: assertAdminSecret_def timingSafeCompare_run bnd_def throw_def)
  note refused = bnd_run(2) [where m = "assertAdminSecret e secret" and s = w, OF this]
  show ?thesis
    by (simp add: refused registerBusiness_def updateBusinessCredentials_def createApiKey_def)
qed

theorem admin_secret_required_witness:
  "isl (fst (createApiKey demo_env demo_key ''guess'' demo_world))"
proof -
  have "env_hmac demo_env (env_random demo_env (tick demo_world)) ''guess'' \<noteq>
      env_hmac demo_env (env_random demo_env (tick demo_world)) (cfg_admin_secret demo_env)"
    by (simp add: demo_env_def)
  from admin_secret_required [OF this] show ?thesis by blast
qed

end
