(* ===== verification/Nomba_Client.thy ===== *)
theory Nomba_Client
  imports Auth_Service
begin

text \<open>
  \<open>src/nomba-client\<close>: the only component that talks to Nomba. The peer's answers are a parameter of
  the environment; the requests, the token cache with its 60-second margin, the mock mode and the
  mapping of transport errors to HTTP exceptions are the code's. A result field is \<^term>\<open>None\<close> where the
  response lacks it. \<open>Number(transferData.amount)\<close> is kept as the text received: no caller reads it.
\<close>

definition jfield_str :: "json \<Rightarrow> string \<Rightarrow> string option" where
  "jfield_str j k = (case jget j k of Some (JStr s) \<Rightarrow> Some s | _ \<Rightarrow> None)"

text \<open>
  An axios error with a response becomes an exception with the response's status (502 for 5xx) and
  the description the body carries; without a response it is a 502 with the fallback message.
\<close>

definition mapError :: "http_resp \<Rightarrow> string \<Rightarrow> exn" where
  "mapError r fallbackMessage =
     (case r of
        HttpResp status body \<Rightarrow>
          HttpExn (if 500 \<le> status then 502 else nat status) NOMBA_API_ERROR
            (''Nomba API error: '' @
             getOr (jfield_str body ''description'')
               (''Request failed with status code '' @ show_int status))
      | NetError _ \<Rightarrow> HttpExn 502 NOMBA_API_ERROR fallbackMessage)"

definition axios :: "env \<Rightarrow> http_req \<Rightarrow> string \<Rightarrow> json act" where
  "axios e r fallbackMessage =
     bnd (http_call e r) (\<lambda>resp.
     case resp of
       HttpResp status body \<Rightarrow>
         if 200 \<le> status \<and> status < 300 then ret body else throw (mapError resp fallbackMessage)
     | NetError _ \<Rightarrow> throw (mapError resp fallbackMessage))"

text \<open>\<open>data.data\<close> of a response, when its properties are then read.\<close>

definition unwrap :: "json \<Rightarrow> exn + json" where
  "unwrap body =
     (case jget body ''data'' of
        None \<Rightarrow> Inl (JsExn ''Cannot read properties of undefined'')
      | Some JNull \<Rightarrow> Inl (JsExn ''Cannot read properties of null'')
      | Some d \<Rightarrow> Inr d)"

definition url :: "env \<Rightarrow> string \<Rightarrow> string" where
  "url e path = cfg_nomba_base_url e @ path"

definition authHeaders :: "string \<Rightarrow> string \<Rightarrow> (string \<times> string) list" where
  "authHeaders token accountId = [(''Authorization'', ''Bearer '' @ token), (''accountId'', accountId)]"

definition getNombaAccountId :: "business \<Rightarrow> exn + string" where
  "getNombaAccountId b =
     (if \<not> str_truthy (biz_nombaAccountId b)
      then Inl (BadGateway NOMBA_API_ERROR ''Business has no Nomba account ID configured'')
      else Inr (the (biz_nombaAccountId b)))"

definition getNombaSubAccountId :: "business \<Rightarrow> exn + string" where
  "getNombaSubAccountId b =
     (if \<not> str_truthy (biz_nombaSubAccountId b)
      then Inl (BadGateway NOMBA_API_ERROR ''Business has no Nomba sub-account ID configured'')
      else Inr (the (biz_nombaSubAccountId b)))"

section \<open>Token cache\<close>

definition cached_token :: "string \<Rightarrow> (string \<times> int option) option act" where
  "cached_token i = (\<lambda>w. (Inr (tokenCache w i), w))"

definition cache_token :: "string \<Rightarrow> string \<times> int option \<Rightarrow> unit act" where
  "cache_token i entry = (\<lambda>w. (Inr (), w\<lparr>tokenCache := (tokenCache w)(i \<mapsto> entry)\<rparr>))"

definition token_valid :: "string \<times> int option \<Rightarrow> int \<Rightarrow> bool" where
  "token_valid entry t = (case snd entry of None \<Rightarrow> False | Some x \<Rightarrow> t < x - 60000)"

definition issue_request :: "env \<Rightarrow> decryptedCredentials \<Rightarrow> http_req" where
  "issue_request e creds = HttpReq ''POST'' (url e ''/v1/auth/token/issue'')
     [(''accountId'', dc_nombaAccountId creds)]
     (JObj [(''client_id'', JStr (dc_nombaClientId creds)),
            (''client_secret'', JStr (dc_nombaClientSecret creds)),
            (''grant_type'', JStr ''client_credentials'')])"

text \<open>A date string that does not parse gives an invalid date, which is never later than now.\<close>

definition getToken :: "env \<Rightarrow> business \<Rightarrow> string act" where
  "getToken e b =
     (if cfg_mock e then ret ''mock_token''
      else bnd (cached_token (biz_id b)) (\<lambda>cached.
       bnd (now e) (\<lambda>t.
       if (case cached of None \<Rightarrow> False | Some entry \<Rightarrow> token_valid entry t)
       then ret (fst (the cached))
       else
         bnd (lift_sum (getDecryptedCredentials e b)) (\<lambda>creds.
         bnd (axios e (issue_request e creds) ''Failed to obtain Nomba OAuth2 token'') (\<lambda>body.
         bnd (lift_sum (unwrap body)) (\<lambda>tokenData.
         let token = getOr (jfield_str tokenData ''access_token'') ''undefined'';
             expiresAt = Option.bind (jfield_str tokenData ''expiresAt'') (env_parse_date e) in
         seqm (cache_token (biz_id b) (token, expiresAt)) (ret token)))))))"

section \<open>Operations\<close>

record provisionDvaRequest =
  pr_accountRef :: string
  pr_accountName :: string
  pr_bvn :: "string option"
  pr_expiryDate :: "string option"
  pr_expectedAmount :: "rat option"

record provisionDvaResult =
  pd_accountRef :: "string option"
  pd_accountNumber :: "string option"
  pd_bankName :: "string option"
  pd_accountName :: "string option"
  pd_bankAccountName :: "string option"

text \<open>The random digits of the mock come from the environment's random source.\<close>

definition mockProvisionDva :: "env \<Rightarrow> provisionDvaResult act" where
  "mockProvisionDva e =
     bnd (now e) (\<lambda>t.
     bnd (randomBytes e) (\<lambda>randomDigits.
     ret \<lparr>pd_accountRef = Some (''mock_ref_'' @ show_int t), pd_accountNumber = Some (''990'' @ randomDigits),
          pd_bankName = Some ''Nombank MFB (Mock)'', pd_accountName = Some ''Mock Account'',
          pd_bankAccountName = Some ''Nomba/Mock Account''\<rparr>))"

definition dva_body :: "provisionDvaRequest \<Rightarrow> json" where
  "dva_body dto = jobj
     [(''accountRef'', Some (JStr (pr_accountRef dto))), (''accountName'', Some (JStr (pr_accountName dto))),
      (''bvn'', if str_truthy (pr_bvn dto) then map_option JStr (pr_bvn dto) else None),
      (''expiryDate'', if str_truthy (pr_expiryDate dto) then map_option JStr (pr_expiryDate dto) else None),
      (''expectedAmount'', map_option JNum (pr_expectedAmount dto))]"

definition provisionDva :: "env \<Rightarrow> business \<Rightarrow> provisionDvaRequest \<Rightarrow> provisionDvaResult act" where
  "provisionDva e b dto =
     (if cfg_mock e then mockProvisionDva e
      else
       bnd (getToken e b) (\<lambda>token.
       bnd (lift_sum (getNombaAccountId b)) (\<lambda>accountId.
       bnd (lift_sum (getNombaSubAccountId b)) (\<lambda>subAccountId.
       bnd (axios e (HttpReq ''POST'' (url e (''/v1/accounts/virtual/'' @ subAccountId))
              (authHeaders token accountId) (dva_body dto)) ''Nomba DVA provisioning failed'') (\<lambda>body.
       bnd (lift_sum (unwrap body)) (\<lambda>d.
       ret \<lparr>pd_accountRef = jfield_str d ''accountRef'', pd_accountNumber = jfield_str d ''bankAccountNumber'',
            pd_bankName = jfield_str d ''bankName'', pd_accountName = jfield_str d ''accountName'',
            pd_bankAccountName = jfield_str d ''bankAccountName''\<rparr>))))))"

record transferResult =
  tr_transactionRef :: "json option"
  tr_status :: "json option"
  tr_amount :: "json option"
  tr_fee :: "json option"

record transferFundsRequest =
  tf_amount :: rat
  tf_receiverAccountId :: string
  tf_merchantTxRef :: string
  tf_narration :: "string option"

definition mock_result :: "env \<Rightarrow> string \<Rightarrow> rat \<Rightarrow> transferResult act" where
  "mock_result e pre amount =
     bnd (now e) (\<lambda>t.
     ret \<lparr>tr_transactionRef = Some (JStr (pre @ show_int t)), tr_status = Some (JStr ''SUCCESS''),
          tr_amount = Some (JNum amount), tr_fee = Some (JNum 0)\<rparr>)"

definition mockTransferFunds :: "env \<Rightarrow> transferFundsRequest \<Rightarrow> transferResult act" where
  "mockTransferFunds e dto = mock_result e ''mock_txn_'' (tf_amount dto)"

definition transfer_result :: "json \<Rightarrow> transferResult" where
  "transfer_result d =
     \<lparr>tr_transactionRef = jget d ''id'', tr_status = jget d ''status'', tr_amount = jget d ''amount'',
      tr_fee = jget d ''fee''\<rparr>"

definition transferFunds :: "env \<Rightarrow> business \<Rightarrow> transferFundsRequest \<Rightarrow> transferResult act" where
  "transferFunds e b dto =
     (if cfg_mock e then mockTransferFunds e dto
      else
       bnd (getToken e b) (\<lambda>token.
       bnd (lift_sum (getNombaAccountId b)) (\<lambda>accountId.
       bnd (axios e (HttpReq ''POST'' (url e ''/v2/transfers/wallet'') (authHeaders token accountId)
              (JObj [(''amount'', JNum (tf_amount dto)),
                     (''receiverAccountId'', JStr (tf_receiverAccountId dto)),
                     (''merchantTxRef'', JStr (tf_merchantTxRef dto)),
                     (''narration'', JStr (getOr (tf_narration dto) ''AccountOS transfer''))]))
              ''Nomba wallet transfer failed'') (\<lambda>body.
       bnd (lift_sum (unwrap body)) (\<lambda>d. ret (transfer_result d))))))"

record bankTransferRequest =
  bt_amount :: rat
  bt_accountNumber :: string
  bt_accountName :: string
  bt_bankCode :: string
  bt_merchantTxRef :: string
  bt_narration :: "string option"

definition mockBankTransfer :: "env \<Rightarrow> bankTransferRequest \<Rightarrow> transferResult act" where
  "mockBankTransfer e dto = mock_result e ''mock_bank_txn_'' (bt_amount dto)"

definition bank_request :: "env \<Rightarrow> string \<Rightarrow> string \<Rightarrow> bankTransferRequest \<Rightarrow> http_req" where
  "bank_request e token accountId dto =
     HttpReq ''POST'' (url e ''/v2/transfers/bank'') (authHeaders token accountId)
       (JObj [(''amount'', JNum (bt_amount dto)), (''accountNumber'', JStr (bt_accountNumber dto)),
              (''accountName'', JStr (bt_accountName dto)), (''bankCode'', JStr (bt_bankCode dto)),
              (''merchantTxRef'', JStr (bt_merchantTxRef dto)),
              (''narration'', JStr (getOr (bt_narration dto) ''AccountOS payout''))])"

definition bankTransfer :: "env \<Rightarrow> business \<Rightarrow> bankTransferRequest \<Rightarrow> transferResult act" where
  "bankTransfer e b dto =
     (if cfg_mock e then mockBankTransfer e dto
      else
       bnd (getToken e b) (\<lambda>token.
       bnd (lift_sum (getNombaAccountId b)) (\<lambda>accountId.
       bnd (axios e (bank_request e token accountId dto) ''Nomba bank transfer failed'') (\<lambda>body.
       bnd (lift_sum (unwrap body)) (\<lambda>d. ret (transfer_result d))))))"

definition expireAccount :: "env \<Rightarrow> business \<Rightarrow> string \<Rightarrow> unit act" where
  "expireAccount e b accountIdentifier =
     (if cfg_mock e then ret ()
      else
       bnd (getToken e b) (\<lambda>token.
       bnd (lift_sum (getNombaAccountId b)) (\<lambda>accountId.
       seqm (axios e (HttpReq ''DELETE'' (url e (''/v1/accounts/virtual/'' @ accountIdentifier))
              (authHeaders token accountId) JNull) ''Nomba account expiry failed'')
         (ret ()))))"

section \<open>A call to the outside leaves the database alone\<close>

locale outside_call =
  fixes call :: "'a act"
  assumes call_frame: "db (snd (call w)) = db w"
begin

lemma call_keeps_db: "keeps_db J call"
  by (simp add: keeps_def call_frame)

lemma call_wp: "(\<And>x. Q x d) \<Longrightarrow> E d \<Longrightarrow> wp d Q E call"
  using call_frame by (auto simp: wp_def split: prod.split sum.split) (metis snd_conv)+

end

lemma frame_from_keeps: "(\<And>d. keeps_db (\<lambda>d'. d' = d) m) \<Longrightarrow> db (snd (m w)) = db w"
  by (auto simp: keeps_def)

lemma keeps_cache [keeps_intro]:
  "keeps_db J (cached_token i)" "keeps_db J (cache_token i x)"
  by (simp_all add: keeps_def cached_token_def cache_token_def)

lemma keeps_case_http [keeps_intro]:
  "(\<And>s b. v = HttpResp s b \<Longrightarrow> keeps P (f s b)) \<Longrightarrow> (\<And>m. v = NetError m \<Longrightarrow> keeps P (g m)) \<Longrightarrow>
     keeps P (case v of HttpResp s b \<Rightarrow> f s b | NetError m \<Rightarrow> g m)"
  by (cases v) auto

lemma axios_keeps_db [keeps_intro]: "keeps_db J (axios e r m)"
  unfolding axios_def by (intro keeps_intro)

lemma getToken_keeps_db [keeps_intro]: "keeps_db J (getToken e b)"
  unfolding getToken_def by (intro keeps_intro)

interpretation bankTransfer: outside_call "bankTransfer e b dto" for e b dto
  by unfold_locales (rule frame_from_keeps,
    unfold bankTransfer_def mockBankTransfer_def mock_result_def, intro keeps_intro)

interpretation transferFunds: outside_call "transferFunds e b dto" for e b dto
  by unfold_locales (rule frame_from_keeps,
    unfold transferFunds_def mockTransferFunds_def mock_result_def, intro keeps_intro)

interpretation provisionDva: outside_call "provisionDva e b dto" for e b dto
  by unfold_locales (rule frame_from_keeps,
    unfold provisionDva_def mockProvisionDva_def, intro keeps_intro)

interpretation expireAccount: outside_call "expireAccount e b i" for e b i
  by unfold_locales (rule frame_from_keeps, unfold expireAccount_def, intro keeps_intro)

lemmas nomba_keeps [keeps_intro] =
  bankTransfer.call_keeps_db transferFunds.call_keeps_db provisionDva.call_keeps_db
  expireAccount.call_keeps_db

lemmas nomba_wp [wp_rules] =
  bankTransfer.call_wp transferFunds.call_wp provisionDva.call_wp expireAccount.call_wp

section \<open>Properties\<close>

text \<open>In mock mode no operation of the client sends an HTTP request, touches the database or the
  token cache, and none of them throws.\<close>

theorem mock_mode_offline:
  assumes "cfg_mock e"
  shows "outbox (snd (bankTransfer e b bt w)) = outbox w \<and> \<not> isl (fst (bankTransfer e b bt w)) \<and>
    outbox (snd (transferFunds e b tf w)) = outbox w \<and> \<not> isl (fst (transferFunds e b tf w)) \<and>
    outbox (snd (provisionDva e b pr w)) = outbox w \<and> \<not> isl (fst (provisionDva e b pr w)) \<and>
    outbox (snd (expireAccount e b i w)) = outbox w \<and> \<not> isl (fst (expireAccount e b i w)) \<and>
    fst (getToken e b w) = Inr ''mock_token'' \<and> snd (getToken e b w) = w"
  using assms
  by (simp add: bankTransfer_def mockBankTransfer_def transferFunds_def mockTransferFunds_def
      mock_result_def provisionDva_def mockProvisionDva_def expireAccount_def getToken_def
      bnd_def now_def randomBytes_def ret_def)

theorem mock_mode_offline_witness:
  "outbox (snd (expireAccount demo_env demo_business ''x'' demo_world)) = []"
  using mock_mode_offline [of demo_env] by (simp add: demo_defs)

text \<open>Outside mock mode a cached token is reused exactly while it has more than 60 seconds left: then
  no request is sent; otherwise a token that is returned came from a request to the token endpoint and
  is the one the cache now holds.\<close>

theorem getToken_cache:
  assumes "\<not> cfg_mock e"
  shows "(\<forall>t x. tokenCache w (biz_id b) = Some (t, Some x) \<and> env_now e (tick w) < x - 60000 \<longrightarrow>
            getToken e b w = (Inr t, w)) \<and>
    (\<forall>t w'. (case tokenCache w (biz_id b) of None \<Rightarrow> True
              | Some entry \<Rightarrow> \<not> token_valid entry (env_now e (tick w))) \<and>
            getToken e b w = (Inr t, w') \<longrightarrow>
            (\<exists>creds x. outbox w' = outbox w @ [issue_request e creds] \<and>
               getDecryptedCredentials e b = Inr creds \<and> tokenCache w' (biz_id b) = Some (t, x)))"
proof (intro conjI allI impI)
  fix t x assume "tokenCache w (biz_id b) = Some (t, Some x) \<and> env_now e (tick w) < x - 60000"
  then show "getToken e b w = (Inr t, w)"
    using assms by (simp add: getToken_def bnd_def cached_token_def now_def token_valid_def ret_def)
next
  fix t w'
  assume "(case tokenCache w (biz_id b) of None \<Rightarrow> True
      | Some entry \<Rightarrow> \<not> token_valid entry (env_now e (tick w))) \<and> getToken e b w = (Inr t, w')"
  then show "\<exists>creds x. outbox w' = outbox w @ [issue_request e creds] \<and>
      getDecryptedCredentials e b = Inr creds \<and> tokenCache w' (biz_id b) = Some (t, x)"
    using assms
    by (auto simp: getToken_def cached_token_def cache_token_def now_def ret_def throw_def lift_sum_def
        axios_def http_call_def Let_def elim!: bnd_InrE split: if_splits option.splits http_resp.splits)
qed

definition demo_live_env :: env where
  "demo_live_env = demo_env\<lparr>cfg_mock := False\<rparr>"

theorem getToken_cache_witness:
  "getToken demo_live_env demo_business
     (demo_world\<lparr>tokenCache := [''b1'' \<mapsto> (''tok'', Some 100000)]\<rparr>) =
   (Inr ''tok'', demo_world\<lparr>tokenCache := [''b1'' \<mapsto> (''tok'', Some 100000)]\<rparr>)"
proof -
  have live: "\<not> cfg_mock demo_live_env" by (simp add: demo_live_env_def)
  let ?w = "demo_world\<lparr>tokenCache := [''b1'' \<mapsto> (''tok'', Some 100000)]\<rparr>"
  from getToken_cache [OF live, of ?w demo_business, THEN conjunct1, rule_format, of "''tok''" 100000]
  show ?thesis by (simp add: demo_live_env_def demo_defs)
qed

end
