(* ===== verification/Allocation_Service.thy ===== *)
theory Allocation_Service
  imports Nomba_Client
begin

text \<open>
  \<open>src/treasury/allocation.service.ts\<close>: crediting a treasury bucket. A credit appends one
  BucketLedgerEntry with the running balance of the bucket, is idempotent on its reference, and is
  retried on serialization failures. The bucket ledger is the second instance of the running-total
  contract; its facts are used by every treasury operation.
\<close>

section \<open>Operations\<close>

definition entry_sum :: "bucket_entry_type \<Rightarrow> string \<Rightarrow> database \<Rightarrow> int" where
  "entry_sum ty bucketId d =
     sum_by ble_amountKobo
       (filter (\<lambda>r. ble_bucketId r = bucketId \<and> ble_entryType r = ty) (t_bucketLedger d))"

definition computeBalance :: "env \<Rightarrow> string \<Rightarrow> int act" where
  "computeBalance e bucketId =
     bnd (query e (entry_sum CREDIT bucketId)) (\<lambda>credit.
     bnd (query e (entry_sum DEBIT bucketId)) (\<lambda>debit.
     ret (credit - debit)))"

text \<open>\<open>runSerializable\<close>: the argument counts the retries that are left (\<open>maxRetries - attempt\<close>).\<close>

fun runSerializable :: "nat \<Rightarrow> 'a act \<Rightarrow> 'a act" where
  "runSerializable 0 fn = catch fn throw"
| "runSerializable (Suc n) fn =
     catch fn (\<lambda>err. if err \<noteq> DbExn P2034 then throw err else runSerializable n fn)"

definition maxRetries :: nat where "maxRetries = 5"

record creditParams =
  cr_bucketId :: string
  cr_businessId :: string
  cr_amountKobo :: int
  cr_reference :: string
  cr_sourceLedgerEntryId :: "string option"
  cr_narration :: "string option"
  cr_sourceAccountRef :: "string option"

definition bucket_row ::
  "string \<Rightarrow> bucket_entry_type \<Rightarrow> int \<Rightarrow> int \<Rightarrow> string \<Rightarrow> string option \<Rightarrow> string option \<Rightarrow>
   string \<Rightarrow> int \<Rightarrow> bucketLedgerEntry" where
  "bucket_row bucketId ty amount cumulative reference source narration i t = \<lparr>
     ble_id = i, ble_bucketId = bucketId, ble_entryType = ty, ble_amountKobo = amount,
     ble_cumulativeAmountKobo = cumulative, ble_reference = reference,
     ble_sourceLedgerEntryId = source, ble_narration = narration, ble_createdAt = t\<rparr>"

definition credit_tx :: "env \<Rightarrow> creditParams \<Rightarrow> int act" where
  "credit_tx e p = transaction e (
     bnd (query e (\<lambda>d. find (\<lambda>r. ble_reference r = cr_reference p) (t_bucketLedger d))) (\<lambda>existing.
     case existing of
       Some r \<Rightarrow> ret (ble_cumulativeAmountKobo r)
     | None \<Rightarrow>
         bnd (computeBalance e (cr_bucketId p)) (\<lambda>balance.
         let newBalance = balance + cr_amountKobo p in
         seqm (create_bucketLedgerEntry e
                 (bucket_row (cr_bucketId p) CREDIT (cr_amountKobo p) newBalance (cr_reference p)
                    (cr_sourceLedgerEntryId p) (cr_narration p)))
           (ret newBalance))))"

text \<open>The rest of the transaction from the point where the balance has been read.\<close>

definition credit_write :: "env \<Rightarrow> creditParams \<Rightarrow> int \<Rightarrow> int act" where
  "credit_write e p balance = (
     let newBalance = balance + cr_amountKobo p in
     seqm (create_bucketLedgerEntry e
             (bucket_row (cr_bucketId p) CREDIT (cr_amountKobo p) newBalance (cr_reference p)
                (cr_sourceLedgerEntryId p) (cr_narration p)))
       (ret newBalance))"

lemma credit_tx_read:
  "credit_tx e p = transaction e (
     bnd (query e (\<lambda>d. find (\<lambda>r. ble_reference r = cr_reference p) (t_bucketLedger d))) (\<lambda>existing.
     case existing of
       Some r \<Rightarrow> ret (ble_cumulativeAmountKobo r)
     | None \<Rightarrow> bnd (computeBalance e (cr_bucketId p)) (credit_write e p)))"
  unfolding credit_tx_def credit_write_def ..

definition credit :: "env \<Rightarrow> creditParams \<Rightarrow> int act" where
  "credit e p =
     bnd (runSerializable maxRetries (credit_tx e p)) (\<lambda>cumulative.
     seqm (AuditService_log e ((auditParams ''system'' ALLOCATE_FUNDS)\<lparr>
             alp_businessId := Some (cr_businessId p),
             alp_metadata := Some (jobj
               [(''bucketId'', Some (JStr (cr_bucketId p))),
                (''amountKobo'', Some (JStr (show_int (cr_amountKobo p)))),
                (''reference'', Some (JStr (cr_reference p))),
                (''sourceAccountRef'', map_option JStr (cr_sourceAccountRef p)),
                (''cumulativeAmountKobo'', Some (JStr (show_int cumulative)))])\<rparr>))
       (ret cumulative))"

section \<open>The bucket ledger as a running-total ledger\<close>

definition ble_delta :: "bucketLedgerEntry \<Rightarrow> int" where
  "ble_delta r = (case ble_entryType r of CREDIT \<Rightarrow> ble_amountKobo r | DEBIT \<Rightarrow> - ble_amountKobo r)"

definition every_entry :: "bucketLedgerEntry \<Rightarrow> bool" where
  "every_entry r = True"

interpretation bkt: running_ledger ble_bucketId ble_delta ble_cumulativeAmountKobo every_entry
  by unfold_locales (simp add: every_entry_def)

text \<open>The balance of a bucket, credits minus debits.\<close>

definition bucket_total :: "string \<Rightarrow> database \<Rightarrow> int" where
  "bucket_total b d = total_by ble_bucketId ble_delta b (t_bucketLedger d)"

definition bucket_inv :: "database \<Rightarrow> bool" where
  "bucket_inv d =
     (run_ok_by ble_bucketId ble_delta ble_cumulativeAmountKobo every_entry (t_bucketLedger d) \<and>
      distinct (map ble_reference (t_bucketLedger d)))"

lemma entry_sum_diff: "entry_sum CREDIT b d - entry_sum DEBIT b d = bucket_total b d"
proof -
  have "sum_by ble_amountKobo (filter (\<lambda>r. ble_bucketId r = b \<and> ble_entryType r = CREDIT) rs) -
        sum_by ble_amountKobo (filter (\<lambda>r. ble_bucketId r = b \<and> ble_entryType r = DEBIT) rs) =
      total_by ble_bucketId ble_delta b rs" for rs
  proof (induction rs)
    case (Cons r rs)
    then show ?case by (cases "ble_entryType r") (auto simp: total_by_def ble_delta_def)
  qed (simp add: total_by_def)
  then show ?thesis by (simp add: entry_sum_def bucket_total_def)
qed

lemma wp_computeBalance [wp_rules]: "Q (bucket_total b d) d \<Longrightarrow> E d \<Longrightarrow> wp d Q E (computeBalance e b)"
  unfolding computeBalance_def by (intro wp_rules) (simp_all add: entry_sum_diff)

lemma keeps_computeBalance [keeps_intro]: "keeps_db J (computeBalance e b)"
  unfolding computeBalance_def by (intro keeps_intro)

lemma timed_computeBalance [timed_intro]: "tick_mono P \<Longrightarrow> timed P (computeBalance e b)"
  unfolding computeBalance_def by (intro timed_intro)

lemma bucket_row_simps [simp]:
  "ble_bucketId (bucket_row b ty a c ref s nar i t) = b"
  "ble_entryType (bucket_row b ty a c ref s nar i t) = ty"
  "ble_amountKobo (bucket_row b ty a c ref s nar i t) = a"
  "ble_cumulativeAmountKobo (bucket_row b ty a c ref s nar i t) = c"
  "ble_reference (bucket_row b ty a c ref s nar i t) = ref"
  "ble_createdAt (bucket_row b ty a c ref s nar i t) = t"
  "ble_delta (bucket_row b CREDIT a c ref s nar i t) = a"
  "ble_delta (bucket_row b DEBIT a c ref s nar i t) = - a"
  by (simp_all add: bucket_row_def ble_delta_def)

lemma bucket_total_snoc [simp]:
  "bucket_total b (d\<lparr>t_bucketLedger := rs @ [r]\<rparr>) =
     total_by ble_bucketId ble_delta b rs + (if ble_bucketId r = b then ble_delta r else 0)"
  by (simp add: bucket_total_def)

lemma bucket_total_cong: "t_bucketLedger d = t_bucketLedger d' \<Longrightarrow> bucket_total b d = bucket_total b d'"
  by (simp add: bucket_total_def)

text \<open>An entry whose stored total is the balance plus its own contribution keeps the invariant.\<close>

lemma bucket_inv_snoc:
  assumes "bucket_inv d" "\<not> taken ble_reference (t_bucketLedger d) r"
    and "ble_cumulativeAmountKobo r = bucket_total (ble_bucketId r) d + ble_delta r"
  shows "bucket_inv (d\<lparr>t_bucketLedger := t_bucketLedger d @ [r]\<rparr>)"
  using assms by (auto simp: bucket_inv_def bkt.run_ok_snoc taken_def bucket_total_def)

lemma wp_create_bucketLedgerEntry [wp_rules]:
  assumes "\<And>i t. \<not> taken ble_reference (t_bucketLedger d) (mk i t) \<Longrightarrow>
      ble_bucketId (mk i t) \<in> set (map bkt_id (t_bucket d)) \<Longrightarrow>
      Q (mk i t) (d\<lparr>t_bucketLedger := t_bucketLedger d @ [mk i t]\<rparr>)" and "E d"
  shows "wp d Q E (create_bucketLedgerEntry e mk)"
  unfolding create_bucketLedgerEntry_def
  by (rule wp_create_row) (auto intro!: assms simp: missing_def split: if_splits)

section \<open>Retries\<close>

lemma keeps_runSerializable [keeps_intro]: "keeps P fn \<Longrightarrow> keeps P (runSerializable n fn)"
  by (induction n) (auto intro!: keeps_intro)

lemma timed_runSerializable [timed_intro]: "timed P fn \<Longrightarrow> timed P (runSerializable n fn)"
  by (induction n) (auto intro!: timed_intro)

lemma wp_runSerializable:
  assumes "\<And>d. I d \<Longrightarrow> wp d Q I fn" and "I d" and "\<And>d. I d \<Longrightarrow> E d"
  shows "wp d Q E (runSerializable n fn)"
  using assms(2)
proof (induction n arbitrary: d)
  case 0
  then show ?case
    by (auto intro!: wp_catch wp_throw wp_conseq [OF assms(1)] simp: assms(3))
next
  case (Suc n)
  show ?case
    by (auto intro!: wp_catch wp_if wp_throw wp_conseq [OF assms(1)] simp: assms(3) Suc)
qed

section \<open>Creation times\<close>

text \<open>
  \<open>orderBy: [createdAt desc, id desc]\<close> picks the entry that was inserted last as long as the entries
  carry increasing instants, which a strictly increasing clock gives.
\<close>

fun str_less :: "string \<Rightarrow> string \<Rightarrow> bool" where
  "str_less _ [] = False"
| "str_less [] (y # ys) = True"
| "str_less (x # xs) (y # ys) =
     ((of_char x :: nat) < of_char y \<or> (x = y \<and> str_less xs ys))"

definition newer_entry :: "bucketLedgerEntry \<Rightarrow> bucketLedgerEntry \<Rightarrow> bool" where
  "newer_entry a b =
     (ble_createdAt b < ble_createdAt a \<or>
      (ble_createdAt a = ble_createdAt b \<and> str_less (ble_id b) (ble_id a)))"

definition in_order :: "database \<Rightarrow> bool" where
  "in_order d = sorted_wrt (\<lambda>a b. ble_createdAt a < ble_createdAt b) (t_bucketLedger d)"

definition clock_inv :: "env \<Rightarrow> nat \<Rightarrow> database \<Rightarrow> bool" where
  "clock_inv e n d =
     (in_order d \<and> (\<forall>r \<in> set (t_bucketLedger d). ble_createdAt r < env_now e n))"

lemma newest_in_order:
  assumes "sorted_wrt (\<lambda>a b. ble_createdAt a < ble_createdAt b) rs"
  shows "newest newer_entry (filter (\<lambda>r. ble_bucketId r = b) rs) =
    latest_by ble_bucketId every_entry b rs"
  using assms
proof (induction rs rule: rev_induct)
  case Nil
  then show ?case by (simp add: latest_by_def)
next
  case (snoc r rs)
  have e: "every_entry r" by (simp add: every_entry_def)
  have older: "newer_entry r x" if "x \<in> set rs" for x
    using snoc.prems that by (simp add: sorted_wrt_append newer_entry_def)
  have "newest newer_entry (filter (\<lambda>r. ble_bucketId r = b) rs @ [r]) = Some r"
    by (rule newest_snoc_last) (simp add: older)
  with snoc e show ?case by (simp add: sorted_wrt_append bkt.latest_snoc)
qed

lemma tick_mono_clock: "strict_mono (env_now e) \<Longrightarrow> tick_mono (clock_inv e)"
proof -
  assume "strict_mono (env_now e)"
  then have "x < env_now e n \<Longrightarrow> x < env_now e (Suc n)" for x n
    using strict_monoD [of "env_now e" n "Suc n"] by simp
  then show ?thesis by (auto simp: tick_mono_def clock_inv_def)
qed

lemma clock_inv_snoc:
  assumes "strict_mono (env_now e)" "clock_inv e n d" "ble_createdAt r = env_now e n"
  shows "clock_inv e (Suc n) (d\<lparr>t_bucketLedger := t_bucketLedger d @ [r]\<rparr>)"
proof -
  have "env_now e n < env_now e (Suc n)" using assms(1) by (simp add: strict_mono_def)
  with assms(2,3) show ?thesis
    by (fastforce simp: clock_inv_def in_order_def sorted_wrt_append)
qed

lemma clock_inv_frame:
  "t_bucketLedger d' = t_bucketLedger d \<Longrightarrow> clock_inv e n d' = clock_inv e n d"
  by (simp add: clock_inv_def in_order_def)

lemma timed_create_bucket_entry [timed_intro]:
  "strict_mono (env_now e) \<Longrightarrow>
     timed (clock_inv e) (create_bucketLedgerEntry e (bucket_row b ty a c ref s nar))"
  unfolding create_bucketLedgerEntry_def
  by (rule timed_create_row [OF tick_mono_clock]) (auto intro: clock_inv_snoc)

section \<open>Lemmas on credit\<close>

lemma credit_tx_wp:
  assumes "\<And>r. find (\<lambda>r. ble_reference r = cr_reference p) (t_bucketLedger d) = Some r \<Longrightarrow>
      Q (ble_cumulativeAmountKobo r) d"
    and "\<And>r. ble_reference r = cr_reference p \<Longrightarrow> \<not> taken ble_reference (t_bucketLedger d) r \<Longrightarrow>
      ble_bucketId r = cr_bucketId p \<Longrightarrow> ble_delta r = cr_amountKobo p \<Longrightarrow>
      ble_cumulativeAmountKobo r = bucket_total (cr_bucketId p) d + cr_amountKobo p \<Longrightarrow>
      Q (bucket_total (cr_bucketId p) d + cr_amountKobo p)
        (d\<lparr>t_bucketLedger := t_bucketLedger d @ [r]\<rparr>)"
    and "E d"
  shows "wp d Q E (credit_tx e p)"
  unfolding credit_tx_def by (intro wp_rules TrueI assms) simp_all

lemma credit_wp:
  assumes "\<And>r. find (\<lambda>r. ble_reference r = cr_reference p) (t_bucketLedger d) = Some r \<Longrightarrow>
      Q (ble_cumulativeAmountKobo r) d"
    and "\<And>r. ble_reference r = cr_reference p \<Longrightarrow> \<not> taken ble_reference (t_bucketLedger d) r \<Longrightarrow>
      ble_bucketId r = cr_bucketId p \<Longrightarrow> ble_delta r = cr_amountKobo p \<Longrightarrow>
      ble_cumulativeAmountKobo r = bucket_total (cr_bucketId p) d + cr_amountKobo p \<Longrightarrow>
      Q (bucket_total (cr_bucketId p) d + cr_amountKobo p)
        (d\<lparr>t_bucketLedger := t_bucketLedger d @ [r]\<rparr>)"
    and "E d"
  shows "wp d Q E (credit e p)"
  unfolding credit_def
  by (intro wp_bnd wp_runSerializable [where I = "\<lambda>d'. d' = d"]; (simp add: assms(3))?)
    (auto intro!: credit_tx_wp wp_rules audit.log_wp assms)

lemma credit_keeps: "keeps_db bucket_inv (credit e p)"
  by (rule keeps_from_wp, rule credit_wp) (auto intro!: bucket_inv_snoc)

lemma credit_timed:
  assumes "strict_mono (env_now e)"
  shows "timed (clock_inv e) (credit e p)"
  unfolding credit_def credit_tx_def
  by (intro timed_intro tick_mono_clock assms)

section \<open>Properties\<close>

text \<open>When \<open>credit\<close> returns, either its reference was already in the bucket ledger, nothing was written
  and the stored balance of that entry is returned, or exactly one entry was appended, the returned
  value is the new balance of the bucket (the old one plus the amount), and no other bucket changed.\<close>

theorem credit_result:
  assumes "credit e p w = (Inr c, w')"
  shows "(\<exists>r \<in> set (t_bucketLedger (db w)). ble_reference r = cr_reference p \<and>
            ble_cumulativeAmountKobo r = c \<and> db w' = db w) \<or>
    (cr_reference p \<notin> set (map ble_reference (t_bucketLedger (db w))) \<and>
     (\<exists>r. db w' = (db w)\<lparr>t_bucketLedger := t_bucketLedger (db w) @ [r]\<rparr>) \<and>
     c = bucket_total (cr_bucketId p) (db w) + cr_amountKobo p \<and>
     (\<forall>b. bucket_total b (db w') =
        bucket_total b (db w) + (if b = cr_bucketId p then cr_amountKobo p else 0)))"
proof -
  let ?Q = "\<lambda>c d. (\<exists>r \<in> set (t_bucketLedger (db w)). ble_reference r = cr_reference p \<and>
            ble_cumulativeAmountKobo r = c \<and> d = db w) \<or>
    (cr_reference p \<notin> set (map ble_reference (t_bucketLedger (db w))) \<and>
     (\<exists>r. d = (db w)\<lparr>t_bucketLedger := t_bucketLedger (db w) @ [r]\<rparr>) \<and>
     c = bucket_total (cr_bucketId p) (db w) + cr_amountKobo p \<and>
     (\<forall>b. bucket_total b d =
        bucket_total b (db w) + (if b = cr_bucketId p then cr_amountKobo p else 0)))"
  have "wp (db w) ?Q (\<lambda>_. True) (credit e p)"
    by (rule credit_wp) (auto simp: find_Some_iff taken_def bucket_total_def)
  from wpD_Inr [OF this refl assms] show ?thesis .
qed

definition demo_credit :: creditParams where
  "demo_credit = \<lparr>cr_bucketId = ''bk1'', cr_businessId = ''b1'', cr_amountKobo = 700,
     cr_reference = ''ref1'', cr_sourceLedgerEntryId = None, cr_narration = None,
     cr_sourceAccountRef = None\<rparr>"

definition demo_credited :: world where
  "demo_credited = snd (credit demo_env demo_credit demo_world)"

theorem credit_result_witness:
  "\<exists>c. fst (credit demo_env demo_credit demo_world) = Inr c \<and> c = 700 \<and>
     bucket_total ''bk1'' (db demo_credited) = 700"
proof -
  have "fst (credit demo_env demo_credit demo_world) = Inr 700" by code_simp
  from fst_run [OF this] have ok: "credit demo_env demo_credit demo_world = (Inr 700, demo_credited)"
    by (simp add: demo_credited_def)
  from credit_result [OF ok] show ?thesis
    by (simp add: ok) (auto simp: demo_defs demo_credit_def bucket_total_def)
qed

text \<open>C17: a credit is idempotent: once it has returned, repeating it on the resulting database (a replayed
  webhook job) returns the same balance and changes no table.\<close>

theorem credit_idempotent:
  assumes "credit e p w = (Inr c, w1)" and "db w2 = db w1" and "credit e p w2 = (Inr c', w3)"
  shows "c' = c \<and> db w3 = db w1"
proof -
  have "wp (db w) (\<lambda>c d. map_option ble_cumulativeAmountKobo
      (find (\<lambda>r. ble_reference r = cr_reference p) (t_bucketLedger d)) = Some c) (\<lambda>_. True) (credit e p)"
  proof (rule credit_wp)
    fix r assume r: "ble_reference r = cr_reference p" "\<not> taken ble_reference (t_bucketLedger (db w)) r"
      "ble_cumulativeAmountKobo r = bucket_total (cr_bucketId p) (db w) + cr_amountKobo p"
    have "find (\<lambda>r. ble_reference r = cr_reference p) (t_bucketLedger (db w) @ [r]) = Some r"
      by (rule find_snoc) (use r in \<open>auto simp: taken_def image_iff\<close>)
    with r show "map_option ble_cumulativeAmountKobo (find (\<lambda>r. ble_reference r = cr_reference p)
        (t_bucketLedger ((db w)\<lparr>t_bucketLedger := t_bucketLedger (db w) @ [r]\<rparr>))) =
        Some (bucket_total (cr_bucketId p) (db w) + cr_amountKobo p)"
      by simp
  qed auto
  from wpD_Inr [OF this refl assms(1)]
  obtain r where r: "find (\<lambda>r. ble_reference r = cr_reference p) (t_bucketLedger (db w2)) = Some r"
      "ble_cumulativeAmountKobo r = c"
    using assms(2) by auto
  have "wp (db w2) (\<lambda>c' d. c' = c \<and> d = db w2) (\<lambda>_. True) (credit e p)"
    by (rule credit_wp) (use r in \<open>auto simp: taken_def image_iff dest!: find_SomeD\<close>)
  from wpD_Inr [OF this refl assms(3)] assms(2) show ?thesis by simp
qed

theorem credit_idempotent_witness:
  "fst (credit demo_env demo_credit demo_credited) = Inr 700 \<and>
   db (snd (credit demo_env demo_credit demo_credited)) = db demo_credited"
proof -
  have "fst (credit demo_env demo_credit demo_world) = Inr 700" by code_simp
  from fst_run [OF this] have ok: "credit demo_env demo_credit demo_world = (Inr 700, demo_credited)"
    by (simp add: demo_credited_def)
  let ?m = "credit demo_env demo_credit demo_credited"
  have "isl (fst ?m) = False" by code_simp
  then have "?m = (Inr (projr (fst ?m)), snd ?m)" by (intro fst_run) (cases "fst ?m", auto)
  from credit_idempotent [OF ok refl this] \<open>isl (fst ?m) = False\<close> show ?thesis
    by (cases "fst ?m") auto
qed

text \<open>\<open>runSerializable\<close> replays exactly the serialization failures: after \<open>k\<close> failures with P2034 it
  returns what the next attempt gives, as long as \<open>k\<close> does not exceed the retries; when every one of
  the \<open>n + 1\<close> attempts fails with P2034, the failure is thrown. So \<open>credit\<close> makes at most six attempts.\<close>

theorem runSerializable_attempts:
  assumes "\<And>i. i < k \<Longrightarrow> fn (ws i) = (Inl (DbExn P2034), ws (Suc i))" and "k \<le> n"
  shows "(\<forall>r w'. fn (ws k) = (r, w') \<and> r \<noteq> Inl (DbExn P2034) \<longrightarrow>
            runSerializable n fn (ws 0) = (r, w')) \<and>
    (k = n \<and> fn (ws n) = (Inl (DbExn P2034), ws (Suc n)) \<longrightarrow>
       runSerializable n fn (ws 0) = (Inl (DbExn P2034), ws (Suc n)))"
  using assms
proof (induction k arbitrary: ws n)
  case 0
  then show ?case by (cases n) (auto simp: catch_def throw_def split: sum.split)
next
  case (Suc k)
  obtain m where n: "n = Suc m" using Suc.prems(2) by (cases n) auto
  have "fn (ws 0) = (Inl (DbExn P2034), ws (Suc 0))" using Suc.prems(1) by blast
  then have step: "runSerializable n fn (ws 0) = runSerializable m fn (ws (Suc 0))"
    by (simp add: n catch_def)
  have "\<And>i. i < k \<Longrightarrow> fn (ws (Suc i)) = (Inl (DbExn P2034), ws (Suc (Suc i)))" "k \<le> m"
    using Suc.prems n by auto
  from Suc.IH [of "ws \<circ> Suc" m] this show ?case
    unfolding step by (auto simp: n)
qed

text \<open>An environment whose first commit fails with a serialization failure.\<close>

definition demo_conflict_env :: env where
  "demo_conflict_env = demo_env\<lparr>env_fault := (\<lambda>n. if n = 4 then Some P2034 else None)\<rparr>"

theorem runSerializable_attempts_witness:
  "fst (runSerializable 5 (credit_tx demo_conflict_env demo_credit) demo_world) = Inr 700"
proof -
  let ?fn = "credit_tx demo_conflict_env demo_credit"
  let ?ws = "\<lambda>i :: nat. if i = 0 then demo_world else snd (?fn demo_world)"
  have "fst (?fn demo_world) = Inl (DbExn P2034)" by code_simp
  from fst_run [OF this] have fail: "?fn (?ws i) = (Inl (DbExn P2034), ?ws (Suc i))" if "i < 1" for i
    using that by simp
  have "fst (?fn (snd (?fn demo_world))) = Inr 700" by code_simp
  from fst_run [OF this]
  have ok: "?fn (?ws 1) = (Inr 700, snd (?fn (snd (?fn demo_world))))" by simp
  have "runSerializable 5 ?fn (?ws 0) = (Inr 700, snd (?fn (snd (?fn demo_world))))"
    by (rule runSerializable_attempts [of 1 ?fn ?ws 5, THEN conjunct1, rule_format])
      (use fail ok in simp_all)
  then show ?thesis by simp
qed

end
