(* ===== verification/Settlement_Service.thy ===== *)
theory Settlement_Service
  imports Allocation_Service
begin

text \<open>
  \<open>src/treasury/settlement.service.ts\<close>: the settlement lifecycle. A settlement first reserves its
  amount (PENDING) under the lock of its bucket, is marked PROCESSING, executes outside the
  transaction, and ends COMPLETED with a DEBIT entry or FAILED without one. The operations of the
  lifecycle are separate definitions, because other requests run between them.
\<close>

record createSettlementDto =
  cs_amountKobo :: rat
  cs_destinationType :: "string option"
  cs_destinationAccountName :: "string option"
  cs_destinationAccountNumber :: "string option"
  cs_destinationBankCode :: "string option"
  cs_destinationBucketRef :: "string option"
  cs_narration :: "string option"

section \<open>Lookup and balance helpers\<close>

definition find_bucket :: "string \<Rightarrow> string \<Rightarrow> database \<Rightarrow> treasuryBucket option" where
  "find_bucket bucketRef businessId d = find (\<lambda>b. bkt_key b = (businessId, bucketRef)) (t_bucket d)"

definition not_found_message :: "string \<Rightarrow> string" where
  "not_found_message bucketRef =
     ''Treasury bucket '' @ [CHR 0x27] @ bucketRef @ [CHR 0x27] @ '' not found''"

definition SettlementService_resolveBucket :: "env \<Rightarrow> string \<Rightarrow> string \<Rightarrow> treasuryBucket act" where
  "SettlementService_resolveBucket e bucketRef businessId =
     bnd (query e (find_bucket bucketRef businessId)) (\<lambda>bucket.
     case bucket of
       None \<Rightarrow> throw (BadRequest BUCKET_NOT_FOUND (not_found_message bucketRef))
     | Some b \<Rightarrow> ret b)"

text \<open>\<open>SELECT ... FOR UPDATE\<close>: the lock orders transactions; the row it reads is the current one.\<close>

definition SettlementService_lockBucket :: "env \<Rightarrow> string \<Rightarrow> string \<Rightarrow> treasuryBucket act" where
  "SettlementService_lockBucket e bucketRef businessId =
     bnd (query e (find_bucket bucketRef businessId)) (\<lambda>rows.
     case rows of
       None \<Rightarrow> throw (BadRequest BUCKET_NOT_FOUND (not_found_message bucketRef))
     | Some b \<Rightarrow> ret b)"

definition latestBalance :: "env \<Rightarrow> string \<Rightarrow> int act" where
  "latestBalance e bucketId =
     bnd (query e (\<lambda>d. newest newer_entry
            (filter (\<lambda>r. ble_bucketId r = bucketId) (t_bucketLedger d)))) (\<lambda>latest.
     ret (case latest of None \<Rightarrow> 0 | Some r \<Rightarrow> ble_cumulativeAmountKobo r))"

definition is_reserving :: "settlement \<Rightarrow> bool" where
  "is_reserving s = (stl_status s = StPENDING \<or> stl_status s = StPROCESSING)"

definition reserved_sum :: "string \<Rightarrow> database \<Rightarrow> int" where
  "reserved_sum bucketId d =
     sum_by stl_amountKobo (filter (\<lambda>s. stl_bucketId s = bucketId \<and> is_reserving s) (t_settlement d))"

definition reservedKobo :: "env \<Rightarrow> string \<Rightarrow> int act" where
  "reservedKobo e bucketId = query e (reserved_sum bucketId)"

section \<open>Reservation\<close>

fun parse_destination :: "string \<Rightarrow> settlement_destination option" where
  "parse_destination s =
     (if s = ''BANK_ACCOUNT'' then Some BANK_ACCOUNT
      else if s = ''NOMBA_ACCOUNT'' then Some NOMBA_ACCOUNT
      else if s = ''INTERNAL_BUCKET'' then Some INTERNAL_BUCKET
      else if s = ''WEBHOOK'' then Some WEBHOOK
      else None)"

text \<open>The destination of a settlement: the request's fields win over the bucket's saved ones.\<close>

record destination =
  dst_type :: string
  dst_accountName :: "string option"
  dst_accountNumber :: "string option"
  dst_bankCode :: "string option"
  dst_bucketRef :: "string option"

definition resolve_destination :: "createSettlementDto \<Rightarrow> treasuryBucket \<Rightarrow> destination" where
  "resolve_destination dto bucket = \<lparr>
     dst_type = getOr (orElse (cs_destinationType dto) (map_option show_destination (bkt_settlementType bucket)))
                  ''BANK_ACCOUNT'',
     dst_accountName = orElse (cs_destinationAccountName dto) (bkt_settlementAccountName bucket),
     dst_accountNumber = orElse (cs_destinationAccountNumber dto) (bkt_settlementAccountNumber bucket),
     dst_bankCode = orElse (cs_destinationBankCode dto) (bkt_settlementBankCode bucket),
     dst_bucketRef = cs_destinationBucketRef dto\<rparr>"

definition settlement_row ::
  "string \<Rightarrow> string \<Rightarrow> int \<Rightarrow> settlement_destination \<Rightarrow> destination \<Rightarrow> string \<Rightarrow> string \<Rightarrow> int \<Rightarrow>
   settlement" where
  "settlement_row bucketId businessId amount ty dst actor i t = \<lparr>
     stl_id = i, stl_bucketId = bucketId, stl_businessId = businessId, stl_amountKobo = amount,
     stl_status = StPENDING, stl_destinationType = ty,
     stl_destinationAccountName = dst_accountName dst,
     stl_destinationAccountNumber = dst_accountNumber dst,
     stl_destinationBankCode = dst_bankCode dst, stl_destinationBucketRef = dst_bucketRef dst,
     stl_nombaTransferReference = None, stl_failureReason = None, stl_initiatedBy = actor,
     stl_completedAt = None, stl_createdAt = t\<rparr>"

definition insufficient :: "int \<Rightarrow> int \<Rightarrow> string" where
  "insufficient required available =
     ''Insufficient available balance. Required: '' @ show_int required @
     '' kobo, Available: '' @ show_int available @ '' kobo''"

text \<open>TX1: lock, compare the available balance, create the PENDING settlement, log.\<close>

definition reserve_tx ::
  "env \<Rightarrow> string \<Rightarrow> string \<Rightarrow> int \<Rightarrow> destination \<Rightarrow> string \<Rightarrow> settlement act" where
  "reserve_tx e bucketRef businessId amountKobo dst actor = transaction e (
     bnd (SettlementService_lockBucket e bucketRef businessId) (\<lambda>locked.
     bnd (latestBalance e (bkt_id locked)) (\<lambda>ledgerBalance.
     bnd (reservedKobo e (bkt_id locked)) (\<lambda>reserved.
     let available = ledgerBalance - reserved in
     if available < amountKobo
     then throw (Unprocessable INSUFFICIENT_BUCKET_BALANCE (insufficient amountKobo available))
     else
       (case parse_destination (dst_type dst) of
          None \<Rightarrow> throw (DbExn ValidationFailed)
        | Some ty \<Rightarrow>
            bnd (create_settlement e (settlement_row (bkt_id locked) businessId amountKobo ty dst actor))
              (\<lambda>settlement.
            seqm (AuditService_log e ((auditParams actor SETTLEMENT_RESERVED)\<lparr>
                    alp_businessId := Some businessId,
                    alp_metadata := Some (JObj
                      [(''settlementId'', JStr (stl_id settlement)), (''bucketRef'', JStr bucketRef),
                       (''amountKobo'', JNum (of_int amountKobo)),
                       (''destinationType'', JStr (dst_type dst))])\<rparr>))
              (ret settlement)))))))"

definition mark_processing :: "env \<Rightarrow> string \<Rightarrow> settlement act" where
  "mark_processing e i = update_settlement e i (\<lambda>s. s\<lparr>stl_status := StPROCESSING\<rparr>)"

section \<open>Execution\<close>

definition mark_completed :: "env \<Rightarrow> string \<Rightarrow> string \<Rightarrow> settlement act" where
  "mark_completed e settlementId reference =
     bnd (now e) (\<lambda>t.
     update_settlement e settlementId (\<lambda>s. s\<lparr>stl_status := StCOMPLETED,
       stl_nombaTransferReference := Some reference, stl_completedAt := Some t\<rparr>))"

definition settleInternal_tx ::
  "env \<Rightarrow> string \<Rightarrow> string \<Rightarrow> string \<Rightarrow> int \<Rightarrow> string \<Rightarrow> string option \<Rightarrow> string act" where
  "settleInternal_tx e settlementId sourceRef destRef amountKobo businessId narration = transaction e (
     bnd (SettlementService_lockBucket e sourceRef businessId) (\<lambda>source.
     bnd (SettlementService_lockBucket e destRef businessId) (\<lambda>dest.
     bnd (computeBalance e (bkt_id source)) (\<lambda>sourceBalance.
     bnd (computeBalance e (bkt_id dest)) (\<lambda>destBalance.
     bnd (uuidv4 e) (\<lambda>u.
     let ref = ''stl_int_'' @ u in
     seqm (create_bucketLedgerEntry e (bucket_row (bkt_id source) DEBIT amountKobo
             (sourceBalance - amountKobo) (ref @ ''_out'') None narration)) (
     seqm (create_bucketLedgerEntry e (bucket_row (bkt_id dest) CREDIT amountKobo
             (destBalance + amountKobo) (ref @ ''_in'') None narration)) (
     seqm (mark_completed e settlementId ref)
       (ret ref)))))))))"

definition settleInternal ::
  "env \<Rightarrow> string \<Rightarrow> string \<Rightarrow> string \<Rightarrow> int \<Rightarrow> string \<Rightarrow> string \<Rightarrow> string option \<Rightarrow> unit act" where
  "settleInternal e settlementId sourceRef destRef amountKobo businessId actor narration =
     bnd (settleInternal_tx e settlementId sourceRef destRef amountKobo businessId narration) (\<lambda>ref.
     AuditService_log e ((auditParams actor SETTLEMENT_COMPLETED)\<lparr>
       alp_businessId := Some businessId,
       alp_metadata := Some (JObj
         [(''sourceBucketRef'', JStr sourceRef), (''destinationBucketRef'', JStr destRef),
          (''amountKobo'', JStr (show_int amountKobo)), (''reference'', JStr ref),
          (''settlementType'', JStr ''INTERNAL_BUCKET'')])\<rparr>))"

definition complete_tx ::
  "env \<Rightarrow> string \<Rightarrow> string \<Rightarrow> int \<Rightarrow> string \<Rightarrow> string \<Rightarrow> string option \<Rightarrow> unit act" where
  "complete_tx e settlementId bucketRef amountKobo businessId nombaReference narration = transaction e (
     bnd (SettlementService_lockBucket e bucketRef businessId) (\<lambda>locked.
     bnd (latestBalance e (bkt_id locked)) (\<lambda>balance.
     seqm (create_bucketLedgerEntry e (bucket_row (bkt_id locked) DEBIT amountKobo
             (balance - amountKobo) (''stl_'' @ nombaReference) None narration)) (
     seqm (mark_completed e settlementId nombaReference)
       (ret ())))))"

definition completeSettlement ::
  "env \<Rightarrow> string \<Rightarrow> string \<Rightarrow> int \<Rightarrow> string \<Rightarrow> string \<Rightarrow> string \<Rightarrow> string option \<Rightarrow> unit act" where
  "completeSettlement e settlementId bucketRef amountKobo businessId actor nombaReference narration =
     seqm (complete_tx e settlementId bucketRef amountKobo businessId nombaReference narration)
       (AuditService_log e ((auditParams actor SETTLEMENT_COMPLETED)\<lparr>
          alp_businessId := Some businessId,
          alp_metadata := Some (JObj
            [(''settlementId'', JStr settlementId), (''bucketRef'', JStr bucketRef),
             (''amountKobo'', JStr (show_int amountKobo)),
             (''nombaTransferReference'', JStr nombaReference)])\<rparr>))"

definition mark_failed :: "env \<Rightarrow> string \<Rightarrow> string \<Rightarrow> unit act" where
  "mark_failed e settlementId errorMessage =
     catch (seqm (update_settlement e settlementId (\<lambda>s. s\<lparr>stl_status := StFAILED,
              stl_failureReason := Some errorMessage\<rparr>)) (ret ()))
       (\<lambda>_. ret ())"

text \<open>The body of the \<open>try\<close> block of \<open>initiate\<close>.\<close>

definition execute_transfer ::
  "env \<Rightarrow> settlement \<Rightarrow> string \<Rightarrow> destination \<Rightarrow> int \<Rightarrow> string \<Rightarrow> business \<Rightarrow> string \<Rightarrow> string option \<Rightarrow>
   unit act" where
  "execute_transfer e settlement bucketRef dst amountKobo businessId b actor narration =
     (if dst_type dst = ''INTERNAL_BUCKET'' then
        (if \<not> str_truthy (dst_bucketRef dst)
         then throw (BadRequest VALIDATION_ERROR
                ''destinationBucketRef is required for INTERNAL_BUCKET settlements'')
         else settleInternal e (stl_id settlement) bucketRef (the (dst_bucketRef dst)) amountKobo
                businessId actor narration)
      else
        (if \<not> str_truthy (dst_accountNumber dst) \<or> \<not> str_truthy (dst_bankCode dst) \<or>
            \<not> str_truthy (dst_accountName dst)
         then throw (BadRequest VALIDATION_ERROR
                (''Bank destination details required '' @ em_dash @
                 '' provide destinationAccountNumber, destinationBankCode, and destinationAccountName''))
         else
           bnd (uuidv4 e) (\<lambda>u.
           let transactionRef = ''stl_'' @ stl_id settlement @ ''_'' @ take 8 u in
           seqm (bankTransfer e b
                   \<lparr>bt_amount = js_div100 amountKobo, bt_accountNumber = the (dst_accountNumber dst),
                    bt_accountName = the (dst_accountName dst), bt_bankCode = the (dst_bankCode dst),
                    bt_merchantTxRef = transactionRef, bt_narration = narration\<rparr>)
             (completeSettlement e (stl_id settlement) bucketRef amountKobo businessId actor
                transactionRef narration))))"

record settlementResult =
  sr_settlementId :: string
  sr_amountKobo :: rat
  sr_status :: string

text \<open>Everything after the reservation: mark PROCESSING, execute, and on an exception mark FAILED.\<close>

definition finish_settlement ::
  "env \<Rightarrow> settlement \<Rightarrow> string \<Rightarrow> createSettlementDto \<Rightarrow> destination \<Rightarrow> int \<Rightarrow> string \<Rightarrow> business \<Rightarrow> string \<Rightarrow>
   settlementResult act" where
  "finish_settlement e settlement bucketRef dto dst amountKobo businessId b actor =
     seqm (mark_processing e (stl_id settlement)) (
     catch
       (seqm (execute_transfer e settlement bucketRef dst amountKobo businessId b actor (cs_narration dto))
         (ret \<lparr>sr_settlementId = stl_id settlement, sr_amountKobo = cs_amountKobo dto,
               sr_status = ''COMPLETED''\<rparr>))
       (\<lambda>error.
         let errorMessage = exn_message e error in
         seqm (mark_failed e (stl_id settlement) errorMessage) (
         seqm (AuditService_log e ((auditParams ''system'' SETTLEMENT_FAILED)\<lparr>
                 alp_businessId := Some businessId,
                 alp_metadata := Some (JObj
                   [(''settlementId'', JStr (stl_id settlement)), (''bucketRef'', JStr bucketRef),
                    (''amountKobo'', JNum (cs_amountKobo dto)), (''error'', JStr errorMessage)])\<rparr>))
           (if is_http error then throw error
            else throw (BadGateway NOMBA_API_ERROR ''Settlement failed: Nomba API error'')))))"

definition initiate ::
  "env \<Rightarrow> string \<Rightarrow> createSettlementDto \<Rightarrow> string \<Rightarrow> business \<Rightarrow> string \<Rightarrow> settlementResult act" where
  "initiate e bucketRef dto businessId b actor =
     bnd (SettlementService_resolveBucket e bucketRef businessId) (\<lambda>bucket.
     if bkt_status bucket \<noteq> ACTIVE
     then throw (BadRequest ACCOUNT_NOT_ACTIVE
            (''Bucket is not active (status: '' @ show_status (bkt_status bucket) @ '')''))
     else
       bnd (lift_sum (js_BigInt (cs_amountKobo dto))) (\<lambda>amountKobo.
       let dst = resolve_destination dto bucket in
       bnd (reserve_tx e bucketRef businessId amountKobo dst actor) (\<lambda>settlement.
       finish_settlement e settlement bucketRef dto dst amountKobo businessId b actor)))"

section \<open>Queries\<close>

record page_meta =
  pm_total :: nat
  pm_page :: js_num
  pm_limit :: js_num
  pm_totalPages :: js_num

text \<open>\<open>Math.ceil(total / limit)\<close>.\<close>

definition total_pages :: "nat \<Rightarrow> js_num \<Rightarrow> js_num" where
  "total_pages n limit =
     (case limit of
        Fin l \<Rightarrow>
          if l = 0 then (if n = 0 then NaN else PosInf)
          else Fin (of_int \<lceil>to_double (of_nat n / l)\<rceil>)
      | NaN \<Rightarrow> NaN
      | _ \<Rightarrow> Fin 0)"

definition page_info :: "nat \<Rightarrow> js_num \<Rightarrow> js_num \<Rightarrow> page_meta" where
  "page_info n page limit = \<lparr>pm_total = n, pm_page = page, pm_limit = limit,
     pm_totalPages = total_pages n limit\<rparr>"

text \<open>\<open>skip: (page - 1) * limit, take: limit\<close>.\<close>

definition page_skip :: "js_num \<Rightarrow> js_num \<Rightarrow> js_num" where
  "page_skip page limit =
     (case (page, limit) of
        (Fin p, Fin l) \<Rightarrow> Fin (to_double (to_double (p - 1) * l))
      | _ \<Rightarrow> NaN)"

definition page_rows :: "js_num \<Rightarrow> js_num \<Rightarrow> 'r list \<Rightarrow> exn + 'r list" where
  "page_rows page limit rs =
     (case (prisma_int (page_skip page limit), prisma_int limit) of
        (Inr skipN, Inr takeN) \<Rightarrow>
          if skipN < 0 then Inl (DbExn ValidationFailed) else Inr (row_window skipN takeN rs)
      | _ \<Rightarrow> Inl (DbExn ValidationFailed))"

fun parse_settlement_status :: "string \<Rightarrow> settlement_status option" where
  "parse_settlement_status s =
     (if s = ''PENDING'' then Some StPENDING else if s = ''PROCESSING'' then Some StPROCESSING
      else if s = ''COMPLETED'' then Some StCOMPLETED else if s = ''FAILED'' then Some StFAILED
      else if s = ''CANCELLED'' then Some StCANCELLED else None)"

text \<open>A filter given as text: absent or empty means no filter; another text the client refuses.\<close>

definition text_filter :: "(string \<Rightarrow> 'a option) \<Rightarrow> string option \<Rightarrow> exn + 'a option" where
  "text_filter parse s =
     (if \<not> str_truthy s then Inr None
      else case parse (the s) of None \<Rightarrow> Inl (DbExn ValidationFailed) | Some x \<Rightarrow> Inr (Some x))"

definition getByBucket ::
  "env \<Rightarrow> string \<Rightarrow> string \<Rightarrow> string option \<Rightarrow> js_num option \<Rightarrow> js_num option \<Rightarrow>
   (settlement list \<times> page_meta) act" where
  "getByBucket e bucketRef businessId status_text page_opt limit_opt =
     bnd (SettlementService_resolveBucket e bucketRef businessId) (\<lambda>bucket.
     bnd (lift_sum (text_filter parse_settlement_status status_text)) (\<lambda>status.
     let page = getOr page_opt (Fin 1); limit = getOr limit_opt (Fin 20);
         rows = (\<lambda>d. filter (\<lambda>s. stl_bucketId s = bkt_id bucket \<and>
                    (case status of None \<Rightarrow> True | Some st \<Rightarrow> stl_status s = st)) (t_settlement d)) in
     bnd (query e (\<lambda>d. page_rows page limit (order_desc stl_createdAt (rows d)))) (\<lambda>found.
     bnd (lift_sum found) (\<lambda>settlements.
     bnd (query e (\<lambda>d. length (rows d))) (\<lambda>total.
     ret (settlements, page_info total page limit))))))"

definition getById :: "env \<Rightarrow> string \<Rightarrow> string \<Rightarrow> settlement act" where
  "getById e settlementId businessId =
     bnd (query e (\<lambda>d. find (\<lambda>s. stl_id s = settlementId \<and> stl_businessId s = businessId) (t_settlement d)))
       (\<lambda>settlement.
     case settlement of
       None \<Rightarrow> throw (BadRequest VALIDATION_ERROR ''Settlement not found'')
     | Some s \<Rightarrow> ret s)"

section \<open>Rules for the helpers\<close>

definition latest_value :: "string \<Rightarrow> database \<Rightarrow> int" where
  "latest_value b d =
     (case newest newer_entry (filter (\<lambda>r. ble_bucketId r = b) (t_bucketLedger d)) of
        None \<Rightarrow> 0 | Some r \<Rightarrow> ble_cumulativeAmountKobo r)"

lemma wp_latestBalance [wp_rules]: "Q (latest_value b d) d \<Longrightarrow> E d \<Longrightarrow> wp d Q E (latestBalance e b)"
  unfolding latestBalance_def by (intro wp_rules) (simp_all add: latest_value_def)

lemma wp_reservedKobo [wp_rules]: "Q (reserved_sum b d) d \<Longrightarrow> E d \<Longrightarrow> wp d Q E (reservedKobo e b)"
  unfolding reservedKobo_def by (intro wp_rules)

lemma wp_lockBucket [wp_rules]:
  "(\<And>b. find_bucket ref biz d = Some b \<Longrightarrow> Q b d) \<Longrightarrow> E d \<Longrightarrow>
     wp d Q E (SettlementService_lockBucket e ref biz)"
  unfolding SettlementService_lockBucket_def by (intro wp_rules)

lemma wp_resolveBucket [wp_rules]:
  "(\<And>b. find_bucket ref biz d = Some b \<Longrightarrow> Q b d) \<Longrightarrow> E d \<Longrightarrow>
     wp d Q E (SettlementService_resolveBucket e ref biz)"
  unfolding SettlementService_resolveBucket_def by (intro wp_rules)

lemma timed_settlement_helpers [timed_intro]:
  "tick_mono P \<Longrightarrow> timed P (latestBalance e b)"
  "tick_mono P \<Longrightarrow> timed P (reservedKobo e b)"
  "tick_mono P \<Longrightarrow> timed P (SettlementService_lockBucket e ref biz)"
  "tick_mono P \<Longrightarrow> timed P (SettlementService_resolveBucket e ref biz)"
  unfolding latestBalance_def reservedKobo_def SettlementService_lockBucket_def
    SettlementService_resolveBucket_def
  by (intro timed_intro; assumption)+

text \<open>The O(1) lookup agrees with the sum over the ledger.\<close>

lemma latest_value_total: "bucket_inv d \<Longrightarrow> in_order d \<Longrightarrow> latest_value b d = bucket_total b d"
  by (simp add: latest_value_def newest_in_order in_order_def bucket_inv_def bucket_total_def
      bkt.latest_total)

section \<open>Reservations\<close>

definition reservation :: "string \<Rightarrow> settlement \<Rightarrow> int" where
  "reservation b s = (if stl_bucketId s = b \<and> is_reserving s then stl_amountKobo s else 0)"

lemma reserved_sum_alt: "reserved_sum b d = sum_by (reservation b) (t_settlement d)"
proof -
  have "sum_by stl_amountKobo (filter (\<lambda>s. stl_bucketId s = b \<and> is_reserving s) ss) =
      sum_by (reservation b) ss" for ss
    by (induction ss) (auto simp: reservation_def)
  then show ?thesis by (simp add: reserved_sum_def)
qed

lemma reserved_sum_cong: "t_settlement d = t_settlement d' \<Longrightarrow> reserved_sum b d = reserved_sum b d'"
  by (simp add: reserved_sum_def)

text \<open>
  No bucket has more reserved than it holds; settlements have distinct ids and positive amounts;
  buckets have distinct ids.
\<close>

definition solvent :: "database \<Rightarrow> bool" where
  "solvent d = (\<forall>b. reserved_sum b d \<le> bucket_total b d)"

definition settlements_ok :: "database \<Rightarrow> bool" where
  "settlements_ok d =
     (distinct (map stl_id (t_settlement d)) \<and> (\<forall>s \<in> set (t_settlement d). 0 < stl_amountKobo s))"

definition treasury_inv :: "database \<Rightarrow> bool" where
  "treasury_inv d =
     (bucket_inv d \<and> solvent d \<and> settlements_ok d \<and> distinct (map bkt_id (t_bucket d)))"

text \<open>A settlement that holds a reservation of a bucket.\<close>

definition holds :: "string \<Rightarrow> string \<Rightarrow> int \<Rightarrow> database \<Rightarrow> bool" where
  "holds i b amount d =
     (\<exists>s \<in> set (t_settlement d).
        stl_id s = i \<and> stl_bucketId s = b \<and> stl_amountKobo s = amount \<and> is_reserving s)"

lemma sum_by_update:
  assumes "distinct (map key rs)" "s \<in> set rs" "key s = i"
  shows "sum_by g (update_rows (\<lambda>r. key r = i) f rs) = sum_by g rs - g s + (g (f s) :: int)"
  using assms
proof (induction rs)
  case (Cons r rs)
  have same: "sum_by g (update_rows (\<lambda>r. key r = i) f rs) = sum_by g rs" if "i \<notin> key ` set rs"
    using that by (induction rs) auto
  show ?case
  proof (cases "key r = i")
    case True
    then have "s = r" using Cons.prems by (auto simp: image_iff)
    moreover have "i \<notin> key ` set rs" using Cons.prems(1) True by auto
    ultimately show ?thesis using True same by simp
  next
    case False
    then show ?thesis using Cons by auto
  qed
qed simp

lemma reserved_update:
  assumes "settlements_ok d" "s \<in> set (t_settlement d)" "stl_id s = i"
  shows "reserved_sum b (d\<lparr>t_settlement := update_rows (\<lambda>r. stl_id r = i) f (t_settlement d)\<rparr>) =
    reserved_sum b d - reservation b s + reservation b (f s)"
  using assms by (simp add: reserved_sum_alt sum_by_update settlements_ok_def)

lemma settlements_ok_update:
  assumes "settlements_ok d" and "\<And>s. stl_id (f s) = stl_id s \<and> stl_amountKobo (f s) = stl_amountKobo s"
  shows "settlements_ok (d\<lparr>t_settlement := update_rows P f (t_settlement d)\<rparr>)"
  using assms by (auto simp: settlements_ok_def map_update_rows set_update_rows)

lemma find_settlement:
  "settlements_ok d \<Longrightarrow> s \<in> set (t_settlement d) \<Longrightarrow> s' \<in> set (t_settlement d) \<Longrightarrow>
     stl_id s = stl_id s' \<Longrightarrow> s = s'"
  by (auto simp: settlements_ok_def distinct_map inj_on_def)

lemma reservation_done [simp]:
  "reservation b (s\<lparr>stl_status := StCOMPLETED, stl_nombaTransferReference := x, stl_completedAt := y\<rparr>) = 0"
  "reservation b (s\<lparr>stl_status := StFAILED, stl_failureReason := z\<rparr>) = 0"
  by (simp_all add: reservation_def is_reserving_def)

lemma reservation_processing:
  "reservation b (s\<lparr>stl_status := StPROCESSING\<rparr>) \<le> reservation b s \<or> \<not> is_reserving s"
  by (auto simp: reservation_def is_reserving_def)

lemma reservation_nonneg: "settlements_ok d \<Longrightarrow> s \<in> set (t_settlement d) \<Longrightarrow> 0 \<le> reservation b s"
  by (force simp: settlements_ok_def reservation_def)

lemma reservation_held:
  assumes "treasury_inv d" "holds i b amount d"
  obtains s where "s \<in> set (t_settlement d)" "stl_id s = i" "0 < amount"
    "\<forall>b'. reservation b' s = (if b' = b then amount else 0)"
  using assms by (force simp: treasury_inv_def settlements_ok_def holds_def reservation_def)

section \<open>The steps of the lifecycle\<close>

lemma reserve_tx_wp:
  assumes "treasury_inv d" "in_order d" "0 < amount"
  shows "wp d (\<lambda>s d'. treasury_inv d' \<and> in_order d' \<and> d' = d\<lparr>t_settlement := t_settlement d @ [s]\<rparr> \<and>
      (\<exists>b. find_bucket ref biz d = Some b \<and> holds (stl_id s) (bkt_id b) amount d')) (\<lambda>d'. d' = d)
    (reserve_tx e ref biz amount dst actor)"
  unfolding reserve_tx_def create_settlement_def
proof (intro wp_rules TrueI audit.log_wp, simp_all only:, goal_cases)
  case (1 b ty i t)
  let ?s = "settlement_row (bkt_id b) biz amount ty dst actor i t"
  have latest: "latest_value (bkt_id b) d = bucket_total (bkt_id b) d"
    using assms latest_value_total by (simp add: treasury_inv_def)
  have fresh: "i \<notin> set (map stl_id (t_settlement d))"
    using 1(4) by (auto simp: taken_def settlement_row_def split: if_splits)
  have res: "reservation b' ?s = (if b' = bkt_id b then amount else 0)" for b'
    by (simp add: reservation_def is_reserving_def settlement_row_def)
  have "reserved_sum b' d + reservation b' ?s \<le> bucket_total b' d" for b'
    using 1(2) assms(1) by (simp add: res latest treasury_inv_def solvent_def)
  then have "treasury_inv (d\<lparr>t_settlement := t_settlement d @ [?s]\<rparr>)"
    using assms fresh
    by (auto simp: treasury_inv_def solvent_def settlements_ok_def reserved_sum_alt bucket_inv_def
        bucket_total_def settlement_row_def)
  moreover have "holds i (bkt_id b) amount (d\<lparr>t_settlement := t_settlement d @ [?s]\<rparr>)"
    by (simp add: holds_def settlement_row_def is_reserving_def)
  ultimately show ?case
    using 1(1) assms(2) by (simp add: in_order_def) (simp add: settlement_row_def)
qed

lemma mark_processing_wp:
  assumes "treasury_inv d" "holds i b amount d"
  shows "wp d (\<lambda>_ d'. treasury_inv d' \<and> holds i b amount d' \<and> t_bucketLedger d' = t_bucketLedger d \<and>
      t_bucket d' = t_bucket d) (\<lambda>d'. d' = d) (mark_processing e i)"
  unfolding mark_processing_def
proof (intro wp_rules refl, goal_cases)
  case (1 r)
  let ?f = "\<lambda>s. s\<lparr>stl_status := StPROCESSING\<rparr>"
  let ?d = "d\<lparr>t_settlement := update_rows (\<lambda>r. stl_id r = i) ?f (t_settlement d)\<rparr>"
  obtain s where s: "s \<in> set (t_settlement d)" "stl_id s = i" "stl_bucketId s = b"
      "stl_amountKobo s = amount" "is_reserving s"
    using assms(2) by (auto simp: holds_def)
  have ok: "settlements_ok d" using assms(1) by (simp add: treasury_inv_def)
  have "reservation b' (?f s) = reservation b' s" for b'
    using s(5) by (simp add: reservation_def is_reserving_def)
  then have "reserved_sum b' ?d = reserved_sum b' d" for b'
    using reserved_update [OF ok s(1,2)] by simp
  moreover have "settlements_ok ?d" by (rule settlements_ok_update [OF ok]) simp
  ultimately have "treasury_inv ?d"
    using assms(1) by (simp add: treasury_inv_def solvent_def bucket_inv_def bucket_total_def)
  moreover have "holds i b amount ?d"
    unfolding holds_def
    by (rule bexI [of _ "?f s"]) (use s in \<open>auto simp: is_reserving_def set_update_rows\<close>)
  ultimately show ?case by simp
qed

text \<open>Writing the DEBIT and completing the settlement together keep a bucket solvent.\<close>

lemma debit_complete_inv:
  assumes inv: "treasury_inv d" and held: "holds i b amount d"
    and r: "\<not> taken ble_reference (t_bucketLedger d) r" "ble_bucketId r = b" "ble_delta r = - amount"
      "ble_cumulativeAmountKobo r = bucket_total b d - amount"
  shows "treasury_inv (d\<lparr>t_bucketLedger := t_bucketLedger d @ [r],
      t_settlement := update_rows (\<lambda>s. stl_id s = i)
        (\<lambda>s. s\<lparr>stl_status := StCOMPLETED, stl_nombaTransferReference := x, stl_completedAt := y\<rparr>)
        (t_settlement d)\<rparr>)"
    (is "treasury_inv ?d")
proof -
  obtain s where s: "s \<in> set (t_settlement d)" "stl_id s = i" "0 < amount"
      "\<forall>b'. reservation b' s = (if b' = b then amount else 0)"
    by (rule reservation_held [OF inv held])
  have ok: "settlements_ok d" using inv by (simp add: treasury_inv_def)
  have "reserved_sum b' ?d = reserved_sum b' d - (if b' = b then amount else 0)" for b'
    using reserved_update [OF ok s(1,2), of b'
        "\<lambda>s. s\<lparr>stl_status := StCOMPLETED, stl_nombaTransferReference := x, stl_completedAt := y\<rparr>"] s(4)
    by (simp add: reserved_sum_def)
  moreover have "bucket_total b' ?d = bucket_total b' d - (if b' = b then amount else 0)" for b'
    using r by (simp add: bucket_total_def)
  moreover have "settlements_ok ?d"
    using settlements_ok_update [OF ok, of "\<lambda>s. s\<lparr>stl_status := StCOMPLETED,
        stl_nombaTransferReference := x, stl_completedAt := y\<rparr>"]
    by (simp add: settlements_ok_def)
  moreover have "bucket_inv ?d"
    using bucket_inv_snoc [of d r] inv r by (simp add: treasury_inv_def bucket_inv_def)
  ultimately show ?thesis using inv by (simp add: treasury_inv_def solvent_def)
qed

lemma complete_tx_wp:
  assumes "treasury_inv d" "in_order d" "find_bucket ref biz d = Some bk" "holds i (bkt_id bk) amount d"
  shows "wp d (\<lambda>_ d'. treasury_inv d' \<and> t_bucket d' = t_bucket d \<and>
      (\<forall>b. bucket_total b d' = bucket_total b d - (if b = bkt_id bk then amount else 0)))
      (\<lambda>d'. d' = d) (complete_tx e i ref amount biz nref nar)"
  unfolding complete_tx_def mark_completed_def
proof (intro wp_rules TrueI refl, goal_cases)
  case (1 b i' t t' s)
  have b: "b = bk" using 1 assms(3) by simp
  have latest: "latest_value (bkt_id bk) d = bucket_total (bkt_id bk) d"
    using assms latest_value_total by (simp add: treasury_inv_def)
  have "treasury_inv (d\<lparr>t_bucketLedger := t_bucketLedger d @
        [bucket_row (bkt_id b) DEBIT amount (latest_value (bkt_id b) d - amount) (''stl_'' @ nref) None nar i' t],
      t_settlement := update_rows (\<lambda>s. stl_id s = i)
        (\<lambda>s. s\<lparr>stl_status := StCOMPLETED, stl_nombaTransferReference := Some nref,
               stl_completedAt := Some t'\<rparr>) (t_settlement d)\<rparr>)"
    by (rule debit_complete_inv) (use assms 1 b latest in simp_all)
  then show ?case by (simp add: bucket_total_def b)
qed

lemma mark_failed_wp:
  assumes "treasury_inv d"
  shows "wp d (\<lambda>_ d'. treasury_inv d' \<and> t_bucketLedger d' = t_bucketLedger d \<and> t_bucket d' = t_bucket d)
      (\<lambda>_. False) (mark_failed e i msg)"
  unfolding mark_failed_def
proof (intro wp_rules allI, goal_cases)
  case (1 r)
  let ?f = "\<lambda>s. s\<lparr>stl_status := StFAILED, stl_failureReason := Some msg\<rparr>"
  let ?d = "d\<lparr>t_settlement := update_rows (\<lambda>r. stl_id r = i) ?f (t_settlement d)\<rparr>"
  have ok: "settlements_ok d" using assms by (simp add: treasury_inv_def)
  have r: "r \<in> set (t_settlement d)" "stl_id r = i" using find_SomeD [OF 1] by auto
  have "reserved_sum b ?d \<le> reserved_sum b d" for b
    using reserved_update [OF ok r, of b ?f] reservation_nonneg [OF ok r(1), of b] by simp
  moreover have "settlements_ok ?d" by (rule settlements_ok_update [OF ok]) simp
  ultimately show ?case
    using assms order_trans
    by (fastforce simp: treasury_inv_def solvent_def bucket_inv_def bucket_total_def)
qed (use assms in simp)

lemma find_bucket_distinct:
  assumes "find_bucket r1 biz d = Some b1" "find_bucket r2 biz d = Some b2" "r1 \<noteq> r2"
    "distinct (map bkt_id (t_bucket d))"
  shows "bkt_id b1 \<noteq> bkt_id b2"
proof -
  have "b1 \<in> set (t_bucket d)" "b2 \<in> set (t_bucket d)" "b1 \<noteq> b2"
    using assms by (auto simp: find_bucket_def bkt_key_def dest!: find_SomeD)
  with assms(4) show ?thesis by (auto simp: distinct_map inj_on_def)
qed

lemma find_bucket_ids:
  "find_bucket r1 biz d = Some b1 \<Longrightarrow> find_bucket r2 biz d = Some b2 \<Longrightarrow> r1 \<noteq> r2 \<Longrightarrow>
     treasury_inv d \<Longrightarrow> bkt_id b1 \<noteq> bkt_id b2"
  by (rule find_bucket_distinct) (auto simp: treasury_inv_def)

text \<open>An internal settlement between two different buckets moves the amount from one to the other.\<close>

lemma settleInternal_tx_wp:
  assumes "treasury_inv d" "find_bucket src biz d = Some sb" "src \<noteq> dst" "holds i (bkt_id sb) amount d"
  shows "wp d (\<lambda>_ d'. treasury_inv d' \<and> t_bucket d' = t_bucket d \<and>
      (\<exists>tb. find_bucket dst biz d = Some tb \<and> (\<forall>b. bucket_total b d' =
         bucket_total b d - (if b = bkt_id sb then amount else 0) + (if b = bkt_id tb then amount else 0))))
      (\<lambda>d'. d' = d) (settleInternal_tx e i src dst amount biz nar)"
  unfolding settleInternal_tx_def mark_completed_def
proof (intro wp_rules TrueI refl, goal_cases)
  case (1 s0 d0 u i1 t1 i2 t2 t s)
  have eqs: "s0 = sb" using 1 assms by simp
  have ne: "bkt_id sb \<noteq> bkt_id d0" using 1 assms(1,2,3) by (intro find_bucket_ids) simp_all
  let ?out = "bucket_row (bkt_id sb) DEBIT amount (bucket_total (bkt_id sb) d - amount)
      ((''stl_int_'' @ u) @ ''_out'') None nar i1 t1"
  let ?in = "bucket_row (bkt_id d0) CREDIT amount (bucket_total (bkt_id d0) d + amount)
      ((''stl_int_'' @ u) @ ''_in'') None nar i2 t2"
  let ?f = "\<lambda>s. s\<lparr>stl_status := StCOMPLETED, stl_nombaTransferReference := Some (''stl_int_'' @ u),
      stl_completedAt := Some t\<rparr>"
  let ?d1 = "d\<lparr>t_bucketLedger := t_bucketLedger d @ [?out],
      t_settlement := update_rows (\<lambda>s. stl_id s = i) ?f (t_settlement d)\<rparr>"
  let ?d2 = "d\<lparr>t_bucketLedger := (t_bucketLedger d @ [?out]) @ [?in],
      t_settlement := update_rows (\<lambda>s. stl_id s = i) ?f (t_settlement d)\<rparr>"
  have pos: "0 < amount" using reservation_held [OF assms(1,4)] by auto
  have inv1: "treasury_inv ?d1"
    by (rule debit_complete_inv) (use assms 1 eqs in simp_all)
  have "bucket_inv (?d1\<lparr>t_bucketLedger := t_bucketLedger ?d1 @ [?in]\<rparr>)"
    by (rule bucket_inv_snoc) (use inv1 ne 1 eqs in \<open>simp_all add: treasury_inv_def bucket_total_def\<close>)
  then have inv: "bucket_inv ?d2" by (simp add: bucket_inv_def)
  have "reserved_sum b ?d2 = reserved_sum b ?d1" "bucket_total b ?d1 \<le> bucket_total b ?d2" for b
    using pos by (simp_all add: reserved_sum_def bucket_total_def)
  with inv1 inv have "treasury_inv ?d2"
    using order_trans by (fastforce simp: treasury_inv_def solvent_def settlements_ok_def)
  then show ?case
    using ne 1 by (simp add: eqs bucket_total_def)
qed

lemma find_bucket_cong: "t_bucket d' = t_bucket d \<Longrightarrow> find_bucket ref biz d' = find_bucket ref biz d"
  by (simp add: find_bucket_def)

lemma in_order_cong: "t_bucketLedger d' = t_bucketLedger d \<Longrightarrow> in_order d' = in_order d"
  by (simp add: in_order_def)

section \<open>The whole lifecycle\<close>

lemma execute_transfer_wp:
  assumes "treasury_inv d" "in_order d" "find_bucket ref biz d = Some bk"
    "holds (stl_id s) (bkt_id bk) amount d" "dst_bucketRef dst \<noteq> Some ref"
  shows "wp d (\<lambda>_ d'. treasury_inv d' \<and>
      bucket_total (bkt_id bk) d' = bucket_total (bkt_id bk) d - amount)
      (\<lambda>d'. d' = d) (execute_transfer e s ref dst amount biz b actor nar)"
proof -
  have internal: "wp d (\<lambda>_ d'. treasury_inv d' \<and>
      bucket_total (bkt_id bk) d' = bucket_total (bkt_id bk) d - amount) (\<lambda>d'. d' = d)
      (settleInternal_tx e (stl_id s) ref (the (dst_bucketRef dst)) amount biz nar)"
    if "str_truthy (dst_bucketRef dst)"
  proof (rule wp_conseq [OF settleInternal_tx_wp [OF assms(1,3) _ assms(4)]])
    show "ref \<noteq> the (dst_bucketRef dst)" using that assms(5) by (cases "dst_bucketRef dst") auto
    then show "treasury_inv d' \<and> bucket_total (bkt_id bk) d' = bucket_total (bkt_id bk) d - amount"
      if "treasury_inv d' \<and> t_bucket d' = t_bucket d \<and>
        (\<exists>tb. find_bucket (the (dst_bucketRef dst)) biz d = Some tb \<and> (\<forall>b. bucket_total b d' =
           bucket_total b d - (if b = bkt_id bk then amount else 0) + (if b = bkt_id tb then amount else 0)))" for d'
      using that find_bucket_ids [OF assms(3) _ _ assms(1)] by auto
  qed
  have bank: "wp d (\<lambda>_ d'. treasury_inv d' \<and>
      bucket_total (bkt_id bk) d' = bucket_total (bkt_id bk) d - amount) (\<lambda>d'. d' = d)
      (complete_tx e (stl_id s) ref amount biz nref nar)" for nref
    by (rule wp_conseq [OF complete_tx_wp [OF assms(1-4)]]) auto
  show ?thesis
    unfolding execute_transfer_def settleInternal_def completeSettlement_def
    by (intro wp_rules wp_conseq [OF internal] wp_conseq [OF bank] refl audit.log_wp)
      (auto intro: audit.log_wp)
qed

text \<open>The result of a settlement of \<open>amount\<close> from bucket \<open>bk\<close>, seen from database \<open>d\<close>.\<close>

lemma finish_settlement_wp:
  assumes "treasury_inv d" "in_order d" "find_bucket ref biz d = Some bk"
    "holds (stl_id s) (bkt_id bk) amount d" "dst_bucketRef dst \<noteq> Some ref"
  shows "wp d (\<lambda>_ d'. treasury_inv d' \<and> bucket_total (bkt_id bk) d' = bucket_total (bkt_id bk) d - amount)
      treasury_inv (finish_settlement e s ref dto dst amount biz b actor)"
proof -
  have exec: "wp d1 (\<lambda>_ d'. treasury_inv d' \<and>
      bucket_total (bkt_id bk) d' = bucket_total (bkt_id bk) d - amount) (\<lambda>d'. d' = d1)
      (execute_transfer e s ref dst amount biz b actor nar)"
    if "treasury_inv d1 \<and> holds (stl_id s) (bkt_id bk) amount d1 \<and>
      t_bucketLedger d1 = t_bucketLedger d \<and> t_bucket d1 = t_bucket d" for d1 nar
    by (rule wp_conseq [OF execute_transfer_wp [of d1 ref biz bk]])
      (use that assms in \<open>auto simp: in_order_def find_bucket_def bucket_total_def\<close>)
  show ?thesis
    unfolding finish_settlement_def Let_def
    by (rule wp_bnd, rule wp_conseq [OF mark_processing_wp [OF assms(1,4)]],
        rule wp_catch, rule wp_bnd, rule wp_conseq [OF exec])
      (auto intro!: wp_ret wp_bnd wp_throw audit.log_wp wp_conseq [OF mark_failed_wp] simp: assms(1))
qed

lemma initiate_wp:
  assumes "treasury_inv d" "in_order d" "1 \<le> cs_amountKobo dto" "cs_destinationBucketRef dto \<noteq> Some ref"
  shows "wp d (\<lambda>r d'. treasury_inv d' \<and> (\<exists>bk. find_bucket ref biz d = Some bk \<and>
      of_int (bucket_total (bkt_id bk) d - bucket_total (bkt_id bk) d') = cs_amountKobo dto))
      treasury_inv (initiate e ref dto biz b actor)"
  unfolding initiate_def
proof (intro wp_bnd wp_resolveBucket wp_if wp_throw wp_lift_sum wp_Let assms(1), goal_cases)
  case (1 bk amount)
  have val: "of_int amount = cs_amountKobo dto" using 1(3) by (rule js_BigInt_value)
  then have "(0 :: rat) < of_int amount" using assms(3) by simp
  then have pos: "0 < amount" by simp
  show ?case
  proof (rule wp_conseq [OF reserve_tx_wp [OF assms(1,2) pos]])
    fix s d1
    assume d1: "treasury_inv d1 \<and> in_order d1 \<and> d1 = d\<lparr>t_settlement := t_settlement d @ [s]\<rparr> \<and>
      (\<exists>b. find_bucket ref biz d = Some b \<and> holds (stl_id s) (bkt_id b) amount d1)"
    then have "find_bucket ref biz d1 = Some bk" "holds (stl_id s) (bkt_id bk) amount d1"
        "bucket_total (bkt_id bk) d1 = bucket_total (bkt_id bk) d"
      using 1(1) by (auto simp: find_bucket_def bucket_total_def)
    then show "wp d1 (\<lambda>r d'. treasury_inv d' \<and> (\<exists>bk. find_bucket ref biz d = Some bk \<and>
        of_int (bucket_total (bkt_id bk) d - bucket_total (bkt_id bk) d') = cs_amountKobo dto))
        treasury_inv (finish_settlement e s ref dto (resolve_destination dto bk) amount biz b actor)"
      using d1 1(1) val assms(4)
      by (intro wp_conseq [OF finish_settlement_wp [of d1 ref biz bk]])
        (auto simp: resolve_destination_def)
  qed (use assms(1) in auto)
qed

text \<open>A failure never leaves a DEBIT behind, whatever the state of the database.\<close>

lemma initiate_error_ledger:
  "wp d (\<lambda>_ _. True) (\<lambda>d'. t_bucketLedger d' = t_bucketLedger d) (initiate e ref dto biz b actor)"
proof -
  have exec: "wp d1 (\<lambda>_ _. True) (\<lambda>d'. d' = d1) (execute_transfer e s ref dst amount biz b actor nar)"
    for d1 s dst amount nar
    unfolding execute_transfer_def settleInternal_def completeSettlement_def settleInternal_tx_def
      complete_tx_def mark_completed_def
    by (intro wp_rules TrueI refl audit.log_wp)
  have fail: "wp d1 (\<lambda>_ d'. t_bucketLedger d' = t_bucketLedger d1) (\<lambda>_. False) (mark_failed e i msg)"
    for d1 i msg
    unfolding mark_failed_def by (intro wp_rules allI) simp_all
  have fin: "wp d1 (\<lambda>_ _. True) (\<lambda>d'. t_bucketLedger d' = t_bucketLedger d1)
      (finish_settlement e s ref dto dst amount biz b actor)" for d1 s dst amount
    unfolding finish_settlement_def mark_processing_def Let_def
    by (intro wp_bnd wp_update_settlement wp_catch refl, rule wp_conseq [OF exec])
      (auto intro!: wp_ret wp_bnd wp_throw audit.log_wp wp_conseq [OF fail])
  have res: "wp d (\<lambda>_ d'. t_bucketLedger d' = t_bucketLedger d) (\<lambda>d'. d' = d)
      (reserve_tx e ref biz amount dst actor)" for dst amount
    unfolding reserve_tx_def create_settlement_def
    by (intro wp_rules TrueI refl audit.log_wp) simp
  show ?thesis
    unfolding initiate_def Let_def
    by (intro wp_bnd wp_resolveBucket wp_if wp_throw wp_lift_sum refl, rule wp_conseq [OF res])
      (auto intro: wp_conseq [OF fin])
qed

lemma demo_credited_inv: "treasury_inv (db demo_credited) \<and> in_order (db demo_credited)"
proof -
  have ledger: "t_bucketLedger (db demo_credited) =
      [bucket_row ''bk1'' CREDIT 700 700 ''ref1'' None None ''cccc'' 3]" by code_simp
  have stl: "t_settlement (db demo_credited) = []" by code_simp
  have bkt: "map bkt_id (t_bucket (db demo_credited)) = [''bk1'', ''bk2'']" by code_simp
  have "bucket_inv (db demo_credited)"
    unfolding bucket_inv_def ledger by (simp add: run_ok_by_def)
  moreover have "solvent (db demo_credited)"
    by (auto simp: solvent_def reserved_sum_def stl bucket_total_def ledger)
  ultimately show ?thesis
    by (simp add: treasury_inv_def settlements_ok_def stl bkt in_order_def ledger)
qed

section \<open>Properties\<close>

text \<open>C7: a settlement that runs alone does not overdraw a bucket, under three conditions: before it every bucket holds
  at least what is reserved in it and the stored running totals are right (\<open>treasury_inv\<close>), the entries of the
  bucket ledger were created in the order of their times (\<open>in_order\<close>), and it moves a positive amount to a bank
  account or to a bucket other than its own. Then the invariant holds again afterwards, whether it returns or
  throws; when it returns, the balance of the source bucket has dropped by exactly the requested amount. (To its
  own bucket it breaks the invariant: \<open>settle_to_self_inflates\<close>.)\<close>

theorem initiate_keeps_solvent:
  assumes "treasury_inv (db w)" and "in_order (db w)" and "1 \<le> cs_amountKobo dto"
    and "cs_destinationBucketRef dto \<noteq> Some ref"
  shows "treasury_inv (db (snd (initiate e ref dto biz b actor w))) \<and>
    (\<forall>r. fst (initiate e ref dto biz b actor w) = Inr r \<longrightarrow>
       (\<exists>bk. find_bucket ref biz (db w) = Some bk \<and>
          of_int (bucket_total (bkt_id bk) (db w) -
                  bucket_total (bkt_id bk) (db (snd (initiate e ref dto biz b actor w)))) =
          cs_amountKobo dto))"
  using wpD_Inr [OF initiate_wp [OF assms] refl] wpD_Inl [OF initiate_wp [OF assms] refl]
  by (cases "initiate e ref dto biz b actor w"; cases "fst (initiate e ref dto biz b actor w)") auto

definition demo_settlement :: createSettlementDto where
  "demo_settlement = \<lparr>cs_amountKobo = 200, cs_destinationType = None,
     cs_destinationAccountName = Some ''Ada'', cs_destinationAccountNumber = Some ''0123456789'',
     cs_destinationBankCode = Some ''058'', cs_destinationBucketRef = None, cs_narration = None\<rparr>"

theorem initiate_keeps_solvent_witness:
  "\<exists>r. fst (initiate demo_env ''payroll'' demo_settlement ''b1'' demo_business ''me'' demo_credited) = Inr r \<and>
     treasury_inv (db (snd (initiate demo_env ''payroll'' demo_settlement ''b1'' demo_business ''me'' demo_credited)))"
proof -
  have "isl (fst (initiate demo_env ''payroll'' demo_settlement ''b1'' demo_business ''me'' demo_credited)) = False"
    by code_simp
  moreover have "1 \<le> cs_amountKobo demo_settlement" "cs_destinationBucketRef demo_settlement \<noteq> Some ''payroll''"
    by (simp_all add: demo_settlement_def)
  ultimately show ?thesis
    using initiate_keeps_solvent [of demo_credited demo_settlement "''payroll''"] demo_credited_inv
    by (metis isl_def sum.exhaust)
qed

text \<open>C37: a settlement that throws has written no ledger entry: whatever the database, the faults and the
  answers of Nomba, the bucket ledger is then exactly what it was.\<close>

theorem initiate_failure_no_debit:
  assumes "initiate e ref dto biz b actor w = (Inl x, w')"
  shows "t_bucketLedger (db w') = t_bucketLedger (db w)"
  using wpD_Inl [OF initiate_error_ledger refl assms] .

theorem initiate_failure_no_debit_witness:
  "\<exists>x w'. initiate demo_env ''payroll'' demo_settlement ''b1'' demo_business ''me'' demo_world = (Inl x, w') \<and>
     t_bucketLedger (db w') = []"
proof -
  let ?m = "initiate demo_env ''payroll'' demo_settlement ''b1'' demo_business ''me'' demo_world"
  have "isl (fst ?m)" by code_simp
  then obtain x where x: "?m = (Inl x, snd ?m)" by (cases ?m; cases "fst ?m") auto
  from initiate_failure_no_debit [OF x] show ?thesis
    using x by (auto simp: demo_world_def demo_db_def)
qed

definition demo_self :: createSettlementDto where
  "demo_self = demo_settlement\<lparr>cs_destinationType := Some ''INTERNAL_BUCKET'',
     cs_destinationBucketRef := Some ''payroll''\<rparr>"

text \<open>A settlement to the bucket it comes from is not refused, and it breaks the running total: from a
  bucket that holds 700, an INTERNAL_BUCKET settlement of 200 to itself returns COMPLETED, after which
  the newest entry claims 900 while credits minus debits still give 700.\<close>

theorem settle_to_self_inflates:
  "let r = initiate demo_env ''payroll'' demo_self ''b1'' demo_business ''me'' demo_credited in
   map_sum id sr_status (fst r) = Inr ''COMPLETED'' \<and>
   fst (latestBalance demo_env ''bk1'' (snd r)) = Inr 900 \<and>
   fst (computeBalance demo_env ''bk1'' (snd r)) = Inr 700"
  by code_simp

end
