(* ===== verification/Ledger_Service.thy ===== *)
theory Ledger_Service
  imports AOS_Demo
begin

text \<open>
  \<open>src/ledger\<close>: the account ledger. LedgerEntry rows are only appended, except that the column
  \<open>reconciliationStatus\<close> changes; every inflow carries the running inflow total of its account. The
  theory models every method of LedgerService and proves the running-total invariant, the
  behaviour of \<open>writeInflow\<close>, the consistency of the summary, and that the CSV export can be read
  back cell by cell.
\<close>

section \<open>Account lookup\<close>

definition find_account_by_ref :: "string \<Rightarrow> string \<Rightarrow> database \<Rightarrow> account option" where
  "find_account_by_ref accountRef businessId d =
     find (\<lambda>a. acc_accountRef a = accountRef \<and> acc_businessId a = businessId) (t_account d)"

definition resolveAccountId :: "env \<Rightarrow> string \<Rightarrow> string \<Rightarrow> string act" where
  "resolveAccountId e accountRef businessId =
     bnd (query e (find_account_by_ref accountRef businessId)) (\<lambda>account.
       case account of
         None \<Rightarrow> throw (NotFound ACCOUNT_NOT_FOUND ''Account not found'')
       | Some a \<Rightarrow> ret (acc_id a))"

section \<open>Writing entries\<close>

record writeInflowDto =
  wi_accountId :: string
  wi_nombaTransactionRef :: string
  wi_nombaEventId :: string
  wi_amountKobo :: rat
  wi_senderName :: "string option"
  wi_senderAccountNumber :: "string option"
  wi_senderBankCode :: "string option"
  wi_narration :: "string option"
  wi_customerNameSnapshot :: "string option"
  wi_kycTierAtTime :: "kyc_tier option"

record writeOutflowDto =
  wo_accountId :: string
  wo_nombaTransactionRef :: string
  wo_amountKobo :: rat
  wo_narration :: string
  wo_customerNameSnapshot :: "string option"
  wo_kycTierAtTime :: "kyc_tier option"
  wo_cumulativeAmountKobo :: "int option"

text \<open>\<open>aggregate(_sum: amountKobo)\<close> over the inflows of an account.\<close>

definition inflow_sum :: "string \<Rightarrow> database \<Rightarrow> int" where
  "inflow_sum accountId d =
     sum_by led_amountKobo
       (filter (\<lambda>r. led_accountId r = accountId \<and> led_direction r = INFLOW) (t_ledgerEntry d))"

definition inflow_row ::
  "writeInflowDto \<Rightarrow> reconciliation_status \<Rightarrow> int \<Rightarrow> int \<Rightarrow> int \<Rightarrow> string \<Rightarrow> int \<Rightarrow> ledgerEntry" where
  "inflow_row dto status amount cumulative receivedAt i t = \<lparr>
     led_id = i, led_accountId = wi_accountId dto,
     led_nombaTransactionRef = wi_nombaTransactionRef dto,
     led_nombaEventId = wi_nombaEventId dto,
     led_direction = INFLOW, led_amountKobo = amount, led_currency = ''NGN'',
     led_senderName = wi_senderName dto, led_senderAccountNumber = wi_senderAccountNumber dto,
     led_senderBankCode = wi_senderBankCode dto, led_narration = wi_narration dto,
     led_customerNameSnapshot = getOr (wi_customerNameSnapshot dto) ''Unknown'',
     led_kycTierAtTime = getOr (wi_kycTierAtTime dto) TIER_0,
     led_cumulativeAmountKobo = cumulative, led_reconciliationStatus = status,
     led_receivedAt = receivedAt, led_createdAt = t\<rparr>"

definition writeInflow :: "env \<Rightarrow> writeInflowDto \<Rightarrow> reconciliation_status \<Rightarrow> int act" where
  "writeInflow e dto reconciliationStatus = transaction e (
     seqm (query e (\<lambda>d. map acc_id (filter (\<lambda>a. acc_id a = wi_accountId dto) (t_account d)))) (
     bnd (query e (inflow_sum (wi_accountId dto))) (\<lambda>priorTotal.
     bnd (lift_sum (js_BigInt (wi_amountKobo dto))) (\<lambda>amount.
     bnd (now e) (\<lambda>receivedAt.
     seqm (create_ledgerEntry e
             (inflow_row dto reconciliationStatus amount (priorTotal + amount) receivedAt))
       (ret (priorTotal + amount)))))))"

definition outflow_row :: "writeOutflowDto \<Rightarrow> int \<Rightarrow> int \<Rightarrow> string \<Rightarrow> int \<Rightarrow> ledgerEntry" where
  "outflow_row dto amount receivedAt i t = \<lparr>
     led_id = i, led_accountId = wo_accountId dto,
     led_nombaTransactionRef = wo_nombaTransactionRef dto,
     led_nombaEventId = wo_nombaTransactionRef dto,
     led_direction = OUTFLOW, led_amountKobo = amount, led_currency = ''NGN'',
     led_senderName = None, led_senderAccountNumber = None, led_senderBankCode = None,
     led_narration = Some (wo_narration dto),
     led_customerNameSnapshot = getOr (wo_customerNameSnapshot dto) ''System'',
     led_kycTierAtTime = getOr (wo_kycTierAtTime dto) TIER_0,
     led_cumulativeAmountKobo = getOr (wo_cumulativeAmountKobo dto) 0,
     led_reconciliationStatus = RecPENDING,
     led_receivedAt = receivedAt, led_createdAt = t\<rparr>"

definition writeOutflow :: "env \<Rightarrow> writeOutflowDto \<Rightarrow> ledgerEntry act" where
  "writeOutflow e dto =
     bnd (lift_sum (js_BigInt (wo_amountKobo dto))) (\<lambda>amount.
     bnd (now e) (\<lambda>receivedAt.
     create_ledgerEntry e (outflow_row dto amount receivedAt)))"

definition updateReconciliationStatus ::
  "env \<Rightarrow> string \<Rightarrow> reconciliation_status \<Rightarrow> unit act" where
  "updateReconciliationStatus e nombaTransactionRef status =
     seqm (update_ledgerEntry e (\<lambda>r. led_nombaTransactionRef r = nombaTransactionRef)
             (\<lambda>r. r\<lparr>led_reconciliationStatus := status\<rparr>))
       (ret ())"

section \<open>Reading entries\<close>

record ledgerFilters =
  lf_from :: "string option"
  lf_to :: "string option"
  lf_reconciliationStatus :: "reconciliation_status option"
  lf_cursor :: "string option"
  lf_limit :: "js_num option"

definition in_range :: "int option \<Rightarrow> int option \<Rightarrow> int \<Rightarrow> bool" where
  "in_range lo hi t =
     ((case lo of None \<Rightarrow> True | Some l \<Rightarrow> l \<le> t) \<and> (case hi of None \<Rightarrow> True | Some h \<Rightarrow> t \<le> h))"

text \<open>\<open>cursor\<close> with \<open>skip: 1\<close>: the rows after the cursor row; none when it is not among them.\<close>

definition after_cursor :: "('r \<Rightarrow> string) \<Rightarrow> string option \<Rightarrow> 'r list \<Rightarrow> 'r list" where
  "after_cursor key cursor rs =
     (if str_truthy cursor then drop 1 (dropWhile (\<lambda>r. key r \<noteq> the cursor) rs) else rs)"

text \<open>A negative \<open>take\<close> reads backwards from the cursor.\<close>

definition before_cursor :: "('r \<Rightarrow> string) \<Rightarrow> string option \<Rightarrow> 'r list \<Rightarrow> 'r list" where
  "before_cursor key cursor rs =
     (if \<not> str_truthy cursor then rs
      else if the cursor \<in> set (map key rs) then takeWhile (\<lambda>r. key r \<noteq> the cursor) rs else [])"

definition cursor_window :: "('r \<Rightarrow> string) \<Rightarrow> string option \<Rightarrow> int \<Rightarrow> 'r list \<Rightarrow> 'r list" where
  "cursor_window key cursor takeN rs =
     (if 0 \<le> takeN then take (nat takeN) (after_cursor key cursor rs)
      else row_window 0 takeN (before_cursor key cursor rs))"

definition getEntries ::
  "env \<Rightarrow> string \<Rightarrow> ledgerFilters \<Rightarrow> (ledgerEntry list \<times> string option) act" where
  "getEntries e accountId filters =
     bnd (lift_sum (date_bound e (lf_from filters))) (\<lambda>lo.
     bnd (lift_sum (date_bound e (lf_to filters))) (\<lambda>hi.
     let takeN = getOr (lf_limit filters) (Fin 50) in
     bnd (lift_sum (prisma_int (js_min takeN (Fin 100)))) (\<lambda>n.
     bnd (query e (\<lambda>d.
        cursor_window led_id (lf_cursor filters) n
          (order_desc led_receivedAt
            (filter (\<lambda>r. led_accountId r = accountId \<and> in_range lo hi (led_receivedAt r) \<and>
                (case lf_reconciliationStatus filters of None \<Rightarrow> True
                 | Some st \<Rightarrow> led_reconciliationStatus r = st)) (t_ledgerEntry d))))) (\<lambda>entries.
     if Fin (of_nat (length entries)) = takeN
     then (if entries = [] then throw (JsExn ''Cannot read properties of undefined (reading id)'')
           else ret (entries, Some (led_id (last entries))))
     else ret (entries, None)))))"

definition getEntriesByAccountRef ::
  "env \<Rightarrow> string \<Rightarrow> string \<Rightarrow> ledgerFilters \<Rightarrow> (ledgerEntry list \<times> string option) act" where
  "getEntriesByAccountRef e accountRef businessId filters =
     bnd (resolveAccountId e accountRef businessId) (\<lambda>accountId. getEntries e accountId filters)"

record ledgerSummary =
  sum_totalInflows :: nat
  sum_totalAmountKobo :: int
  sum_lastInflowAt :: "int option"
  sum_reconciliationBreakdown :: "reconciliation_status \<rightharpoonup> nat"

definition inflows_of :: "string \<Rightarrow> database \<Rightarrow> ledgerEntry list" where
  "inflows_of accountId d =
     filter (\<lambda>r. led_accountId r = accountId \<and> led_direction r = INFLOW) (t_ledgerEntry d)"

definition count_status :: "reconciliation_status \<Rightarrow> ledgerEntry list \<Rightarrow> nat" where
  "count_status st rs = length (filter (\<lambda>r. led_reconciliationStatus r = st) rs)"

text \<open>The groups come back one row per status that occurs; the loop stores each count.\<close>

definition breakdown :: "ledgerEntry list \<Rightarrow> reconciliation_status \<rightharpoonup> nat" where
  "breakdown rs =
     foldl (\<lambda>m st. m(st \<mapsto> count_status st rs)) Map.empty
       (remdups (map led_reconciliationStatus rs))"

definition getSummary :: "env \<Rightarrow> string \<Rightarrow> ledgerSummary act" where
  "getSummary e accountId =
     bnd (query e (\<lambda>d. length (inflows_of accountId d))) (\<lambda>totalInflows.
     bnd (query e (inflow_sum accountId)) (\<lambda>totalAmount.
     bnd (query e (\<lambda>d. breakdown (inflows_of accountId d))) (\<lambda>groups.
     bnd (query e (\<lambda>d. newest (\<lambda>a b. led_receivedAt b < led_receivedAt a) (inflows_of accountId d)))
       (\<lambda>lastInflow.
     ret \<lparr>sum_totalInflows = totalInflows, sum_totalAmountKobo = totalAmount,
          sum_lastInflowAt = map_option led_receivedAt lastInflow,
          sum_reconciliationBreakdown = groups\<rparr>))))"

definition getSummaryByAccountRef :: "env \<Rightarrow> string \<Rightarrow> string \<Rightarrow> ledgerSummary act" where
  "getSummaryByAccountRef e accountRef businessId =
     bnd (resolveAccountId e accountRef businessId) (\<lambda>accountId. getSummary e accountId)"

definition matched_outflow_sum :: "string \<Rightarrow> database \<Rightarrow> int" where
  "matched_outflow_sum accountId d =
     sum_by led_amountKobo
       (filter (\<lambda>r. led_accountId r = accountId \<and> led_direction r = OUTFLOW \<and>
           led_reconciliationStatus r = MATCHED) (t_ledgerEntry d))"

definition LedgerService_getBalance :: "env \<Rightarrow> string \<Rightarrow> int act" where
  "LedgerService_getBalance e accountId =
     bnd (query e (inflow_sum accountId)) (\<lambda>inflow.
     bnd (query e (matched_outflow_sum accountId)) (\<lambda>outflow.
     ret (inflow - outflow)))"

section \<open>CSV export\<close>

definition formula_chars :: "char list" where
  "formula_chars = [CHR ''='', CHR ''+'', CHR ''-'', CHR ''@'', CHR 0x09, CHR 0x0D]"

definition csv_guard :: "string \<Rightarrow> string" where
  "csv_guard s = (case s of [] \<Rightarrow> [] | c # _ \<Rightarrow> if c \<in> set formula_chars then CHR 0x27 # s else s)"

definition double_quotes :: "string \<Rightarrow> string" where
  "double_quotes s = concat (map (\<lambda>c. if c = CHR 0x22 then [c, c] else [c]) s)"

definition csvCell :: "string \<Rightarrow> string" where
  "csvCell s = CHR 0x22 # double_quotes (csv_guard s) @ [CHR 0x22]"

fun join :: "string \<Rightarrow> string list \<Rightarrow> string" where
  "join sep [] = []"
| "join sep [x] = x"
| "join sep (x # y # xs) = x @ sep @ join sep (y # xs)"

fun show_direction :: "ledger_direction \<Rightarrow> string" where
  "show_direction INFLOW = ''INFLOW''"
| "show_direction OUTFLOW = ''OUTFLOW''"

fun show_reconciliation :: "reconciliation_status \<Rightarrow> string" where
  "show_reconciliation RecPENDING = ''PENDING''"
| "show_reconciliation MATCHED = ''MATCHED''"
| "show_reconciliation UNMATCHED = ''UNMATCHED''"
| "show_reconciliation FLAGGED = ''FLAGGED''"

text \<open>\<open>Date.prototype.toISOString\<close> for the years 0 to 9999.\<close>

definition pad :: "nat \<Rightarrow> int \<Rightarrow> string" where
  "pad n i = (let s = show_int i in replicate (n - length s) (CHR ''0'') @ s)"

definition civil_from_days :: "int \<Rightarrow> int \<times> int \<times> int" where
  "civil_from_days days =
     (let z = days + 719468; era = z div 146097; doe = z mod 146097;
          yoe = (doe - doe div 1460 + doe div 36524 - doe div 146096) div 365;
          doy = doe - (365 * yoe + yoe div 4 - yoe div 100);
          mp = (5 * doy + 2) div 153;
          d = doy - (153 * mp + 2) div 5 + 1;
          m = (if mp < 10 then mp + 3 else mp - 9)
      in (yoe + era * 400 + (if m \<le> 2 then 1 else 0), m, d))"

definition iso_string :: "int \<Rightarrow> string" where
  "iso_string t =
     (let ms = t mod 86400000 in
      case civil_from_days (t div 86400000) of (y, m, d) \<Rightarrow>
        pad 4 y @ ''-'' @ pad 2 m @ ''-'' @ pad 2 d @ ''T'' @
        pad 2 (ms div 3600000) @ '':'' @ pad 2 (ms div 60000 mod 60) @ '':'' @
        pad 2 (ms div 1000 mod 60) @ ''.'' @ pad 3 (ms mod 1000) @ ''Z'')"

definition csv_cells :: "ledgerEntry \<Rightarrow> string list" where
  "csv_cells r =
     [led_id r, led_nombaTransactionRef r, show_direction (led_direction r),
      show_int \<lfloor>js_Number (bigint_div (led_amountKobo r) 100)\<rfloor>, led_currency r,
      getOr (led_senderName r) [], led_customerNameSnapshot r, show_tier (led_kycTierAtTime r),
      show_reconciliation (led_reconciliationStatus r), iso_string (led_receivedAt r)]"

definition csv_header :: string where
  "csv_header =
     ''entryId,nombaTransactionRef,direction,amountNgn,currency,senderName,customerNameSnapshot,'' @
     ''kycTierAtTime,reconciliationStatus,receivedAt''"

definition csv_row :: "ledgerEntry \<Rightarrow> string" where
  "csv_row r = join '','' (map csvCell (csv_cells r))"

definition exportCsv :: "env \<Rightarrow> string \<Rightarrow> string act" where
  "exportCsv e accountId =
     bnd (query e (\<lambda>d. order_asc led_receivedAt
            (filter (\<lambda>r. led_accountId r = accountId) (t_ledgerEntry d)))) (\<lambda>entries.
     ret (join [CHR 0x0A] (csv_header # map csv_row entries)))"

definition exportCsvByAccountRef :: "env \<Rightarrow> string \<Rightarrow> string \<Rightarrow> string act" where
  "exportCsvByAccountRef e accountRef businessId =
     bnd (resolveAccountId e accountRef businessId) (\<lambda>accountId. exportCsv e accountId)"

section \<open>The running-total invariant\<close>

definition is_inflow :: "ledgerEntry \<Rightarrow> bool" where
  "is_inflow r = (led_direction r = INFLOW)"

definition led_delta :: "ledgerEntry \<Rightarrow> int" where
  "led_delta r = (if is_inflow r then led_amountKobo r else 0)"

interpretation acct: running_ledger led_accountId led_delta led_cumulativeAmountKobo is_inflow
  by unfold_locales (simp add: led_delta_def)

definition ledger_inv :: "database \<Rightarrow> bool" where
  "ledger_inv d =
     (run_ok_by led_accountId led_delta led_cumulativeAmountKobo is_inflow (t_ledgerEntry d) \<and>
      distinct (map led_nombaTransactionRef (t_ledgerEntry d)))"

text \<open>A ledger row without its one mutable column.\<close>

definition immutable_part :: "ledgerEntry \<Rightarrow> ledgerEntry" where
  "immutable_part r = r\<lparr>led_reconciliationStatus := RecPENDING\<rparr>"

definition ledger_extends :: "ledgerEntry list \<Rightarrow> database \<Rightarrow> bool" where
  "ledger_extends l d = prefix (map immutable_part l) (map immutable_part (t_ledgerEntry d))"

lemma inflow_sum_total: "inflow_sum a d = total_by led_accountId led_delta a (t_ledgerEntry d)"
proof -
  have "sum_by led_amountKobo (filter (\<lambda>r. led_accountId r = a \<and> led_direction r = INFLOW) rs) =
      total_by led_accountId led_delta a rs" for rs
    by (induction rs) (auto simp: total_by_def led_delta_def is_inflow_def)
  then show ?thesis by (simp add: inflow_sum_def)
qed

lemma create_inflow_inv:
  assumes "ledger_inv d"
    and "first_violation
      [(\<not> in_int8 (led_amountKobo r), P2020), (\<not> in_int8 (led_cumulativeAmountKobo r), P2020),
       (taken led_id (t_ledgerEntry d) r, P2002),
       (taken led_nombaTransactionRef (t_ledgerEntry d) r, P2002),
       (missing acc_id (t_account d) (led_accountId r), P2003)] = None"
    and "is_inflow r \<Longrightarrow> led_cumulativeAmountKobo r = inflow_sum (led_accountId r) d + led_amountKobo r"
  shows "ledger_inv (d\<lparr>t_ledgerEntry := t_ledgerEntry d @ [r]\<rparr>)"
  using assms
  by (auto simp: ledger_inv_def acct.run_ok_snoc inflow_sum_total led_delta_def taken_def
      split: if_splits)

lemma update_status_inv:
  assumes "ledger_inv d"
  shows "ledger_inv (d\<lparr>t_ledgerEntry :=
           update_rows P (\<lambda>r. r\<lparr>led_reconciliationStatus := st\<rparr>) (t_ledgerEntry d)\<rparr>)"
  using assms
  by (simp add: ledger_inv_def update_rows_def acct.run_ok_map led_delta_def is_inflow_def comp_def
      if_distrib [of led_nombaTransactionRef] cong: if_cong)

lemma writeInflow_wp:
  assumes "\<And>amount i t receivedAt.
      js_BigInt (wi_amountKobo dto) = Inr amount \<Longrightarrow>
      (let r = inflow_row dto st amount (inflow_sum (wi_accountId dto) d + amount) receivedAt i t in
       taken led_nombaTransactionRef (t_ledgerEntry d) r \<or>
       Q (inflow_sum (wi_accountId dto) d + amount) (d\<lparr>t_ledgerEntry := t_ledgerEntry d @ [r]\<rparr>))"
    and "E d"
  shows "wp d Q E (writeInflow e dto st)"
  unfolding writeInflow_def create_ledgerEntry_def
  by (intro wp_rules assms(2)) (use assms(1) in \<open>auto simp: Let_def split: if_splits\<close>)

lemma writeInflow_keeps: "keeps_db ledger_inv (writeInflow e dto st)"
proof (rule keeps_from_wp, rule writeInflow_wp)
  fix d amount i t receivedAt assume inv: "ledger_inv d"
  let ?c = "inflow_sum (wi_accountId dto) d + amount"
  let ?r = "inflow_row dto st amount ?c receivedAt i t"
  show "let r = ?r in taken led_nombaTransactionRef (t_ledgerEntry d) r \<or>
    ledger_inv (d\<lparr>t_ledgerEntry := t_ledgerEntry d @ [r]\<rparr>)"
    using inv
    by (auto simp: Let_def ledger_inv_def acct.run_ok_snoc inflow_sum_total inflow_row_def
        led_delta_def is_inflow_def taken_def)
qed

lemma writeOutflow_keeps: "keeps_db ledger_inv (writeOutflow e dto)"
  unfolding writeOutflow_def create_ledgerEntry_def
  by (rule keeps_from_wp, intro wp_rules)
    (auto simp: ledger_inv_def acct.run_ok_snoc outflow_row_def is_inflow_def taken_def split: if_splits)

lemma updateReconciliationStatus_keeps: "keeps_db ledger_inv (updateReconciliationStatus e ref st)"
  unfolding updateReconciliationStatus_def update_ledgerEntry_def
  by (rule keeps_from_wp, intro wp_rules) (auto intro: update_status_inv)

lemma ledger_extends_snoc:
  "ledger_extends l d \<Longrightarrow> ledger_extends l (d\<lparr>t_ledgerEntry := t_ledgerEntry d @ [r]\<rparr>)"
  by (auto simp: ledger_extends_def intro: prefix_prefix)

lemma ledger_extends_status:
  "ledger_extends l (d\<lparr>t_ledgerEntry :=
     update_rows P (\<lambda>r. r\<lparr>led_reconciliationStatus := st\<rparr>) (t_ledgerEntry d)\<rparr>) = ledger_extends l d"
  by (simp add: ledger_extends_def map_update_rows immutable_part_def)

lemma writeInflow_extends: "keeps_db (ledger_extends l) (writeInflow e dto st)"
  by (rule keeps_from_wp, rule writeInflow_wp) (auto simp: Let_def ledger_extends_snoc)

lemma writeOutflow_extends: "keeps_db (ledger_extends l) (writeOutflow e dto)"
  unfolding writeOutflow_def create_ledgerEntry_def
  by (rule keeps_from_wp, intro wp_rules) (auto simp: ledger_extends_snoc)

lemma updateReconciliationStatus_extends:
  "keeps_db (ledger_extends l) (updateReconciliationStatus e ref st)"
  unfolding updateReconciliationStatus_def update_ledgerEntry_def
  by (rule keeps_from_wp, intro wp_rules) (auto simp: ledger_extends_status)

section \<open>Reading the export back\<close>

text \<open>
  A reader for quoted CSV: a quote inside a cell is doubled, a line break inside quotes belongs to
  the cell, a comma or a line break outside quotes ends it.
\<close>

fun read_cell :: "string \<Rightarrow> (string \<times> string) option" where
  "read_cell [] = None"
| "read_cell (c # cs) =
     (if c \<noteq> CHR 0x22 then map_option (apfst ((#) c)) (read_cell cs)
      else case cs of
        [] \<Rightarrow> Some ([], [])
      | c' # cs' \<Rightarrow>
          if c' = CHR 0x22 then map_option (apfst ((#) c')) (read_cell cs') else Some ([], cs))"

lemma read_cell_shorter: "read_cell s = Some (x, rest) \<Longrightarrow> length rest < length s"
  by (induction s arbitrary: x rest rule: read_cell.induct)
    (fastforce split: if_splits list.splits)+

function read_rows :: "string \<Rightarrow> string list list option" where
  "read_rows s =
     (case s of
        [] \<Rightarrow> None
      | c # cs \<Rightarrow>
          if c \<noteq> CHR 0x22 then None
          else case read_cell cs of
            None \<Rightarrow> None
          | Some (x, []) \<Rightarrow> Some [[x]]
          | Some (x, sep # rest) \<Rightarrow>
              if sep = CHR '','' then
                (case read_rows rest of Some (r # rs) \<Rightarrow> Some ((x # r) # rs) | _ \<Rightarrow> None)
              else if sep = CHR 0x0A then map_option ((#) [x]) (read_rows rest)
              else None)"
  by pat_completeness auto
termination
  by (relation "measure length") (auto dest!: read_cell_shorter)

declare read_rows.simps [simp del]

lemma read_cell_double_quotes:
  assumes "rest = [] \<or> hd rest \<noteq> CHR 0x22"
  shows "read_cell (double_quotes s @ CHR 0x22 # rest) = Some (s, rest)"
proof (induction s)
  case Nil
  then show ?case using assms by (cases rest) (auto simp: double_quotes_def)
next
  case (Cons c s)
  then show ?case by (simp add: double_quotes_def)
qed

lemma read_rows_cell:
  "read_rows (csvCell s) = Some [[csv_guard s]]"
  "read_rows (csvCell s @ CHR '','' # rest) =
     (case read_rows rest of Some (r # rs) \<Rightarrow> Some ((csv_guard s # r) # rs) | _ \<Rightarrow> None)"
  "read_rows (csvCell s @ CHR 0x0A # rest) = map_option ((#) [csv_guard s]) (read_rows rest)"
  by (subst read_rows.simps, simp add: csvCell_def read_cell_double_quotes)+

lemma read_rows_row:
  assumes "cs \<noteq> []"
  shows "read_rows (join '','' (map csvCell cs)) = Some [map csv_guard cs]"
    and "read_rows (join '','' (map csvCell cs) @ CHR 0x0A # rest) =
           map_option ((#) (map csv_guard cs)) (read_rows rest)"
  using assms
  by (induction cs rule: induct_list012)
    (auto simp: read_rows_cell split: option.split)

lemma csv_cells_nonempty [simp]: "csv_cells r \<noteq> []"
  by (simp add: csv_cells_def)

lemma read_rows_table:
  assumes "rs \<noteq> []"
  shows "read_rows (join [CHR 0x0A] (map csv_row rs)) = Some (map (map csv_guard \<circ> csv_cells) rs)"
  using assms
  by (induction rs rule: induct_list012) (auto simp: csv_row_def read_rows_row)

lemma csv_guard_safe: "csv_guard s = [] \<or> hd (csv_guard s) \<notin> set formula_chars"
  by (auto simp: csv_guard_def formula_chars_def split: list.split)

section \<open>Totals of the summary\<close>

lemma breakdown_lookup:
  "getOr (breakdown rs st) 0 = count_status st rs"
proof -
  have "foldl (\<lambda>m st. m(st \<mapsto> count_status st rs)) m sts st =
      (if st \<in> set sts then Some (count_status st rs) else m st)" for m sts
    by (induction sts arbitrary: m) auto
  moreover have "st \<notin> set (map led_reconciliationStatus rs) \<Longrightarrow> count_status st rs = 0"
    by (auto simp: count_status_def filter_empty_conv)
  ultimately show ?thesis by (auto simp: breakdown_def)
qed

lemma count_status_total:
  "count_status RecPENDING rs + count_status MATCHED rs + count_status UNMATCHED rs +
     count_status FLAGGED rs = length rs"
proof (induction rs)
  case (Cons r rs)
  then show ?case by (cases "led_reconciliationStatus r") (auto simp: count_status_def)
qed (simp add: count_status_def)

lemma writeInflow_okD:
  assumes "writeInflow e dto st w = (Inr c, w')"
  obtains amount i t receivedAt where
    "js_BigInt (wi_amountKobo dto) = Inr amount"
    "c = inflow_sum (wi_accountId dto) (db w) + amount"
    "db w' = (db w)\<lparr>t_ledgerEntry := t_ledgerEntry (db w) @ [inflow_row dto st amount c receivedAt i t]\<rparr>"
proof -
  have "wp (db w) (\<lambda>c d. \<exists>amount i t receivedAt. js_BigInt (wi_amountKobo dto) = Inr amount \<and>
      c = inflow_sum (wi_accountId dto) (db w) + amount \<and>
      d = (db w)\<lparr>t_ledgerEntry :=
        t_ledgerEntry (db w) @ [inflow_row dto st amount c receivedAt i t]\<rparr>) (\<lambda>_. True)
      (writeInflow e dto st)"
    by (rule writeInflow_wp) (auto simp: Let_def)
  from wpD_Inr [OF this _ assms] that show thesis by auto
qed

section \<open>Properties\<close>

text \<open>The running-total invariant of the account ledger (every inflow row stores the sum of the
  inflows of its account up to and including itself, and no transaction reference occurs twice) is
  kept by every operation that writes the ledger, whether it returns or throws.\<close>

theorem ledger_invariant_kept:
  "keeps_db ledger_inv (writeInflow e wi st) \<and> keeps_db ledger_inv (writeOutflow e wo) \<and>
   keeps_db ledger_inv (updateReconciliationStatus e ref st')"
  by (intro conjI writeInflow_keeps writeOutflow_keeps updateReconciliationStatus_keeps)

text \<open>The account ledger is append-only: after any write operation the old rows are still there, in
  place, with every column but \<open>reconciliationStatus\<close> unchanged.\<close>

theorem ledger_append_only:
  "keeps_db (ledger_extends l) (writeInflow e wi st) \<and> keeps_db (ledger_extends l) (writeOutflow e wo) \<and>
   keeps_db (ledger_extends l) (updateReconciliationStatus e ref st')"
  by (intro conjI writeInflow_extends writeOutflow_extends updateReconciliationStatus_extends)

text \<open>When \<open>writeInflow\<close> returns, it has appended exactly one row to the ledger and changed no other
  table; the row carries the amount of the request, and the returned cumulative amount is both the
  one stored in the row and the sum of all inflows of the account after the write.\<close>

theorem writeInflow_result:
  assumes "writeInflow e dto st w = (Inr c, w')"
  shows "\<exists>r. db w' = (db w)\<lparr>t_ledgerEntry := t_ledgerEntry (db w) @ [r]\<rparr> \<and>
    led_accountId r = wi_accountId dto \<and> led_direction r = INFLOW \<and>
    of_int (led_amountKobo r) = wi_amountKobo dto \<and> led_reconciliationStatus r = st \<and>
    led_cumulativeAmountKobo r = c \<and> c = inflow_sum (wi_accountId dto) (db w')"
  using assms
  by (elim writeInflow_okD) (auto simp: inflow_row_def inflow_sum_def js_BigInt_value)

definition demo_inflow :: writeInflowDto where
  "demo_inflow = \<lparr>wi_accountId = ''a1'', wi_nombaTransactionRef = ''tx1'', wi_nombaEventId = ''ev1'',
     wi_amountKobo = 500, wi_senderName = None, wi_senderAccountNumber = None,
     wi_senderBankCode = None, wi_narration = None, wi_customerNameSnapshot = None,
     wi_kycTierAtTime = None\<rparr>"

theorem writeInflow_result_witness:
  "\<exists>c w' r. writeInflow demo_env demo_inflow MATCHED demo_world = (Inr c, w') \<and> c = 500 \<and>
     t_ledgerEntry (db w') = [r] \<and> led_cumulativeAmountKobo r = 500"
proof -
  let ?m = "writeInflow demo_env demo_inflow MATCHED demo_world"
  have ok: "?m = (Inr 500, snd ?m)" by (rule fst_run) code_simp
  from writeInflow_result [OF ok] show ?thesis
    by (subst ok) (auto simp: demo_defs)
qed

text \<open>An inflow whose transaction reference is already in the ledger is refused and leaves the
  database as it was; on a database without faults and an amount that fits the columns, the error is the
  unique-constraint violation P2002 that the webhook processor reads as a duplicate.\<close>

theorem writeInflow_duplicate:
  assumes "wi_nombaTransactionRef dto \<in> set (map led_nombaTransactionRef (t_ledgerEntry (db w)))"
  shows "db (snd (writeInflow e dto st w)) = db w \<and> isl (fst (writeInflow e dto st w)) \<and>
    (\<forall>amount. (\<forall>n. env_fault e n = None) \<and> wi_amountKobo dto = of_int amount \<and> in_int8 amount \<and>
       in_int8 (inflow_sum (wi_accountId dto) (db w) + amount) \<longrightarrow>
       fst (writeInflow e dto st w) = Inl (DbExn P2002))"
proof (intro conjI allI impI)
  have "wp (db w) (\<lambda>_ _. False) (\<lambda>d. d = db w) (writeInflow e dto st)"
    by (rule writeInflow_wp) (use assms in \<open>auto simp: Let_def taken_def inflow_row_def\<close>)
  from wp_refuses [OF this]
  show "db (snd (writeInflow e dto st w)) = db w" "isl (fst (writeInflow e dto st w))" by simp_all
next
  fix amount
  assume "(\<forall>n. env_fault e n = None) \<and> wi_amountKobo dto = of_int amount \<and> in_int8 amount \<and>
       in_int8 (inflow_sum (wi_accountId dto) (db w) + amount)"
  then show "fst (writeInflow e dto st w) = Inl (DbExn P2002)"
    using assms
    by (simp add: writeInflow_def effect_defs bnd_def lift_sum_def js_BigInt_def is_integer_def
        create_ledgerEntry_def create_row_def inflow_row_def taken_def Let_def)
qed

definition demo_dup_world :: world where
  "demo_dup_world = snd (writeInflow demo_env demo_inflow MATCHED demo_world)"

theorem writeInflow_duplicate_witness:
  "fst (writeInflow demo_env demo_inflow MATCHED demo_dup_world) = Inl (DbExn P2002)"
proof -
  have dup: "wi_nombaTransactionRef demo_inflow
      \<in> set (map led_nombaTransactionRef (t_ledgerEntry (db demo_dup_world)))"
    by code_simp
  have sum: "inflow_sum (wi_accountId demo_inflow) (db demo_dup_world) = 500" by code_simp
  from writeInflow_duplicate [OF dup, THEN conjunct2, THEN conjunct2, rule_format, of demo_env 500]
  show ?thesis unfolding sum by (simp add: demo_env_def demo_inflow_def in_int8_def)
qed

text \<open>The summary of an account is consistent: when it returns, the counts of its four
  reconciliation statuses add up to the number of inflows, and the total is the sum of the inflows.\<close>

theorem getSummary_consistent:
  assumes "getSummary e accountId w = (Inr s, w')"
  shows "sum_list (map (\<lambda>st. getOr (sum_reconciliationBreakdown s st) 0)
            [RecPENDING, MATCHED, UNMATCHED, FLAGGED]) = sum_totalInflows s \<and>
    sum_totalInflows s = length (inflows_of accountId (db w)) \<and>
    sum_totalAmountKobo s = inflow_sum accountId (db w) \<and>
    (sum_lastInflowAt s = None \<longleftrightarrow> inflows_of accountId (db w) = [])"
proof -
  have newest_None: "newest R rs = None \<longleftrightarrow> rs = []" for R :: "ledgerEntry \<Rightarrow> _" and rs
    by (cases rs) (auto split: option.split)
  have "wp (db w) (\<lambda>s d. s = \<lparr>sum_totalInflows = length (inflows_of accountId (db w)),
      sum_totalAmountKobo = inflow_sum accountId (db w),
      sum_lastInflowAt = map_option led_receivedAt
        (newest (\<lambda>a b. led_receivedAt b < led_receivedAt a) (inflows_of accountId (db w))),
      sum_reconciliationBreakdown = breakdown (inflows_of accountId (db w))\<rparr>) (\<lambda>_. True)
      (getSummary e accountId)"
    unfolding getSummary_def by (intro wp_rules refl TrueI)
  from wpD_Inr [OF this refl assms] show ?thesis
    using count_status_total [of "inflows_of accountId (db w)"]
    by (simp add: breakdown_lookup newest_None)
qed

theorem getSummary_consistent_witness:
  "sum_totalInflows (projr (fst (getSummary demo_env ''a1'' demo_dup_world))) = 1"
proof -
  let ?m = "getSummary demo_env ''a1'' demo_dup_world"
  have "isl (fst ?m) = False" by code_simp
  then have "?m = (Inr (projr (fst ?m)), snd ?m)" by (intro fst_run) (cases "fst ?m", auto)
  note * = getSummary_consistent [OF this]
  have "length (inflows_of ''a1'' (db demo_dup_world)) = 1" by code_simp
  with * show ?thesis by simp
qed

text \<open>C39: the CSV export can be read back: below the header line, a reader of quoted CSV recovers, row by
  row in the order of \<open>receivedAt\<close>, every cell of every entry of the account, whatever commas, quotes
  or line breaks it holds, changed only by the guard that prefixes an apostrophe; and no cell that it
  recovers begins with a character that starts a spreadsheet formula.\<close>

theorem exportCsv_readable:
  assumes "exportCsv e accountId w = (Inr csv, w')"
  shows "let rs = order_asc led_receivedAt
                    (filter (\<lambda>r. led_accountId r = accountId) (t_ledgerEntry (db w)))
    in (if rs = [] then csv = csv_header
        else \<exists>body. csv = csv_header @ CHR 0x0A # body \<and>
               read_rows body = Some (map (map csv_guard \<circ> csv_cells) rs)) \<and>
       (\<forall>cells \<in> set (map (map csv_guard \<circ> csv_cells) rs). \<forall>c \<in> set cells.
          c = [] \<or> hd c \<notin> set formula_chars)"
proof -
  let ?rs = "order_asc led_receivedAt
               (filter (\<lambda>r. led_accountId r = accountId) (t_ledgerEntry (db w)))"
  have "wp (db w) (\<lambda>csv d. csv = join [CHR 0x0A] (csv_header # map csv_row ?rs)) (\<lambda>_. True)
      (exportCsv e accountId)"
    unfolding exportCsv_def by (intro wp_rules refl TrueI)
  from wpD_Inr [OF this refl assms]
  have csv: "csv = join [CHR 0x0A] (csv_header # map csv_row ?rs)" .
  show ?thesis
  proof (cases ?rs)
    case Nil
    then show ?thesis using csv by simp
  next
    case (Cons r rs)
    then have "csv = csv_header @ CHR 0x0A # join [CHR 0x0A] (map csv_row ?rs)"
      using csv by simp
    moreover have "read_rows (join [CHR 0x0A] (map csv_row ?rs)) =
        Some (map (map csv_guard \<circ> csv_cells) ?rs)"
      by (rule read_rows_table) (simp add: Cons)
    ultimately show ?thesis using csv_guard_safe Cons by (auto simp: Let_def)
  qed
qed

definition demo_csv :: string where
  "demo_csv = projr (fst (exportCsv demo_env ''a1'' demo_dup_world))"

theorem exportCsv_readable_witness:
  "\<exists>body cells. demo_csv = csv_header @ CHR 0x0A # body \<and> read_rows body = Some [cells]"
proof -
  let ?m = "exportCsv demo_env ''a1'' demo_dup_world"
  have "isl (fst ?m) = False" by code_simp
  then have ok: "?m = (Inr demo_csv, snd ?m)"
    by (intro fst_run) (cases "fst ?m", auto simp: demo_csv_def)
  have "length (order_asc led_receivedAt (filter (\<lambda>r. led_accountId r = ''a1'')
      (t_ledgerEntry (db demo_dup_world)))) = 1"
    by code_simp
  then obtain r where r: "order_asc led_receivedAt (filter (\<lambda>r. led_accountId r = ''a1'')
      (t_ledgerEntry (db demo_dup_world))) = [r]"
    by (auto simp: length_Suc_conv)
  from exportCsv_readable [OF ok] show ?thesis by (auto simp: r Let_def)
qed

end
