(* ===== verification/Treasury_Service.thy ===== *)
theory Treasury_Service
  imports Settlement_Service Ledger_Service
begin

text \<open>
  \<open>src/treasury/treasury.service.ts\<close>: logical buckets, their balances and statements, transfers between
  buckets and the direct withdrawal. Every operation that writes the bucket ledger keeps the
  running-total invariant; transfers conserve money.
\<close>

section \<open>Lookup\<close>

definition TreasuryService_resolveBucket :: "env \<Rightarrow> string \<Rightarrow> string \<Rightarrow> treasuryBucket act" where
  "TreasuryService_resolveBucket e bucketRef businessId =
     bnd (query e (find_bucket bucketRef businessId)) (\<lambda>bucket.
     case bucket of
       None \<Rightarrow> throw (NotFound BUCKET_NOT_FOUND (not_found_message bucketRef))
     | Some b \<Rightarrow> ret b)"

definition TreasuryService_lockBucket :: "env \<Rightarrow> string \<Rightarrow> string \<Rightarrow> treasuryBucket act" where
  "TreasuryService_lockBucket e bucketRef businessId =
     bnd (query e (find_bucket bucketRef businessId)) (\<lambda>rows.
     case rows of
       None \<Rightarrow> throw (NotFound BUCKET_NOT_FOUND (not_found_message bucketRef))
     | Some b \<Rightarrow> ret b)"

definition balanceOf :: "env \<Rightarrow> string \<Rightarrow> int act" where
  "balanceOf e bucketId = transaction e (computeBalance e bucketId)"

section \<open>Provisioning and queries\<close>

record createBucketDto =
  cb_bucketRef :: string
  cb_name :: string
  cb_bucketType :: bucket_type
  cb_description :: "string option"
  cb_settlementType :: "settlement_destination option"
  cb_settlementAccountName :: "string option"
  cb_settlementAccountNumber :: "string option"
  cb_settlementBankCode :: "string option"

fun show_bucket_type :: "bucket_type \<Rightarrow> string" where
  "show_bucket_type PAYROLL = ''PAYROLL''"
| "show_bucket_type TAX_RESERVE = ''TAX_RESERVE''"
| "show_bucket_type OPERATIONS = ''OPERATIONS''"
| "show_bucket_type MARKETING = ''MARKETING''"
| "show_bucket_type SAVINGS = ''SAVINGS''"
| "show_bucket_type CUSTOM = ''CUSTOM''"

definition new_bucket :: "createBucketDto \<Rightarrow> string \<Rightarrow> string \<Rightarrow> int \<Rightarrow> treasuryBucket" where
  "new_bucket dto businessId i t = \<lparr>
     bkt_id = i, bkt_bucketRef = cb_bucketRef dto, bkt_name = cb_name dto,
     bkt_bucketType = cb_bucketType dto, bkt_description = cb_description dto, bkt_status = ACTIVE,
     bkt_businessId = businessId, bkt_settlementType = cb_settlementType dto,
     bkt_settlementAccountName = cb_settlementAccountName dto,
     bkt_settlementAccountNumber = cb_settlementAccountNumber dto,
     bkt_settlementBankCode = cb_settlementBankCode dto, bkt_closedAt = None,
     bkt_closedReason = None, bkt_createdAt = t\<rparr>"

text \<open>The result is the row with \<open>balanceKobo: 0n\<close>.\<close>

definition provisionBucket :: "env \<Rightarrow> createBucketDto \<Rightarrow> string \<Rightarrow> (treasuryBucket \<times> int) act" where
  "provisionBucket e dto businessId =
     bnd (query e (find_bucket (cb_bucketRef dto) businessId)) (\<lambda>existing.
     case existing of
       Some _ \<Rightarrow> throw (Conflict DUPLICATE_ACCOUNT_REF
         (''Treasury bucket with ref '' @ [CHR 0x27] @ cb_bucketRef dto @ [CHR 0x27] @ '' already exists''))
     | None \<Rightarrow>
         bnd (create_treasuryBucket e (new_bucket dto businessId)) (\<lambda>bucket.
         seqm (AuditService_log e ((auditParams ''system'' TREASURY_BUCKET_CREATED)\<lparr>
                 alp_businessId := Some businessId,
                 alp_afterState := Some (JObj
                   [(''bucketRef'', JStr (bkt_bucketRef bucket)),
                    (''bucketType'', JStr (show_bucket_type (bkt_bucketType bucket))),
                    (''name'', JStr (bkt_name bucket)),
                    (''description'', jstr_opt (bkt_description bucket)),
                    (''settlementType'', jstr_opt (map_option show_destination (bkt_settlementType bucket)))])\<rparr>))
           (ret (bucket, 0))))"

fun parse_status :: "string \<Rightarrow> account_status option" where
  "parse_status s =
     (if s = ''ACTIVE'' then Some ACTIVE else if s = ''SUSPENDED'' then Some SUSPENDED
      else if s = ''EXPIRED'' then Some EXPIRED else if s = ''CLOSED'' then Some CLOSED else None)"

definition getBuckets ::
  "env \<Rightarrow> string \<Rightarrow> js_num \<Rightarrow> js_num \<Rightarrow> string option \<Rightarrow> (treasuryBucket list \<times> page_meta) act" where
  "getBuckets e businessId page limit status =
     bnd (lift_sum (text_filter parse_status status)) (\<lambda>st.
     let rows = (\<lambda>d. filter (\<lambda>b. bkt_businessId b = businessId \<and>
                   (case st of None \<Rightarrow> True | Some x \<Rightarrow> bkt_status b = x)) (t_bucket d)) in
     bnd (query e (\<lambda>d. page_rows page limit (order_desc bkt_createdAt (rows d)))) (\<lambda>found.
     bnd (lift_sum found) (\<lambda>buckets.
     bnd (query e (\<lambda>d. length (rows d))) (\<lambda>n.
     ret (buckets, page_info n page limit)))))"

record bucketBalance =
  bb_balanceKobo :: int
  bb_availableKobo :: int
  bb_reservedKobo :: int

definition bucket_balances :: "env \<Rightarrow> string \<Rightarrow> bucketBalance act" where
  "bucket_balances e bucketId =
     bnd (balanceOf e bucketId) (\<lambda>balance.
     bnd (transaction e (reservedKobo e bucketId)) (\<lambda>reserved.
     ret \<lparr>bb_balanceKobo = balance, bb_availableKobo = balance - reserved, bb_reservedKobo = reserved\<rparr>))"

definition getBucket :: "env \<Rightarrow> string \<Rightarrow> string \<Rightarrow> (treasuryBucket \<times> bucketBalance) act" where
  "getBucket e bucketRef businessId =
     bnd (TreasuryService_resolveBucket e bucketRef businessId) (\<lambda>bucket.
     bnd (bucket_balances e (bkt_id bucket)) (\<lambda>bal. ret (bucket, bal)))"

definition TreasuryService_getBalance :: "env \<Rightarrow> string \<Rightarrow> string \<Rightarrow> (string \<times> bucketBalance) act" where
  "TreasuryService_getBalance e bucketRef businessId =
     bnd (TreasuryService_resolveBucket e bucketRef businessId) (\<lambda>bucket.
     bnd (bucket_balances e (bkt_id bucket)) (\<lambda>bal. ret (bkt_bucketRef bucket, bal)))"

definition renameBucket :: "env \<Rightarrow> string \<Rightarrow> string \<Rightarrow> string \<Rightarrow> treasuryBucket act" where
  "renameBucket e bucketRef newName businessId =
     bnd (TreasuryService_resolveBucket e bucketRef businessId) (\<lambda>bucket.
     update_bucket e (bkt_id bucket) (\<lambda>b. b\<lparr>bkt_name := newName\<rparr>))"

definition nonzero_message :: "int \<Rightarrow> int \<Rightarrow> string" where
  "nonzero_message balance reserved =
     ''Treasury bucket has a non-zero balance ('' @ show_int balance @
     '' kobo) or pending reservations ('' @ show_int reserved @ '' kobo) '' @ em_dash @
     '' settle or transfer funds before closing''"

definition closeBucket :: "env \<Rightarrow> string \<Rightarrow> string \<Rightarrow> string \<Rightarrow> treasuryBucket act" where
  "closeBucket e bucketRef businessId actor =
     bnd (TreasuryService_resolveBucket e bucketRef businessId) (\<lambda>bucket.
     if bkt_status bucket = CLOSED
     then throw (BadRequest ACCOUNT_ALREADY_CLOSED ''Treasury bucket is already closed'')
     else
       bnd (balanceOf e (bkt_id bucket)) (\<lambda>balance.
       bnd (transaction e (reservedKobo e (bkt_id bucket))) (\<lambda>reserved.
       if balance \<noteq> 0 \<or> reserved \<noteq> 0
       then throw (BadRequest INSUFFICIENT_BUCKET_BALANCE (nonzero_message balance reserved))
       else
         bnd (now e) (\<lambda>t.
         bnd (update_bucket e (bkt_id bucket) (\<lambda>b. b\<lparr>bkt_status := CLOSED, bkt_closedAt := Some t,
                bkt_closedReason := Some ''Treasury bucket closed via API''\<rparr>)) (\<lambda>updated.
         seqm (AuditService_log e ((auditParams actor TREASURY_BUCKET_CLOSED)\<lparr>
                 alp_businessId := Some businessId,
                 alp_beforeState := Some (JObj [(''status'', JStr (show_status (bkt_status bucket)))]),
                 alp_afterState := Some (JObj [(''status'', JStr ''CLOSED''), (''closedAt'', JStr (iso_string t))]),
                 alp_reasonCode := Some ''BUCKET_CLOSED''\<rparr>))
           (ret updated))))))"

section \<open>Statements\<close>

record statementFilters =
  sf_from :: "string option"
  sf_to :: "string option"
  sf_entryType :: "string option"
  sf_cursor :: "string option"
  sf_limit :: "js_num option"

fun parse_entry_type :: "string \<Rightarrow> bucket_entry_type option" where
  "parse_entry_type s =
     (if s = ''CREDIT'' then Some CREDIT else if s = ''DEBIT'' then Some DEBIT else None)"

text \<open>The rows a statement selects, newest first.\<close>

definition statement_rows ::
  "string \<Rightarrow> int option \<Rightarrow> int option \<Rightarrow> bucket_entry_type option \<Rightarrow> database \<Rightarrow> bucketLedgerEntry list" where
  "statement_rows bucketId lo hi ty d =
     order_desc ble_createdAt (filter (\<lambda>r. ble_bucketId r = bucketId \<and>
       in_range lo hi (ble_createdAt r) \<and>
       (case ty of None \<Rightarrow> True | Some x \<Rightarrow> ble_entryType r = x)) (t_bucketLedger d))"

definition statement_page ::
  "int \<Rightarrow> string option \<Rightarrow> bucketLedgerEntry list \<Rightarrow> exn + (bucketLedgerEntry list \<times> string option)" where
  "statement_page takeN cursor rs =
     (let entries = cursor_window ble_id cursor takeN rs in
      if int (length entries) = takeN
      then (if entries = [] then Inl (JsExn ''Cannot read properties of undefined (reading id)'')
            else Inr (entries, Some (ble_id (last entries))))
      else Inr (entries, None))"

definition getStatement ::
  "env \<Rightarrow> string \<Rightarrow> string \<Rightarrow> statementFilters \<Rightarrow> (bucketLedgerEntry list \<times> string option) act" where
  "getStatement e bucketRef businessId filters =
     bnd (TreasuryService_resolveBucket e bucketRef businessId) (\<lambda>bucket.
     bnd (lift_sum (date_bound e (sf_from filters))) (\<lambda>lo.
     bnd (lift_sum (date_bound e (sf_to filters))) (\<lambda>hi.
     bnd (lift_sum (text_filter parse_entry_type (sf_entryType filters))) (\<lambda>ty.
     bnd (lift_sum (prisma_int (js_min (getOr (sf_limit filters) (Fin 50)) (Fin 100)))) (\<lambda>takeN.
     bnd (query e (\<lambda>d. statement_page takeN (sf_cursor filters)
            (statement_rows (bkt_id bucket) lo hi ty d))) (\<lambda>page.
     lift_sum page))))))"

section \<open>Transfers and withdrawals\<close>

record transferBucketDto =
  tb_destinationBucketRef :: string
  tb_amountKobo :: rat
  tb_narration :: string

definition not_active :: "string \<Rightarrow> treasuryBucket \<Rightarrow> exn" where
  "not_active which b = BadRequest ACCOUNT_NOT_ACTIVE
     (which @ '' bucket is not active (status: '' @ show_status (bkt_status b) @ '')'')"

definition insufficient_bucket :: "int \<Rightarrow> int \<Rightarrow> exn" where
  "insufficient_bucket required available = Unprocessable INSUFFICIENT_BUCKET_BALANCE
     (''Insufficient bucket balance. Required: '' @ show_int required @ '' kobo, Available: '' @
      show_int available @ '' kobo'')"

record transferOutcome =
  to_reference :: string
  to_sourceBalance :: int
  to_destinationBalance :: int

definition transfer_tx ::
  "env \<Rightarrow> string \<Rightarrow> string \<Rightarrow> int \<Rightarrow> string \<Rightarrow> string \<Rightarrow> transferOutcome act" where
  "transfer_tx e sourceRef destRef amountKobo narration businessId = transaction e (
     bnd (TreasuryService_lockBucket e sourceRef businessId) (\<lambda>source.
     bnd (TreasuryService_lockBucket e destRef businessId) (\<lambda>destination.
     if bkt_status source \<noteq> ACTIVE then throw (not_active ''Source'' source)
     else if bkt_status destination \<noteq> ACTIVE then throw (not_active ''Destination'' destination)
     else
       bnd (computeBalance e (bkt_id source)) (\<lambda>sourceBalance.
       if sourceBalance < amountKobo then throw (insufficient_bucket amountKobo sourceBalance)
       else
         bnd (uuidv4 e) (\<lambda>u.
         let ref = ''xfer_'' @ u in
         bnd (computeBalance e (bkt_id destination)) (\<lambda>destBalance.
         seqm (create_bucketLedgerEntry e (bucket_row (bkt_id source) DEBIT amountKobo
                 (sourceBalance - amountKobo) (ref @ ''_out'') None (Some narration))) (
         seqm (create_bucketLedgerEntry e (bucket_row (bkt_id destination) CREDIT amountKobo
                 (destBalance + amountKobo) (ref @ ''_in'') None (Some narration)))
           (ret \<lparr>to_reference = ref, to_sourceBalance = sourceBalance - amountKobo,
                 to_destinationBalance = destBalance + amountKobo\<rparr>))))))))"

definition transferBetweenBuckets ::
  "env \<Rightarrow> string \<Rightarrow> transferBucketDto \<Rightarrow> string \<Rightarrow> string \<Rightarrow> transferOutcome act" where
  "transferBetweenBuckets e sourceBucketRef dto businessId actor =
     (if tb_destinationBucketRef dto = sourceBucketRef
      then throw (BadRequest VALIDATION_ERROR ''Source and destination buckets must differ'')
      else
        bnd (lift_sum (js_BigInt (tb_amountKobo dto))) (\<lambda>amountKobo.
        bnd (transfer_tx e sourceBucketRef (tb_destinationBucketRef dto) amountKobo (tb_narration dto)
               businessId) (\<lambda>result.
        seqm (AuditService_log e ((auditParams actor BUCKET_TRANSFER)\<lparr>
                alp_businessId := Some businessId,
                alp_metadata := Some (JObj
                  [(''reference'', JStr (to_reference result)),
                   (''sourceBucketRef'', JStr sourceBucketRef),
                   (''destinationBucketRef'', JStr (tb_destinationBucketRef dto)),
                   (''amountKobo'', JNum (tb_amountKobo dto))])\<rparr>))
          (ret result))))"

record withdrawDto =
  wd_amountKobo :: rat
  wd_narration :: string
  wd_destinationAccountNumber :: "string option"
  wd_destinationBankCode :: "string option"
  wd_destinationAccountName :: "string option"

definition withdraw_tx ::
  "env \<Rightarrow> string \<Rightarrow> string \<Rightarrow> business \<Rightarrow> int \<Rightarrow> bankTransferRequest \<Rightarrow> string \<Rightarrow> string \<Rightarrow> unit act" where
  "withdraw_tx e bucketRef businessId b amountKobo request transactionRef narration = transaction e (
     bnd (TreasuryService_lockBucket e bucketRef businessId) (\<lambda>locked.
     bnd (computeBalance e (bkt_id locked)) (\<lambda>balance.
     if balance < amountKobo then throw (insufficient_bucket amountKobo balance)
     else
       seqm (bankTransfer e b request) (
       seqm (create_bucketLedgerEntry e (bucket_row (bkt_id locked) DEBIT amountKobo
               (balance - amountKobo) transactionRef None (Some narration)))
         (ret ())))))"

text \<open>\<open>UnprocessableEntityException\<close>, which the Nomba client never throws.\<close>

definition is_unprocessable :: "exn \<Rightarrow> bool" where
  "is_unprocessable x = (case x of HttpExn st c _ \<Rightarrow> st = 422 \<and> c \<noteq> NOMBA_API_ERROR | _ \<Rightarrow> False)"

definition withdrawal_audit ::
  "audit_action \<Rightarrow> string \<Rightarrow> (string \<times> json) list \<Rightarrow> auditLogParams" where
  "withdrawal_audit action businessId kvs =
     (auditParams ''system'' action)\<lparr>alp_businessId := Some businessId, alp_afterState := Some (JObj kvs)\<rparr>"

definition withdraw ::
  "env \<Rightarrow> string \<Rightarrow> withdrawDto \<Rightarrow> string \<Rightarrow> business \<Rightarrow> (string \<times> rat) act" where
  "withdraw e bucketRef dto businessId b =
     bnd (TreasuryService_resolveBucket e bucketRef businessId) (\<lambda>bucket.
     if bkt_status bucket \<noteq> ACTIVE
     then throw (BadRequest ACCOUNT_NOT_ACTIVE
            (''Treasury bucket is not active (current status: '' @ show_status (bkt_status bucket) @ '')''))
     else
       let accountNumber = orElse (wd_destinationAccountNumber dto) (bkt_settlementAccountNumber bucket);
           bankCode = orElse (wd_destinationBankCode dto) (bkt_settlementBankCode bucket);
           accountName = orElse (wd_destinationAccountName dto) (bkt_settlementAccountName bucket) in
       if \<not> str_truthy accountNumber \<or> \<not> str_truthy bankCode \<or> \<not> str_truthy accountName
       then throw (BadRequest VALIDATION_ERROR
              (''Destination bank details required '' @ em_dash @
               '' provide destinationAccountNumber, destinationBankCode, and destinationAccountName, '' @
               ''or configure a BANK_ACCOUNT settlement destination on the bucket''))
       else
         bnd (lift_sum (js_BigInt (wd_amountKobo dto))) (\<lambda>amountKobo.
         bnd (uuidv4 e) (\<lambda>u.
         let transactionRef = ''wdr_'' @ u;
             common = [(''amountKobo'', JNum (wd_amountKobo dto)), (''transactionRef'', JStr transactionRef),
                       (''bucketRef'', JStr bucketRef)] in
         seqm (AuditService_log e (withdrawal_audit TREASURY_WITHDRAWAL_INITIATED businessId
                 ((''narration'', JStr (wd_narration dto)) # common))) (
         catch
           (seqm (withdraw_tx e bucketRef businessId b amountKobo
                    \<lparr>bt_amount = js_div100 amountKobo, bt_accountNumber = the accountNumber,
                     bt_accountName = the accountName, bt_bankCode = the bankCode,
                     bt_merchantTxRef = transactionRef, bt_narration = Some (wd_narration dto)\<rparr>
                    transactionRef (wd_narration dto)) (
            seqm (AuditService_log e (withdrawal_audit TREASURY_WITHDRAWAL_COMPLETED businessId common))
              (ret (transactionRef, wd_amountKobo dto))))
           (\<lambda>error.
             if is_unprocessable error then throw error
             else
               let errorMessage = (if is_http error then exn_message e error else ''Nomba transfer failed'') in
               seqm (AuditService_log e (withdrawal_audit TREASURY_WITHDRAWAL_FAILED businessId
                       (common @ [(''error'', JStr errorMessage)])))
                 (if is_http error then throw error
                  else throw (BadGateway NOMBA_API_ERROR
                         ''Treasury withdrawal failed: Nomba API error'')))))))"

section \<open>Rules for the helpers\<close>

lemma wp_treasury_lock [wp_rules]:
  "(\<And>b. find_bucket ref biz d = Some b \<Longrightarrow> Q b d) \<Longrightarrow> E d \<Longrightarrow>
     wp d Q E (TreasuryService_lockBucket e ref biz)"
  unfolding TreasuryService_lockBucket_def by (intro wp_rules)

lemma wp_treasury_resolve [wp_rules]:
  "(\<And>b. find_bucket ref biz d = Some b \<Longrightarrow> Q b d) \<Longrightarrow> E d \<Longrightarrow>
     wp d Q E (TreasuryService_resolveBucket e ref biz)"
  unfolding TreasuryService_resolveBucket_def by (intro wp_rules)

lemma wp_balanceOf [wp_rules]: "Q (bucket_total b d) d \<Longrightarrow> E d \<Longrightarrow> wp d Q E (balanceOf e b)"
  unfolding balanceOf_def by (intro wp_rules TrueI)

lemma wp_reserved_tx [wp_rules]:
  "Q (reserved_sum b d) d \<Longrightarrow> E d \<Longrightarrow> wp d Q E (transaction e (reservedKobo e b))"
  by (intro wp_rules TrueI)

lemma timed_treasury_helpers [timed_intro]:
  "tick_mono P \<Longrightarrow> timed P (TreasuryService_lockBucket e ref biz)"
  "tick_mono P \<Longrightarrow> timed P (TreasuryService_resolveBucket e ref biz)"
  unfolding TreasuryService_lockBucket_def TreasuryService_resolveBucket_def
  by (intro timed_intro; assumption)+

section \<open>Transfers\<close>

lemma transfer_tx_wp:
  assumes "\<And>sb tb r1 r2 u. find_bucket src biz d = Some sb \<Longrightarrow> find_bucket dst biz d = Some tb \<Longrightarrow>
      bkt_status sb = ACTIVE \<Longrightarrow> bkt_status tb = ACTIVE \<Longrightarrow> amount \<le> bucket_total (bkt_id sb) d \<Longrightarrow>
      \<not> taken ble_reference (t_bucketLedger d) r1 \<Longrightarrow>
      \<not> taken ble_reference (t_bucketLedger d @ [r1]) r2 \<Longrightarrow>
      ble_bucketId r1 = bkt_id sb \<Longrightarrow> ble_delta r1 = - amount \<Longrightarrow>
      ble_cumulativeAmountKobo r1 = bucket_total (bkt_id sb) d - amount \<Longrightarrow>
      ble_bucketId r2 = bkt_id tb \<Longrightarrow> ble_delta r2 = amount \<Longrightarrow>
      ble_cumulativeAmountKobo r2 = bucket_total (bkt_id tb) d + amount \<Longrightarrow>
      Q \<lparr>to_reference = u, to_sourceBalance = bucket_total (bkt_id sb) d - amount,
         to_destinationBalance = bucket_total (bkt_id tb) d + amount\<rparr>
        (d\<lparr>t_bucketLedger := t_bucketLedger d @ [r1, r2]\<rparr>)"
    and "E d"
  shows "wp d Q E (transfer_tx e src dst amount nar biz)"
  unfolding transfer_tx_def
proof (intro wp_rules TrueI assms(2), goal_cases)
  case (1 sb tb u i t i' t')
  then have fresh: "\<not> taken ble_reference (t_bucketLedger d @ [bucket_row (bkt_id sb) DEBIT amount
      (bucket_total (bkt_id sb) d - amount) ((''xfer_'' @ u) @ ''_out'') None (Some nar) i t])
      (bucket_row (bkt_id tb) CREDIT amount (bucket_total (bkt_id tb) d + amount)
      ((''xfer_'' @ u) @ ''_in'') None (Some nar) i' t')"
    by simp
  from assms(1) [OF 1(1,2) _ _ _ 1(6) fresh] 1 show ?case by simp
qed

lemma transfer_wp:
  assumes "\<And>amount sb tb r1 r2 u. js_BigInt (tb_amountKobo dto) = Inr amount \<Longrightarrow>
      src \<noteq> tb_destinationBucketRef dto \<Longrightarrow> find_bucket src biz d = Some sb \<Longrightarrow>
      find_bucket (tb_destinationBucketRef dto) biz d = Some tb \<Longrightarrow>
      bkt_status sb = ACTIVE \<Longrightarrow> bkt_status tb = ACTIVE \<Longrightarrow> amount \<le> bucket_total (bkt_id sb) d \<Longrightarrow>
      \<not> taken ble_reference (t_bucketLedger d) r1 \<Longrightarrow>
      \<not> taken ble_reference (t_bucketLedger d @ [r1]) r2 \<Longrightarrow>
      ble_bucketId r1 = bkt_id sb \<Longrightarrow> ble_delta r1 = - amount \<Longrightarrow>
      ble_cumulativeAmountKobo r1 = bucket_total (bkt_id sb) d - amount \<Longrightarrow>
      ble_bucketId r2 = bkt_id tb \<Longrightarrow> ble_delta r2 = amount \<Longrightarrow>
      ble_cumulativeAmountKobo r2 = bucket_total (bkt_id tb) d + amount \<Longrightarrow>
      Q \<lparr>to_reference = u, to_sourceBalance = bucket_total (bkt_id sb) d - amount,
         to_destinationBalance = bucket_total (bkt_id tb) d + amount\<rparr>
        (d\<lparr>t_bucketLedger := t_bucketLedger d @ [r1, r2]\<rparr>)"
    and "E d"
  shows "wp d Q E (transferBetweenBuckets e src dto biz actor)"
  unfolding transferBetweenBuckets_def
  by (intro wp_rules transfer_tx_wp assms(2) audit.log_wp) (rule assms(1); simp)

text \<open>A database whose buckets have distinct ids and whose running totals are right.\<close>

definition ledgers_ok :: "database \<Rightarrow> bool" where
  "ledgers_ok d = (bucket_inv d \<and> distinct (map bkt_id (t_bucket d)))"

lemma transfer_keeps: "keeps_db ledgers_ok (transferBetweenBuckets e src dto biz actor)"
proof (rule keeps_from_wp, rule transfer_wp)
  fix d amount sb tb r1 r2
  assume inv: "ledgers_ok d" and ne: "src \<noteq> tb_destinationBucketRef dto"
    and sb: "find_bucket src biz d = Some sb" and tb: "find_bucket (tb_destinationBucketRef dto) biz d = Some tb"
    and r1: "\<not> taken ble_reference (t_bucketLedger d) r1" "ble_bucketId r1 = bkt_id sb"
      "ble_delta r1 = - amount" "ble_cumulativeAmountKobo r1 = bucket_total (bkt_id sb) d - amount"
    and r2: "\<not> taken ble_reference (t_bucketLedger d @ [r1]) r2" "ble_bucketId r2 = bkt_id tb"
      "ble_delta r2 = amount" "ble_cumulativeAmountKobo r2 = bucket_total (bkt_id tb) d + amount"
  have ids: "bkt_id sb \<noteq> bkt_id tb"
    using find_bucket_distinct [OF sb tb ne] inv by (simp add: ledgers_ok_def)
  have one: "bucket_inv (d\<lparr>t_bucketLedger := t_bucketLedger d @ [r1]\<rparr>)" (is "bucket_inv ?d1")
    by (rule bucket_inv_snoc) (use inv r1 in \<open>simp_all add: ledgers_ok_def\<close>)
  have "bucket_inv (?d1\<lparr>t_bucketLedger := t_bucketLedger ?d1 @ [r2]\<rparr>)"
    by (rule bucket_inv_snoc [OF one]) (use r1 r2 ids in \<open>simp_all add: bucket_total_def\<close>)
  then show "ledgers_ok (d\<lparr>t_bucketLedger := t_bucketLedger d @ [r1, r2]\<rparr>)"
    using inv by (simp add: ledgers_ok_def)
qed

lemma ledgers_ok_debit:
  assumes "ledgers_ok d" "\<not> taken ble_reference (t_bucketLedger d) r"
    "ble_cumulativeAmountKobo r = bucket_total (ble_bucketId r) d + ble_delta r"
  shows "ledgers_ok (d\<lparr>t_bucketLedger := t_bucketLedger d @ [r]\<rparr>)"
  using assms bucket_inv_snoc [of d r] by (simp add: ledgers_ok_def)

lemma withdraw_keeps: "keeps_db ledgers_ok (withdraw e ref dto biz b)"
  unfolding withdraw_def withdraw_tx_def
  by (rule keeps_from_wp, intro wp_rules TrueI audit.log_wp allI)
    (auto intro!: wp_rules audit.log_wp ledgers_ok_debit)

lemma credit_keeps_ledgers: "keeps_db ledgers_ok (credit e p)"
  by (rule keeps_from_wp, rule credit_wp) (auto intro!: ledgers_ok_debit)

lemma update_bucket_frame:
  assumes "ledgers_ok d" "\<And>b. bkt_id (f b) = bkt_id b"
  shows "ledgers_ok (d\<lparr>t_bucket := update_rows P f (t_bucket d)\<rparr>)"
  using assms by (simp add: ledgers_ok_def bucket_inv_def map_update_rows)

lemma closeBucket_keeps: "keeps_db ledgers_ok (closeBucket e ref biz actor)"
  unfolding closeBucket_def update_bucket_def
  by (rule keeps_from_wp, intro wp_rules TrueI audit.log_wp) (auto intro!: update_bucket_frame)

lemma renameBucket_keeps: "keeps_db ledgers_ok (renameBucket e ref nm biz)"
  unfolding renameBucket_def update_bucket_def
  by (rule keeps_from_wp, intro wp_rules TrueI) (auto intro!: update_bucket_frame)

lemma provisionBucket_keeps: "keeps_db ledgers_ok (provisionBucket e dto biz)"
  unfolding provisionBucket_def create_treasuryBucket_def
  by (rule keeps_from_wp, intro wp_rules TrueI audit.log_wp)
    (auto simp: ledgers_ok_def bucket_inv_def taken_def split: if_splits)

section \<open>Paging through a statement\<close>

text \<open>A client that follows \<open>nextCursor\<close> from page to page.\<close>

fun walk_statement ::
  "nat \<Rightarrow> nat \<Rightarrow> string option \<Rightarrow> bucketLedgerEntry list \<Rightarrow> bucketLedgerEntry list" where
  "walk_statement 0 n cursor rs = []"
| "walk_statement (Suc fuel) n cursor rs =
     (case statement_page (int n) cursor rs of
        Inl _ \<Rightarrow> []
      | Inr (entries, None) \<Rightarrow> entries
      | Inr (entries, Some c) \<Rightarrow> entries @ walk_statement fuel n (Some c) rs)"

lemma after_cursor_drop:
  assumes "distinct (map key rs)" "k < length rs" "key (rs ! k) = c" "c \<noteq> []"
  shows "after_cursor key (Some c) rs = drop (Suc k) rs"
proof -
  have "dropWhile (\<lambda>r. key r \<noteq> c) rs = drop k rs"
    using assms
  proof (induction rs arbitrary: k)
    case (Cons r rs)
    then show ?case by (cases k) auto
  qed simp
  then show ?thesis using assms(4) by (simp add: after_cursor_def)
qed

lemma walk_from:
  assumes "distinct (map ble_id rs)" "[] \<notin> set (map ble_id rs)" "0 < n"
    and "k \<le> length rs" "length rs - k < fuel * n"
    and "cursor = None \<and> k = 0 \<or> (\<exists>j. k = Suc j \<and> cursor = Some (ble_id (rs ! j)))"
  shows "walk_statement fuel n cursor rs = drop k rs"
  using assms(4-6)
proof (induction fuel arbitrary: k cursor)
  case (Suc fuel)
  have rest: "after_cursor ble_id cursor rs = drop k rs"
  proof (cases cursor)
    case (Some c)
    then obtain j where j: "k = Suc j" "c = ble_id (rs ! j)" using Suc.prems by auto
    then have "rs ! j \<in> set rs" using Suc.prems(1) by simp
    then have "ble_id (rs ! j) \<noteq> []" using assms(2) by (auto simp: image_iff)
    then show ?thesis using after_cursor_drop [OF assms(1), of j] Suc.prems(1) j Some by simp
  qed (use Suc.prems in \<open>auto simp: after_cursor_def\<close>)
  show ?case
  proof (cases "n \<le> length rs - k")
    case True
    have last: "last (take n (drop k rs)) = rs ! (k + n - 1)"
      using True assms(3) Suc.prems(1) by (subst last_conv_nth) (auto simp: nth_append)
    have "walk_statement fuel n (Some (ble_id (rs ! (k + n - 1)))) rs = drop (k + n) rs"
      by (rule Suc.IH) (use True assms(3) Suc.prems in \<open>auto simp: algebra_simps intro!: exI [of _ "k + n - 1"]\<close>)
    moreover have "take n (drop k rs) @ drop (k + n) rs = drop k rs"
      by (metis add.commute append_take_drop_id drop_drop)
    ultimately show ?thesis
      using True assms(3) last by (auto simp: statement_page_def cursor_window_def rest Let_def)
  next
    case False
    then show ?thesis by (simp add: statement_page_def cursor_window_def rest Let_def)
  qed
qed simp

section \<open>Properties\<close>

text \<open>Every operation on buckets keeps the bucket ledger consistent (each entry stores credits minus
  debits of its bucket up to itself, references are unique, bucket ids are distinct), whether it
  returns or throws.\<close>

theorem bucket_ledger_invariant:
  "keeps_db ledgers_ok (credit e cp) \<and> keeps_db ledgers_ok (transferBetweenBuckets e ref tdto biz actor) \<and>
   keeps_db ledgers_ok (withdraw e ref wdto biz b) \<and> keeps_db ledgers_ok (closeBucket e ref biz actor) \<and>
   keeps_db ledgers_ok (renameBucket e ref nm biz) \<and> keeps_db ledgers_ok (provisionBucket e bdto biz)"
  by (intro conjI credit_keeps_ledgers transfer_keeps withdraw_keeps closeBucket_keeps
      renameBucket_keeps provisionBucket_keeps)

text \<open>C19: a transfer conserves money: when it returns, the source bucket has lost and the destination has
  gained exactly the amount, which the source held, every other bucket is as before, both returned
  balances are the new ones; when it throws, the database is unchanged.\<close>

theorem transfer_conserves:
  assumes "distinct (map bkt_id (t_bucket (db w)))"
  shows "case transferBetweenBuckets e src dto biz actor w of
      (Inl _, w') \<Rightarrow> db w' = db w
    | (Inr r, w') \<Rightarrow> (\<exists>amount sb tb. of_int amount = tb_amountKobo dto \<and>
        find_bucket src biz (db w) = Some sb \<and>
        find_bucket (tb_destinationBucketRef dto) biz (db w) = Some tb \<and> bkt_id sb \<noteq> bkt_id tb \<and>
        amount \<le> bucket_total (bkt_id sb) (db w) \<and>
        to_sourceBalance r = bucket_total (bkt_id sb) (db w') \<and>
        to_destinationBalance r = bucket_total (bkt_id tb) (db w') \<and>
        (\<forall>b. bucket_total b (db w') = bucket_total b (db w) - (if b = bkt_id sb then amount else 0)
           + (if b = bkt_id tb then amount else 0)))"
proof -
  let ?Q = "\<lambda>r d'. \<exists>amount sb tb. of_int amount = tb_amountKobo dto \<and>
        find_bucket src biz (db w) = Some sb \<and>
        find_bucket (tb_destinationBucketRef dto) biz (db w) = Some tb \<and> bkt_id sb \<noteq> bkt_id tb \<and>
        amount \<le> bucket_total (bkt_id sb) (db w) \<and>
        to_sourceBalance r = bucket_total (bkt_id sb) d' \<and>
        to_destinationBalance r = bucket_total (bkt_id tb) d' \<and>
        (\<forall>b. bucket_total b d' = bucket_total b (db w) - (if b = bkt_id sb then amount else 0)
           + (if b = bkt_id tb then amount else 0))"
  have "wp (db w) ?Q (\<lambda>d'. d' = db w) (transferBetweenBuckets e src dto biz actor)"
  proof (rule transfer_wp)
    fix amount sb tb r1 r2 u
    assume a: "js_BigInt (tb_amountKobo dto) = Inr amount" "src \<noteq> tb_destinationBucketRef dto"
      "find_bucket src biz (db w) = Some sb" "find_bucket (tb_destinationBucketRef dto) biz (db w) = Some tb"
      "amount \<le> bucket_total (bkt_id sb) (db w)" "ble_bucketId r1 = bkt_id sb" "ble_delta r1 = - amount"
      "ble_bucketId r2 = bkt_id tb" "ble_delta r2 = amount"
    have "bkt_id sb \<noteq> bkt_id tb" by (rule find_bucket_distinct [OF a(3,4,2) assms])
    then show "?Q \<lparr>to_reference = u, to_sourceBalance = bucket_total (bkt_id sb) (db w) - amount,
         to_destinationBalance = bucket_total (bkt_id tb) (db w) + amount\<rparr>
        ((db w)\<lparr>t_bucketLedger := t_bucketLedger (db w) @ [r1, r2]\<rparr>)"
      using a js_BigInt_value [OF a(1)]
      by (intro exI [of _ amount] exI [of _ sb] exI [of _ tb]) (simp add: bucket_total_def)
  qed simp
  from wp_run [OF this] show ?thesis .
qed

definition demo_transfer :: transferBucketDto where
  "demo_transfer = \<lparr>tb_destinationBucketRef = ''tax'', tb_amountKobo = 300, tb_narration = ''n''\<rparr>"

theorem transfer_conserves_witness:
  "\<exists>r w'. transferBetweenBuckets demo_env ''payroll'' demo_transfer ''b1'' ''me'' demo_credited = (Inr r, w') \<and>
     to_destinationBalance r = 300 \<and> (\<exists>b. to_destinationBalance r = bucket_total b (db w'))"
proof -
  let ?m = "transferBetweenBuckets demo_env ''payroll'' demo_transfer ''b1'' ''me'' demo_credited"
  have ids: "distinct (map bkt_id (t_bucket (db demo_credited)))" by code_simp
  have "map_sum id to_destinationBalance (fst ?m) = Inr 300" by code_simp
  then obtain r where r: "fst ?m = Inr r" "to_destinationBalance r = 300" by (cases "fst ?m") auto
  then obtain w' where w': "?m = (Inr r, w')" by (cases ?m) auto
  from transfer_conserves [OF ids, where e = demo_env and src = "''payroll''" and dto = demo_transfer
      and biz = "''b1''" and actor = "''me''"]
  show ?thesis using r(2) w' by (simp add: w' del: fst_conv) blast
qed

text \<open>A bucket is closed only when it is empty: a successful \<open>closeBucket\<close> found balance and reservations
  both zero and leaves the bucket CLOSED; a closed bucket cannot be closed again.\<close>

theorem closeBucket_empty:
  assumes "closeBucket e ref biz actor w = (Inr b', w')"
  shows "\<exists>b. find_bucket ref biz (db w) = Some b \<and> bkt_status b \<noteq> CLOSED \<and>
    bucket_total (bkt_id b) (db w) = 0 \<and> reserved_sum (bkt_id b) (db w) = 0 \<and>
    bkt_status b' = CLOSED \<and> t_bucketLedger (db w') = t_bucketLedger (db w)"
proof -
  have "wp (db w) (\<lambda>b' d'. \<exists>b. find_bucket ref biz (db w) = Some b \<and> bkt_status b \<noteq> CLOSED \<and>
    bucket_total (bkt_id b) (db w) = 0 \<and> reserved_sum (bkt_id b) (db w) = 0 \<and>
    bkt_status b' = CLOSED \<and> t_bucketLedger d' = t_bucketLedger (db w)) (\<lambda>_. True)
    (closeBucket e ref biz actor)"
    unfolding closeBucket_def update_bucket_def by (intro wp_rules TrueI audit.log_wp) auto
  from wpD_Inr [OF this refl assms] show ?thesis .
qed

theorem closeBucket_empty_witness:
  "\<exists>b' w'. closeBucket demo_env ''tax'' ''b1'' ''me'' demo_world = (Inr b', w') \<and> bkt_status b' = CLOSED"
proof -
  let ?m = "closeBucket demo_env ''tax'' ''b1'' ''me'' demo_world"
  have "isl (fst ?m) = False" by code_simp
  then obtain b where b: "?m = (Inr b, snd ?m)" by (cases ?m; cases "fst ?m") auto
  from closeBucket_empty [OF b] b show ?thesis by blast
qed

text \<open>C38: paging through a statement loses and repeats nothing: for any page size of at least one, following
  \<open>nextCursor\<close> from the first page returns all selected entries in order, within as many requests as
  there are full pages plus one.\<close>

theorem statement_walk_complete:
  assumes "distinct (map ble_id rs)" and "[] \<notin> set (map ble_id rs)" and "0 < n"
    and "length rs div n < fuel"
  shows "walk_statement fuel n None rs = rs"
proof -
  have "length rs < fuel * n"
    using assms(3,4) by (metis div_less_iff_less_mult)
  then show ?thesis using walk_from [OF assms(1-3), of 0 fuel None] by simp
qed

theorem statement_walk_complete_witness:
  "walk_statement 3 1 None (map (\<lambda>i. bucket_row ''b'' CREDIT 1 1 i None None i 0) [''x'', ''y'']) =
     map (\<lambda>i. bucket_row ''b'' CREDIT 1 1 i None None i 0) [''x'', ''y'']"
  by (rule statement_walk_complete) (simp_all add: bucket_row_def)

definition demo_reserved :: world where
  "demo_reserved = snd (reserve_tx demo_env ''payroll'' ''b1'' 500
     (resolve_destination demo_settlement (demo_bucket ''bk1'' ''payroll'')) ''me'' demo_credited)"

definition demo_drained :: world where
  "demo_drained = snd (transferBetweenBuckets demo_env ''payroll''
     (demo_transfer\<lparr>tb_amountKobo := 700\<rparr>) ''b1'' ''me'' demo_reserved)"

definition demo_overdrawn :: world where
  "demo_overdrawn = snd (complete_tx demo_env (stl_id (hd (t_settlement (db demo_reserved)))) ''payroll'' 500 ''b1''
     ''nref'' None demo_drained)"

text \<open>A transfer ignores reservations: while a settlement of 500 is reserved in a bucket of 700, a transfer
  of all 700 succeeds, and when the settlement then completes the balance of the bucket is -500.\<close>

theorem transfer_overdraws_reserved:
  "fst (reservedKobo demo_env ''bk1'' demo_reserved) = Inr 500 \<and>
   fst (computeBalance demo_env ''bk1'' demo_drained) = Inr 0 \<and>
   fst (computeBalance demo_env ''bk1'' demo_overdrawn) = Inr (- 500)"
  by code_simp

end
