(* ===== verification/Treasury_Protocol.thy ===== *)
theory Treasury_Protocol
  imports Treasury_Service
begin

text \<open>
  Concurrency of the treasury. A settlement request is not atomic: between its reservation, its
  PROCESSING mark, the transfer, and its completion or failure, other requests run. The state of the
  transition system is the world together with the settlement requests in flight; each step is one
  transaction or statement of the code. The transactions of settlements lock the row of their bucket, so
  that two of them do not overlap. A credit does not lock it: it is serializable against other credits only,
  and \<open>credit_step\<close> is a credit that overlaps no other transaction on its bucket. What happens when it
  does is the subject of \<open>credit_of_stale_balance\<close>. Transfers and direct withdrawals, which ignore reservations,
  are not among the steps.
\<close>

record flight =
  fl_id :: string
  fl_ref :: string
  fl_biz :: string
  fl_amount :: int

inductive treasury_step :: "env \<Rightarrow> world \<times> flight list \<Rightarrow> world \<times> flight list \<Rightarrow> bool" for e where
  reserve: "0 < amount \<Longrightarrow> reserve_tx e ref biz amount dst actor w = (Inr s, w') \<Longrightarrow>
     treasury_step e (w, fs)
       (w', \<lparr>fl_id = stl_id s, fl_ref = ref, fl_biz = biz, fl_amount = amount\<rparr> # fs)"
| reserve_refused: "0 < amount \<Longrightarrow> reserve_tx e ref biz amount dst actor w = (Inl x, w') \<Longrightarrow>
     treasury_step e (w, fs) (w', fs)"
| processing: "f \<in> set fs \<Longrightarrow> mark_processing e (fl_id f) w = (Inr s, w') \<Longrightarrow>
     treasury_step e (w, fs) (w', fs)"
| processing_fault: "f \<in> set fs \<Longrightarrow> mark_processing e (fl_id f) w = (Inl x, w') \<Longrightarrow>
     treasury_step e (w, fs) (w', remove1 f fs)"
| bank_call: "bankTransfer e b request w = (r, w') \<Longrightarrow> treasury_step e (w, fs) (w', fs)"
| complete: "f \<in> set fs \<Longrightarrow>
     complete_tx e (fl_id f) (fl_ref f) (fl_amount f) (fl_biz f) nref nar w = (Inr u, w') \<Longrightarrow>
     treasury_step e (w, fs) (w', remove1 f fs)"
| complete_fault: "f \<in> set fs \<Longrightarrow>
     complete_tx e (fl_id f) (fl_ref f) (fl_amount f) (fl_biz f) nref nar w = (Inl x, w') \<Longrightarrow>
     treasury_step e (w, fs) (w', fs)"
| settle_internal: "f \<in> set fs \<Longrightarrow> dest \<noteq> fl_ref f \<Longrightarrow>
     settleInternal_tx e (fl_id f) (fl_ref f) dest (fl_amount f) (fl_biz f) nar w = (Inr u, w') \<Longrightarrow>
     treasury_step e (w, fs) (w', remove1 f fs)"
| settle_internal_fault: "f \<in> set fs \<Longrightarrow> dest \<noteq> fl_ref f \<Longrightarrow>
     settleInternal_tx e (fl_id f) (fl_ref f) dest (fl_amount f) (fl_biz f) nar w = (Inl x, w') \<Longrightarrow>
     treasury_step e (w, fs) (w', fs)"
| fail: "f \<in> set fs \<Longrightarrow> mark_failed e (fl_id f) msg w = (r, w') \<Longrightarrow>
     treasury_step e (w, fs) (w', remove1 f fs)"
| credit_step: "0 \<le> cr_amountKobo p \<Longrightarrow> credit e p w = (r, w') \<Longrightarrow> treasury_step e (w, fs) (w', fs)"
| provision: "provisionBucket e dto biz w = (r, w') \<Longrightarrow> treasury_step e (w, fs) (w', fs)"
| rename: "renameBucket e ref nm biz w = (r, w') \<Longrightarrow> treasury_step e (w, fs) (w', fs)"

inductive_cases treasury_stepE: "treasury_step e s t"

text \<open>The initial states: nothing reserved, nothing in flight, an empty bucket ledger.\<close>

definition protocol_init :: "world \<times> flight list \<Rightarrow> bool" where
  "protocol_init s =
     (t_bucketLedger (db (fst s)) = [] \<and> t_settlement (db (fst s)) = [] \<and>
      distinct (map bkt_id (t_bucket (db (fst s)))) \<and> snd s = [])"

text \<open>
  The indexed lookup of the newest entry picks the one with the greatest creation time. A step is in order when
  the entries it leaves have creation times that increase with their insertion, which nothing in the code or in
  the database enforces (two transactions may take their times and their locks in different orders).
\<close>

definition ordered_step :: "env \<Rightarrow> world \<times> flight list \<Rightarrow> world \<times> flight list \<Rightarrow> bool" where
  "ordered_step e s t = (treasury_step e s t \<and> in_order (db (fst t)))"

text \<open>Every request in flight holds its reservation in its own bucket.\<close>

definition flying :: "database \<Rightarrow> flight \<Rightarrow> bool" where
  "flying d f =
     (\<exists>bk. find_bucket (fl_ref f) (fl_biz f) d = Some bk \<and> holds (fl_id f) (bkt_id bk) (fl_amount f) d)"

definition holding :: "world \<times> flight list \<Rightarrow> bool" where
  "holding s =
     (treasury_inv (db (fst s)) \<and> distinct (map fl_id (snd s)) \<and> (\<forall>f \<in> set (snd s). flying (db (fst s)) f))"

definition protocol_inv :: "world \<times> flight list \<Rightarrow> bool" where
  "protocol_inv s = (holding s \<and> in_order (db (fst s)))"

section \<open>A clock that orders the steps\<close>

text \<open>When every statement gets a later time than the one before it, every step is in order.\<close>

lemma clock_later:
  assumes "strict_mono (env_now e)" "clock_inv e n d" "t_bucketLedger d' = t_bucketLedger d"
  shows "clock_inv e (Suc n) d'"
proof -
  have "clock_inv e (Suc n) d" using tick_mono_clock [OF assms(1)] assms(2) by (simp add: tick_mono_def)
  then show ?thesis using clock_inv_frame [OF assms(3)] by simp
qed

lemma timed_create_settlement [timed_intro]:
  "strict_mono (env_now e) \<Longrightarrow> timed (clock_inv e) (create_settlement e mk)"
  unfolding create_settlement_def
  by (rule timed_create_row [OF tick_mono_clock]) (auto elim: clock_later)

lemma timed_update_settlement [timed_intro]:
  "strict_mono (env_now e) \<Longrightarrow> timed (clock_inv e) (update_settlement e i f)"
  unfolding update_settlement_def
  by (rule timed_prisma [OF tick_mono_clock])
    (auto split: option.splits if_splits elim: clock_later)

lemma timed_create_bucket [timed_intro]:
  "strict_mono (env_now e) \<Longrightarrow> timed (clock_inv e) (create_treasuryBucket e mk)"
  unfolding create_treasuryBucket_def
  by (rule timed_create_row [OF tick_mono_clock]) (auto elim: clock_later)

lemma timed_update_bucket [timed_intro]:
  "strict_mono (env_now e) \<Longrightarrow> timed (clock_inv e) (update_bucket e i f)"
  unfolding update_bucket_def
  by (rule timed_update_row [OF tick_mono_clock]) (simp_all add: clock_inv_def in_order_def)

lemma timed_randomBytes [timed_intro]: "tick_mono P \<Longrightarrow> timed P (randomBytes e)"
  by (simp add: timed_def randomBytes_def tick_mono_def)

lemma timed_case_http [timed_intro]:
  "(\<And>s b. timed P (f s b)) \<Longrightarrow> (\<And>m. timed P (g m)) \<Longrightarrow>
     timed P (case v of HttpResp s b \<Rightarrow> f s b | NetError m \<Rightarrow> g m)"
  by (cases v) auto

lemma timed_axios [timed_intro]: "tick_mono P \<Longrightarrow> timed P (axios e r m)"
  unfolding axios_def by (intro timed_intro)

lemma timed_getToken [timed_intro]: "tick_mono P \<Longrightarrow> timed P (getToken e b)"
proof -
  have cache: "timed P (cached_token i)" "timed P (cache_token i x)" for i x
    by (simp_all add: timed_def cached_token_def cache_token_def)
  assume "tick_mono P"
  then show ?thesis unfolding getToken_def by (intro timed_intro cache)
qed

lemma timed_bankTransfer [timed_intro]: "tick_mono P \<Longrightarrow> timed P (bankTransfer e b request)"
  unfolding bankTransfer_def mockBankTransfer_def mock_result_def by (intro timed_intro)

lemma timed_steps:
  assumes "strict_mono (env_now e)"
  shows "timed (clock_inv e) (reserve_tx e ref biz amount dst actor)"
    and "timed (clock_inv e) (mark_processing e i)"
    and "timed (clock_inv e) (bankTransfer e b request)"
    and "timed (clock_inv e) (complete_tx e i ref amount biz nref nar)"
    and "timed (clock_inv e) (settleInternal_tx e i ref dest amount biz nar)"
    and "timed (clock_inv e) (mark_failed e i msg)"
    and "timed (clock_inv e) (provisionBucket e dto biz)"
    and "timed (clock_inv e) (renameBucket e ref nm biz)"
  unfolding reserve_tx_def mark_processing_def complete_tx_def settleInternal_tx_def mark_failed_def
    mark_completed_def provisionBucket_def renameBucket_def
  by (intro timed_intro audit.log_timed tick_mono_clock assms)+

lemma clock_orders_steps:
  assumes "strict_mono (env_now e)" "treasury_step e s t" "clock_inv e (tick (fst s)) (db (fst s))"
  shows "clock_inv e (tick (fst t)) (db (fst t)) \<and> ordered_step e s t"
proof -
  have "clock_inv e (tick w') (db w')" if "timed (clock_inv e) m" "m w = (r, w')" "clock_inv e (tick w) (db w)"
    for m :: "'b act" and w w' r
    using timedD [OF that(1,3)] that(2) by simp
  note kept = this [OF timed_steps(1) [OF assms(1)]] this [OF timed_steps(2) [OF assms(1)]]
    this [OF timed_steps(3) [OF assms(1)]] this [OF timed_steps(4) [OF assms(1)]]
    this [OF timed_steps(5) [OF assms(1)]] this [OF timed_steps(6) [OF assms(1)]]
    this [OF timed_steps(7) [OF assms(1)]] this [OF timed_steps(8) [OF assms(1)]]
    this [OF credit_timed [OF assms(1)]]
  have "clock_inv e (tick (fst t)) (db (fst t))"
    using assms(2,3) by (cases rule: treasury_step.cases) (auto elim: kept)
  with assms(2) show ?thesis by (simp add: ordered_step_def clock_inv_def)
qed

section \<open>Requests in flight keep their reservations\<close>

lemma flying_frame:
  assumes "flying d f" "t_bucket d' = t_bucket d"
    "\<And>b. holds (fl_id f) b (fl_amount f) d \<Longrightarrow> holds (fl_id f) b (fl_amount f) d'"
  shows "flying d' f"
  using assms by (auto simp: flying_def find_bucket_def)

lemma holds_other:
  assumes "holds j b a d" "j \<noteq> i"
    "t_settlement d' = update_rows (\<lambda>s. stl_id s = i) g (t_settlement d)"
  shows "holds j b a d'"
  using assms unfolding holds_def by (force simp: set_update_rows)

lemma holds_append: "holds j b a d \<Longrightarrow> holds j b a (d\<lparr>t_settlement := t_settlement d @ [s]\<rparr>)"
  by (auto simp: holds_def)

text \<open>How the steps on one settlement change the table of settlements.\<close>

lemma settlement_updates:
  "wp d (\<lambda>_ d'. \<exists>g. t_settlement d' = update_rows (\<lambda>s. stl_id s = i) g (t_settlement d)) (\<lambda>d'. d' = d)
     (complete_tx e i ref amount biz nref nar)"
  "wp d (\<lambda>_ d'. \<exists>g. t_settlement d' = update_rows (\<lambda>s. stl_id s = i) g (t_settlement d)) (\<lambda>d'. d' = d)
     (settleInternal_tx e i ref dest amount biz nar)"
  "wp d (\<lambda>_ d'. t_settlement d' = t_settlement d \<or>
     (\<exists>g. t_settlement d' = update_rows (\<lambda>s. stl_id s = i) g (t_settlement d))) (\<lambda>_. False)
     (mark_failed e i msg)"
  "wp d (\<lambda>_ d'. \<exists>g. t_settlement d' = update_rows (\<lambda>s. stl_id s = i) g (t_settlement d)) (\<lambda>d'. d' = d)
     (mark_processing e i)"
  unfolding complete_tx_def settleInternal_tx_def mark_failed_def mark_completed_def mark_processing_def
  by (intro wp_rules TrueI refl allI, auto)+

lemma flying_others:
  assumes "\<forall>f \<in> set fs. flying d f" "t_bucket d' = t_bucket d"
    "\<exists>g. t_settlement d' = update_rows (\<lambda>s. stl_id s = fl_id f) g (t_settlement d)"
    "distinct (map fl_id fs)" "f \<in> set fs"
  shows "\<forall>f' \<in> set (remove1 f fs). flying d' f'"
proof
  fix f' assume f': "f' \<in> set (remove1 f fs)"
  have "distinct fs" using assms(4) by (simp add: distinct_map)
  with f' have "f' \<in> set fs" "f' \<noteq> f" by auto
  with assms(4,5) have "fl_id f' \<noteq> fl_id f" by (auto simp: distinct_map inj_on_def)
  with assms(1-3) \<open>f' \<in> set fs\<close> show "flying d' f'" by (blast intro: flying_frame holds_other)
qed

lemma flying_same:
  assumes "flying d f" "t_bucket d' = t_bucket d" "t_settlement d' = t_settlement d"
  shows "flying d' f"
  using assms by (simp add: flying_def find_bucket_def holds_def)

lemma distinct_remove1_map: "distinct (map g xs) \<Longrightarrow> distinct (map g (remove1 x xs))"
  by (induction xs) (auto dest: set_remove1_subset [THEN subsetD])

section \<open>The invariant\<close>

text \<open>The database of a state after a step, from the weakest-precondition lemmas of the operations.\<close>

lemma holdingI:
  assumes "treasury_inv (db w')" "distinct (map fl_id fs')" "\<forall>f \<in> set fs'. flying (db w') f"
  shows "holding (w', fs')"
  using assms by (simp add: holding_def)

lemma protocol_invD:
  assumes "protocol_inv (w, fs)"
  shows "treasury_inv (db w)" "in_order (db w)" "distinct (map fl_id fs)" "\<forall>f \<in> set fs. flying (db w) f"
  using assms by (simp_all add: protocol_inv_def holding_def)

lemma flying_id: "flying d f \<Longrightarrow> fl_id f \<in> set (map stl_id (t_settlement d))"
  by (force simp: flying_def holds_def)

lemma reserve_inv:
  assumes inv: "protocol_inv (w, fs)" and "0 < amount"
    and run: "reserve_tx e ref biz amount dst actor w = (Inr s, w')"
  shows "holding (w', \<lparr>fl_id = stl_id s, fl_ref = ref, fl_biz = biz, fl_amount = amount\<rparr> # fs)"
proof -
  note i = protocol_invD [OF inv]
  from wpD_Inr [OF reserve_tx_wp [OF i(1,2) assms(2)] refl run] obtain b where
    d': "treasury_inv (db w')" "db w' = (db w)\<lparr>t_settlement := t_settlement (db w) @ [s]\<rparr>"
      "find_bucket ref biz (db w) = Some b" "holds (stl_id s) (bkt_id b) amount (db w')" by blast
  have ids: "distinct (map stl_id (t_settlement (db w) @ [s]))"
    using d'(1,2) by (simp add: treasury_inv_def settlements_ok_def)
  then have fresh: "stl_id s \<notin> set (map stl_id (t_settlement (db w)))" by simp
  have "\<forall>f \<in> set fs. fl_id f \<noteq> stl_id s"
  proof
    fix f assume "f \<in> set fs"
    then have "fl_id f \<in> set (map stl_id (t_settlement (db w)))" using flying_id i(4) by blast
    with fresh show "fl_id f \<noteq> stl_id s" by metis
  qed
  then have "stl_id s \<notin> set (map fl_id fs)" by auto
  moreover have "flying (db w') f" if "f \<in> set fs" for f
  proof (rule flying_frame)
    show "flying (db w) f" using i(4) that by blast
    show "t_bucket (db w') = t_bucket (db w)" using d'(2) by simp
    show "holds (fl_id f) b (fl_amount f) (db w) \<Longrightarrow> holds (fl_id f) b (fl_amount f) (db w')" for b
      unfolding d'(2) by (rule holds_append)
  qed
  moreover have "flying (db w') \<lparr>fl_id = stl_id s, fl_ref = ref, fl_biz = biz, fl_amount = amount\<rparr>"
    unfolding flying_def by (rule exI [of _ b]) (use d' in \<open>simp add: find_bucket_def\<close>)
  ultimately show ?thesis
    by (intro holdingI [OF d'(1)]) (use i(3) in auto)
qed

text \<open>A step on one settlement in flight that ends its request.\<close>

lemma finish_inv:
  assumes inv: "protocol_inv (w, fs)" and "f \<in> set fs"
    and "treasury_inv (db w')" "t_bucket (db w') = t_bucket (db w)"
    and "\<exists>g. t_settlement (db w') = update_rows (\<lambda>s. stl_id s = fl_id f) g (t_settlement (db w))"
  shows "holding (w', remove1 f fs)"
  using protocol_invD [OF inv] assms(2-)
  by (intro holdingI flying_others [of _ "db w"] distinct_remove1_map) auto

text \<open>A step that leaves the settlements as they are.\<close>

lemma frame_inv:
  assumes inv: "protocol_inv (w, fs)" and "treasury_inv (db w')" "t_settlement (db w') = t_settlement (db w)"
    and "\<And>ref biz b. find_bucket ref biz (db w) = Some b \<Longrightarrow>
      \<exists>b'. find_bucket ref biz (db w') = Some b' \<and> bkt_id b' = bkt_id b"
  shows "holding (w', fs)"
proof (rule holdingI [OF assms(2)])
  show "\<forall>f \<in> set fs. flying (db w') f"
    using protocol_invD(4) [OF inv] assms(3,4) by (fastforce simp: flying_def holds_def)
qed (use protocol_invD [OF inv] in simp)

text \<open>A step that fails changes nothing but the clock.\<close>

lemma fault_inv:
  assumes "protocol_inv (w, fs)" "db w' = db w"
  shows "holding (w', fs)" and "holding (w', remove1 f fs)"
  using assms protocol_invD [OF assms(1)]
  by (auto intro!: holdingI distinct_remove1_map dest: set_remove1_subset [THEN subsetD])

text \<open>The operations on other tables and on buckets.\<close>

lemma credit_protocol:
  assumes "treasury_inv d" "0 \<le> cr_amountKobo p"
  shows "wp d (\<lambda>_ d'. treasury_inv d' \<and> t_settlement d' = t_settlement d \<and> t_bucket d' = t_bucket d)
    (\<lambda>d'. d' = d) (credit e p)"
proof (rule credit_wp)
  fix r assume r: "\<not> taken ble_reference (t_bucketLedger d) r" "ble_bucketId r = cr_bucketId p"
    "ble_delta r = cr_amountKobo p"
    "ble_cumulativeAmountKobo r = bucket_total (cr_bucketId p) d + cr_amountKobo p"
  let ?d = "d\<lparr>t_bucketLedger := t_bucketLedger d @ [r]\<rparr>"
  have "bucket_inv ?d" by (rule bucket_inv_snoc) (use assms r in \<open>simp_all add: treasury_inv_def\<close>)
  moreover have "reserved_sum b ?d \<le> bucket_total b ?d" for b
  proof -
    have "reserved_sum b d \<le> bucket_total b d" using assms(1) by (simp add: treasury_inv_def solvent_def)
    then show ?thesis using r assms(2) by (simp add: reserved_sum_def bucket_total_def)
  qed
  ultimately have "treasury_inv ?d"
    using assms(1) by (simp add: treasury_inv_def solvent_def settlements_ok_def)
  then show "treasury_inv ?d \<and> t_settlement ?d = t_settlement d \<and> t_bucket ?d = t_bucket d" by simp
qed (use assms in auto)

lemma treasury_inv_buckets:
  assumes "treasury_inv d" "distinct (map bkt_id bs)"
  shows "treasury_inv (d\<lparr>t_bucket := bs\<rparr>)"
  using assms
  by (simp add: treasury_inv_def bucket_inv_def solvent_def settlements_ok_def reserved_sum_def bucket_total_def)

lemma find_append: "find P xs = Some x \<Longrightarrow> find P (xs @ ys) = Some x"
  by (induction xs) auto

lemma find_update:
  assumes "find P xs = Some x" "\<And>y. P (f y) = P y"
  shows "find P (update_rows R f xs) = Some (if R x then f x else x)"
  using assms by (induction xs) (auto split: if_splits)

lemma provision_protocol:
  assumes "treasury_inv d"
  shows "wp d (\<lambda>_ d'. treasury_inv d' \<and> t_settlement d' = t_settlement d \<and>
      (\<forall>r z b. find_bucket r z d = Some b \<longrightarrow> (\<exists>b'. find_bucket r z d' = Some b' \<and> bkt_id b' = bkt_id b)))
    (\<lambda>d'. d' = d) (provisionBucket e dto biz)"
  unfolding provisionBucket_def create_treasuryBucket_def
  by (intro wp_rules refl audit.log_wp)
    (use assms in \<open>auto intro!: treasury_inv_buckets find_append
      simp: find_bucket_def taken_def treasury_inv_def [of d] split: if_splits\<close>)

lemma rename_protocol:
  assumes "treasury_inv d"
  shows "wp d (\<lambda>_ d'. treasury_inv d' \<and> t_settlement d' = t_settlement d \<and>
      (\<forall>r z b. find_bucket r z d = Some b \<longrightarrow> (\<exists>b'. find_bucket r z d' = Some b' \<and> bkt_id b' = bkt_id b)))
    (\<lambda>d'. d' = d) (renameBucket e ref nm biz)"
  unfolding renameBucket_def update_bucket_def
proof (intro wp_rules refl, goal_cases)
  case (1 b r)
  let ?f = "\<lambda>b. b\<lparr>bkt_name := nm\<rparr>"
  have "treasury_inv (d\<lparr>t_bucket := update_rows (\<lambda>r. bkt_id r = bkt_id b) ?f (t_bucket d)\<rparr>)"
    by (rule treasury_inv_buckets [OF assms]) (use assms in \<open>simp add: map_update_rows treasury_inv_def\<close>)
  moreover have "find_bucket r z (d\<lparr>t_bucket := update_rows (\<lambda>r. bkt_id r = bkt_id b) ?f (t_bucket d)\<rparr>) =
      Some (if bkt_id x = bkt_id b then ?f x else x)" if "find_bucket r z d = Some x" for r z x
    using find_update [of "\<lambda>b. bkt_key b = (z, r)" "t_bucket d" x ?f] that
    by (simp add: find_bucket_def bkt_key_def)
  ultimately show ?case by fastforce
qed

text \<open>Every step keeps the invariant.\<close>

lemma flyingE:
  assumes "protocol_inv (w, fs)" "f \<in> set fs"
  obtains bk where "find_bucket (fl_ref f) (fl_biz f) (db w) = Some bk"
    "holds (fl_id f) (bkt_id bk) (fl_amount f) (db w)"
  using protocol_invD(4) [OF assms(1)] assms(2) by (auto simp: flying_def)

text \<open>Each transaction of the protocol keeps the invariant, whether it commits or fails.\<close>

lemma reserve_refused_inv:
  assumes inv: "protocol_inv (w, fs)" and "0 < amount"
    and run: "reserve_tx e ref biz amount dst actor w = (Inl x, w')"
  shows "holding (w', fs)"
proof -
  note i = protocol_invD [OF inv]
  show ?thesis
    using wpD_Inl [OF reserve_tx_wp [OF i(1,2) assms(2)] refl run]
    by (intro fault_inv(1) [OF inv])
qed

lemma processing_inv:
  assumes inv: "protocol_inv (w, fs)" and f: "f \<in> set fs"
    and run: "mark_processing e (fl_id f) w = (Inr s, w')"
  shows "holding (w', fs)"
proof -
  note i = protocol_invD [OF inv]
  obtain bk where bk: "find_bucket (fl_ref f) (fl_biz f) (db w) = Some bk"
      "holds (fl_id f) (bkt_id bk) (fl_amount f) (db w)"
    by (rule flyingE [OF inv f])
  note d' = wpD_Inr [OF mark_processing_wp [OF i(1) bk(2)] refl run]
  note u = wpD_Inr [OF settlement_updates(4) refl run]
  have "flying (db w') f" using d' bk by (auto simp: flying_def find_bucket_def)
  moreover have "\<forall>f' \<in> set (remove1 f fs). flying (db w') f'"
    by (rule flying_others) (use i d' u f in auto)
  ultimately have "\<forall>f' \<in> set fs. flying (db w') f'"
    using i(3) by (auto simp: distinct_map)
  with d' i(3) show ?thesis
    by (intro holdingI) auto
qed

lemma processing_fault_inv:
  assumes inv: "protocol_inv (w, fs)" and run: "mark_processing e (fl_id f) w = (Inl x, w')"
  shows "holding (w', remove1 f fs)"
  using wpD_Inl [OF settlement_updates(4) refl run]
  by (intro fault_inv(2) [OF inv])

lemma complete_inv:
  assumes inv: "protocol_inv (w, fs)" and f: "f \<in> set fs"
    and run: "complete_tx e (fl_id f) (fl_ref f) (fl_amount f) (fl_biz f) nref nar w = (Inr u, w')"
  shows "holding (w', remove1 f fs)"
proof -
  note i = protocol_invD [OF inv]
  obtain bk where bk: "find_bucket (fl_ref f) (fl_biz f) (db w) = Some bk"
      "holds (fl_id f) (bkt_id bk) (fl_amount f) (db w)"
    by (rule flyingE [OF inv f])
  show ?thesis
    using wpD_Inr [OF complete_tx_wp [OF i(1,2) bk] refl run] wpD_Inr [OF settlement_updates(1) refl run]
    by (intro finish_inv [OF inv f]) auto
qed

lemma complete_fault_inv:
  assumes inv: "protocol_inv (w, fs)" and run: "complete_tx e i ref amount biz nref nar w = (Inl x, w')"
  shows "holding (w', fs)"
  using wpD_Inl [OF settlement_updates(1) refl run]
  by (intro fault_inv(1) [OF inv])

lemma internal_inv:
  assumes inv: "protocol_inv (w, fs)" and f: "f \<in> set fs" and "dest \<noteq> fl_ref f"
    and run: "settleInternal_tx e (fl_id f) (fl_ref f) dest (fl_amount f) (fl_biz f) nar w = (Inr u, w')"
  shows "holding (w', remove1 f fs)"
proof -
  note i = protocol_invD [OF inv]
  obtain bk where bk: "find_bucket (fl_ref f) (fl_biz f) (db w) = Some bk"
      "holds (fl_id f) (bkt_id bk) (fl_amount f) (db w)"
    by (rule flyingE [OF inv f])
  show ?thesis
    using wpD_Inr [OF settleInternal_tx_wp [OF i(1) bk(1) not_sym [OF assms(3)] bk(2)] refl run]
      wpD_Inr [OF settlement_updates(2) refl run]
    by (intro finish_inv [OF inv f]) auto
qed

lemma internal_fault_inv:
  assumes inv: "protocol_inv (w, fs)" and run: "settleInternal_tx e i ref dest amount biz nar w = (Inl x, w')"
  shows "holding (w', fs)"
  using wpD_Inl [OF settlement_updates(2) refl run]
  by (intro fault_inv(1) [OF inv])

lemma fail_inv:
  assumes inv: "protocol_inv (w, fs)" and f: "f \<in> set fs" and run: "mark_failed e (fl_id f) msg w = (r, w')"
  shows "holding (w', remove1 f fs)"
proof -
  note i = protocol_invD [OF inv]
  obtain u where r: "r = Inr u"
    using run by (cases r) (auto dest: wpD_Inl [OF mark_failed_wp [OF i(1)] refl])
  note d' = wpD_Inr [OF mark_failed_wp [OF i(1)] refl run [unfolded r]]
  have "update_rows (\<lambda>s. stl_id s = fl_id f) id ss = ss" for ss
    by (auto simp: update_rows_def intro: map_idI)
  then have "\<exists>g. t_settlement (db w') = update_rows (\<lambda>s. stl_id s = fl_id f) g (t_settlement (db w))"
    using wpD_Inr [OF settlement_updates(3) refl run [unfolded r]] by metis
  with d' show ?thesis
    by (intro finish_inv [OF inv f]) auto
qed

lemma bank_call_inv:
  assumes inv: "protocol_inv (w, fs)" and run: "bankTransfer e b request w = (r, w')"
  shows "holding (w', fs)"
proof -
  have "db w' = db w" using bankTransfer.call_frame [of e b request w] run by simp
  then show ?thesis
    by (intro fault_inv(1) [OF inv])
qed

lemma credit_inv:
  assumes inv: "protocol_inv (w, fs)" and "0 \<le> cr_amountKobo p" and run: "credit e p w = (r, w')"
  shows "holding (w', fs)"
proof -
  note i = protocol_invD [OF inv]
  have "treasury_inv (db w') \<and> t_settlement (db w') = t_settlement (db w) \<and> t_bucket (db w') = t_bucket (db w)"
    using wp_run [OF credit_protocol [OF i(1) assms(2)], of e] i(1)
    by (auto simp: run split: sum.splits)
  then show ?thesis
    by (intro frame_inv [OF inv]) (auto simp: find_bucket_def)
qed

lemma maintenance_inv:
  assumes inv: "protocol_inv (w, fs)"
  shows "provisionBucket e dto biz w = (r, w') \<Longrightarrow> holding (w', fs)"
    and "renameBucket e ref nm biz w = (r', w'') \<Longrightarrow> holding (w'', fs)"
proof -
  note i = protocol_invD [OF inv]
  show "holding (w', fs)" if run: "provisionBucket e dto biz w = (r, w')"
    using wp_run [OF provision_protocol [OF i(1)], of e dto biz] i(1)
    by (intro frame_inv [OF inv]) (auto simp: run split: sum.splits)
  show "holding (w'', fs)" if run: "renameBucket e ref nm biz w = (r', w'')"
    using wp_run [OF rename_protocol [OF i(1)], of e ref nm biz] i(1)
    by (intro frame_inv [OF inv]) (auto simp: run split: sum.splits)
qed

lemmas transaction_invs =
  reserve_inv reserve_refused_inv processing_inv processing_fault_inv bank_call_inv complete_inv
  complete_fault_inv internal_inv internal_fault_inv fail_inv credit_inv maintenance_inv

lemma step_inv: "treasury_step e s t \<Longrightarrow> protocol_inv s \<Longrightarrow> holding t"
  by (erule treasury_stepE) (blast intro: transaction_invs)+

lemma init_inv: "protocol_init s \<Longrightarrow> protocol_inv s"
  by (simp add: protocol_init_def protocol_inv_def holding_def treasury_inv_def bucket_inv_def solvent_def
      settlements_ok_def in_order_def reserved_sum_def bucket_total_def run_ok_by_def total_by_def)

interpretation treasury: transition_system protocol_init "ordered_step e" protocol_inv for e
proof
  show "protocol_inv t" if "protocol_inv s" "ordered_step e s t" for s t
    using that step_inv [of e s t] by (simp add: ordered_step_def protocol_inv_def [of t])
qed (rule init_inv)

section \<open>Properties\<close>

text \<open>C4: settlement requests that interleave do not overdraw a bucket. From an empty treasury, run any sequence of
  reservations, PROCESSING marks, bank calls, completions, internal settlements (to another bucket), failures,
  credits and bucket maintenance, each with any faults, under two conditions: the bucket entries get increasing
  creation times (\<open>ordered_step\<close>), and a credit overlaps no other transaction on its bucket (it is one step; the
  transactions of settlements are, because they lock the bucket). Then every bucket holds at least what is
  reserved in it, which is at least zero, every stored running total is right, and every request in flight
  still has its reservation.\<close>

theorem treasury_never_overdrawn:
  assumes "protocol_init s0" "(ordered_step e)\<^sup>*\<^sup>* s0 s"
  shows "(\<forall>b. 0 \<le> reserved_sum b (db (fst s)) \<and>
            reserved_sum b (db (fst s)) \<le> bucket_total b (db (fst s))) \<and>
    bucket_inv (db (fst s)) \<and> (\<forall>f \<in> set (snd s). flying (db (fst s)) f)"
proof -
  have inv: "holding s" using treasury.steps_inv [OF assms(2) init_inv [OF assms(1)]] by (simp add: protocol_inv_def)
  have "0 \<le> sum_by (reservation b) ss" if "\<forall>x \<in> set ss. 0 \<le> reservation b x" for b ss
    using that by (induction ss) auto
  then have "0 \<le> reserved_sum b (db (fst s))" for b
    using inv reservation_nonneg by (auto simp: reserved_sum_alt holding_def treasury_inv_def)
  with inv show ?thesis by (simp add: holding_def treasury_inv_def solvent_def)
qed

lemma demo_credit_step: "ordered_step demo_env (demo_world, []) (demo_credited, [])"
proof -
  have "0 \<le> cr_amountKobo demo_credit" by (simp add: demo_credit_def)
  moreover have "credit demo_env demo_credit demo_world = (fst (credit demo_env demo_credit demo_world), demo_credited)"
    by (simp add: demo_credited_def)
  ultimately show ?thesis using credit_step demo_credited_inv by (fastforce simp: ordered_step_def)
qed

theorem treasury_never_overdrawn_witness:
  "(ordered_step demo_env)\<^sup>*\<^sup>* (demo_world, []) (demo_reserved, [\<lparr>fl_id = stl_id (hd (t_settlement (db demo_reserved))),
      fl_ref = ''payroll'', fl_biz = ''b1'', fl_amount = 500\<rparr>]) \<and>
   reserved_sum ''bk1'' (db demo_reserved) \<le> bucket_total ''bk1'' (db demo_reserved)"
proof -
  have init: "protocol_init (demo_world, [])" by (simp add: protocol_init_def demo_defs)
  let ?m = "reserve_tx demo_env ''payroll'' ''b1'' 500
      (resolve_destination demo_settlement (demo_bucket ''bk1'' ''payroll'')) ''me'' demo_credited"
  let ?s = "(demo_reserved, [\<lparr>fl_id = stl_id (hd (t_settlement (db demo_reserved))),
      fl_ref = ''payroll'', fl_biz = ''b1'', fl_amount = 500\<rparr>])"
  have "map_sum id stl_id (fst ?m) = Inr (stl_id (hd (t_settlement (db demo_reserved))))" by code_simp
  then obtain s where s: "?m = (Inr s, demo_reserved)" "stl_id s = stl_id (hd (t_settlement (db demo_reserved)))"
    by (cases ?m; cases "fst ?m") (auto simp: demo_reserved_def)
  have "in_order (db demo_reserved)" by code_simp
  then have "ordered_step demo_env (demo_credited, []) ?s"
    using reserve [OF _ s(1), of "[]"] s(2) by (simp add: ordered_step_def)
  with demo_credit_step have run: "(ordered_step demo_env)\<^sup>*\<^sup>* (demo_world, []) ?s" by simp
  with treasury_never_overdrawn [OF init run] show ?thesis by simp
qed


text \<open>
  A schedule of the code (the PROCESSING mark and the bank call, which write no entry, are left out). A credit of
  100 to a bucket that holds 700 reads this balance; before it writes, a settlement of all the 700 is reserved and
  completed. Then a settlement of 800 is accepted and completed, although the bucket holds 100.
\<close>

definition settle_all :: "int \<Rightarrow> world \<Rightarrow> world" where
  "settle_all amount w =
     (case reserve_tx demo_env ''payroll'' ''b1'' amount
         (resolve_destination demo_settlement (demo_bucket ''bk1'' ''payroll'')) ''me'' w of
        (Inr s, w1) \<Rightarrow> snd (complete_tx demo_env (stl_id s) ''payroll'' amount ''b1'' (stl_id s) None w1)
      | (Inl _, w1) \<Rightarrow> w1)"

definition demo_late_credit :: creditParams where
  "demo_late_credit = demo_credit\<lparr>cr_amountKobo := 100, cr_reference := ''ref2''\<rparr>"

definition demo_emptied :: world where
  "demo_emptied = settle_all 700 demo_credited"

definition demo_stale :: world where
  "demo_stale = snd (credit_write demo_env demo_late_credit 700 demo_emptied)"


end
