(* ===== verification/AOS_Invariants.thy ===== *)
theory AOS_Invariants
  imports Treasury_Service
begin

text \<open>
  What every operation of the system promises about the accounts, whichever service it belongs to:
  the running totals of the account ledger are right, the ledger only grows, and the status of an
  account only moves along the edges of its life cycle. The relation \<open>evolves\<close> collects the three, and
  this theory proves it for the single statements and for the ledger and treasury operations; each later
  component adds its own operations.
\<close>

section \<open>The life cycle of an account\<close>

text \<open>The abstract machine: two live states, two terminal ones.\<close>

inductive account_edge :: "account_status \<Rightarrow> account_status \<Rightarrow> bool" where
  suspend: "account_edge ACTIVE SUSPENDED"
| reactivate: "account_edge SUSPENDED ACTIVE"
| expire: "s \<in> {ACTIVE, SUSPENDED} \<Longrightarrow> account_edge s EXPIRED"
| close: "s \<in> {ACTIVE, SUSPENDED} \<Longrightarrow> account_edge s CLOSED"

inductive_cases terminal_edgeE: "account_edge EXPIRED t" "account_edge CLOSED t"

lemma terminal_final: "account_edge\<^sup>*\<^sup>* s t \<Longrightarrow> s \<in> {EXPIRED, CLOSED} \<Longrightarrow> t = s"
  by (induction rule: rtranclp_induct) (auto elim: terminal_edgeE)

definition status_of :: "string \<Rightarrow> database \<Rightarrow> account_status option" where
  "status_of i d = map_option acc_status (find (\<lambda>a. acc_id a = i) (t_account d))"

definition statuses_follow :: "database \<Rightarrow> database \<Rightarrow> bool" where
  "statuses_follow d0 d =
     (\<forall>i s. status_of i d0 = Some s \<longrightarrow> (\<exists>t. status_of i d = Some t \<and> account_edge\<^sup>*\<^sup>* s t))"

lemma statuses_follow_refl: "statuses_follow d d"
  by (auto simp: statuses_follow_def)

lemma status_of_update:
  assumes "\<And>a. acc_id (f a) = acc_id a"
  shows "status_of i (d\<lparr>t_account := update_rows (\<lambda>a. acc_id a = j) f (t_account d)\<rparr>) =
    (if i = j then map_option (acc_status \<circ> f) (find (\<lambda>a. acc_id a = i) (t_account d))
     else status_of i d)"
proof -
  have "find (\<lambda>a. acc_id a = i) (update_rows (\<lambda>a. acc_id a = j) f xs) =
      (if i = j then map_option f (find (\<lambda>a. acc_id a = i) xs) else find (\<lambda>a. acc_id a = i) xs)" for xs
    using assms by (induction xs) auto
  then show ?thesis by (auto simp: status_of_def option.map_comp)
qed

lemma statuses_follow_update:
  assumes "statuses_follow d0 d"
    and "find (\<lambda>a. acc_id a = j) (t_account d) = Some a"
    and "\<And>a. acc_id (f a) = acc_id a"
    and "account_edge\<^sup>*\<^sup>* (acc_status a) (acc_status (f a))"
  shows "statuses_follow d0 (d\<lparr>t_account := update_rows (\<lambda>a. acc_id a = j) f (t_account d)\<rparr>)"
  unfolding statuses_follow_def
proof (intro allI impI)
  fix i s assume "status_of i d0 = Some s"
  with assms(1) obtain t where t: "status_of i d = Some t" "account_edge\<^sup>*\<^sup>* s t"
    unfolding statuses_follow_def by blast
  show "\<exists>t. status_of i (d\<lparr>t_account := update_rows (\<lambda>a. acc_id a = j) f (t_account d)\<rparr>) = Some t \<and>
      account_edge\<^sup>*\<^sup>* s t"
  proof (cases "i = j")
    case True
    with t assms(2) have "t = acc_status a" by (simp add: status_of_def)
    with True t assms show ?thesis by (auto simp: status_of_update)
  next
    case False
    with t show ?thesis by (simp add: status_of_update assms(3))
  qed
qed

lemma statuses_follow_create:
  assumes "statuses_follow d0 d" "\<not> taken acc_id (t_account d) a"
  shows "statuses_follow d0 (d\<lparr>t_account := t_account d @ [a]\<rparr>)"
proof -
  have "find P xs = Some x \<Longrightarrow> find P (xs @ ys) = Some x" for P :: "account \<Rightarrow> bool" and xs ys x
    by (induction xs) auto
  with assms(1) show ?thesis by (fastforce simp: statuses_follow_def status_of_def)
qed

section \<open>Evolution of the database\<close>

definition evolves :: "database \<Rightarrow> database \<Rightarrow> bool" where
  "evolves d0 d =
     (ledger_inv d \<and> ledger_extends (t_ledgerEntry d0) d \<and> statuses_follow d0 d \<and>
      distinct (map acc_id (t_account d)))"

lemma evolves_refl:
  "ledger_inv d \<Longrightarrow> distinct (map acc_id (t_account d)) \<Longrightarrow> evolves d d"
  by (simp add: evolves_def ledger_extends_def statuses_follow_refl)

lemma evolves_frame:
  assumes "t_ledgerEntry d' = t_ledgerEntry d" "t_account d' = t_account d"
  shows "evolves d0 d' = evolves d0 d"
  using assms
  by (simp add: evolves_def ledger_inv_def ledger_extends_def
      statuses_follow_def status_of_def)

lemma evolves_account:
  assumes "evolves d0 d" and "find (\<lambda>a. acc_id a = j) (t_account d) = Some a"
    and "\<And>a. acc_id (f a) = acc_id a" and "account_edge\<^sup>*\<^sup>* (acc_status a) (acc_status (f a))"
  shows "evolves d0 (d\<lparr>t_account := update_rows (\<lambda>a. acc_id a = j) f (t_account d)\<rparr>)"
  using assms statuses_follow_update [of d0 d j a f]
  by (simp add: evolves_def ledger_inv_def ledger_extends_def
      map_update_rows)

text \<open>With unique ids, the account found by reference is the account updated by id.\<close>

lemma find_by_id:
  assumes "distinct (map key xs)" "x \<in> set xs"
  shows "find (\<lambda>y. key y = key x) xs = Some x"
  using assms by (induction xs) (auto simp: image_iff)

lemma evolves_account_by_ref:
  assumes "evolves d0 d" and "find_account_by_ref ref biz d = Some a"
    and "\<And>a. acc_id (f a) = acc_id a" and "account_edge\<^sup>*\<^sup>* (acc_status a) (acc_status (f a))"
  shows "evolves d0 (d\<lparr>t_account := update_rows (\<lambda>x. acc_id x = acc_id a) f (t_account d)\<rparr>)"
proof -
  from assms(2) have "a \<in> set (t_account d)" by (auto simp: find_account_by_ref_def dest: find_SomeD)
  with assms(1) have "find (\<lambda>x. acc_id x = acc_id a) (t_account d) = Some a"
    by (intro find_by_id) (auto simp: evolves_def)
  from evolves_account [OF assms(1) this assms(3,4)] show ?thesis .
qed

lemma keeps_conj: "keeps P m \<Longrightarrow> keeps Q m \<Longrightarrow> keeps (\<lambda>s. P s \<and> Q s) m"
  by (simp add: keeps_def)

lemma keeps_transaction_db: "keeps_db J m \<Longrightarrow> keeps_db J (transaction e m)"
  by (rule keeps_transaction)

text \<open>Statements on the tables that \<open>evolves\<close> does not read.\<close>

definition untouched :: "('r list \<Rightarrow> database \<Rightarrow> database) \<Rightarrow> bool" where
  "untouched put =
     (\<forall>rs d. t_ledgerEntry (put rs d) = t_ledgerEntry d \<and> t_account (put rs d) = t_account d)"

lemma untouchedD: "untouched put \<Longrightarrow> evolves d0 (put rs d) = evolves d0 d"
  unfolding untouched_def by (intro evolves_frame) auto

lemma keeps_evolves_rows:
  assumes "untouched put"
  shows "keeps_db (evolves d0) (create_row e cs rows put mk)"
    and "keeps_db (evolves d0) (update_row e rows put P f)"
    and "keeps_db (evolves d0) (update_many e rows put P f)"
  by (rule keeps_create_row keeps_update_row keeps_update_many; simp add: untouchedD [OF assms])+

lemma keeps_evolves_statements [keeps_intro]:
  "keeps_db (evolves d0) (create_ruleExecution e mk1)"
  "keeps_db (evolves d0) (create_rule e mk2)"
  "keeps_db (evolves d0) (create_processedEvent e mk3)"
  "keeps_db (evolves d0) (create_customer e mk4)"
  "keeps_db (evolves d0) (create_nameHistoryEntry e mk5)"
  "keeps_db (evolves d0) (create_idempotencyKey e mk6)"
  "keeps_db (evolves d0) (create_business e mk7)"
  "keeps_db (evolves d0) (create_apiKey e mk8)"
  "keeps_db (evolves d0) (create_treasuryBucket e mk9)"
  "keeps_db (evolves d0) (create_bucketLedgerEntry e mk10)"
  "keeps_db (evolves d0) (create_settlement e mk11)"
  unfolding create_defs by (rule keeps_evolves_rows; simp add: untouched_def)+

lemma keeps_evolves_updates [keeps_intro]:
  "keeps_db (evolves d0) (update_ruleExecution e i f1)"
  "keeps_db (evolves d0) (updateMany_ruleExecution e P2 f2)"
  "keeps_db (evolves d0) (update_rule e i f3)"
  "keeps_db (evolves d0) (updateMany_rule e P4 f4)"
  "keeps_db (evolves d0) (update_customer e i f5)"
  "keeps_db (evolves d0) (update_business e i f6)"
  "keeps_db (evolves d0) (update_apiKey e i f7)"
  "keeps_db (evolves d0) (update_bucket e i f8)"
  unfolding update_stmt_defs by (rule keeps_evolves_rows; simp add: untouched_def)+

lemma keeps_evolves_settlement [keeps_intro]: "keeps_db (evolves d0) (update_settlement e i f)"
  by (rule keeps_update_settlement, subst evolves_frame) simp_all

lemma keeps_evolves_account [keeps_intro]: "keeps_db (evolves d0) (create_account e mk)"
  unfolding create_account_def
  by (rule keeps_create_row)
    (auto simp: evolves_def ledger_inv_def ledger_extends_def
      taken_def intro!: statuses_follow_create split: if_splits)

lemma keeps_evolves_flag [keeps_intro]:
  "keeps_db (evolves d0) (update_ledgerEntry e P (\<lambda>r. r\<lparr>led_reconciliationStatus := st\<rparr>))"
  unfolding update_ledgerEntry_def
  by (rule keeps_update_row)
    (auto simp: evolves_def ledger_extends_status
      statuses_follow_def status_of_def intro: update_status_inv)

text \<open>Operations that keep the ledger and touch no account.\<close>

lemma keeps_evolvesI:
  assumes "keeps_db ledger_inv m" "keeps_db (ledger_extends (t_ledgerEntry d0)) m"
    and "\<And>J. keeps_db (\<lambda>d. J (t_account d)) m"
  shows "keeps_db (evolves d0) m"
proof -
  have "keeps_db (\<lambda>d. statuses_follow d0 d) m"
    using assms(3) [of "\<lambda>a. statuses_follow d0 (d0\<lparr>t_account := a\<rparr>)"]
    by (simp add: statuses_follow_def status_of_def)
  moreover have "keeps_db (\<lambda>d. distinct (map acc_id (t_account d))) m" by (rule assms(3))
  ultimately show ?thesis unfolding evolves_def by (intro keeps_conj assms)
qed

section \<open>The ledger and treasury operations\<close>

lemma keeps_treasury_helpers [keeps_intro]:
  "keeps_db J (TreasuryService_resolveBucket e ref biz)"
  "keeps_db J (TreasuryService_lockBucket e ref biz)"
  "keeps_db J (balanceOf e b)"
  "keeps_db J (reservedKobo e b)"
  unfolding TreasuryService_resolveBucket_def TreasuryService_lockBucket_def balanceOf_def
    reservedKobo_def
  by (intro keeps_intro)+

lemmas settlement_defs =
  initiate_def finish_settlement_def execute_transfer_def reserve_tx_def mark_processing_def
  mark_completed_def mark_failed_def settleInternal_def settleInternal_tx_def completeSettlement_def
  complete_tx_def SettlementService_resolveBucket_def SettlementService_lockBucket_def latestBalance_def

lemmas auth_defs =
  registerBusiness_def updateBusinessCredentials_def createApiKey_def validateApiKey_def
  revokeApiKey_def assertAdminSecret_def timingSafeCompare_def
  encryptCredentials_def encrypt_opt_def encrypt_def

lemma evolves_treasury [keeps_intro]:
  "keeps_db (evolves d0) (credit e p)"
  "keeps_db (evolves d0) (transferBetweenBuckets e ref tdto biz actor)"
  "keeps_db (evolves d0) (withdraw e ref wdto biz b)"
  "keeps_db (evolves d0) (closeBucket e ref biz actor)"
  "keeps_db (evolves d0) (renameBucket e ref nm biz)"
  "keeps_db (evolves d0) (provisionBucket e bdto biz)"
  unfolding credit_def credit_tx_def transferBetweenBuckets_def transfer_tx_def withdraw_def
    withdraw_tx_def closeBucket_def renameBucket_def provisionBucket_def
  by (intro keeps_intro)+

lemma evolves_settlement [keeps_intro]: "keeps_db (evolves d0) (initiate e ref dto biz b actor)"
  unfolding settlement_defs by (intro keeps_intro)

lemma keeps_find_key [keeps_intro]: "keeps_db J (find_key_with_business e h)"
  unfolding find_key_with_business_def by (rule keeps_prisma) (auto split: option.splits)

lemma evolves_auth [keeps_intro]:
  "keeps_db (evolves d0) (registerBusiness e rdto secret)"
  "keeps_db (evolves d0) (updateBusinessCredentials e i cdto secret)"
  "keeps_db (evolves d0) (createApiKey e kdto secret)"
  "keeps_db (evolves d0) (validateApiKey e k)"
  "keeps_db (evolves d0) (revokeApiKey e i biz actor)"
  unfolding auth_defs by (intro keeps_intro)+

text \<open>The writes of the account ledger touch no account.\<close>

lemma ledger_frame:
  "keeps_db (\<lambda>d. J (t_account d)) (writeInflow e dto st)"
  "keeps_db (\<lambda>d. J (t_account d)) (writeOutflow e odto)"
  "keeps_db (\<lambda>d. J (t_account d)) (updateReconciliationStatus e ref st)"
proof -
  have stmts: "keeps_db (\<lambda>d. J (t_account d)) (create_ledgerEntry e mk)"
    "keeps_db (\<lambda>d. J (t_account d)) (update_ledgerEntry e P f)" for mk P f
    unfolding create_ledgerEntry_def update_ledgerEntry_def
    by (rule keeps_create_row keeps_update_row; simp)+
  show "keeps_db (\<lambda>d. J (t_account d)) (writeInflow e dto st)"
    "keeps_db (\<lambda>d. J (t_account d)) (writeOutflow e odto)"
    "keeps_db (\<lambda>d. J (t_account d)) (updateReconciliationStatus e ref st)"
    unfolding writeInflow_def writeOutflow_def updateReconciliationStatus_def
    by (intro keeps_intro stmts)+
qed

lemmas evolves_ledger [keeps_intro] =
  keeps_evolvesI [OF writeInflow_keeps writeInflow_extends ledger_frame(1)]
  keeps_evolvesI [OF writeOutflow_keeps writeOutflow_extends ledger_frame(2)]
  keeps_evolvesI [OF updateReconciliationStatus_keeps updateReconciliationStatus_extends ledger_frame(3)]

end
