(* ===== verification/Notification_Service.thy ===== *)
theory Notification_Service
  imports AOS_Demo
begin

text \<open>
  \<open>src/common/notifications/notification.service.ts\<close>: the delivery of NOTIFY_WEBHOOK posts. The
  contract its clients use, the locale \<open>notifier\<close>: it never throws, sends exactly one request and
  touches no table and no queue.
\<close>

record deliveryResult =
  dr_ok :: bool
  dr_status :: "int option"
  dr_error :: "string option"

definition delivery_result :: "http_resp \<Rightarrow> deliveryResult" where
  "delivery_result r =
     (case r of
        HttpResp s _ \<Rightarrow>
          if 200 \<le> s \<and> s < 300
          then \<lparr>dr_ok = True, dr_status = Some s, dr_error = None\<rparr>
          else \<lparr>dr_ok = False, dr_status = Some s,
                dr_error = Some (''Request failed with status code '' @ show_int s)\<rparr>
      | NetError m \<Rightarrow> \<lparr>dr_ok = False, dr_status = None, dr_error = Some m\<rparr>)"

definition deliver :: "env \<Rightarrow> string \<Rightarrow> json \<Rightarrow> deliveryResult act" where
  "deliver e url body =
     bnd (http_call e (HttpReq ''POST'' url [(''Content-Type'', ''application/json'')] body))
       (\<lambda>resp. ret (delivery_result resp))"

locale notifier =
  fixes send :: "string \<Rightarrow> json \<Rightarrow> deliveryResult act"
  assumes send_returns: "\<exists>r. fst (send u b w) = Inr r \<and> (dr_ok r \<longleftrightarrow> dr_error r = None)"
    and send_frame: "\<exists>q. snd (send u b w) = w\<lparr>outbox := outbox w @ [q], tick := Suc (tick w)\<rparr>"
begin

lemma send_db [simp]: "db (snd (send u b w)) = db w"
  using send_frame [of u b w] by auto

lemma send_tick [simp]: "tick (snd (send u b w)) = Suc (tick w)"
  using send_frame [of u b w] by auto

lemma send_run:
  obtains r where "send u b w = (Inr r, snd (send u b w))" "dr_ok r \<longleftrightarrow> dr_error r = None"
  using send_returns [of u b w] by (metis prod.collapse)

lemma send_keeps_db [keeps_intro]: "keeps_db J (send u b)"
  by (simp add: keeps_def)

lemma send_wp [wp_rules]:
  assumes "\<And>r. (dr_ok r \<longleftrightarrow> dr_error r = None) \<Longrightarrow> Q r d"
  shows "wp d Q E (send u b)"
  unfolding wp_def
proof (intro allI impI)
  fix w :: world assume "db w = d"
  obtain r where r: "send u b w = (Inr r, snd (send u b w))" "dr_ok r \<longleftrightarrow> dr_error r = None"
    by (rule send_run)
  from assms [OF r(2)] \<open>db w = d\<close>
  show "case send u b w of (Inl x, w') \<Rightarrow> E (db w') | (Inr x, w') \<Rightarrow> Q x (db w')"
    by (subst r(1)) simp
qed

lemma send_timed [timed_intro]: "tick_mono P \<Longrightarrow> timed P (send u b)"
  by (simp add: timed_def tick_mono_def)

end

interpretation notify: notifier "deliver e" for e
  by unfold_locales
    (auto simp: deliver_def bnd_def http_call_def ret_def delivery_result_def split: http_resp.split)

end
