(* ===== verification/Rule_Engine.thy ===== *)
theory Rule_Engine
  imports AOS_Invariants Notification_Service
begin

text \<open>
  \<open>src/rules/rule-engine.service.ts\<close>: the evaluation of an account's active rules against an event,
  and the execution of a matched rule, which records a RuleExecution row and then allocates money to
  a treasury bucket, changes the account's status, flags the inflow or posts to a webhook.
\<close>

section \<open>Evaluation\<close>

record evalParams =
  ep_accountId :: string
  ep_executionModel :: execution_model
  ep_amountKobo :: int
  ep_cumulativeAmountKobo :: int
  ep_eventType :: string
  ep_eventName :: "string option"

record evaluatedRule =
  ev_ruleId :: string
  ev_action :: rule_action
  ev_payload :: json
  ev_priority :: int
  ev_account :: account

text \<open>One operator of a condition: no constraint when the key is absent.\<close>

definition excludes :: "json option \<Rightarrow> (json \<Rightarrow> bool) \<Rightarrow> bool" where
  "excludes v bad = (case v of None \<Rightarrow> False | Some j \<Rightarrow> bad j)"

definition inflow_matches :: "env \<Rightarrow> json \<Rightarrow> int \<Rightarrow> int \<Rightarrow> bool" where
  "inflow_matches e condition amountKobo cumulativeAmountKobo =
     (let amt = Fin (js_Number amountKobo); cum = Fin (js_Number cumulativeAmountKobo) in
      if excludes (jget condition ''amount_gte'') (\<lambda>v. js_lt amt (to_number e v)) then False
      else if excludes (jget condition ''amount_lte'') (\<lambda>v. js_lt (to_number e v) amt) then False
      else if excludes (jget condition ''amount_lt'') (\<lambda>v. js_le (to_number e v) amt) then False
      else if excludes (jget condition ''amount_eq'') (\<lambda>v. v \<noteq> JNum (js_Number amountKobo)) then False
      else if excludes (jget condition ''cumulative_gte'') (\<lambda>v. js_lt cum (to_number e v)) then False
      else True)"

definition custom_matches :: "json \<Rightarrow> string \<Rightarrow> string option \<Rightarrow> bool" where
  "custom_matches condition eventType eventName =
     (if eventType = ''NOMBA_INFLOW'' then False
      else case jget condition ''eventName'' of
             None \<Rightarrow> False
           | Some v \<Rightarrow>
               if \<not> js_truthy v \<or> \<not> str_truthy eventName then False
               else v = JStr (the eventName))"

definition matches :: "env \<Rightarrow> rule \<Rightarrow> evalParams \<Rightarrow> bool" where
  "matches e r ps =
     (if \<not> js_truthy (rul_condition r) then False
      else case rul_trigger r of
             INFLOW_RECEIVED \<Rightarrow>
               inflow_matches e (rul_condition r) (ep_amountKobo ps) (ep_cumulativeAmountKobo ps)
           | CUSTOM_EVENT \<Rightarrow> custom_matches (rul_condition r) (ep_eventType ps) (ep_eventName ps)
           | TIME_ELAPSED \<Rightarrow> False
           | TIER_CHANGED \<Rightarrow> False)"

text \<open>\<open>findMany\<close> of the active rules by priority, each with its account.\<close>

definition active_rules :: "string \<Rightarrow> database \<Rightarrow> (rule \<times> account) list" where
  "active_rules accountId d =
     concat (map (\<lambda>r. map (Pair r) (filter (\<lambda>a. acc_id a = rul_accountId r) (t_account d)))
       (order_asc rul_priority
         (filter (\<lambda>r. rul_accountId r = accountId \<and> rul_status r = RuleACTIVE) (t_rule d))))"

definition evaluated :: "rule \<times> account \<Rightarrow> evaluatedRule" where
  "evaluated = (\<lambda>(r, a). \<lparr>ev_ruleId = rul_id r, ev_action = rul_action r, ev_payload = rul_payload r,
     ev_priority = rul_priority r, ev_account = a\<rparr>)"

text \<open>The loop over the rules, with the rules matched so far.\<close>

fun eval_loop ::
  "env \<Rightarrow> evalParams \<Rightarrow> (rule \<times> account) list \<Rightarrow> evaluatedRule list \<Rightarrow> evaluatedRule list" where
  "eval_loop e ps [] matching = matching"
| "eval_loop e ps (ra # rest) matching =
     (if \<not> matches e (fst ra) ps then eval_loop e ps rest matching
      else let matching' = matching @ [evaluated ra] in
        if ep_executionModel ps = SEQUENTIAL then matching' else eval_loop e ps rest matching')"

definition evaluate :: "env \<Rightarrow> evalParams \<Rightarrow> evaluatedRule list act" where
  "evaluate e ps =
     bnd (query e (active_rules (ep_accountId ps))) (\<lambda>rules. ret (eval_loop e ps rules []))"

section \<open>Execution\<close>

record executionResult =
  xr_ruleExecutionId :: string
  xr_status :: execution_status
  xr_errorMessage :: "string option"
  xr_attempt :: "nat option"

text \<open>The triggering entry as \<open>execute\<close> receives it.\<close>

record execEntry =
  xe_id :: string
  xe_amountKobo :: int
  xe_nombaTransactionRef :: string
  xe_nombaEventId :: string

definition completed_result :: "string \<Rightarrow> executionResult" where
  "completed_result i =
     \<lparr>xr_ruleExecutionId = i, xr_status = ExCOMPLETED, xr_errorMessage = None, xr_attempt = None\<rparr>"

definition failed_result :: "string \<Rightarrow> string \<Rightarrow> executionResult" where
  "failed_result i m =
     \<lparr>xr_ruleExecutionId = i, xr_status = ExFAILED, xr_errorMessage = Some m, xr_attempt = None\<rparr>"

definition retrying_result :: "string \<Rightarrow> string option \<Rightarrow> executionResult" where
  "retrying_result i m =
     \<lparr>xr_ruleExecutionId = i, xr_status = ExRETRYING, xr_errorMessage = m, xr_attempt = Some 1\<rparr>"

definition markExecutionFailed :: "env \<Rightarrow> string \<Rightarrow> string \<Rightarrow> unit act" where
  "markExecutionFailed e executionId errorMessage =
     seqm (update_ruleExecution e executionId
             (\<lambda>x. x\<lparr>rex_status := ExFAILED, rex_errorMessage := Some errorMessage\<rparr>))
       (ret ())"

text \<open>\<open>update({ status: 'COMPLETED', completedAt: new Date() })\<close>, and the RETRYING update.\<close>

definition complete_execution :: "env \<Rightarrow> string \<Rightarrow> json \<Rightarrow> unit act" where
  "complete_execution e executionId response =
     bnd (now e) (\<lambda>t.
     seqm (update_ruleExecution e executionId (\<lambda>x. x\<lparr>rex_status := ExCOMPLETED,
             rex_completedAt := Some t,
             rex_nombaApiResponse := (if response = JNull then rex_nombaApiResponse x else response)\<rparr>))
       (ret ()))"

definition retry_execution :: "env \<Rightarrow> string \<Rightarrow> string option \<Rightarrow> unit act" where
  "retry_execution e executionId errorMessage =
     bnd (now e) (\<lambda>t.
     seqm (update_ruleExecution e executionId (\<lambda>x. x\<lparr>rex_status := ExRETRYING, rex_attempt := 1,
             rex_errorMessage := (if errorMessage = None then rex_errorMessage x else errorMessage),
             rex_nextRetryAt := Some (t + 60000)\<rparr>))
       (ret ()))"

definition handleStatusChange ::
  "env \<Rightarrow> string \<Rightarrow> account \<Rightarrow> account_status \<Rightarrow> account_status list \<Rightarrow> audit_action \<Rightarrow>
   executionResult act" where
  "handleStatusChange e executionId account target allowedFrom auditAction =
     bnd (query e (\<lambda>d. map_option acc_status (find (\<lambda>a. acc_id a = acc_id account) (t_account d))))
       (\<lambda>current.
     seqm
       (case current of
          None \<Rightarrow> ret ()
        | Some st \<Rightarrow>
            if st \<in> set allowedFrom then
              seqm (update_account e (acc_id account) (\<lambda>a. a\<lparr>acc_status := target\<rparr>))
                (AuditService_log e ((auditParams ''system'' auditAction)\<lparr>
                   alp_accountId := Some (acc_id account),
                   alp_businessId := Some (acc_businessId account),
                   alp_beforeState := Some (JObj [(''status'', JStr (show_status st))]),
                   alp_afterState := Some (JObj [(''status'', JStr (show_status target))]),
                   alp_reasonCode := Some ''RULE_ACTION''\<rparr>))
            else ret ())
     (seqm (complete_execution e executionId JNull)
       (ret (completed_result executionId))))"

definition handleFlagForReview ::
  "env \<Rightarrow> string \<Rightarrow> account \<Rightarrow> string option \<Rightarrow> executionResult act" where
  "handleFlagForReview e executionId account ledgerEntryId =
     seqm
       (if str_truthy ledgerEntryId
        then seqm (update_ledgerEntry e (\<lambda>r. led_id r = the ledgerEntryId)
                     (\<lambda>r. r\<lparr>led_reconciliationStatus := FLAGGED\<rparr>)) (ret ())
        else ret ())
     (seqm (AuditService_log e ((auditParams ''system'' RULE_ACTION_COMPLETED)\<lparr>
              alp_accountId := Some (acc_id account), alp_businessId := Some (acc_businessId account),
              alp_reasonCode := Some ''FLAG_FOR_REVIEW'',
              alp_metadata := Some (JObj [(''ruleExecutionId'', JStr executionId),
                (''ledgerEntryId'', jstr_opt ledgerEntryId)])\<rparr>))
     (seqm (complete_execution e executionId JNull)
       (ret (completed_result executionId))))"

definition payload_of :: "json \<Rightarrow> json" where
  "payload_of j = (if j = JNull then JObj [] else j)"

text \<open>\<open>!v\<close> of a property that may be absent.\<close>

definition falsy :: "json option \<Rightarrow> bool" where
  "falsy v = (case v of None \<Rightarrow> True | Some j \<Rightarrow> \<not> js_truthy j)"

definition missing_url :: string where "missing_url = ''NOTIFY_WEBHOOK missing url''"

definition notify_body :: "string \<Rightarrow> account \<Rightarrow> execEntry \<Rightarrow> json" where
  "notify_body executionId account entry = JObj
     [(''event'', JStr ''rule.notify_webhook''), (''accountRef'', JStr (acc_accountRef account)),
      (''transactionRef'', JStr (xe_nombaTransactionRef entry)),
      (''eventId'', JStr (xe_nombaEventId entry)), (''ruleExecutionId'', JStr executionId)]"

definition handleNotifyWebhook ::
  "env \<Rightarrow> string \<Rightarrow> json \<Rightarrow> account \<Rightarrow> execEntry \<Rightarrow> executionResult act" where
  "handleNotifyWebhook e executionId rulePayload account entry =
     (let url = jget (payload_of rulePayload) ''url'' in
      if falsy url then
        seqm (markExecutionFailed e executionId missing_url) (ret (failed_result executionId missing_url))
      else
        bnd (deliver e (to_str e (the url)) (notify_body executionId account entry)) (\<lambda>result.
        let status = (case dr_status result of None \<Rightarrow> None | Some s \<Rightarrow> Some (JNum (of_int s))) in
        if dr_ok result then
          seqm (complete_execution e executionId
                  (jobj [(''delivered'', Some (JBool True)), (''status'', status)]))
          (seqm (AuditService_log e ((auditParams ''system'' RULE_ACTION_COMPLETED)\<lparr>
                   alp_accountId := Some (acc_id account),
                   alp_businessId := Some (acc_businessId account),
                   alp_reasonCode := Some ''NOTIFY_WEBHOOK'',
                   alp_metadata := Some (jobj [(''ruleExecutionId'', Some (JStr executionId)),
                     (''url'', url), (''status'', status)])\<rparr>))
            (ret (completed_result executionId)))
        else
          seqm (retry_execution e executionId (dr_error result))
            (ret (retrying_result executionId (dr_error result)))))"

section \<open>RELEASE_FUNDS\<close>

text \<open>
  The amount to credit: a percentage of the inflow, scaled to hundredths and divided as BigInt, or
  the amount in kobo; \<^term>\<open>Inr None\<close> when the payload has neither.
\<close>

definition release_amount :: "env \<Rightarrow> json \<Rightarrow> int \<Rightarrow> exn + int option" where
  "release_amount e payload amountKobo =
     (case jget payload ''percentage'' of
        Some p \<Rightarrow>
          (case to_number e p of
             Fin x \<Rightarrow> Inr (Some (bigint_div (js_round (to_double (x * 100)) * amountKobo) 10000))
           | _ \<Rightarrow> Inl (JsExn ''The number cannot be converted to a BigInt because it is not an integer''))
      | None \<Rightarrow>
          (case jget payload ''amountKobo'' of
             Some v \<Rightarrow> map_sum id Some (to_bigint e v)
           | None \<Rightarrow> Inr None))"

definition alloc_reference :: "string \<Rightarrow> string \<Rightarrow> string" where
  "alloc_reference txRef bucketId = ''alloc_'' @ txRef @ ''_'' @ take 8 bucketId"

definition missing_destination :: string where "missing_destination = ''Missing destinationAccountRef''"
definition missing_amount :: string where
  "missing_amount = ''RELEASE_FUNDS requires percentage or amountKobo''"

definition destination_not_found :: "string \<Rightarrow> string" where
  "destination_not_found ref =
     ''Destination treasury bucket '' @ [CHR 0x27] @ ref @ [CHR 0x27] @ '' not found''"

definition destination_not_active :: "string \<Rightarrow> account_status \<Rightarrow> string" where
  "destination_not_active ref st =
     ''Destination treasury bucket '' @ [CHR 0x27] @ ref @ [CHR 0x27] @ '' is '' @ show_status st"

text \<open>A destination that is no text makes the statement fail in the client.\<close>

definition find_destination :: "env \<Rightarrow> json \<Rightarrow> string \<Rightarrow> treasuryBucket option act" where
  "find_destination e ref businessId =
     (case ref of
        JStr s \<Rightarrow> query e (find_bucket s businessId)
      | _ \<Rightarrow> throw (DbExn ValidationFailed))"

definition allocate :: "env \<Rightarrow> string \<Rightarrow> account \<Rightarrow> execEntry \<Rightarrow> string \<Rightarrow> treasuryBucket \<Rightarrow> int \<Rightarrow>
    executionResult act" where
  "allocate e executionId account entry destinationAccountRef bucket creditAmountKobo =
     catch
       (let reference = alloc_reference (xe_nombaTransactionRef entry) (bkt_id bucket) in
        bnd (credit e \<lparr>cr_bucketId = bkt_id bucket, cr_businessId = acc_businessId account,
               cr_amountKobo = creditAmountKobo, cr_reference = reference,
               cr_sourceLedgerEntryId = Some (xe_id entry),
               cr_narration = Some (''RELEASE_FUNDS allocation from '' @ acc_accountRef account),
               cr_sourceAccountRef = Some (acc_accountRef account)\<rparr>) (\<lambda>cumulative.
        seqm (complete_execution e executionId
                (JObj [(''allocated'', JBool True), (''bucketRef'', JStr destinationAccountRef),
                  (''amountKobo'', JStr (show_int creditAmountKobo)),
                  (''bucketBalanceKobo'', JStr (show_int cumulative))]))
        (seqm (AuditService_log e ((auditParams ''system'' RULE_ACTION_COMPLETED)\<lparr>
                 alp_accountId := Some (acc_id account),
                 alp_businessId := Some (acc_businessId account),
                 alp_metadata := Some (JObj [(''ruleExecutionId'', JStr executionId),
                   (''reference'', JStr reference), (''amountKobo'', JStr (show_int creditAmountKobo)),
                   (''destinationAccountRef'', JStr destinationAccountRef)])\<rparr>))
          (ret (completed_result executionId)))))
       (\<lambda>err.
        seqm (retry_execution e executionId (Some (exn_message e err)))
          (ret (retrying_result executionId (Some (exn_message e err)))))"

definition handleReleaseFunds ::
  "env \<Rightarrow> string \<Rightarrow> json \<Rightarrow> account \<Rightarrow> execEntry \<Rightarrow> executionResult act" where
  "handleReleaseFunds e executionId rulePayload account entry =
     (let payload = payload_of rulePayload; dest = jget payload ''destinationAccountRef'';
          fail = (\<lambda>m. seqm (markExecutionFailed e executionId m) (ret (failed_result executionId m))) in
      if falsy dest then fail missing_destination
      else
        bnd (find_destination e (the dest) (acc_businessId account)) (\<lambda>bucket.
        let ref = to_str e (the dest) in
        case bucket of
          None \<Rightarrow> fail (destination_not_found ref)
        | Some b \<Rightarrow>
            if bkt_status b \<noteq> ACTIVE then fail (destination_not_active ref (bkt_status b))
            else
              bnd (lift_sum (release_amount e payload (xe_amountKobo entry))) (\<lambda>amount.
              case amount of
                None \<Rightarrow> fail missing_amount
              | Some creditAmountKobo \<Rightarrow>
                  if creditAmountKobo \<le> 0 then
                    seqm (complete_execution e executionId JNull) (ret (completed_result executionId))
                  else allocate e executionId account entry ref b creditAmountKobo)))"

definition execution_row ::
  "evaluatedRule \<Rightarrow> execEntry \<Rightarrow> string option \<Rightarrow> string \<Rightarrow> int \<Rightarrow> ruleExecution" where
  "execution_row ev entry realLedgerEntryId i t = \<lparr>
     rex_id = i, rex_ruleId = ev_ruleId ev, rex_accountId = acc_id (ev_account ev),
     rex_triggeredByLedgerEntryId = realLedgerEntryId, rex_triggeredBy = xe_nombaEventId entry,
     rex_status = ExPENDING, rex_attempt = 0, rex_nextRetryAt = None, rex_nombaApiResponse = JNull,
     rex_errorMessage = None, rex_archivedReason = None, rex_completedAt = None\<rparr>"

definition real_entry_id :: "execEntry \<Rightarrow> string option" where
  "real_entry_id entry = (if prefix ''custom_'' (xe_id entry) then None else Some (xe_id entry))"

text \<open>The business that \<open>execute\<close> is given is not read by any branch.\<close>

definition execute :: "env \<Rightarrow> evaluatedRule \<Rightarrow> execEntry \<Rightarrow> executionResult act" where
  "execute e ev entry =
     (let account = ev_account ev; realLedgerEntryId = real_entry_id entry in
      bnd (create_ruleExecution e (execution_row ev entry realLedgerEntryId)) (\<lambda>execution.
      case ev_action ev of
        RELEASE_FUNDS \<Rightarrow> handleReleaseFunds e (rex_id execution) (ev_payload ev) account entry
      | SUSPEND_ACCOUNT \<Rightarrow>
          handleStatusChange e (rex_id execution) account SUSPENDED [ACTIVE] ACCOUNT_SUSPENDED
      | EXPIRE_ACCOUNT \<Rightarrow>
          handleStatusChange e (rex_id execution) account EXPIRED [ACTIVE, SUSPENDED] ACCOUNT_EXPIRED
      | REACTIVATE_ACCOUNT \<Rightarrow>
          handleStatusChange e (rex_id execution) account ACTIVE [SUSPENDED] ACCOUNT_REACTIVATED
      | FLAG_FOR_REVIEW \<Rightarrow> handleFlagForReview e (rex_id execution) account realLedgerEntryId
      | NOTIFY_WEBHOOK \<Rightarrow> handleNotifyWebhook e (rex_id execution) (ev_payload ev) account entry))"

section \<open>Evaluation against a reference\<close>

text \<open>The specification: all matching rules in order, or the first of them.\<close>

definition matching_rules :: "env \<Rightarrow> evalParams \<Rightarrow> database \<Rightarrow> (rule \<times> account) list" where
  "matching_rules e ps d = filter (\<lambda>ra. matches e (fst ra) ps) (active_rules (ep_accountId ps) d)"

definition evaluate_spec :: "env \<Rightarrow> evalParams \<Rightarrow> database \<Rightarrow> evaluatedRule list" where
  "evaluate_spec e ps d =
     (let ms = matching_rules e ps d in
      map evaluated (if ep_executionModel ps = SEQUENTIAL then take 1 ms else ms))"

lemma eval_loop_filter:
  "eval_loop e ps ras acc =
     (let ms = filter (\<lambda>ra. matches e (fst ra) ps) ras in
      acc @ map evaluated (if ep_executionModel ps = SEQUENTIAL then take 1 ms else ms))"
  by (induction ras arbitrary: acc) (auto simp: Let_def)

lemma evaluate_wp [wp_rules]: "Q (evaluate_spec e ps d) d \<Longrightarrow> E d \<Longrightarrow> wp d Q E (evaluate e ps)"
  unfolding evaluate_def
  by (intro wp_rules) (simp_all add: eval_loop_filter evaluate_spec_def matching_rules_def)

lemma active_rules_iff:
  "(r, a) \<in> set (active_rules i d) \<longleftrightarrow>
     r \<in> set (t_rule d) \<and> rul_accountId r = i \<and> rul_status r = RuleACTIVE \<and>
     a \<in> set (t_account d) \<and> acc_id a = i"
  by (auto simp: active_rules_def order_asc_def)

lemma active_rules_sorted: "sorted (map (rul_priority \<circ> fst) (active_rules i d))"
proof -
  have "sorted (map rul_priority rs) \<Longrightarrow>
      sorted (map (rul_priority \<circ> fst) (concat (map (\<lambda>r. map (Pair r) (g r)) rs)))" for rs and g :: "rule \<Rightarrow> account list"
    by (induction rs) (auto simp: sorted_append sorted_map comp_def)
  then show ?thesis by (simp add: active_rules_def order_asc_def)
qed

lemma matching_rules_sorted: "sorted (map (rul_priority \<circ> fst) (matching_rules e ps d))"
  unfolding matching_rules_def by (rule sorted_filter [OF active_rules_sorted])

section \<open>The recorded execution\<close>

text \<open>
  While a rule runs, its RuleExecution is the last row; \<open>recorded\<close> says that this row shows the result
  the caller receives.
\<close>

definition running_exec :: "ruleExecution list \<Rightarrow> string \<Rightarrow> database \<Rightarrow> bool" where
  "running_exec xs i d =
     (i \<notin> set (map rex_id xs) \<and>
      (\<exists>x. t_ruleExecution d = xs @ [x] \<and> rex_id x = i \<and> rex_status x = ExPENDING \<and>
          rex_errorMessage x = None \<and> rex_completedAt x = None \<and> rex_nextRetryAt x = None))"

definition recorded :: "ruleExecution list \<Rightarrow> executionResult \<Rightarrow> database \<Rightarrow> bool" where
  "recorded xs res d =
     (\<exists>x. t_ruleExecution d = xs @ [x] \<and> rex_id x = xr_ruleExecutionId res \<and>
        rex_status x = xr_status res \<and> rex_errorMessage x = xr_errorMessage res \<and>
        (rex_completedAt x \<noteq> None \<longleftrightarrow> xr_status res = ExCOMPLETED) \<and>
        (rex_nextRetryAt x \<noteq> None \<longleftrightarrow> xr_status res = ExRETRYING))"

lemma update_rows_other: "i \<notin> key ` set xs \<Longrightarrow> update_rows (\<lambda>r. key r = i) f xs = xs"
  by (induction xs) auto

lemma running_exec_cong: "t_ruleExecution d' = t_ruleExecution d \<Longrightarrow> running_exec xs i d' = running_exec xs i d"
  by (simp add: running_exec_def)

lemma wp_update_execution:
  assumes "running_exec xs i d"
    and "\<And>x. t_ruleExecution d = xs @ [x] \<Longrightarrow> rex_id x = i \<Longrightarrow> rex_errorMessage x = None \<Longrightarrow>
      rex_completedAt x = None \<Longrightarrow> rex_nextRetryAt x = None \<Longrightarrow>
      Q (d\<lparr>t_ruleExecution := xs @ [f x]\<rparr>)" and "E d"
  shows "wp d (\<lambda>_. Q) E (update_ruleExecution e i f)"
  using assms unfolding update_ruleExecution_def running_exec_def
  by (auto intro!: wp_update_row simp: update_rows_other)

lemma wp_complete_execution:
  assumes "running_exec xs i d"
    and "\<And>d'. d' = d\<lparr>t_ruleExecution := t_ruleExecution d'\<rparr> \<Longrightarrow> recorded xs (completed_result i) d' \<Longrightarrow> Q d'"
    and "E d"
  shows "wp d (\<lambda>_. Q) E (complete_execution e i resp)"
  unfolding complete_execution_def
  by (intro wp_rules, rule wp_update_execution [OF assms(1)], intro wp_rules)
    (auto intro!: assms(2,3) simp: recorded_def completed_result_def)

lemma wp_retry_execution:
  assumes "running_exec xs i d" and "m \<noteq> None"
    and "\<And>d'. d' = d\<lparr>t_ruleExecution := t_ruleExecution d'\<rparr> \<Longrightarrow> recorded xs (retrying_result i m) d' \<Longrightarrow> Q d'"
    and "E d"
  shows "wp d (\<lambda>_. Q) E (retry_execution e i m)"
  unfolding retry_execution_def
  by (intro wp_rules, rule wp_update_execution [OF assms(1)], intro wp_rules)
    (auto intro!: assms(3,4) simp: recorded_def retrying_result_def assms(2))

lemma wp_markExecutionFailed:
  assumes "running_exec xs i d"
    and "\<And>d'. d' = d\<lparr>t_ruleExecution := t_ruleExecution d'\<rparr> \<Longrightarrow> recorded xs (failed_result i m) d' \<Longrightarrow> Q d'"
    and "E d"
  shows "wp d (\<lambda>_. Q) E (markExecutionFailed e i m)"
  unfolding markExecutionFailed_def
  by (intro wp_rules, rule wp_update_execution [OF assms(1)], intro wp_rules)
    (auto intro!: assms(2,3) simp: recorded_def failed_result_def)

section \<open>Handlers\<close>

lemma running_exec_frame [simp]:
  "running_exec xs i (d\<lparr>t_account := a\<rparr>) = running_exec xs i d"
  "running_exec xs i (d\<lparr>t_ledgerEntry := l\<rparr>) = running_exec xs i d"
  "running_exec xs i (d\<lparr>t_bucketLedger := b\<rparr>) = running_exec xs i d"
  by (simp_all add: running_exec_def)

lemma handleStatusChange_recorded:
  assumes "running_exec xs i d"
  shows "wp d (recorded xs) (\<lambda>_. True) (handleStatusChange e i acc tgt froms act)"
  unfolding handleStatusChange_def update_account_def
  by (intro wp_rules audit.log_wp TrueI; (rule wp_complete_execution)?)
    (auto intro!: wp_rules assms)

lemma handleFlagForReview_recorded:
  assumes "running_exec xs i d"
  shows "wp d (recorded xs) (\<lambda>_. True) (handleFlagForReview e i acc le)"
  unfolding handleFlagForReview_def update_ledgerEntry_def
  by (intro wp_rules audit.log_wp TrueI; (rule wp_complete_execution)?)
    (auto intro!: wp_rules assms)

lemma handleNotifyWebhook_recorded:
  assumes "running_exec xs i d"
  shows "wp d (recorded xs) (\<lambda>_. True) (handleNotifyWebhook e i pl acc entry)"
  unfolding handleNotifyWebhook_def
  by (intro wp_rules notify.send_wp audit.log_wp TrueI;
      (rule wp_complete_execution wp_retry_execution wp_markExecutionFailed)?)
    (auto intro!: wp_rules audit.log_wp assms)

lemma allocate_recorded:
  assumes "running_exec xs i d"
  shows "wp d (recorded xs) (\<lambda>_. True) (allocate e i acc entry ref b amt)"
  unfolding allocate_def Let_def
  by (intro wp_catch wp_bnd credit_wp)
    (auto intro!: wp_rules audit.log_wp wp_complete_execution wp_retry_execution assms)

lemma wp_find_destination [wp_rules]:
  assumes "\<And>s. j = JStr s \<Longrightarrow> Q (find_bucket s biz d) d" and "E d"
  shows "wp d Q E (find_destination e j biz)"
  unfolding find_destination_def using assms by (cases j) (auto intro!: wp_rules)

lemma handleReleaseFunds_recorded:
  assumes "running_exec xs i d"
  shows "wp d (recorded xs) (\<lambda>_. True) (handleReleaseFunds e i pl acc entry)"
  unfolding handleReleaseFunds_def
  by (intro wp_rules TrueI allocate_recorded;
      (rule wp_complete_execution wp_markExecutionFailed)?)
    (auto intro!: wp_rules assms)

lemma create_execution_wp:
  assumes "\<And>x. rex_id x \<notin> set (map rex_id (t_ruleExecution d)) \<Longrightarrow> rex_ruleId x = ev_ruleId ev \<Longrightarrow>
      rex_accountId x = acc_id (ev_account ev) \<Longrightarrow>
      running_exec (t_ruleExecution d) (rex_id x) (d\<lparr>t_ruleExecution := t_ruleExecution d @ [x]\<rparr>) \<Longrightarrow>
      Q x (d\<lparr>t_ruleExecution := t_ruleExecution d @ [x]\<rparr>)" and "E d"
  shows "wp d Q E (create_ruleExecution e (execution_row ev entry le))"
  unfolding create_ruleExecution_def
  by (rule wp_create_row, rule assms(1))
    (auto simp: taken_def running_exec_def execution_row_def assms(2) split: if_splits)

lemma execute_recorded:
  "wp d (recorded (t_ruleExecution d)) (\<lambda>_. True) (execute e ev entry)"
proof -
  have "wp d' (recorded xs) (\<lambda>_. True)
      (case ev_action ev of
        RELEASE_FUNDS \<Rightarrow> handleReleaseFunds e i (ev_payload ev) (ev_account ev) entry
      | SUSPEND_ACCOUNT \<Rightarrow> handleStatusChange e i (ev_account ev) SUSPENDED [ACTIVE] ACCOUNT_SUSPENDED
      | EXPIRE_ACCOUNT \<Rightarrow>
          handleStatusChange e i (ev_account ev) EXPIRED [ACTIVE, SUSPENDED] ACCOUNT_EXPIRED
      | REACTIVATE_ACCOUNT \<Rightarrow>
          handleStatusChange e i (ev_account ev) ACTIVE [SUSPENDED] ACCOUNT_REACTIVATED
      | FLAG_FOR_REVIEW \<Rightarrow> handleFlagForReview e i (ev_account ev) le
      | NOTIFY_WEBHOOK \<Rightarrow> handleNotifyWebhook e i (ev_payload ev) (ev_account ev) entry)"
    if "running_exec xs i d'" for xs i d' le
    using that
    by (auto intro: handleReleaseFunds_recorded handleStatusChange_recorded
        handleFlagForReview_recorded handleNotifyWebhook_recorded split: rule_action.split)
  then show ?thesis
    unfolding execute_def Let_def by (intro wp_bnd create_execution_wp) auto
qed

section \<open>What an execution may change\<close>

lemma keeps_case_action [keeps_intro]:
  assumes "keeps P m1" "keeps P m2" "keeps P m3" "keeps P m4" "keeps P m5" "keeps P m6"
  shows "keeps P (case a of SUSPEND_ACCOUNT \<Rightarrow> m1 | REACTIVATE_ACCOUNT \<Rightarrow> m2 | EXPIRE_ACCOUNT \<Rightarrow> m3
    | NOTIFY_WEBHOOK \<Rightarrow> m4 | RELEASE_FUNDS \<Rightarrow> m5 | FLAG_FOR_REVIEW \<Rightarrow> m6)"
  using assms by (cases a) auto

lemma keeps_find_destination [keeps_intro]: "keeps_db J (find_destination e j biz)"
  unfolding find_destination_def by (cases j) (auto intro!: keeps_intro)

lemma execution_updates_evolve [keeps_intro]:
  "keeps_db (evolves d0) (complete_execution e i r)"
  "keeps_db (evolves d0) (retry_execution e i m)"
  "keeps_db (evolves d0) (markExecutionFailed e i m')"
  unfolding complete_execution_def retry_execution_def markExecutionFailed_def
  by (intro keeps_intro)+

lemma wp_complete_evolves:
  assumes "evolves d0 d"
  shows "wp d (\<lambda>x d'. wp d' (\<lambda>_. evolves d0) (evolves d0) (ret y)) (evolves d0)
    (complete_execution e i r)"
  by (rule wp_conseq [OF wp_keeps [OF execution_updates_evolve(1) assms]]) (auto intro: wp_ret)

lemma status_change_evolves:
  assumes "\<And>st. st \<in> set froms \<Longrightarrow> account_edge st tgt"
  shows "keeps_db (evolves d0) (handleStatusChange e i acc tgt froms act)"
proof (rule keeps_from_wp)
  fix d assume d: "evolves d0 d"
  have "evolves d0 (d\<lparr>t_account := update_rows (\<lambda>a. acc_id a = acc_id acc)
      (\<lambda>a. a\<lparr>acc_status := tgt\<rparr>) (t_account d)\<rparr>)"
    if "find (\<lambda>a. acc_id a = acc_id acc) (t_account d) = Some a" "acc_status a \<in> set froms" for a
    by (rule evolves_account [OF d that(1)]) (use that assms in \<open>auto intro: r_into_rtranclp\<close>)
  then show "wp d (\<lambda>_. evolves d0) (evolves d0) (handleStatusChange e i acc tgt froms act)"
    unfolding handleStatusChange_def update_account_def using d
    by (intro wp_rules audit.log_wp wp_complete_evolves) auto
qed

lemma handlers_evolve:
  "keeps_db (evolves d0) (handleReleaseFunds e i pl acc entry)"
  "keeps_db (evolves d0) (handleFlagForReview e i acc le)"
  "keeps_db (evolves d0) (handleNotifyWebhook e i pl acc entry)"
  unfolding handleReleaseFunds_def allocate_def handleFlagForReview_def handleNotifyWebhook_def
  by (intro keeps_intro)+

lemma execute_evolves [keeps_intro]: "keeps_db (evolves d0) (execute e ev entry)"
  unfolding execute_def
  by (intro keeps_intro handlers_evolve status_change_evolves) (auto intro: account_edge.intros)

lemma evaluate_keeps [keeps_intro]: "keeps_db J (evaluate e ps)"
  unfolding evaluate_def by (intro keeps_intro)

section \<open>Released amounts\<close>

lemma js_round_int [simp]: "js_round (of_int n) = n"
  unfolding js_round_def by linarith

lemma release_amount_percentage:
  assumes "jget payload ''percentage'' = Some (JNum (of_int p))" "0 \<le> p" "p \<le> 100" "0 \<le> amount"
  shows "release_amount e payload amount = Inr (Some (p * amount div 100))"
proof -
  have "to_double (of_int (p * 100)) = of_int (p * 100)"
    by (rule to_double_int) (use assms in simp)
  with js_round_int [of "p * 100"] have "js_round (to_double (of_int p * 100)) = p * 100" by simp
  moreover have "p * 100 * amount div 10000 = p * amount div 100"
    using div_mult_mult1 [of "100 :: int" "p * amount" 100] by (simp add: mult.commute mult.left_commute)
  ultimately show ?thesis
    using assms by (simp add: release_amount_def bigint_div_nonneg)
qed

lemma release_amount_amountKobo:
  assumes "jget payload ''percentage'' = None" "jget payload ''amountKobo'' = Some (JNum (of_int n))"
  shows "release_amount e payload amount = Inr (Some n)"
  using assms by (simp add: release_amount_def js_BigInt_def is_integer_def)

text \<open>What a release does to the bucket ledger, by its result.\<close>

definition released ::
  "env \<Rightarrow> json \<Rightarrow> account \<Rightarrow> execEntry \<Rightarrow> database \<Rightarrow> executionResult \<Rightarrow> database \<Rightarrow> bool" where
  "released e payload acc entry d res d' =
     ((xr_status res = ExFAILED \<longrightarrow> t_bucketLedger d' = t_bucketLedger d) \<and>
      (xr_status res = ExCOMPLETED \<longrightarrow>
        (\<exists>ref b amt. jget payload ''destinationAccountRef'' = Some (JStr ref) \<and>
           find_bucket ref (acc_businessId acc) d = Some b \<and> bkt_status b = ACTIVE \<and>
           release_amount e payload (xe_amountKobo entry) = Inr (Some amt) \<and>
           (if amt \<le> 0 \<or> alloc_reference (xe_nombaTransactionRef entry) (bkt_id b)
                  \<in> set (map ble_reference (t_bucketLedger d))
            then t_bucketLedger d' = t_bucketLedger d
            else \<forall>k. bucket_total k d' = bucket_total k d + (if k = bkt_id b then amt else 0)))))"

lemma execution_status_simps [simp]:
  "xr_status (completed_result i) = ExCOMPLETED" "xr_status (failed_result i m) = ExFAILED"
  "xr_status (retrying_result i m') = ExRETRYING"
  by (simp_all add: completed_result_def failed_result_def retrying_result_def)

lemma wp_update_execution_frame [wp_rules]:
  assumes "\<And>xs. Q (d\<lparr>t_ruleExecution := xs\<rparr>)" and "E d"
  shows "wp d (\<lambda>_. Q) E (complete_execution e i r)"
    and "wp d (\<lambda>_. Q) E (retry_execution e i m)"
    and "wp d (\<lambda>_. Q) E (markExecutionFailed e i m')"
  unfolding complete_execution_def retry_execution_def markExecutionFailed_def update_ruleExecution_def
  by (intro wp_rules assms)+

lemma allocate_released:
  assumes "jget payload ''destinationAccountRef'' = Some (JStr ref)"
    and "find_bucket ref (acc_businessId acc) d = Some b" "bkt_status b = ACTIVE"
    and "release_amount e payload (xe_amountKobo entry) = Inr (Some amt)" "0 < amt"
  shows "wp d (released e payload acc entry d) (\<lambda>_. True) (allocate e i acc entry ref b amt)"
  unfolding allocate_def Let_def
  by (intro wp_catch wp_bnd credit_wp)
    (use assms in \<open>auto intro!: wp_rules audit.log_wp simp: released_def bucket_total_def taken_def
      dest!: find_SomeD\<close>, metis imageI)

lemma handleReleaseFunds_released:
  "wp d (released e (payload_of pl) acc entry d) (\<lambda>_. True) (handleReleaseFunds e i pl acc entry)"
proof -
  have fail: "released e (payload_of pl) acc entry d (failed_result j m) (d\<lparr>t_ruleExecution := xs\<rparr>)"
    for j m xs by (simp add: released_def)
  show ?thesis
    unfolding handleReleaseFunds_def
    by (intro wp_rules TrueI fail allocate_released)
      (auto simp: released_def falsy_def split: option.splits)
qed

lemma bucket_total_executions [simp]:
  "bucket_total b (d\<lparr>t_ruleExecution := xs\<rparr>) = bucket_total b d"
  by (simp add: bucket_total_def)

lemma released_executions:
  "released e pl acc entry (d\<lparr>t_ruleExecution := xs\<rparr>) res d' = released e pl acc entry d res d'"
  by (simp add: released_def find_bucket_def)

section \<open>Properties\<close>

text \<open>A world with three rules on the demonstration account: two releases and a suspension.\<close>

definition demo_rule :: "string \<Rightarrow> int \<Rightarrow> rule_action \<Rightarrow> json \<Rightarrow> rule" where
  "demo_rule i priority action payload = \<lparr>rul_id = i, rul_accountId = ''a1'', rul_trigger = INFLOW_RECEIVED,
     rul_condition = JObj [(''amount_gte'', JNum 100)], rul_action = action, rul_payload = payload,
     rul_priority = priority, rul_status = RuleACTIVE, rul_kycTierAtCreation = TIER_1,
     rul_archivedAt = None, rul_archivedReason = None, rul_createdAt = 0\<rparr>"

definition demo_release :: "string \<Rightarrow> int \<Rightarrow> json" where
  "demo_release ref p = JObj [(''destinationAccountRef'', JStr ref), (''percentage'', JNum (of_int p))]"

definition demo_rules_world :: world where
  "demo_rules_world = demo_world\<lparr>db := demo_db\<lparr>t_rule :=
     [demo_rule ''r1'' 5 RELEASE_FUNDS (demo_release ''payroll'' 30),
      demo_rule ''r2'' 1 RELEASE_FUNDS (demo_release ''tax'' 10),
      demo_rule ''r3'' 9 SUSPEND_ACCOUNT JNull]\<rparr>\<rparr>"

definition demo_params :: "execution_model \<Rightarrow> evalParams" where
  "demo_params m = \<lparr>ep_accountId = ''a1'', ep_executionModel = m, ep_amountKobo = 1000,
     ep_cumulativeAmountKobo = 1000, ep_eventType = ''NOMBA_INFLOW'', ep_eventName = None\<rparr>"

text \<open>C8: \<open>evaluate\<close> computes its specification: the active matching rules of the account in order of
  priority, all of them for PARALLEL, the first for SEQUENTIAL; a rule it returns is an ACTIVE rule of
  the account whose condition holds, and under SEQUENTIAL no matching active rule has a smaller
  priority. It changes no table.\<close>

theorem evaluate_correct:
  assumes "evaluate e ps w = (Inr rs, w')"
  shows "db w' = db w \<and> rs = evaluate_spec e ps (db w) \<and>
    (\<forall>x \<in> set rs. \<exists>r a. x = evaluated (r, a) \<and> r \<in> set (t_rule (db w)) \<and> rul_status r = RuleACTIVE \<and>
       rul_accountId r = ep_accountId ps \<and> matches e r ps) \<and>
    (ep_executionModel ps = SEQUENTIAL \<longrightarrow> (\<forall>(r, a) \<in> set (matching_rules e ps (db w)).
       \<exists>x. rs = [x] \<and> ev_priority x \<le> rul_priority r))"
proof -
  have "wp (db w) (\<lambda>rs d. d = db w \<and> rs = evaluate_spec e ps (db w)) (\<lambda>_. True) (evaluate e ps)"
    by (intro wp_rules) auto
  from wpD_Inr [OF this refl assms] have rs: "db w' = db w" "rs = evaluate_spec e ps (db w)" by auto
  let ?ms = "matching_rules e ps (db w)"
  have sub: "set (if ep_executionModel ps = SEQUENTIAL then take 1 ?ms else ?ms) \<subseteq> set ?ms"
    by (auto dest: in_set_takeD)
  have "\<exists>r a. x = evaluated (r, a) \<and> r \<in> set (t_rule (db w)) \<and> rul_status r = RuleACTIVE \<and>
       rul_accountId r = ep_accountId ps \<and> matches e r ps" if x: "x \<in> set rs" for x
  proof -
    from x rs obtain ra where ra: "x = evaluated ra" "ra \<in> set ?ms"
      using sub by (auto simp: evaluate_spec_def Let_def)
    then show ?thesis by (cases ra) (auto simp: matching_rules_def active_rules_iff)
  qed
  moreover have "\<exists>x. rs = [x] \<and> ev_priority x \<le> rul_priority r"
    if "ep_executionModel ps = SEQUENTIAL" "(r, a) \<in> set ?ms" for r a
  proof -
    from that(2) obtain m ms where ms: "?ms = m # ms" by (cases ?ms) auto
    with matching_rules_sorted [of e ps "db w"] that(2) have "rul_priority (fst m) \<le> rul_priority r"
      by auto
    with ms rs that(1) show ?thesis
      by (auto simp: evaluate_spec_def evaluated_def split: prod.splits)
  qed
  ultimately show ?thesis using rs by blast
qed

theorem evaluate_correct_witness:
  "\<exists>rs. fst (evaluate demo_env (demo_params SEQUENTIAL) demo_rules_world) = Inr rs \<and>
     map ev_ruleId rs = [''r2''] \<and>
     rs = evaluate_spec demo_env (demo_params SEQUENTIAL) (db demo_rules_world)"
proof -
  let ?m = "evaluate demo_env (demo_params SEQUENTIAL) demo_rules_world"
  have one: "map_sum id (map ev_ruleId) (fst ?m) = (Inr [''r2''] :: exn + string list)" by code_simp
  then obtain rs where rs: "fst ?m = Inr rs" "map ev_ruleId rs = [''r2'']" by (cases "fst ?m") auto
  from evaluate_correct [OF fst_run [OF rs(1)]] rs show ?thesis by simp
qed

text \<open>When \<open>execute\<close> returns, exactly one RuleExecution row has been added, for the executed rule, and
  that row shows what the caller was told: the same status and error message, a completion time exactly
  when COMPLETED, a next retry time exactly when RETRYING. All earlier rows are unchanged.\<close>

theorem execute_result_recorded:
  assumes "execute e ev entry w = (Inr res, w')"
  shows "\<exists>x. t_ruleExecution (db w') = t_ruleExecution (db w) @ [x] \<and>
    rex_id x = xr_ruleExecutionId res \<and> rex_status x = xr_status res \<and>
    rex_errorMessage x = xr_errorMessage res \<and>
    (rex_completedAt x \<noteq> None \<longleftrightarrow> xr_status res = ExCOMPLETED) \<and>
    (rex_nextRetryAt x \<noteq> None \<longleftrightarrow> xr_status res = ExRETRYING)"
  using wpD_Inr [OF execute_recorded refl assms] by (simp add: recorded_def)

definition demo_entry :: execEntry where
  "demo_entry = \<lparr>xe_id = ''custom_1'', xe_amountKobo = 1000, xe_nombaTransactionRef = ''tx1'',
     xe_nombaEventId = ''ev1''\<rparr>"

definition demo_ev :: "rule_action \<Rightarrow> json \<Rightarrow> evaluatedRule" where
  "demo_ev action payload = evaluated (demo_rule ''r1'' 5 action payload, demo_account)"

theorem execute_result_recorded_witness:
  "\<exists>x. t_ruleExecution (db (snd (execute demo_env (demo_ev SUSPEND_ACCOUNT JNull) demo_entry
          demo_rules_world))) = [x] \<and> rex_status x = ExCOMPLETED"
proof -
  let ?m = "execute demo_env (demo_ev SUSPEND_ACCOUNT JNull) demo_entry demo_rules_world"
  have "map_sum id xr_status (fst ?m) = (Inr ExCOMPLETED :: exn + execution_status)" by code_simp
  then obtain res where res: "fst ?m = Inr res" "xr_status res = ExCOMPLETED" by (cases "fst ?m") auto
  from execute_result_recorded [OF fst_run [OF res(1)]] res(2)
  show ?thesis by (auto simp: demo_rules_world_def demo_defs)
qed

text \<open>C9: a RELEASE_FUNDS execution that ends FAILED leaves the bucket ledger untouched; one that ends
  COMPLETED found an ACTIVE destination bucket of the account's business and credited it with exactly
  the amount the payload asks for, unless that amount is not positive or an allocation of the same
  transaction to that bucket was there before, when nothing is written.\<close>

theorem execute_release_effect:
  assumes "execute e ev entry w = (Inr res, w')" "ev_action ev = RELEASE_FUNDS"
  shows "released e (payload_of (ev_payload ev)) (ev_account ev) entry (db w) res (db w')"
proof -
  have "wp (db w) (released e (payload_of (ev_payload ev)) (ev_account ev) entry (db w)) (\<lambda>_. True)
      (execute e ev entry)"
    unfolding execute_def Let_def assms(2)
    by (intro wp_bnd create_execution_wp TrueI)
      (use handleReleaseFunds_released in \<open>fastforce simp: released_executions
        intro: wp_conseq [OF handleReleaseFunds_released]\<close>)
  from wpD_Inr [OF this refl assms(1)] show ?thesis .
qed

definition demo_led :: ledgerEntry where
  "demo_led = inflow_row demo_inflow RecPENDING 1000 1000 0 ''le1'' 0"

definition demo_inflow_world :: world where
  "demo_inflow_world = demo_rules_world\<lparr>db := (db demo_rules_world)\<lparr>t_ledgerEntry := [demo_led]\<rparr>\<rparr>"

theorem execute_release_effect_witness:
  "\<exists>amt. release_amount demo_env (demo_release ''payroll'' 30) 1000 = Inr (Some amt) \<and> amt = 300 \<and>
     bucket_total ''bk1'' (db (snd (execute demo_env (demo_ev RELEASE_FUNDS (demo_release ''payroll'' 30))
       (demo_entry\<lparr>xe_id := ''le1''\<rparr>) demo_inflow_world))) = 300"
proof -
  let ?en = "demo_entry\<lparr>xe_id := ''le1''\<rparr>" and ?pl = "demo_release ''payroll'' 30"
  let ?m = "execute demo_env (demo_ev RELEASE_FUNDS ?pl) ?en demo_inflow_world"
  have "map_sum id xr_status (fst ?m) = (Inr ExCOMPLETED :: exn + execution_status)" by code_simp
  then obtain res where res: "fst ?m = Inr res" "xr_status res = ExCOMPLETED" by (cases "fst ?m") auto
  have amt: "release_amount demo_env ?pl 1000 = Inr (Some 300)"
    using release_amount_percentage [of ?pl 30 1000 demo_env] by (simp add: demo_release_def)
  have "released demo_env ?pl demo_account ?en (db demo_inflow_world) res (db (snd ?m))"
    using execute_release_effect [OF fst_run [OF res(1)]]
    by (simp add: demo_ev_def evaluated_def demo_rule_def payload_of_def demo_release_def)
  with res(2) amt show ?thesis
    by (auto simp: released_def demo_release_def find_bucket_def bkt_key_def demo_inflow_world_def
        demo_rules_world_def demo_defs demo_entry_def bucket_total_def)
qed

text \<open>C33: for an integer percentage the detour over floating point and BigInt is exact: the release is
  \<open>floor (p * amount / 100)\<close>, so it is between 0 and the inflow.\<close>

theorem release_percentage_exact:
  assumes "jget payload ''percentage'' = Some (JNum (of_int p))" "0 \<le> p" "p \<le> 100" "0 \<le> amount"
  shows "\<exists>x. release_amount e payload amount = Inr (Some x) \<and> x = p * amount div 100 \<and>
    0 \<le> x \<and> x \<le> amount"
proof -
  have "p * amount div 100 \<le> 100 * amount div 100"
    by (rule zdiv_mono1) (use assms in \<open>auto intro: mult_right_mono\<close>)
  with assms show ?thesis by (simp add: release_amount_percentage pos_imp_zdiv_nonneg_iff)
qed

theorem release_percentage_exact_witness:
  "\<exists>x. release_amount demo_env (demo_release ''payroll'' 33) 999 = Inr (Some x) \<and> x = 329"
  using release_percentage_exact [of "demo_release ''payroll'' 33" 33 999 demo_env]
  by (simp add: demo_release_def)

end
