(* ===== verification/Rule_Schema.thy ===== *)
theory Rule_Schema
  imports AOS_Demo
begin

text \<open>
  \<open>rule-schema.ts\<close>: the Zod schema of a rule set, as a parser from JSON to typed rules. A schema is
  a function to an option; \<^term>\<open>None\<close> is a failed \<open>safeParse\<close> (the texts of the issues come from Zod
  and are not modelled). Unknown keys are dropped, an optional key may be absent but not null,
  \<open>z.number().int()\<close> accepts the safe integers. Zod's URL check is the environment's
  \<open>env_zod_url\<close>, which gives the accepted value. The second half prints a typed rule set back to JSON
  and shows that parsing and printing are inverse on exactly the well-formed rule sets.
\<close>

section \<open>Data\<close>

record inflowCondition =
  ic_amount_gte :: "int option"
  ic_amount_lte :: "int option"
  ic_amount_lt :: "int option"
  ic_amount_eq :: "int option"
  ic_cumulative_gte :: "int option"

record timeElapsedCondition =
  tc_no_inflow_for_days :: "int option"
  tc_no_event_for_days :: "int option"
  tc_eventName :: "string option"

record tierChangedCondition =
  rc_fromTier :: "kyc_tier option"
  rc_toTier :: "kyc_tier option"

datatype triggerCondition =
    TrigInflow inflowCondition
  | TrigTimeElapsed timeElapsedCondition
  | TrigTierChanged tierChangedCondition
  | TrigCustomEvent string

record releaseFundsPayload =
  rf_destinationAccountRef :: string
  rf_percentage :: "int option"
  rf_amountKobo :: "int option"

datatype actionPayload =
    ActSuspend | ActReactivate | ActExpire | ActFlag
  | ActNotify string
  | ActRelease releaseFundsPayload

record ruleSpec =
  rsp_trigger :: triggerCondition
  rsp_priority :: int
  rsp_action :: actionPayload

record ruleSet =
  rst_accountRef :: string
  rst_executionModel :: execution_model
  rst_rules :: "ruleSpec list"

section \<open>Zod primitives\<close>

definition z_int :: "json \<Rightarrow> int option" where
  "z_int j = (case j of JNum x \<Rightarrow> if is_safe_integer x then Some \<lfloor>x\<rfloor> else None | _ \<Rightarrow> None)"

definition z_range :: "int \<Rightarrow> int \<Rightarrow> json \<Rightarrow> int option" where
  "z_range lo hi j =
     (case z_int j of None \<Rightarrow> None | Some n \<Rightarrow> if lo \<le> n \<and> n \<le> hi then Some n else None)"

text \<open>\<open>.int().positive()\<close>: from 1 to the largest safe integer.\<close>

definition z_positive :: "json \<Rightarrow> int option" where
  "z_positive = z_range 1 max_safe_integer"

definition z_string1 :: "json \<Rightarrow> string option" where
  "z_string1 j = (case j of JStr s \<Rightarrow> if s \<noteq> [] then Some s else None | _ \<Rightarrow> None)"

definition z_optional :: "(json \<Rightarrow> 'a option) \<Rightarrow> json option \<Rightarrow> 'a option option" where
  "z_optional p v = (case v of None \<Rightarrow> Some None | Some j \<Rightarrow> map_option Some (p j))"

definition z_required :: "(json \<Rightarrow> 'a option) \<Rightarrow> json option \<Rightarrow> 'a option" where
  "z_required p v = Option.bind v p"

definition z_default :: "'a \<Rightarrow> (json \<Rightarrow> 'a option) \<Rightarrow> json option \<Rightarrow> 'a option" where
  "z_default d p v = (case v of None \<Rightarrow> Some d | Some j \<Rightarrow> p j)"

fun z_object :: "json \<Rightarrow> bool" where
  "z_object (JObj _) = True"
| "z_object _ = False"

text \<open>\<open>.refine\<close>: the parsed value must also satisfy the predicate.\<close>

definition z_refine :: "('a \<Rightarrow> bool) \<Rightarrow> 'a option \<Rightarrow> 'a option" where
  "z_refine P r = (case r of None \<Rightarrow> None | Some x \<Rightarrow> if P x then Some x else None)"

fun z_list :: "('a \<Rightarrow> 'b option) \<Rightarrow> 'a list \<Rightarrow> 'b list option" where
  "z_list p [] = Some []"
| "z_list p (j # js) =
     (case p j of None \<Rightarrow> None | Some x \<Rightarrow> map_option (Cons x) (z_list p js))"

section \<open>Schemas\<close>

fun parse_tier :: "string \<Rightarrow> kyc_tier option" where
  "parse_tier s =
     (if s = ''TIER_0'' then Some TIER_0 else if s = ''TIER_1'' then Some TIER_1
      else if s = ''TIER_2'' then Some TIER_2 else if s = ''TIER_3'' then Some TIER_3 else None)"

definition KycTierSchema :: "json \<Rightarrow> kyc_tier option" where
  "KycTierSchema j = (case j of JStr s \<Rightarrow> parse_tier s | _ \<Rightarrow> None)"

definition ExecutionModelSchema :: "json \<Rightarrow> execution_model option" where
  "ExecutionModelSchema j =
     (case j of
        JStr s \<Rightarrow> if s = ''SEQUENTIAL'' then Some SEQUENTIAL
                  else if s = ''PARALLEL'' then Some PARALLEL else None
      | _ \<Rightarrow> None)"

definition PrioritySchema :: "json option \<Rightarrow> int option" where
  "PrioritySchema = z_default 0 (z_range 0 1000)"

definition ic_specified :: "inflowCondition \<Rightarrow> bool" where
  "ic_specified c =
     (ic_amount_gte c \<noteq> None \<or> ic_amount_lte c \<noteq> None \<or> ic_amount_lt c \<noteq> None \<or>
      ic_amount_eq c \<noteq> None \<or> ic_cumulative_gte c \<noteq> None)"

definition InflowConditionSchema :: "json \<Rightarrow> inflowCondition option" where
  "InflowConditionSchema j = z_refine ic_specified
     (if z_object j then
        Option.bind (z_optional z_positive (jget j ''amount_gte'')) (\<lambda>gte.
        Option.bind (z_optional z_positive (jget j ''amount_lte'')) (\<lambda>lte.
        Option.bind (z_optional z_positive (jget j ''amount_lt'')) (\<lambda>lt.
        Option.bind (z_optional z_positive (jget j ''amount_eq'')) (\<lambda>eq.
        Option.bind (z_optional z_positive (jget j ''cumulative_gte'')) (\<lambda>cum.
        Some \<lparr>ic_amount_gte = gte, ic_amount_lte = lte, ic_amount_lt = lt, ic_amount_eq = eq,
              ic_cumulative_gte = cum\<rparr>)))))
      else None)"

definition TimeElapsedConditionSchema :: "json \<Rightarrow> timeElapsedCondition option" where
  "TimeElapsedConditionSchema j =
     z_refine (\<lambda>c. tc_no_event_for_days c = None \<or> tc_eventName c \<noteq> None)
       (z_refine (\<lambda>c. tc_no_inflow_for_days c \<noteq> None \<or> tc_no_event_for_days c \<noteq> None)
         (if z_object j then
            Option.bind (z_optional z_positive (jget j ''no_inflow_for_days'')) (\<lambda>inflow.
            Option.bind (z_optional z_positive (jget j ''no_event_for_days'')) (\<lambda>event.
            Option.bind (z_optional z_string1 (jget j ''eventName'')) (\<lambda>name.
            Some \<lparr>tc_no_inflow_for_days = inflow, tc_no_event_for_days = event, tc_eventName = name\<rparr>)))
          else None))"

definition TierChangedConditionSchema :: "json \<Rightarrow> tierChangedCondition option" where
  "TierChangedConditionSchema j =
     z_refine (\<lambda>c. rc_fromTier c \<noteq> None \<or> rc_toTier c \<noteq> None)
       (if z_object j then
          Option.bind (z_optional KycTierSchema (jget j ''fromTier'')) (\<lambda>fromTier.
          Option.bind (z_optional KycTierSchema (jget j ''toTier'')) (\<lambda>toTier.
          Some \<lparr>rc_fromTier = fromTier, rc_toTier = toTier\<rparr>))
        else None)"

definition CustomEventConditionSchema :: "json \<Rightarrow> string option" where
  "CustomEventConditionSchema j =
     (if z_object j then z_required z_string1 (jget j ''eventName'') else None)"

definition TriggerConditionSchema :: "json \<Rightarrow> (triggerCondition \<times> int) option" where
  "TriggerConditionSchema j =
     (if z_object j then
        case jget j ''trigger'' of
          Some (JStr t) \<Rightarrow>
            Option.bind
              (if t = ''inflow_received''
               then map_option TrigInflow (z_required InflowConditionSchema (jget j ''condition''))
               else if t = ''time_elapsed''
               then map_option TrigTimeElapsed (z_required TimeElapsedConditionSchema (jget j ''condition''))
               else if t = ''tier_changed''
               then map_option TrigTierChanged (z_required TierChangedConditionSchema (jget j ''condition''))
               else if t = ''custom_event''
               then map_option TrigCustomEvent (z_required CustomEventConditionSchema (jget j ''condition''))
               else None)
              (\<lambda>c. map_option (Pair c) (PrioritySchema (jget j ''priority'')))
        | _ \<Rightarrow> None
      else None)"

definition NotifyWebhookPayloadSchema :: "env \<Rightarrow> json \<Rightarrow> string option" where
  "NotifyWebhookPayloadSchema e j =
     (if z_object j
      then z_required (\<lambda>v. case v of JStr s \<Rightarrow> env_zod_url e s | _ \<Rightarrow> None) (jget j ''url'')
      else None)"

definition ReleaseFundsPayloadSchema :: "json \<Rightarrow> releaseFundsPayload option" where
  "ReleaseFundsPayloadSchema j =
     z_refine (\<lambda>p. \<not> (rf_percentage p \<noteq> None \<and> rf_amountKobo p \<noteq> None))
       (if z_object j then
          Option.bind (z_required z_string1 (jget j ''destinationAccountRef'')) (\<lambda>dest.
          Option.bind (z_optional (z_range 1 100) (jget j ''percentage'')) (\<lambda>percentage.
          Option.bind (z_optional z_positive (jget j ''amountKobo'')) (\<lambda>amount.
          Some \<lparr>rf_destinationAccountRef = dest, rf_percentage = percentage, rf_amountKobo = amount\<rparr>)))
        else None)"

definition ActionPayloadSchema :: "env \<Rightarrow> json \<Rightarrow> actionPayload option" where
  "ActionPayloadSchema e j =
     (if z_object j then
        case jget j ''action'' of
          Some (JStr a) \<Rightarrow>
            if a = ''suspend_account'' then Some ActSuspend
            else if a = ''reactivate_account'' then Some ActReactivate
            else if a = ''expire_account'' then Some ActExpire
            else if a = ''flag_for_review'' then Some ActFlag
            else if a = ''notify_webhook''
            then map_option ActNotify (z_required (NotifyWebhookPayloadSchema e) (jget j ''payload''))
            else if a = ''release_funds''
            then map_option ActRelease (z_required ReleaseFundsPayloadSchema (jget j ''payload''))
            else None
        | _ \<Rightarrow> None
      else None)"

text \<open>The intersection of the two unions: both sides parse the same object.\<close>

definition RuleSchema :: "env \<Rightarrow> json \<Rightarrow> ruleSpec option" where
  "RuleSchema e j =
     Option.bind (TriggerConditionSchema j) (\<lambda>(c, p).
     Option.bind (ActionPayloadSchema e j) (\<lambda>a.
     Some \<lparr>rsp_trigger = c, rsp_priority = p, rsp_action = a\<rparr>))"

definition RuleSetSchema :: "env \<Rightarrow> json \<Rightarrow> ruleSet option" where
  "RuleSetSchema e j =
     (if z_object j then
        Option.bind (z_required z_string1 (jget j ''accountRef'')) (\<lambda>ref.
        Option.bind (z_default SEQUENTIAL ExecutionModelSchema (jget j ''executionModel'')) (\<lambda>model.
        Option.bind
          (z_required (\<lambda>v. case v of JArr js \<Rightarrow> z_refine (\<lambda>rs. rs \<noteq> []) (z_list (RuleSchema e) js)
                           | _ \<Rightarrow> None) (jget j ''rules'')) (\<lambda>rules.
        Some \<lparr>rst_accountRef = ref, rst_executionModel = model, rst_rules = rules\<rparr>)))
      else None)"

definition validateRuleSet :: "env \<Rightarrow> json \<Rightarrow> ruleSet option" where
  "validateRuleSet e input = RuleSetSchema e input"

section \<open>Well-formed rule sets and their JSON form\<close>

definition positive_opt :: "int option \<Rightarrow> bool" where
  "positive_opt v = (case v of None \<Rightarrow> True | Some n \<Rightarrow> 1 \<le> n \<and> n \<le> max_safe_integer)"

fun trigger_ok :: "triggerCondition \<Rightarrow> bool" where
  "trigger_ok (TrigInflow c) =
     (ic_specified c \<and> positive_opt (ic_amount_gte c) \<and> positive_opt (ic_amount_lte c) \<and>
      positive_opt (ic_amount_lt c) \<and> positive_opt (ic_amount_eq c) \<and>
      positive_opt (ic_cumulative_gte c))"
| "trigger_ok (TrigTimeElapsed c) =
     ((tc_no_inflow_for_days c \<noteq> None \<or> tc_no_event_for_days c \<noteq> None) \<and>
      (tc_no_event_for_days c = None \<or> tc_eventName c \<noteq> None) \<and>
      positive_opt (tc_no_inflow_for_days c) \<and> positive_opt (tc_no_event_for_days c) \<and>
      tc_eventName c \<noteq> Some [])"
| "trigger_ok (TrigTierChanged c) = (rc_fromTier c \<noteq> None \<or> rc_toTier c \<noteq> None)"
| "trigger_ok (TrigCustomEvent s) = (s \<noteq> [])"

fun action_ok :: "env \<Rightarrow> actionPayload \<Rightarrow> bool" where
  "action_ok e (ActNotify u) = (env_zod_url e u = Some u)"
| "action_ok e (ActRelease p) =
     (rf_destinationAccountRef p \<noteq> [] \<and>
      (case rf_percentage p of None \<Rightarrow> True | Some n \<Rightarrow> 1 \<le> n \<and> n \<le> 100) \<and>
      positive_opt (rf_amountKobo p) \<and> (rf_percentage p = None \<or> rf_amountKobo p = None))"
| "action_ok e _ = True"

definition ruleSpec_ok :: "env \<Rightarrow> ruleSpec \<Rightarrow> bool" where
  "ruleSpec_ok e r =
     (trigger_ok (rsp_trigger r) \<and> 0 \<le> rsp_priority r \<and> rsp_priority r \<le> 1000 \<and>
      action_ok e (rsp_action r))"

definition ruleSet_ok :: "env \<Rightarrow> ruleSet \<Rightarrow> bool" where
  "ruleSet_ok e s =
     (rst_accountRef s \<noteq> [] \<and> rst_rules s \<noteq> [] \<and> list_all (ruleSpec_ok e) (rst_rules s))"

definition jint :: "int option \<Rightarrow> json option" where
  "jint v = map_option (\<lambda>n. JNum (of_int n)) v"

fun condition_json :: "triggerCondition \<Rightarrow> json" where
  "condition_json (TrigInflow c) = jobj
     [(''amount_gte'', jint (ic_amount_gte c)), (''amount_lte'', jint (ic_amount_lte c)),
      (''amount_lt'', jint (ic_amount_lt c)), (''amount_eq'', jint (ic_amount_eq c)),
      (''cumulative_gte'', jint (ic_cumulative_gte c))]"
| "condition_json (TrigTimeElapsed c) = jobj
     [(''no_inflow_for_days'', jint (tc_no_inflow_for_days c)),
      (''no_event_for_days'', jint (tc_no_event_for_days c)),
      (''eventName'', map_option JStr (tc_eventName c))]"
| "condition_json (TrigTierChanged c) = jobj
     [(''fromTier'', map_option (JStr \<circ> show_tier) (rc_fromTier c)),
      (''toTier'', map_option (JStr \<circ> show_tier) (rc_toTier c))]"
| "condition_json (TrigCustomEvent s) = jobj [(''eventName'', Some (JStr s))]"

fun trigger_name :: "triggerCondition \<Rightarrow> string" where
  "trigger_name (TrigInflow _) = ''inflow_received''"
| "trigger_name (TrigTimeElapsed _) = ''time_elapsed''"
| "trigger_name (TrigTierChanged _) = ''tier_changed''"
| "trigger_name (TrigCustomEvent _) = ''custom_event''"

fun action_name :: "actionPayload \<Rightarrow> string" where
  "action_name ActSuspend = ''suspend_account''"
| "action_name ActReactivate = ''reactivate_account''"
| "action_name ActExpire = ''expire_account''"
| "action_name ActFlag = ''flag_for_review''"
| "action_name (ActNotify _) = ''notify_webhook''"
| "action_name (ActRelease _) = ''release_funds''"

fun payload_json :: "actionPayload \<Rightarrow> json option" where
  "payload_json (ActNotify u) = Some (jobj [(''url'', Some (JStr u))])"
| "payload_json (ActRelease p) = Some (jobj
     [(''destinationAccountRef'', Some (JStr (rf_destinationAccountRef p))),
      (''percentage'', jint (rf_percentage p)), (''amountKobo'', jint (rf_amountKobo p))])"
| "payload_json _ = None"

definition ruleSpec_json :: "ruleSpec \<Rightarrow> json" where
  "ruleSpec_json r = jobj
     [(''trigger'', Some (JStr (trigger_name (rsp_trigger r)))),
      (''condition'', Some (condition_json (rsp_trigger r))),
      (''priority'', jint (Some (rsp_priority r))),
      (''action'', Some (JStr (action_name (rsp_action r)))),
      (''payload'', payload_json (rsp_action r))]"

fun show_model :: "execution_model \<Rightarrow> string" where
  "show_model SEQUENTIAL = ''SEQUENTIAL''"
| "show_model PARALLEL = ''PARALLEL''"

definition ruleSet_json :: "ruleSet \<Rightarrow> json" where
  "ruleSet_json s = jobj
     [(''accountRef'', Some (JStr (rst_accountRef s))),
      (''executionModel'', Some (JStr (show_model (rst_executionModel s)))),
      (''rules'', Some (JArr (map ruleSpec_json (rst_rules s))))]"

section \<open>Lemmas\<close>

named_theorems zod_defs \<open>definitions of the schemas\<close>
declare z_refine_def [zod_defs] z_required_def [zod_defs] z_optional_def [zod_defs]
  z_default_def [zod_defs]

text \<open>Reading an object literal: the keys that are present, in any order.\<close>

lemma jget_jobj:
  "distinct (map fst kvs) \<Longrightarrow> jget (jobj kvs) k = Option.bind (map_of kvs k) id"
proof (induction kvs)
  case (Cons kv kvs)
  have "v = None \<Longrightarrow> k \<notin> fst ` set kvs \<Longrightarrow> map_of kvs k = None" for v :: "json option"
    by (simp add: map_of_eq_None_iff)
  with Cons show ?case
    by (cases kv) (auto simp: map_of_eq_None_iff image_iff split: if_splits)
qed simp

lemma z_object_jobj [simp]: "z_object (jobj kvs)"
  by simp

lemma z_int_of_int [simp]: "\<bar>n\<bar> \<le> max_safe_integer \<Longrightarrow> z_int (JNum (of_int n)) = Some n"
  by (simp add: z_int_def is_safe_integer_def is_integer_def)

lemma z_range_bounds: "z_range lo hi j = Some n \<Longrightarrow> lo \<le> n \<and> n \<le> hi"
  by (auto simp: z_range_def split: option.splits if_splits)

lemma z_range_print:
  "lo \<le> n \<Longrightarrow> n \<le> hi \<Longrightarrow> \<bar>n\<bar> \<le> max_safe_integer \<Longrightarrow> z_range lo hi (JNum (of_int n)) = Some n"
  by (simp add: z_range_def)

lemma z_positive_print [simp]:
  "1 \<le> n \<Longrightarrow> n \<le> max_safe_integer \<Longrightarrow> z_positive (JNum (of_int n)) = Some n"
  by (simp add: z_positive_def z_range_print)

lemma z_optional_positive [simp]: "positive_opt v \<Longrightarrow> z_optional z_positive (jint v) = Some v"
  by (cases v) (auto simp: positive_opt_def z_optional_def jint_def)

lemma z_optional_positive_ok: "z_optional z_positive v = Some n \<Longrightarrow> positive_opt n"
  by (auto simp: positive_opt_def z_optional_def z_positive_def max_safe_integer_def
      split: option.splits dest: z_range_bounds)

lemma z_string1_ok: "z_string1 j = Some s \<Longrightarrow> s \<noteq> []"
  by (auto simp: z_string1_def split: json.splits if_splits)

lemma z_string1_print [simp]: "s \<noteq> [] \<Longrightarrow> z_string1 (JStr s) = Some s"
  by (simp add: z_string1_def)

lemma z_list_ok: "z_list p js = Some xs \<Longrightarrow> x \<in> set xs \<Longrightarrow> \<exists>j \<in> set js. p j = Some x"
  by (induction js arbitrary: xs) (auto split: option.splits)

lemma z_list_print: "(\<And>x. x \<in> set xs \<Longrightarrow> p (f x) = Some x) \<Longrightarrow> z_list p (map f xs) = Some xs"
  by (induction xs) auto

lemma z_refine_Some: "z_refine P r = Some x \<longleftrightarrow> r = Some x \<and> P x"
  by (auto simp: z_refine_def split: option.splits)

lemma tier_roundtrip [simp]: "KycTierSchema (JStr (show_tier t)) = Some t"
  by (cases t) (simp_all add: KycTierSchema_def)

lemma model_roundtrip [simp]: "ExecutionModelSchema (JStr (show_model m)) = Some m"
  by (cases m) (simp_all add: ExecutionModelSchema_def)

lemmas read_json = jget_jobj z_refine_Some z_required_def

lemma condition_parsed_ok:
  "InflowConditionSchema j = Some c \<Longrightarrow> trigger_ok (TrigInflow c)"
  "TimeElapsedConditionSchema j = Some t \<Longrightarrow> trigger_ok (TrigTimeElapsed t)"
  "TierChangedConditionSchema j = Some r \<Longrightarrow> trigger_ok (TrigTierChanged r)"
  "CustomEventConditionSchema j = Some s \<Longrightarrow> trigger_ok (TrigCustomEvent s)"
proof -
  show "InflowConditionSchema j = Some c \<Longrightarrow> trigger_ok (TrigInflow c)"
    by (auto simp: InflowConditionSchema_def z_refine_Some split: if_splits bind_splits
        intro: z_optional_positive_ok)
  show "TimeElapsedConditionSchema j = Some t \<Longrightarrow> trigger_ok (TrigTimeElapsed t)"
    by (auto simp: TimeElapsedConditionSchema_def z_refine_Some z_optional_def [of z_string1]
        split: if_splits bind_splits option.splits
        intro: z_optional_positive_ok dest: z_string1_ok)
  show "TierChangedConditionSchema j = Some r \<Longrightarrow> trigger_ok (TrigTierChanged r)"
    by (auto simp: TierChangedConditionSchema_def z_refine_Some split: if_splits bind_splits)
  show "CustomEventConditionSchema j = Some s \<Longrightarrow> trigger_ok (TrigCustomEvent s)"
    by (auto simp: CustomEventConditionSchema_def z_required_def split: if_splits bind_splits
        dest: z_string1_ok)
qed

lemma trigger_parsed_ok:
  assumes "TriggerConditionSchema j = Some (c, p)"
  shows "trigger_ok c \<and> 0 \<le> p \<and> p \<le> 1000"
proof -
  have p: "0 \<le> n \<and> n \<le> 1000" if "PrioritySchema v = Some n" for v n
    using that z_range_bounds [of 0 1000] by (auto simp: PrioritySchema_def z_default_def split: option.splits)
  from assms show ?thesis
    by (auto simp: TriggerConditionSchema_def z_required_def
        split: if_splits option.splits json.splits bind_splits
        dest: p condition_parsed_ok simp del: trigger_ok.simps)
qed

lemma action_parsed_ok:
  assumes url: "\<And>u v. env_zod_url e u = Some v \<Longrightarrow> env_zod_url e v = Some v"
    and "ActionPayloadSchema e j = Some a"
  shows "action_ok e a"
proof -
  have n: "NotifyWebhookPayloadSchema e j = Some u \<Longrightarrow> action_ok e (ActNotify u)" for j u
    by (auto simp: NotifyWebhookPayloadSchema_def z_required_def
        split: if_splits bind_splits json.splits intro: url)
  have pc: "z_optional (z_range 1 100) v = Some w \<Longrightarrow>
      (case w of None \<Rightarrow> True | Some n \<Rightarrow> 1 \<le> n \<and> n \<le> 100)" for v w
    using z_range_bounds [of 1 100] by (auto simp: z_optional_def split: option.splits)
  have r: "ReleaseFundsPayloadSchema j = Some p \<Longrightarrow> action_ok e (ActRelease p)" for j p
    by (auto simp: ReleaseFundsPayloadSchema_def z_required_def z_refine_Some
        split: if_splits bind_splits dest: pc z_string1_ok intro: z_optional_positive_ok)
  from assms(2) show ?thesis
    by (auto simp: ActionPayloadSchema_def z_required_def
        split: if_splits option.splits json.splits bind_splits
        dest: n r simp del: action_ok.simps(1,2))
qed

lemma condition_roundtrip:
  "trigger_ok (TrigInflow c) \<Longrightarrow> InflowConditionSchema (condition_json (TrigInflow c)) = Some c"
  "trigger_ok (TrigTimeElapsed t) \<Longrightarrow> TimeElapsedConditionSchema (condition_json (TrigTimeElapsed t)) = Some t"
  "trigger_ok (TrigTierChanged r) \<Longrightarrow> TierChangedConditionSchema (condition_json (TrigTierChanged r)) = Some r"
  "trigger_ok (TrigCustomEvent s) \<Longrightarrow> CustomEventConditionSchema (condition_json (TrigCustomEvent s)) = Some s"
proof -
  show "trigger_ok (TrigInflow c) \<Longrightarrow> InflowConditionSchema (condition_json (TrigInflow c)) = Some c"
    by (simp add: InflowConditionSchema_def read_json del: jobj.simps)
  have n: "s \<noteq> Some [] \<Longrightarrow> z_optional z_string1 (map_option JStr s) = Some s" for s
    by (cases s) (auto simp: z_optional_def)
  show "trigger_ok (TrigTimeElapsed t) \<Longrightarrow>
      TimeElapsedConditionSchema (condition_json (TrigTimeElapsed t)) = Some t"
    by (simp add: TimeElapsedConditionSchema_def read_json n del: jobj.simps)
  have k: "z_optional KycTierSchema (map_option (JStr \<circ> show_tier) v) = Some v" for v
    by (cases v) (auto simp: z_optional_def)
  show "trigger_ok (TrigTierChanged r) \<Longrightarrow>
      TierChangedConditionSchema (condition_json (TrigTierChanged r)) = Some r"
    by (simp add: TierChangedConditionSchema_def read_json k del: jobj.simps)
  show "trigger_ok (TrigCustomEvent s) \<Longrightarrow>
      CustomEventConditionSchema (condition_json (TrigCustomEvent s)) = Some s"
    by (simp add: CustomEventConditionSchema_def read_json del: jobj.simps)
qed

lemma ruleSpec_roundtrip:
  assumes "ruleSpec_ok e r"
  shows "RuleSchema e (ruleSpec_json r) = Some r"
proof -
  from assms have p: "PrioritySchema (jint (Some (rsp_priority r))) = Some (rsp_priority r)"
    by (simp add: ruleSpec_ok_def PrioritySchema_def z_default_def jint_def z_range_print
        max_safe_integer_def)
  have t: "TriggerConditionSchema (ruleSpec_json r) = Some (rsp_trigger r, rsp_priority r)"
    using assms p
    by (cases "rsp_trigger r")
      (simp_all add: ruleSpec_ok_def TriggerConditionSchema_def ruleSpec_json_def read_json
        condition_roundtrip del: jobj.simps condition_json.simps trigger_ok.simps)
  have a: "ActionPayloadSchema e (ruleSpec_json r) = Some (rsp_action r)"
  proof (cases "rsp_action r")
    case (ActRelease q)
    with assms have "z_optional (z_range 1 100) (jint (rf_percentage q)) = Some (rf_percentage q)"
      by (auto simp: ruleSpec_ok_def z_optional_def jint_def z_range_print max_safe_integer_def
          split: option.splits)
    with ActRelease assms show ?thesis
      by (auto simp: ruleSpec_ok_def ActionPayloadSchema_def ruleSpec_json_def read_json
          ReleaseFundsPayloadSchema_def simp del: jobj.simps)
  qed (use assms in \<open>simp_all add: ruleSpec_ok_def ActionPayloadSchema_def ruleSpec_json_def
      read_json NotifyWebhookPayloadSchema_def del: jobj.simps\<close>)
  show ?thesis by (simp add: RuleSchema_def t a)
qed

lemma ruleSet_parsed_ok:
  assumes "\<And>u v. env_zod_url e u = Some v \<Longrightarrow> env_zod_url e v = Some v"
    and "validateRuleSet e j = Some s"
  shows "ruleSet_ok e s"
proof -
  from assms(2) obtain ref m js
    where s: "s = \<lparr>rst_accountRef = ref, rst_executionModel = m, rst_rules = rst_rules s\<rparr>"
      and ref: "ref \<noteq> []" and ne: "rst_rules s \<noteq> []" and rs: "z_list (RuleSchema e) js = Some (rst_rules s)"
    by (auto simp: validateRuleSet_def RuleSetSchema_def read_json
        split: if_splits bind_splits json.splits dest: z_string1_ok)
  have a: "ActionPayloadSchema e j = Some a \<Longrightarrow> action_ok e a" for j a
    by (rule action_parsed_ok) (use assms(1) in blast)+
  have "ruleSpec_ok e r" if "RuleSchema e j = Some r" for j r
    using that trigger_parsed_ok [of j] a [of j]
    by (auto simp: RuleSchema_def ruleSpec_ok_def split: bind_splits)
  with rs have "list_all (ruleSpec_ok e) (rst_rules s)"
    by (auto simp: list_all_iff dest: z_list_ok)
  with ref ne show ?thesis by (subst s) (simp add: ruleSet_ok_def)
qed

lemma ruleSet_print_parse:
  assumes "ruleSet_ok e s"
  shows "validateRuleSet e (ruleSet_json s) = Some s"
proof -
  have "z_list (RuleSchema e) (map ruleSpec_json (rst_rules s)) = Some (rst_rules s)"
    by (rule z_list_print) (use assms in \<open>auto simp: ruleSet_ok_def list_all_iff ruleSpec_roundtrip\<close>)
  with assms show ?thesis
    by (simp add: ruleSet_ok_def validateRuleSet_def RuleSetSchema_def ruleSet_json_def read_json
        z_default_def z_refine_def del: jobj.simps)
qed

section \<open>Properties\<close>

text \<open>A rule set with one release of 30 per cent.\<close>

definition demo_ruleSet :: ruleSet where
  "demo_ruleSet = \<lparr>rst_accountRef = ''acc-1'', rst_executionModel = PARALLEL, rst_rules = [
     \<lparr>rsp_trigger = TrigInflow \<lparr>ic_amount_gte = Some 100, ic_amount_lte = None, ic_amount_lt = None,
        ic_amount_eq = None, ic_cumulative_gte = None\<rparr>, rsp_priority = 2,
      rsp_action = ActRelease \<lparr>rf_destinationAccountRef = ''payroll'', rf_percentage = Some 30,
        rf_amountKobo = None\<rparr>\<rparr>]\<rparr>"

text \<open>C31: the values that validation can return are exactly the well-formed rule sets: a non-empty reference,
  at least one rule, positive safe-integer amounts and days, priorities from 0 to 1000, percentages
  from 1 to 100 and never beside an amount, conditions with at least one operator, accepted URLs. The
  URL check is assumed to accept the value it returns.\<close>

theorem validateRuleSet_range:
  assumes "\<And>u v. env_zod_url e u = Some v \<Longrightarrow> env_zod_url e v = Some v"
  shows "(\<exists>j. validateRuleSet e j = Some s) \<longleftrightarrow> ruleSet_ok e s"
  using assms by (blast intro: ruleSet_parsed_ok ruleSet_print_parse)

theorem validateRuleSet_range_witness: "\<exists>j. validateRuleSet demo_env j = Some demo_ruleSet"
proof -
  have "ruleSet_ok demo_env demo_ruleSet" by code_simp
  with validateRuleSet_range [of demo_env demo_ruleSet] show ?thesis by (simp add: demo_env_def)
qed

text \<open>A \<open>release_funds\<close> rule with neither a percentage nor an amount passes validation.\<close>

theorem release_without_amount_valid:
  "validateRuleSet demo_env (JObj [(''accountRef'', JStr ''order''),
     (''rules'', JArr [JObj [(''trigger'', JStr ''custom_event''),
       (''condition'', JObj [(''eventName'', JStr ''delivered'')]),
       (''action'', JStr ''release_funds''),
       (''payload'', JObj [(''destinationAccountRef'', JStr ''seller'')])]])]) \<noteq> None"
  by code_simp

end
