(* ===== verification/Rules_Service.thy ===== *)
theory Rules_Service
  imports Rule_Engine Rule_Schema
begin

text \<open>
  \<open>src/rules/rules.service.ts\<close>: replacing, toggling and archiving the rules of an account. A rule set
  is validated by \<open>rule-schema.ts\<close>, under PARALLEL the release percentages may not exceed 100, the old
  active rules are archived and the new ones stored as they were given. The theory connects the two
  ends: the rules that the engine will read are the validated ones, so the releases of one inflow
  never add up to more than the inflow.
\<close>

section \<open>Data\<close>

text \<open>\<open>payload\<close> and \<open>priority\<close> may be absent; \<open>null\<close> is a JSON value.\<close>

record ruleDefinition =
  rd_trigger :: string
  rd_condition :: json
  rd_action :: string
  rd_payload :: "json option"
  rd_priority :: "json option"

text \<open>
  The elements of \<open>rules\<close> that the request pipe lets through: class-validator checks the objects, skips null and
  descends into arrays.
\<close>

datatype ruleElement = Rule ruleDefinition | NullRule | RuleArray "json list"

record replaceRuleSetDto =
  rr_executionModel :: "execution_model option"
  rr_rules :: "ruleElement list"

definition ruleDefinition_json :: "ruleDefinition \<Rightarrow> json" where
  "ruleDefinition_json r = jobj
     [(''trigger'', Some (JStr (rd_trigger r))), (''condition'', Some (rd_condition r)),
      (''action'', Some (JStr (rd_action r))), (''payload'', rd_payload r),
      (''priority'', rd_priority r)]"

fun element_json :: "ruleElement \<Rightarrow> json" where
  "element_json (Rule r) = ruleDefinition_json r"
| "element_json NullRule = JNull"
| "element_json (RuleArray xs) = JArr xs"

text \<open>
  The definitions among the elements. The services use them after \<open>validateRuleSet\<close>, which refuses every other
  element (\<open>validated_elements\<close>).
\<close>

fun definitions :: "ruleElement list \<Rightarrow> ruleDefinition list" where
  "definitions [] = []"
| "definitions (Rule r # xs) = r # definitions xs"
| "definitions (NullRule # xs) = definitions xs"
| "definitions (RuleArray ys # xs) = definitions xs"

definition ruleSet_input :: "string \<Rightarrow> execution_model \<Rightarrow> ruleElement list \<Rightarrow> json" where
  "ruleSet_input accountRef model rules = jobj
     [(''accountRef'', Some (JStr accountRef)), (''executionModel'', Some (JStr (show_model model))),
      (''rules'', Some (JArr (map element_json rules)))]"

text \<open>\<open>TRIGGER_MAP\<close> and \<open>ACTION_MAP\<close>; a value of neither the map nor the enum is refused by the client.\<close>

definition toRuleTrigger :: "string \<Rightarrow> exn + rule_trigger" where
  "toRuleTrigger s =
     (if s = ''inflow_received'' \<or> s = ''INFLOW_RECEIVED'' then Inr INFLOW_RECEIVED
      else if s = ''time_elapsed'' \<or> s = ''TIME_ELAPSED'' then Inr TIME_ELAPSED
      else if s = ''tier_changed'' \<or> s = ''TIER_CHANGED'' then Inr TIER_CHANGED
      else if s = ''custom_event'' \<or> s = ''CUSTOM_EVENT'' then Inr CUSTOM_EVENT
      else Inl (DbExn ValidationFailed))"

definition toRuleAction :: "string \<Rightarrow> exn + rule_action" where
  "toRuleAction s =
     (if s = ''suspend_account'' \<or> s = ''SUSPEND_ACCOUNT'' then Inr SUSPEND_ACCOUNT
      else if s = ''reactivate_account'' \<or> s = ''REACTIVATE_ACCOUNT'' then Inr REACTIVATE_ACCOUNT
      else if s = ''expire_account'' \<or> s = ''EXPIRE_ACCOUNT'' then Inr EXPIRE_ACCOUNT
      else if s = ''flag_for_review'' \<or> s = ''FLAG_FOR_REVIEW'' then Inr FLAG_FOR_REVIEW
      else if s = ''notify_webhook'' \<or> s = ''NOTIFY_WEBHOOK'' then Inr NOTIFY_WEBHOOK
      else if s = ''release_funds'' \<or> s = ''RELEASE_FUNDS'' then Inr RELEASE_FUNDS
      else Inl (DbExn ValidationFailed))"

text \<open>\<open>r.priority ?? 0\<close> as the value of an INTEGER column.\<close>

definition priority_value :: "json option \<Rightarrow> exn + int" where
  "priority_value v =
     (case v of
        None \<Rightarrow> Inr 0
      | Some JNull \<Rightarrow> Inr 0
      | Some (JNum x) \<Rightarrow>
          if is_integer x \<and> - (2 ^ 31) \<le> x \<and> x < 2 ^ 31 then Inr \<lfloor>x\<rfloor> else Inl (DbExn ValidationFailed)
      | Some _ \<Rightarrow> Inl (DbExn ValidationFailed))"

definition rule_row ::
  "string \<Rightarrow> rule_trigger \<Rightarrow> rule_action \<Rightarrow> int \<Rightarrow> ruleDefinition \<Rightarrow> kyc_tier \<Rightarrow> string \<Rightarrow> int \<Rightarrow> rule" where
  "rule_row accountId trigger action priority r tier i t = \<lparr>
     rul_id = i, rul_accountId = accountId, rul_trigger = trigger, rul_condition = rd_condition r,
     rul_action = action, rul_payload = getOr (rd_payload r) JNull, rul_priority = priority,
     rul_status = RuleACTIVE, rul_kycTierAtCreation = tier, rul_archivedAt = None,
     rul_archivedReason = None, rul_createdAt = t\<rparr>"

text \<open>One element of the nested \<open>rules: { create: [...] }\<close>.\<close>

definition create_rule_of :: "env \<Rightarrow> string \<Rightarrow> kyc_tier \<Rightarrow> ruleDefinition \<Rightarrow> rule act" where
  "create_rule_of e accountId tier r =
     bnd (lift_sum (toRuleTrigger (rd_trigger r))) (\<lambda>trigger.
     bnd (lift_sum (toRuleAction (rd_action r))) (\<lambda>action.
     bnd (lift_sum (priority_value (rd_priority r))) (\<lambda>priority.
     create_rule e (rule_row accountId trigger action priority r tier))))"

definition rules_of :: "string \<Rightarrow> database \<Rightarrow> rule list" where
  "rules_of accountId d = order_asc rul_priority (filter (\<lambda>r. rul_accountId r = accountId) (t_rule d))"

section \<open>Operations\<close>

text \<open>
  The percentage of a rule that the sum counts. The sum runs after validation, which has made every
  release percentage a number.
\<close>

definition counted_percentage :: "ruleDefinition \<Rightarrow> rat" where
  "counted_percentage r =
     (if rd_action r = ''release_funds''
      then case Option.bind (rd_payload r) (\<lambda>p. jget p ''percentage'') of
             Some (JNum x) \<Rightarrow> x
           | _ \<Rightarrow> 0
      else 0)"

definition enforcePercentageSum :: "ruleDefinition list \<Rightarrow> exn + unit" where
  "enforcePercentageSum rules =
     (let totalPercentage = foldl (\<lambda>acc r. to_double (acc + counted_percentage r)) 0 rules in
      if 100 < totalPercentage
      then Inl (BadRequest PERCENTAGE_SUM_EXCEEDS_100
             (''Sum of RELEASE_FUNDS percentages ('' @ show_int \<lfloor>totalPercentage\<rfloor> @ ''%) exceeds 100%''))
      else Inr ())"

record replaceResult =
  rp_accountRef :: string
  rp_executionModel :: execution_model
  rp_rules :: "rule list"

definition replaceRuleSet ::
  "env \<Rightarrow> string \<Rightarrow> string \<Rightarrow> replaceRuleSetDto \<Rightarrow> replaceResult act" where
  "replaceRuleSet e accountRef businessId dto =
     bnd (query e (find_account_by_ref accountRef businessId)) (\<lambda>found.
     case found of
       None \<Rightarrow> throw (NotFound ACCOUNT_NOT_FOUND ''Account not found'')
     | Some account \<Rightarrow>
         let executionModel = getOr (rr_executionModel dto) (acc_executionModel account) in
         if validateRuleSet e (ruleSet_input accountRef executionModel (rr_rules dto)) = None
         then throw (BadRequest INVALID_RULE_SET ''Invalid rule set'')
         else
           seqm (if executionModel = PARALLEL then lift_sum (enforcePercentageSum (definitions (rr_rules dto))) else ret ()) (
           bnd (query e (\<lambda>d. find (\<lambda>c. cus_id c = getOr (acc_customerId account) []) (t_customer d)))
             (\<lambda>customer.
           let kycTierAtCreation = getOr (map_option cus_kycTier customer) TIER_0 in
           bnd (now e) (\<lambda>t.
           seqm (updateMany_rule e (\<lambda>r. rul_accountId r = acc_id account \<and> rul_status r = RuleACTIVE)
                   (\<lambda>r. r\<lparr>rul_status := RuleARCHIVED, rul_archivedReason := Some SUPERSEDED_BY_UPDATE,
                          rul_archivedAt := Some t\<rparr>)) (
           bnd (transaction e (
                  seqm (update_account e (acc_id account) (\<lambda>a. a\<lparr>acc_executionModel := executionModel\<rparr>)) (
                  seqm (mapM (create_rule_of e (acc_id account) kycTierAtCreation) (definitions (rr_rules dto)))
                    (query e (rules_of (acc_id account)))))) (\<lambda>rules.
           seqm (AuditService_log e ((auditParams ''system'' RULES_UPDATED)\<lparr>
                   alp_accountId := Some (acc_id account), alp_customerId := acc_customerId account,
                   alp_businessId := Some businessId,
                   alp_afterState := Some (JObj [(''accountRef'', JStr accountRef),
                     (''executionModel'', JStr (show_model executionModel)),
                     (''ruleCount'', JNum (of_nat (length rules)))])\<rparr>))
             (ret \<lparr>rp_accountRef = accountRef, rp_executionModel = executionModel, rp_rules = rules\<rparr>)))))))"

definition resolveRule :: "env \<Rightarrow> string \<Rightarrow> string \<Rightarrow> string \<Rightarrow> rule act" where
  "resolveRule e accountRef ruleId businessId =
     bnd (query e (\<lambda>d. find (\<lambda>r. rul_id r = ruleId \<and>
            (\<exists>a \<in> set (t_account d). acc_id a = rul_accountId r \<and> acc_accountRef a = accountRef \<and>
               acc_businessId a = businessId)) (t_rule d))) (\<lambda>found.
     case found of
       None \<Rightarrow> throw (NotFound RULE_NOT_FOUND ''Rule not found'')
     | Some r \<Rightarrow> ret r)"

fun show_rule_status :: "rule_status \<Rightarrow> string" where
  "show_rule_status RuleACTIVE = ''ACTIVE''"
| "show_rule_status RuleARCHIVED = ''ARCHIVED''"
| "show_rule_status RuleFLAGGED_FOR_REVIEW = ''FLAGGED_FOR_REVIEW''"

definition archive_rule :: "env \<Rightarrow> string \<Rightarrow> string \<Rightarrow> string \<Rightarrow> rule \<Rightarrow> unit act" where
  "archive_rule e accountRef ruleId businessId rule =
     bnd (now e) (\<lambda>t.
     seqm (update_rule e ruleId (\<lambda>r. r\<lparr>rul_status := RuleARCHIVED,
             rul_archivedReason := Some MANUALLY_ARCHIVED, rul_archivedAt := Some t\<rparr>))
       (AuditService_log e ((auditParams ''system'' RULE_ARCHIVED)\<lparr>
          alp_accountId := Some (rul_accountId rule), alp_businessId := Some businessId,
          alp_metadata := Some (JObj [(''ruleId'', JStr ruleId), (''accountRef'', JStr accountRef),
            (''archivedReason'', JStr ''MANUALLY_ARCHIVED'')])\<rparr>)))"

definition toggleRule ::
  "env \<Rightarrow> string \<Rightarrow> string \<Rightarrow> string \<Rightarrow> bool \<Rightarrow> (string \<times> rule_status) act" where
  "toggleRule e accountRef ruleId businessId enabled =
     bnd (resolveRule e accountRef ruleId businessId) (\<lambda>rule.
     seqm
       (if enabled then
          if rul_status rule \<noteq> RuleFLAGGED_FOR_REVIEW
          then throw (BadRequest RULE_CONFLICT
                 (''Rule is '' @ show_rule_status (rul_status rule) @ '' '' @ em_dash @
                  '' only FLAGGED_FOR_REVIEW rules can be re-enabled''))
          else seqm (update_rule e ruleId (\<lambda>r. r\<lparr>rul_status := RuleACTIVE\<rparr>)) (ret ())
        else archive_rule e accountRef ruleId businessId rule)
       (ret (ruleId, if enabled then RuleACTIVE else RuleARCHIVED)))"

definition deleteRule :: "env \<Rightarrow> string \<Rightarrow> string \<Rightarrow> string \<Rightarrow> (string \<times> rule_status) act" where
  "deleteRule e accountRef ruleId businessId =
     bnd (resolveRule e accountRef ruleId businessId) (\<lambda>rule.
     seqm (archive_rule e accountRef ruleId businessId rule) (ret (ruleId, RuleARCHIVED)))"

section \<open>Validated definitions\<close>

lemma z_list_Some_D: "z_list p js = Some xs \<Longrightarrow> j \<in> set js \<Longrightarrow> p j \<noteq> None"
  by (induction js arbitrary: xs) (auto split: option.splits)

lemma validated_element:
  assumes "validateRuleSet e (ruleSet_input ref m xs) \<noteq> None" "x \<in> set xs"
  shows "RuleSchema e (element_json x) \<noteq> None"
proof -
  from assms(1) obtain ys where "z_list (RuleSchema e) (map element_json xs) = Some ys"
    by (auto simp: validateRuleSet_def RuleSetSchema_def ruleSet_input_def read_json
        simp del: jobj.simps split: bind_splits)
  from z_list_Some_D [OF this, of "element_json x"] assms(2) show ?thesis by simp
qed

lemma no_rule_schema: "RuleSchema e JNull = None" "RuleSchema e (JArr xs) = None"
  by (simp_all add: RuleSchema_def TriggerConditionSchema_def)

lemma definitions_only_rules:
  "(\<And>x. x \<in> set xs \<Longrightarrow> RuleSchema e (element_json x) \<noteq> None) \<Longrightarrow> xs = map Rule (definitions xs)"
proof (induction xs rule: definitions.induct)
  case (2 r xs)
  then show ?case by simp
next
  case (3 xs)
  from 3(2) [of NullRule] show ?case by (simp add: no_rule_schema)
next
  case (4 ys xs)
  from 4(2) [of "RuleArray ys"] show ?case by (simp add: no_rule_schema)
qed simp

text \<open>After validation every element is a definition, and each passes the schema of a rule.\<close>

lemma validated_elements:
  assumes "validateRuleSet e (ruleSet_input ref m xs) \<noteq> None"
  shows "xs = map Rule (definitions xs)"
  using definitions_only_rules validated_element [OF assms] by blast

lemma other_elements_refused:
  assumes "NullRule \<in> set xs \<or> RuleArray ys \<in> set xs"
  shows "validateRuleSet e (ruleSet_input ref m xs) = None"
proof (rule ccontr)
  assume "validateRuleSet e (ruleSet_input ref m xs) \<noteq> None"
  from validated_element [OF this] assms show False by (force simp: no_rule_schema)
qed

lemma validated_rule:
  assumes "validateRuleSet e (ruleSet_input ref m xs) \<noteq> None" "r \<in> set (definitions xs)"
  shows "RuleSchema e (ruleDefinition_json r) \<noteq> None"
proof -
  have "Rule r \<in> set (map Rule (definitions xs))" using assms(2) by simp
  then have "Rule r \<in> set xs" using validated_elements [OF assms(1)] by metis
  from validated_element [OF assms(1) this] show ?thesis by simp
qed

text \<open>The payload of a validated release: its percentage, if any, is an integer from 1 to 100.\<close>

lemma validated_release:
  assumes "RuleSchema e (ruleDefinition_json r) \<noteq> None" "rd_action r = ''release_funds''"
  obtains p q where "rd_payload r = Some p" "ReleaseFundsPayloadSchema p = Some q"
proof -
  from assms have "\<exists>p q. rd_payload r = Some p \<and> ReleaseFundsPayloadSchema p = Some q"
    by (auto simp: RuleSchema_def ActionPayloadSchema_def ruleDefinition_json_def read_json
        simp del: jobj.simps split: bind_splits)
  with that show ?thesis by blast
qed

lemma z_range_Some: "z_range lo hi j = Some n \<Longrightarrow> j = JNum (of_int n) \<and> lo \<le> n \<and> n \<le> hi"
  by (auto simp: z_range_def z_int_def is_safe_integer_def is_integer_def
      split: option.splits json.splits if_splits)

lemma release_payload_percentage:
  assumes "ReleaseFundsPayloadSchema p = Some q"
  shows "jget p ''percentage'' = None \<or>
    (\<exists>n. jget p ''percentage'' = Some (JNum (of_int n)) \<and> 1 \<le> n \<and> n \<le> 100)"
proof -
  from assms obtain v where "z_optional (z_range 1 100) (jget p ''percentage'') = Some v"
    by (auto simp: ReleaseFundsPayloadSchema_def z_refine_Some split: if_splits bind_splits)
  then show ?thesis
    by (auto simp: z_optional_def split: option.splits dest!: z_range_Some)
qed

section \<open>The effect of a replacement\<close>

definition stored_as :: "string \<Rightarrow> kyc_tier \<Rightarrow> ruleDefinition \<Rightarrow> rule \<Rightarrow> bool" where
  "stored_as accountId tier r row =
     (rul_accountId row = accountId \<and> rul_status row = RuleACTIVE \<and>
      rul_condition row = rd_condition r \<and> rul_payload row = getOr (rd_payload r) JNull \<and>
      toRuleTrigger (rd_trigger r) = Inr (rul_trigger row) \<and>
      toRuleAction (rd_action r) = Inr (rul_action row) \<and>
      priority_value (rd_priority r) = Inr (rul_priority row) \<and> rul_kycTierAtCreation row = tier)"

fun stored_element :: "string \<Rightarrow> kyc_tier \<Rightarrow> ruleElement \<Rightarrow> rule \<Rightarrow> bool" where
  "stored_element accountId tier (Rule r) row = stored_as accountId tier r row"
| "stored_element accountId tier _ row = False"

lemma stored_elements:
  assumes "validateRuleSet e (ruleSet_input ref m xs) \<noteq> None" "list_all2 (stored_as i tier) (definitions xs) rows"
  shows "list_all2 (stored_element i tier) xs rows"
proof -
  have "list_all2 (stored_element i tier) (map Rule (definitions xs)) rows"
    using assms(2) by (simp add: list_all2_map1)
  then show ?thesis using validated_elements [OF assms(1)] by simp
qed

lemma create_rule_of_wp:
  assumes "\<And>row. stored_as i tier r row \<Longrightarrow> Q row (d\<lparr>t_rule := t_rule d @ [row]\<rparr>)" and "E d"
  shows "wp d Q E (create_rule_of e i tier r)"
  unfolding create_rule_of_def create_rule_def
  by (intro wp_rules assms) (auto simp: stored_as_def rule_row_def)

lemma create_rules_wp:
  assumes "\<And>rows. list_all2 (stored_as i tier) rules rows \<Longrightarrow>
      Q rows (d\<lparr>t_rule := t_rule d @ rows\<rparr>)"
  shows "wp d Q (\<lambda>_. True) (mapM (create_rule_of e i tier) rules)"
  using assms
proof (induction rules arbitrary: d Q)
  case Nil
  then show ?case using Nil.prems [of "[]"] by (auto intro!: wp_rules)
next
  case (Cons r rules)
  have "Q (row # rows) (d\<lparr>t_rule := t_rule d @ row # rows\<rparr>)"
    if "stored_as i tier r row" "list_all2 (stored_as i tier) rules rows" for row rows
    using Cons.prems that by simp
  then show ?case
    unfolding mapM.simps by (intro wp_bnd create_rule_of_wp Cons.IH wp_ret TrueI) simp
qed

definition archived_by :: "string \<Rightarrow> int \<Rightarrow> rule list \<Rightarrow> rule list" where
  "archived_by i t rs =
     update_rows (\<lambda>r. rul_accountId r = i \<and> rul_status r = RuleACTIVE)
       (\<lambda>r. r\<lparr>rul_status := RuleARCHIVED, rul_archivedReason := Some SUPERSEDED_BY_UPDATE,
              rul_archivedAt := Some t\<rparr>) rs"

definition active_of :: "string \<Rightarrow> database \<Rightarrow> rule list" where
  "active_of i d = filter (\<lambda>r. rul_accountId r = i \<and> rul_status r = RuleACTIVE) (t_rule d)"

text \<open>A replacement: the active rules were archived, and the given ones appended.\<close>

definition replaced ::
  "env \<Rightarrow> string \<Rightarrow> string \<Rightarrow> replaceRuleSetDto \<Rightarrow> database \<Rightarrow> replaceResult \<Rightarrow> database \<Rightarrow> bool" where
  "replaced e ref biz dto d res d' =
     (\<exists>a t tier rows. find_account_by_ref ref biz d = Some a \<and>
        rp_executionModel res = getOr (rr_executionModel dto) (acc_executionModel a) \<and>
        validateRuleSet e (ruleSet_input ref (rp_executionModel res) (rr_rules dto)) \<noteq> None \<and>
        (rp_executionModel res = PARALLEL \<longrightarrow> enforcePercentageSum (definitions (rr_rules dto)) = Inr ()) \<and>
        t_rule d' = archived_by (acc_id a) t (t_rule d) @ rows \<and>
        list_all2 (stored_as (acc_id a) tier) (definitions (rr_rules dto)) rows)"

lemma replaceRuleSet_wp: "wp d (replaced e ref biz dto d) (\<lambda>_. True) (replaceRuleSet e ref biz dto)"
  unfolding replaceRuleSet_def updateMany_rule_def update_account_def
  by (intro wp_rules create_rules_wp audit.log_wp TrueI)
    (auto simp: replaced_def archived_by_def)

lemma active_archived:
  "filter (\<lambda>r. rul_accountId r = i \<and> rul_status r = RuleACTIVE) (archived_by i t rs) = []"
  by (induction rs) (auto simp: archived_by_def)

lemma stored_active:
  "list_all2 (stored_as i tier) rules rows \<Longrightarrow>
     filter (\<lambda>r. rul_accountId r = i \<and> rul_status r = RuleACTIVE) rows = rows"
  by (induction rule: list_all2_induct) (auto simp: stored_as_def)

lemma active_replaced:
  assumes "list_all2 (stored_as i tier) rules rows"
    "t_rule d' = archived_by i t (t_rule d) @ rows"
  shows "active_of i d' = rows"
  using assms stored_active [OF assms(1)] by (simp add: active_of_def active_archived)

section \<open>Shares of an inflow\<close>

text \<open>What a rule takes from an inflow by percentage.\<close>

definition release_share :: "env \<Rightarrow> int \<Rightarrow> rule \<Rightarrow> int" where
  "release_share e amount r =
     (if rul_action r = RELEASE_FUNDS \<and> jget (payload_of (rul_payload r)) ''percentage'' \<noteq> None
      then case release_amount e (payload_of (rul_payload r)) amount of Inr (Some x) \<Rightarrow> x | _ \<Rightarrow> 0
      else 0)"

lemma validated_percentage:
  assumes "RuleSchema e (ruleDefinition_json r) \<noteq> None"
  obtains n where "0 \<le> n" "n \<le> 100" "counted_percentage r = of_int n"
    and "\<And>i tier row amount. stored_as i tier r row \<Longrightarrow> 0 \<le> amount \<Longrightarrow>
      release_share e amount row = n * amount div 100"
proof (cases "rd_action r = ''release_funds''")
  case True
  from validated_release [OF assms True] obtain p q
    where p: "rd_payload r = Some p" and q: "ReleaseFundsPayloadSchema p = Some q" .
  from q have obj: "p \<noteq> JNull" by (auto simp: ReleaseFundsPayloadSchema_def z_refine_Some)
  show ?thesis
  proof (cases "jget p ''percentage''")
    case None
    with that [of 0] True p obj show ?thesis
      by (auto simp: counted_percentage_def release_share_def stored_as_def payload_of_def)
  next
    case (Some j)
    with release_payload_percentage [OF q] obtain n
      where n: "jget p ''percentage'' = Some (JNum (of_int n))" "1 \<le> n" "n \<le> 100" by auto
    have "release_share e amount row = n * amount div 100" if "stored_as i tier r row" "0 \<le> amount"
      for i tier row amount
      using that n p obj True
      by (auto simp: release_share_def stored_as_def payload_of_def release_amount_percentage
          toRuleAction_def)
    with that [of n] n p True show ?thesis by (auto simp: counted_percentage_def)
  qed
next
  case False
  from assms have "rd_action r \<noteq> ''RELEASE_FUNDS''"
    by (auto simp: RuleSchema_def ActionPayloadSchema_def ruleDefinition_json_def read_json
        simp del: jobj.simps split: bind_splits)
  with False have "toRuleAction (rd_action r) \<noteq> Inr RELEASE_FUNDS" by (simp add: toRuleAction_def)
  then have "release_share e amount row = 0" if "stored_as i tier r row" for i tier row amount
    using that by (auto simp: release_share_def stored_as_def)
  with False that [of 0] show ?thesis by (auto simp: counted_percentage_def)
qed

lemma percentage_fold:
  assumes "\<forall>r \<in> set rules. \<exists>n. 0 \<le> n \<and> n \<le> 100 \<and> counted_percentage r = of_int n"
    and "0 \<le> a" "a + 100 * int (length rules) \<le> 2 ^ 53"
  shows "foldl (\<lambda>acc r. to_double (acc + counted_percentage r)) (of_int a) rules =
    of_int (a + (\<Sum>r\<leftarrow>rules. \<lfloor>counted_percentage r\<rfloor>))"
  using assms
proof (induction rules arbitrary: a)
  case (Cons r rules)
  then obtain n where n: "0 \<le> n" "n \<le> 100" "counted_percentage r = of_int n" by auto
  have "to_double (of_int a + of_int n) = of_int (a + n)"
    using to_double_int [of "a + n"] Cons.prems n by simp
  with Cons.IH [of "a + n"] Cons.prems n show ?case by simp
qed simp

lemma sum_div_le: "(\<Sum>x\<leftarrow>xs. f x * a div (100 :: int)) \<le> (\<Sum>x\<leftarrow>xs. f x) * a div 100"
proof (induction xs)
  case (Cons x xs)
  have "f x * a div 100 + (\<Sum>x\<leftarrow>xs. f x) * a div 100 \<le> (f x * a + (\<Sum>x\<leftarrow>xs. f x) * a) div 100"
    by (simp add: div_add1_eq [of "f x * a"])
  with Cons show ?case by (simp add: algebra_simps)
qed simp

lemma shares_bounded:
  assumes rules: "\<forall>r \<in> set rules. RuleSchema e (ruleDefinition_json r) \<noteq> None"
    and stored: "list_all2 (stored_as i tier) rules rows"
    and total: "enforcePercentageSum rules = Inr ()"
    and len: "length rules < 2 ^ 40" and amount: "0 \<le> amount"
  shows "sum_by (release_share e amount) rows \<le> amount"
proof -
  have "\<forall>r \<in> set rules. \<exists>n. 0 \<le> n \<and> n \<le> 100 \<and> counted_percentage r = of_int n"
    using rules by (metis validated_percentage)
  from percentage_fold [OF this, of 0] len
  have "foldl (\<lambda>acc r. to_double (acc + counted_percentage r)) 0 rules =
      of_int (\<Sum>r\<leftarrow>rules. \<lfloor>counted_percentage r\<rfloor>)" by simp
  with total have sum: "(\<Sum>r\<leftarrow>rules. \<lfloor>counted_percentage r\<rfloor>) \<le> 100"
    by (simp add: enforcePercentageSum_def Let_def not_less split: if_splits)
  have "sum_by (release_share e amount) rows = (\<Sum>r\<leftarrow>rules. \<lfloor>counted_percentage r\<rfloor> * amount div 100)"
    using stored rules
  proof (induction rule: list_all2_induct)
    case (Cons r rules row rows)
    then have "RuleSchema e (ruleDefinition_json r) \<noteq> None" by simp
    from validated_percentage [OF this] obtain n where "counted_percentage r = of_int n"
      "release_share e amount row = n * amount div 100" using Cons.hyps(1) amount by metis
    with Cons show ?case by simp
  qed simp
  also have "\<dots> \<le> (\<Sum>r\<leftarrow>rules. \<lfloor>counted_percentage r\<rfloor>) * amount div 100" by (rule sum_div_le)
  also have "\<dots> \<le> 100 * amount div 100"
    by (rule zdiv_mono1) (use sum amount in \<open>auto intro: mult_right_mono\<close>)
  finally show ?thesis by simp
qed

section \<open>The operations among the others\<close>

lemma account_update_evolves:
  assumes "\<And>a. acc_id (f a) = acc_id a \<and> acc_status (f a) = acc_status a"
  shows "keeps_db (evolves d0) (update_account e i f)"
  unfolding update_account_def
  by (rule keeps_from_wp, rule wp_update_row) (auto intro!: evolves_account simp: assms)

lemma rules_service_evolves [keeps_intro]:
  "keeps_db (evolves d0) (replaceRuleSet e ref biz dto)"
  "keeps_db (evolves d0) (toggleRule e ref i biz enabled)"
  "keeps_db (evolves d0) (deleteRule e ref i biz)"
  unfolding replaceRuleSet_def toggleRule_def deleteRule_def create_rule_of_def resolveRule_def
    archive_rule_def
  by (intro keeps_intro account_update_evolves; simp)+

section \<open>Properties\<close>

definition demo_definition :: "string \<Rightarrow> int \<Rightarrow> ruleDefinition" where
  "demo_definition ref p = \<lparr>rd_trigger = ''inflow_received'',
     rd_condition = JObj [(''amount_gte'', JNum 100)], rd_action = ''release_funds'',
     rd_payload = Some (demo_release ref p), rd_priority = None\<rparr>"

definition demo_replace :: replaceRuleSetDto where
  "demo_replace = \<lparr>rr_executionModel = Some PARALLEL,
     rr_rules = [Rule (demo_definition ''payroll'' 60), Rule (demo_definition ''tax'' 40)]\<rparr>"

text \<open>C32: after a replacement that returns, the ACTIVE rules of the account are exactly the given ones, in the
  given order, each stored with its condition, payload, trigger, action and priority; the rules that were
  active before are archived as SUPERSEDED_BY_UPDATE, and the rules of other accounts are untouched.\<close>

theorem replaceRuleSet_active:
  assumes "replaceRuleSet e ref biz dto w = (Inr res, w')"
  shows "\<exists>a t tier. find_account_by_ref ref biz (db w) = Some a \<and>
    list_all2 (stored_element (acc_id a) tier) (rr_rules dto) (active_of (acc_id a) (db w')) \<and>
    (\<exists>rows. t_rule (db w') = archived_by (acc_id a) t (t_rule (db w)) @ rows) \<and>
    (\<forall>i. i \<noteq> acc_id a \<longrightarrow> filter (\<lambda>r. rul_accountId r = i) (t_rule (db w')) =
        filter (\<lambda>r. rul_accountId r = i) (t_rule (db w)))"
proof -
  from wpD_Inr [OF replaceRuleSet_wp refl assms] obtain a t tier rows
    where a: "find_account_by_ref ref biz (db w) = Some a"
      and valid: "validateRuleSet e (ruleSet_input ref (rp_executionModel res) (rr_rules dto)) \<noteq> None"
      and rows: "list_all2 (stored_as (acc_id a) tier) (definitions (rr_rules dto)) rows"
      and tab: "t_rule (db w') = archived_by (acc_id a) t (t_rule (db w)) @ rows"
    unfolding replaced_def by blast
  have "filter (\<lambda>r. rul_accountId r = i) (archived_by (acc_id a) t rs) =
      filter (\<lambda>r. rul_accountId r = i) rs" if "i \<noteq> acc_id a" for i rs
    using that by (induction rs) (auto simp: archived_by_def)
  moreover have "filter (\<lambda>r. rul_accountId r = i) rows = []" if "i \<noteq> acc_id a" for i
    using rows that by (induction rule: list_all2_induct) (auto simp: stored_as_def)
  ultimately show ?thesis using a stored_elements [OF valid rows] tab active_replaced [OF rows tab] by auto
qed

theorem replaceRuleSet_active_witness:
  "length (active_of ''a1'' (db (snd (replaceRuleSet demo_env ''acc-1'' ''b1'' demo_replace
     demo_rules_world)))) = 2"
proof -
  let ?m = "replaceRuleSet demo_env ''acc-1'' ''b1'' demo_replace demo_rules_world"
  have "isl (fst ?m) = False" by code_simp
  then obtain res where res: "fst ?m = Inr res" by (cases "fst ?m") auto
  from replaceRuleSet_active [OF fst_run [OF res]] show ?thesis
    by (auto simp: find_account_by_ref_def demo_rules_world_def demo_defs demo_replace_def
        dest!: list_all2_lengthD)
qed

text \<open>C11: under PARALLEL, the percentage releases of all active rules of the account together never exceed the
  inflow: after a replacement that returns with PARALLEL, the sum of what \<open>release_amount\<close> gives for the
  account's active rules is at most the amount, for every non-negative inflow. (The bound on the number
  of rules keeps the percentage sum exact in floating point.)\<close>

theorem parallel_releases_bounded:
  assumes "replaceRuleSet e ref biz dto w = (Inr res, w')" and "rp_executionModel res = PARALLEL"
    and "find_account_by_ref ref biz (db w) = Some a" and "length (rr_rules dto) < 2 ^ 40"
    and "0 \<le> amount"
  shows "sum_by (release_share e amount) (active_of (acc_id a) (db w')) \<le> amount"
proof -
  from wpD_Inr [OF replaceRuleSet_wp refl assms(1)] assms(2,3) obtain t tier rows
    where valid: "validateRuleSet e (ruleSet_input ref PARALLEL (rr_rules dto)) \<noteq> None"
      and total: "enforcePercentageSum (definitions (rr_rules dto)) = Inr ()"
      and rows: "list_all2 (stored_as (acc_id a) tier) (definitions (rr_rules dto)) rows"
      and tab: "t_rule (db w') = archived_by (acc_id a) t (t_rule (db w)) @ rows"
    unfolding replaced_def by auto
  have "\<forall>r \<in> set (definitions (rr_rules dto)). RuleSchema e (ruleDefinition_json r) \<noteq> None"
    using validated_rule [OF valid] by blast
  moreover have "length (definitions (rr_rules dto)) < 2 ^ 40"
    using assms(4) validated_elements [OF valid] by (metis length_map)
  ultimately have "sum_by (release_share e amount) rows \<le> amount"
    using shares_bounded [OF _ rows total _ assms(5)] by blast
  with active_replaced [OF rows tab]
  show ?thesis by simp
qed

theorem parallel_releases_bounded_witness:
  "sum_by (release_share demo_env 999) (active_of ''a1'' (db (snd (replaceRuleSet demo_env ''acc-1'' ''b1''
     demo_replace demo_rules_world)))) \<le> 999"
proof -
  let ?m = "replaceRuleSet demo_env ''acc-1'' ''b1'' demo_replace demo_rules_world"
  have "map_sum id rp_executionModel (fst ?m) = (Inr PARALLEL :: exn + execution_model)" by code_simp
  then obtain res where res: "fst ?m = Inr res" "rp_executionModel res = PARALLEL"
    by (cases "fst ?m") auto
  have "find_account_by_ref ''acc-1'' ''b1'' (db demo_rules_world) = Some demo_account"
    by (simp add: find_account_by_ref_def demo_rules_world_def demo_defs)
  from parallel_releases_bounded [OF fst_run [OF res(1)] res(2) this, of 999] show ?thesis
    by (simp add: demo_replace_def demo_account_def)
qed

text \<open>A rule set that fails validation, or a PARALLEL one whose percentages exceed 100, is refused before
  anything is written.\<close>

theorem replaceRuleSet_refused:
  assumes "find_account_by_ref ref biz (db w) = Some a"
    and "m = getOr (rr_executionModel dto) (acc_executionModel a)"
    and "validateRuleSet e (ruleSet_input ref m (rr_rules dto)) = None \<or>
      (m = PARALLEL \<and> isl (enforcePercentageSum (definitions (rr_rules dto))))"
  shows "isl (fst (replaceRuleSet e ref biz dto w)) \<and>
    db (snd (replaceRuleSet e ref biz dto w)) = db w"
proof -
  have "wp (db w) (\<lambda>_ _. False) (\<lambda>d. d = db w) (replaceRuleSet e ref biz dto)"
    unfolding replaceRuleSet_def
    by (intro wp_bnd wp_query, use assms in \<open>auto simp: Let_def isl_def intro!: wp_rules\<close>)
  from wp_refuses [OF this] show ?thesis .
qed

theorem replaceRuleSet_refused_witness:
  "isl (fst (replaceRuleSet demo_env ''acc-1'' ''b1''
      (demo_replace\<lparr>rr_rules := [Rule (demo_definition ''payroll'' 60), Rule (demo_definition ''tax'' 41)]\<rparr>)
      demo_rules_world))"
proof -
  let ?dto = "demo_replace\<lparr>rr_rules := [Rule (demo_definition ''payroll'' 60), Rule (demo_definition ''tax'' 41)]\<rparr>"
  have a: "find_account_by_ref ''acc-1'' ''b1'' (db demo_rules_world) = Some demo_account"
    by (simp add: find_account_by_ref_def demo_rules_world_def demo_defs)
  have "isl (enforcePercentageSum (definitions (rr_rules ?dto)))" by code_simp
  with replaceRuleSet_refused [OF a refl, of demo_env ?dto] show ?thesis
    by (simp add: demo_replace_def)
qed

text \<open>An environment in which the statement after the archiving fails.\<close>

definition demo_outage_env :: env where
  "demo_outage_env = demo_env\<lparr>env_fault := (\<lambda>n. if n = 3 then Some P2034 else None)\<rparr>"

text \<open>A replacement is not atomic: when the database fails between archiving the old rules and storing
  the new ones, the operation throws and the account is left without any active rule.\<close>

theorem replaceRuleSet_not_atomic:
  "isl (fst (replaceRuleSet demo_outage_env ''acc-1'' ''b1'' demo_replace demo_rules_world)) \<and>
   active_of ''a1'' (db demo_rules_world) \<noteq> [] \<and>
   active_of ''a1'' (db (snd (replaceRuleSet demo_outage_env ''acc-1'' ''b1'' demo_replace
     demo_rules_world))) = []"
  by code_simp

end
