(* ===== verification/Account_Lifecycle.thy ===== *)
theory Account_Lifecycle
  imports Rules_Service
begin

text \<open>
  \<open>src/accounts/account-lifecycle.service.ts\<close>: provisioning an account with its rules (with the
  compensation that expires the virtual account at Nomba when the database write fails), listing and
  reading accounts, the manual status override with its guards, and closing an account with the
  archiving of its open rule executions.
\<close>

section \<open>Provisioning\<close>

record provisionAccountDto =
  pa_customerId :: string
  pa_accountRef :: string
  pa_accountName :: string
  pa_executionModel :: "execution_model option"
  pa_rules :: "ruleElement list"

definition duplicate_ref_message :: "string \<Rightarrow> string" where
  "duplicate_ref_message ref =
     ''Account with ref '' @ [CHR 0x27] @ ref @ [CHR 0x27] @ '' already exists''"

definition account_row ::
  "provisionAccountDto \<Rightarrow> string \<Rightarrow> string \<Rightarrow> string \<Rightarrow> string \<Rightarrow> string \<Rightarrow> string \<Rightarrow> int \<Rightarrow> account" where
  "account_row dto nombaAccountId accountNumber bankName customerId businessId i t = \<lparr>
     acc_id = i, acc_accountRef = pa_accountRef dto, acc_nombaAccountId = nombaAccountId,
     acc_accountNumber = accountNumber, acc_bankName = bankName, acc_status = ACTIVE,
     acc_executionModel = getOr (pa_executionModel dto) SEQUENTIAL,
     acc_accountNameAtCreation = pa_accountName dto, acc_customerId = Some customerId,
     acc_businessId = businessId, acc_closedAt = None, acc_closedReason = None, acc_createdAt = t\<rparr>"

text \<open>\<open>account.create\<close> with nested rules: one transaction; a field the response lacks is refused.\<close>

definition create_account_with_rules ::
  "env \<Rightarrow> provisionAccountDto \<Rightarrow> provisionDvaResult \<Rightarrow> customer \<Rightarrow> string \<Rightarrow> (account \<times> rule list) act" where
  "create_account_with_rules e dto dva customer businessId =
     (case (pd_accountRef dva, pd_accountNumber dva, pd_bankName dva) of
        (Some nombaAccountId, Some accountNumber, Some bankName) \<Rightarrow>
          transaction e (
            bnd (create_account e
                   (account_row dto nombaAccountId accountNumber bankName (cus_id customer) businessId))
              (\<lambda>account.
            seqm (mapM (create_rule_of e (acc_id account) (cus_kycTier customer)) (definitions (pa_rules dto)))
              (bnd (query e (rules_of (acc_id account))) (\<lambda>rules. ret (account, rules)))))
      | _ \<Rightarrow> throw (DbExn ValidationFailed))"

definition provisionAccount ::
  "env \<Rightarrow> provisionAccountDto \<Rightarrow> string \<Rightarrow> (account \<times> rule list) act" where
  "provisionAccount e dto businessId =
     (if validateRuleSet e (ruleSet_input (pa_accountRef dto) (getOr (pa_executionModel dto) SEQUENTIAL)
           (pa_rules dto)) = None
      then throw (BadRequest INVALID_RULE_SET ''Invalid rule set'')
      else
       bnd (query e (\<lambda>d. find (\<lambda>a. acc_accountRef a = pa_accountRef dto) (t_account d))) (\<lambda>existing.
       if existing \<noteq> None
       then throw (Conflict DUPLICATE_ACCOUNT_REF (duplicate_ref_message (pa_accountRef dto)))
       else
       bnd (query e (\<lambda>d. find (\<lambda>c. cus_id c = pa_customerId dto \<and> cus_businessId c = businessId)
              (t_customer d))) (\<lambda>found.
       case found of
         None \<Rightarrow> throw (NotFound CUSTOMER_NOT_FOUND ''Customer not found'')
       | Some customer \<Rightarrow>
       bnd (query e (\<lambda>d. find (\<lambda>b. biz_id b = businessId) (t_business d))) (\<lambda>owner.
       case owner of
         None \<Rightarrow> throw (NotFound BUSINESS_NOT_FOUND ''Business not found'')
       | Some business \<Rightarrow>
       bnd (provisionDva e business \<lparr>pr_accountRef = pa_accountRef dto, pr_accountName = pa_accountName dto,
              pr_bvn = cus_bvnRef customer, pr_expiryDate = None, pr_expectedAmount = None\<rparr>) (\<lambda>dva.
       bnd (catch (create_account_with_rules e dto dva customer businessId)
              (\<lambda>err. seqm (catch (expireAccount e business (getOr (pd_accountRef dva) ''undefined''))
                            (\<lambda>_. ret ()))
                       (throw err))) (\<lambda>(account, rules).
       seqm (AuditService_log e ((auditParams ''system'' ACCOUNT_CREATED)\<lparr>
               alp_accountId := Some (acc_id account), alp_customerId := Some (cus_id customer),
               alp_businessId := Some businessId,
               alp_afterState := Some (JObj [(''accountRef'', JStr (acc_accountRef account)),
                 (''executionModel'', JStr (show_model (acc_executionModel account))),
                 (''ruleCount'', JNum (of_nat (length rules)))])\<rparr>))
         (ret (account, rules))))))))"

section \<open>Reading\<close>

record accountListItem =
  ali_account :: account
  ali_customer :: "customer option"
  ali_rules :: "rule list"
  ali_ledgerEntries :: nat

definition customer_of :: "account \<Rightarrow> database \<Rightarrow> customer option" where
  "customer_of a d =
     (case acc_customerId a of None \<Rightarrow> None | Some i \<Rightarrow> find (\<lambda>c. cus_id c = i) (t_customer d))"

definition active_rules_of :: "account \<Rightarrow> database \<Rightarrow> rule list" where
  "active_rules_of a d =
     order_asc rul_priority
       (filter (\<lambda>r. rul_accountId r = acc_id a \<and> rul_status r = RuleACTIVE) (t_rule d))"

definition account_item :: "database \<Rightarrow> account \<Rightarrow> accountListItem" where
  "account_item d a = \<lparr>ali_account = a, ali_customer = customer_of a d,
     ali_rules = active_rules_of a d,
     ali_ledgerEntries = length (filter (\<lambda>r. led_accountId r = acc_id a) (t_ledgerEntry d))\<rparr>"

definition listAccounts ::
  "env \<Rightarrow> string \<Rightarrow> string option \<Rightarrow> js_num \<Rightarrow> js_num \<Rightarrow> (accountListItem list \<times> page_meta) act" where
  "listAccounts e businessId status page limit =
     bnd (lift_sum (text_filter parse_status status)) (\<lambda>st.
     let rows = (\<lambda>d. filter (\<lambda>a. acc_businessId a = businessId \<and>
                   (case st of None \<Rightarrow> True | Some x \<Rightarrow> acc_status a = x)) (t_account d)) in
     bnd (query e (\<lambda>d. map_sum id (map (account_item d))
            (page_rows page limit (order_desc acc_createdAt (rows d))))) (\<lambda>found.
     bnd (lift_sum found) (\<lambda>accounts.
     bnd (query e (\<lambda>d. length (rows d))) (\<lambda>n.
     ret (accounts, page_info n page limit)))))"

record accountState =
  ast_account :: account
  ast_customer :: "customer option"
  ast_rules :: "rule list"
  ast_ledgerSummary :: ledgerSummary

definition getAccountState :: "env \<Rightarrow> string \<Rightarrow> string \<Rightarrow> accountState act" where
  "getAccountState e accountRef businessId =
     bnd (query e (\<lambda>d. map_option (\<lambda>a. (a, customer_of a d, active_rules_of a d))
            (find_account_by_ref accountRef businessId d))) (\<lambda>found.
     case found of
       None \<Rightarrow> throw (NotFound ACCOUNT_NOT_FOUND ''Account not found'')
     | Some (a, c, rs) \<Rightarrow>
         bnd (getSummaryByAccountRef e accountRef businessId) (\<lambda>ledgerSummary.
         ret \<lparr>ast_account = a, ast_customer = c, ast_rules = rs, ast_ledgerSummary = ledgerSummary\<rparr>))"

section \<open>Status override\<close>

record updateStatusDto =
  us_status :: account_status
  us_reason :: string

definition quoted :: "string \<Rightarrow> string" where
  "quoted s = [CHR 0x27] @ s @ [CHR 0x27]"

fun validTransitions :: "account_status \<Rightarrow> account_status list" where
  "validTransitions ACTIVE = [SUSPENDED]"
| "validTransitions SUSPENDED = [ACTIVE]"
| "validTransitions _ = []"

definition updateStatus ::
  "env \<Rightarrow> string \<Rightarrow> updateStatusDto \<Rightarrow> string \<Rightarrow> string \<Rightarrow> account act" where
  "updateStatus e accountRef dto businessId actor =
     bnd (query e (find_account_by_ref accountRef businessId)) (\<lambda>found.
     case found of
       None \<Rightarrow> throw (NotFound ACCOUNT_NOT_FOUND ''Account not found'')
     | Some account \<Rightarrow>
         if us_status dto = CLOSED \<or> us_status dto = EXPIRED
         then throw (BadRequest ACCOUNT_TERMINAL_STATE
                (''Cannot set status to '' @ quoted (show_status (us_status dto)) @
                 '' via status override '' @ em_dash @ '' use the account close endpoint instead''))
         else if acc_status account = CLOSED \<or> acc_status account = EXPIRED
         then throw (BadRequest ACCOUNT_TERMINAL_STATE
                (''Account is in terminal state '' @ quoted (show_status (acc_status account)) @ '' '' @
                 em_dash @ '' no further status changes allowed''))
         else if us_status dto \<notin> set (validTransitions (acc_status account))
         then throw (BadRequest ACCOUNT_TERMINAL_STATE
                (''Invalid status transition from '' @ quoted (show_status (acc_status account)) @
                 '' to '' @ quoted (show_status (us_status dto))))
         else
           bnd (update_account e (acc_id account) (\<lambda>a. a\<lparr>acc_status := us_status dto\<rparr>)) (\<lambda>updated.
           seqm (AuditService_log e ((auditParams actor ACCOUNT_STATUS_OVERRIDE)\<lparr>
                   alp_accountId := Some (acc_id account), alp_customerId := acc_customerId account,
                   alp_businessId := Some businessId,
                   alp_beforeState := Some (JObj [(''status'', JStr (show_status (acc_status account)))]),
                   alp_afterState := Some (JObj [(''status'', JStr (show_status (acc_status updated))),
                     (''reason'', JStr (us_reason dto))]),
                   alp_reasonCode := Some (us_reason dto)\<rparr>))
             (ret updated)))"

section \<open>Closing\<close>

definition open_execution :: "string \<Rightarrow> ruleExecution \<Rightarrow> bool" where
  "open_execution accountId x =
     (rex_accountId x = accountId \<and> (rex_status x = ExPENDING \<or> rex_status x = ExRETRYING))"

definition closeAccount ::
  "env \<Rightarrow> string \<Rightarrow> string \<Rightarrow> string \<Rightarrow> business \<Rightarrow> account act" where
  "closeAccount e accountRef businessId actor business =
     bnd (query e (find_account_by_ref accountRef businessId)) (\<lambda>found.
     case found of
       None \<Rightarrow> throw (NotFound ACCOUNT_NOT_FOUND ''Account not found'')
     | Some account \<Rightarrow>
         if acc_status account = CLOSED
         then throw (BadRequest ACCOUNT_ALREADY_CLOSED ''Account is already closed'')
         else if acc_status account = EXPIRED
         then throw (BadRequest ACCOUNT_TERMINAL_STATE
                (''Account is in terminal state '' @ quoted (show_status (acc_status account)) @ '' '' @
                 em_dash @ '' cannot be closed''))
         else
           bnd (updateMany_ruleExecution e (open_execution (acc_id account))
                  (\<lambda>x. x\<lparr>rex_status := ExARCHIVED,
                         rex_archivedReason := Some CLOSED_BEFORE_COMPLETION\<rparr>)) (\<lambda>archivedCount.
           seqm (expireAccount e business (acc_nombaAccountId account)) (
           bnd (now e) (\<lambda>t.
           bnd (update_account e (acc_id account) (\<lambda>a. a\<lparr>acc_status := CLOSED, acc_closedAt := Some t,
                  acc_closedReason := Some ''Account closed via API''\<rparr>)) (\<lambda>updated.
           seqm (AuditService_log e ((auditParams actor ACCOUNT_CLOSED)\<lparr>
                   alp_accountId := Some (acc_id account), alp_customerId := acc_customerId account,
                   alp_businessId := Some businessId,
                   alp_beforeState := Some (JObj [(''status'', JStr (show_status (acc_status account)))]),
                   alp_afterState := Some (jobj [(''status'', Some (JStr ''CLOSED'')),
                     (''closedAt'', map_option (JStr \<circ> iso_string) (acc_closedAt updated)),
                     (''archivedExecutionCount'', Some (JNum (of_nat archivedCount)))]),
                   alp_reasonCode := Some ''ACCOUNT_CLOSED''\<rparr>))
             (ret updated))))))"

section \<open>Effects\<close>

lemma ball_update_rows:
  "(\<forall>x \<in> set (update_rows P f rs). Q x) \<longleftrightarrow> (\<forall>r \<in> set rs. if P r then Q (f r) else Q r)"
  by (auto simp: update_rows_def)

lemma update_rows_kept: "x \<in> set rs \<Longrightarrow> \<not> P x \<Longrightarrow> x \<in> set (update_rows P f rs)"
  by (force simp: update_rows_def)

text \<open>A provisioned account: one new ACTIVE account with the given rules.\<close>

definition provisioned ::
  "provisionAccountDto \<Rightarrow> string \<Rightarrow> database \<Rightarrow> account \<times> rule list \<Rightarrow> database \<Rightarrow> bool" where
  "provisioned dto businessId d res d' =
     (\<exists>c rows. c \<in> set (t_customer d) \<and> cus_id c = pa_customerId dto \<and> cus_businessId c = businessId \<and>
        acc_accountRef (fst res) = pa_accountRef dto \<and> acc_businessId (fst res) = businessId \<and>
        acc_customerId (fst res) = Some (pa_customerId dto) \<and> acc_status (fst res) = ACTIVE \<and>
        pa_accountRef dto \<notin> set (map acc_accountRef (t_account d)) \<and>
        list_all2 (stored_element (acc_id (fst res)) (cus_kycTier c)) (pa_rules dto) rows \<and>
        d' = d\<lparr>t_account := t_account d @ [fst res], t_rule := t_rule d @ rows\<rparr>)"

lemma create_account_wp:
  assumes "c \<in> set (t_customer d)" "cus_id c = pa_customerId dto" "cus_businessId c = biz"
    and "validateRuleSet e (ruleSet_input ref m (pa_rules dto)) \<noteq> None"
  shows "wp d (provisioned dto biz d) (\<lambda>d'. d' = d) (create_account_with_rules e dto dva c biz)"
  unfolding create_account_with_rules_def create_account_def
  by (intro wp_rules create_rules_wp TrueI refl)
    (use assms in \<open>auto simp: provisioned_def account_row_def taken_def split: if_splits
      intro!: exI [of _ c] stored_elements [OF assms(4)]\<close>)

lemma provisionAccount_wp:
  "wp d (provisioned dto biz d) (\<lambda>d'. d' = d) (provisionAccount e dto biz)"
  unfolding provisionAccount_def
  by (intro wp_rules audit.log_wp refl allI wp_conseq [OF create_account_wp])
    (auto intro!: wp_rules audit.log_wp dest!: find_SomeD)

lemma account_service_evolves [keeps_intro]:
  "keeps_db (evolves d0) (provisionAccount e dto biz)"
  "keeps_db (evolves d0) (listAccounts e biz st page limit)"
  "keeps_db (evolves d0) (getAccountState e ref biz)"
  unfolding provisionAccount_def create_account_with_rules_def create_rule_of_def listAccounts_def
    getAccountState_def getSummaryByAccountRef_def getSummary_def resolveAccountId_def
  by (intro keeps_intro)+

lemma updateStatus_evolves [keeps_intro]:
  "keeps_db (evolves d0) (updateStatus e ref dto biz actor)"
proof (rule keeps_from_wp)
  fix d assume d: "evolves d0 d"
  have edge: "account_edge s t" if "t \<in> set (validTransitions s)" for s t
    using that by (cases s) (auto intro: account_edge.intros)
  show "wp d (\<lambda>_. evolves d0) (evolves d0) (updateStatus e ref dto biz actor)"
    unfolding updateStatus_def update_account_def
    by (intro wp_rules audit.log_wp d evolves_account_by_ref [OF d])
      (auto intro: edge r_into_rtranclp)
qed

lemma evolves_executions: "evolves d0 (d\<lparr>t_ruleExecution := xs\<rparr>) = evolves d0 d"
  by (rule evolves_frame) simp_all

lemma closeAccount_evolves [keeps_intro]:
  "keeps_db (evolves d0) (closeAccount e ref biz actor b)"
proof (rule keeps_from_wp)
  fix d assume d: "evolves d0 d"
  have upd: "evolves d0 (d\<lparr>t_ruleExecution := xs,
      t_account := update_rows (\<lambda>x. acc_id x = acc_id a) f (t_account d)\<rparr>)"
    if "find_account_by_ref ref biz d = Some a" "acc_status a \<noteq> CLOSED" "acc_status a \<noteq> EXPIRED"
      "\<And>a. acc_id (f a) = acc_id a \<and> acc_status (f a) = CLOSED" for a xs f
  proof -
    have "account_edge (acc_status a) CLOSED"
      using that(2,3) by (cases "acc_status a") (auto intro: account_edge.intros)
    with that evolves_account_by_ref [of d0 "d\<lparr>t_ruleExecution := xs\<rparr>" ref biz a f] d
    show ?thesis by (auto simp: evolves_executions find_account_by_ref_def)
  qed
  show "wp d (\<lambda>_. evolves d0) (evolves d0) (closeAccount e ref biz actor b)"
    unfolding closeAccount_def update_account_def updateMany_ruleExecution_def
    by (intro wp_rules audit.log_wp) (auto simp: evolves_executions d intro!: upd)
qed

section \<open>Properties\<close>

text \<open>C22: provisioning is all or nothing: when it returns, exactly one ACTIVE account with a fresh reference and
  the given rules has been added for a customer of the business; when it throws, no table has changed,
  whichever step failed.\<close>

theorem provisionAccount_atomic:
  "case provisionAccount e dto biz w of
     (Inl _, w') \<Rightarrow> db w' = db w
   | (Inr res, w') \<Rightarrow> provisioned dto biz (db w) res (db w')"
  using wp_run [OF provisionAccount_wp [of "db w" dto biz e]] .

definition closed_out :: "account \<Rightarrow> database \<Rightarrow> database \<Rightarrow> bool" where
  "closed_out a d d' =
     (t_ruleExecution d' = map (\<lambda>x.
        if rex_accountId x = acc_id a \<and> (rex_status x = ExPENDING \<or> rex_status x = ExRETRYING)
        then x\<lparr>rex_status := ExARCHIVED, rex_archivedReason := Some CLOSED_BEFORE_COMPLETION\<rparr> else x)
        (t_ruleExecution d) \<and>
      (\<forall>x \<in> set (t_account d'). acc_id x = acc_id a \<longrightarrow> acc_status x = CLOSED \<and> acc_closedAt x \<noteq> None) \<and>
      (\<forall>x \<in> set (t_account d). acc_id x \<noteq> acc_id a \<longrightarrow> x \<in> set (t_account d')))"

lemma closeAccount_wp:
  "wp d (\<lambda>_ d'. \<exists>a. find_account_by_ref ref biz d = Some a \<and> acc_status a \<in> {ACTIVE, SUSPENDED} \<and>
      closed_out a d d') (\<lambda>_. True) (closeAccount e ref biz actor b)"
  unfolding closeAccount_def update_account_def updateMany_ruleExecution_def
proof (intro wp_rules audit.log_wp TrueI, goal_cases)
  case (1 a t r)
  then have "acc_status a \<in> {ACTIVE, SUSPENDED}" by (cases "acc_status a") auto
  with 1 show ?case
    by (auto simp: closed_out_def ball_update_rows open_execution_def update_rows_def intro: update_rows_kept)
qed

text \<open>C23: when closing an account, run alone, returns, the account was ACTIVE or SUSPENDED and is now CLOSED with
  a closing time. Its PENDING and RETRYING rule executions are ARCHIVED with the reason
  CLOSED_BEFORE_COMPLETION, every other execution is as it was, and no other account has changed.\<close>

theorem closeAccount_closes:
  assumes "closeAccount e ref biz actor b w = (Inr acc, w')"
  shows "\<exists>a. find_account_by_ref ref biz (db w) = Some a \<and> acc_status a \<in> {ACTIVE, SUSPENDED} \<and>
    closed_out a (db w) (db w')"
  using wpD_Inr [OF closeAccount_wp refl assms] .

definition demo_retrying_world :: world where
  "demo_retrying_world = demo_rules_world\<lparr>db := (db demo_rules_world)\<lparr>t_ruleExecution :=
     [(execution_row (demo_ev RELEASE_FUNDS JNull) demo_entry None ''x1'' 0)\<lparr>rex_status := ExRETRYING\<rparr>]\<rparr>\<rparr>"

theorem closeAccount_closes_witness:
  "closed_out demo_account (db demo_retrying_world)
     (db (snd (closeAccount demo_env ''acc-1'' ''b1'' ''key'' demo_business demo_retrying_world)))"
proof -
  let ?m = "closeAccount demo_env ''acc-1'' ''b1'' ''key'' demo_business demo_retrying_world"
  have "isl (fst ?m) = False" by code_simp
  then obtain acc where res: "fst ?m = Inr acc" by (cases "fst ?m") auto
  have "find_account_by_ref ''acc-1'' ''b1'' (db demo_retrying_world) = Some demo_account"
    by (simp add: find_account_by_ref_def demo_retrying_world_def demo_rules_world_def demo_defs)
  with closeAccount_closes [OF fst_run [OF res]] show ?thesis by simp
qed



end
