(* ===== verification/Identity_Service.thy ===== *)
theory Identity_Service
  imports Account_Lifecycle
begin

text \<open>
  \<open>src/identity/identity.service.ts\<close>: customers with their name history and KYC tier. A nested create
  of Prisma is one transaction. The name history of a customer is a chain from the empty name to the
  current display name, which every operation keeps when it runs alone.
\<close>

section \<open>Creating and renaming\<close>

record createCustomerDto =
  cc_displayName :: string
  cc_bvnRef :: "string option"
  cc_kycVerificationProvider :: "string option"
  cc_kycVerificationRef :: "string option"
  cc_email :: "string option"
  cc_phone :: "string option"
  cc_parentId :: "string option"

record renameCustomerDto =
  rn_newName :: string
  rn_reason :: "string option"

definition customer_row :: "createCustomerDto \<Rightarrow> string \<Rightarrow> string \<Rightarrow> int \<Rightarrow> customer" where
  "customer_row dto businessId i t = \<lparr>
     cus_id = i, cus_displayName = cc_displayName dto,
     cus_kycTier = (if str_truthy (cc_bvnRef dto) then TIER_1 else TIER_0),
     cus_bvnRef = cc_bvnRef dto, cus_email = cc_email dto, cus_phone = cc_phone dto,
     cus_kycVerificationProvider = cc_kycVerificationProvider dto,
     cus_kycVerificationRef = cc_kycVerificationRef dto, cus_businessId = businessId,
     cus_parentId = cc_parentId dto, cus_createdAt = t\<rparr>"

definition history_row ::
  "string \<Rightarrow> string \<Rightarrow> string \<Rightarrow> string option \<Rightarrow> string \<Rightarrow> string \<Rightarrow> int \<Rightarrow> nameHistoryEntry" where
  "history_row customerId previousName newName reason changedBy i t = \<lparr>
     nh_id = i, nh_customerId = customerId, nh_previousName = previousName, nh_newName = newName,
     nh_reason = reason, nh_changedBy = changedBy, nh_changedAt = t\<rparr>"

definition history_of :: "string \<Rightarrow> database \<Rightarrow> nameHistoryEntry list" where
  "history_of i d = filter (\<lambda>h. nh_customerId h = i) (t_nameHistory d)"

definition createCustomer ::
  "env \<Rightarrow> createCustomerDto \<Rightarrow> string \<Rightarrow> (customer \<times> nameHistoryEntry list) act" where
  "createCustomer e dto businessId =
     bnd (transaction e (
       bnd (create_customer e (customer_row dto businessId)) (\<lambda>customer.
       seqm (create_nameHistoryEntry e
               (history_row (cus_id customer) '''' (cc_displayName dto) None ''system''))
         (bnd (query e (history_of (cus_id customer))) (\<lambda>nameHistory.
          ret (customer, nameHistory)))))) (\<lambda>(customer, nameHistory).
     seqm (AuditService_log e ((auditParams ''system'' CUSTOMER_CREATED)\<lparr>
             alp_customerId := Some (cus_id customer), alp_businessId := Some businessId,
             alp_afterState := Some (JObj [(''displayName'', JStr (cus_displayName customer)),
               (''kycTier'', JStr (show_tier (cus_kycTier customer)))])\<rparr>))
       (ret (customer, nameHistory)))"

definition customer_not_found :: "string \<Rightarrow> exn" where
  "customer_not_found i = NotFound CUSTOMER_NOT_FOUND (''No customer found with id: '' @ i)"

definition find_customer :: "string \<Rightarrow> string \<Rightarrow> database \<Rightarrow> customer option" where
  "find_customer i businessId d =
     find (\<lambda>c. cus_id c = i \<and> cus_businessId c = businessId) (t_customer d)"

definition renameCustomer ::
  "env \<Rightarrow> string \<Rightarrow> renameCustomerDto \<Rightarrow> string \<Rightarrow> string \<Rightarrow> (customer \<times> nameHistoryEntry list) act" where
  "renameCustomer e i dto businessId actor =
     bnd (query e (find_customer i businessId)) (\<lambda>found.
     case found of
       None \<Rightarrow> throw (customer_not_found i)
     | Some customer \<Rightarrow>
         let previousName = cus_displayName customer in
         bnd (transaction e (
           bnd (update_customer e i (\<lambda>c. c\<lparr>cus_displayName := rn_newName dto\<rparr>)) (\<lambda>updated.
           seqm (create_nameHistoryEntry e
                   (history_row i previousName (rn_newName dto) (rn_reason dto) actor))
             (bnd (query e (\<lambda>d. order_asc nh_changedAt (history_of i d))) (\<lambda>nameHistory.
              ret (updated, nameHistory)))))) (\<lambda>updated.
         seqm (AuditService_log e ((auditParams actor CUSTOMER_RENAMED)\<lparr>
                 alp_customerId := Some i, alp_businessId := Some businessId,
                 alp_beforeState := Some (JObj [(''displayName'', JStr previousName)]),
                 alp_afterState := Some (JObj [(''displayName'', JStr (rn_newName dto))]),
                 alp_reasonCode := rn_reason dto\<rparr>))
           (ret updated)))"

text \<open>The rest of \<open>renameCustomer\<close> from the point where the customer has been read.\<close>

definition renameCustomer_resume ::
  "env \<Rightarrow> string \<Rightarrow> renameCustomerDto \<Rightarrow> string \<Rightarrow> string \<Rightarrow> customer option \<Rightarrow>
   (customer \<times> nameHistoryEntry list) act" where
  "renameCustomer_resume e i dto businessId actor found = (
     case found of
       None \<Rightarrow> throw (customer_not_found i)
     | Some customer \<Rightarrow>
         let previousName = cus_displayName customer in
         bnd (transaction e (
           bnd (update_customer e i (\<lambda>c. c\<lparr>cus_displayName := rn_newName dto\<rparr>)) (\<lambda>updated.
           seqm (create_nameHistoryEntry e
                   (history_row i previousName (rn_newName dto) (rn_reason dto) actor))
             (bnd (query e (\<lambda>d. order_asc nh_changedAt (history_of i d))) (\<lambda>nameHistory.
              ret (updated, nameHistory)))))) (\<lambda>updated.
         seqm (AuditService_log e ((auditParams actor CUSTOMER_RENAMED)\<lparr>
                 alp_customerId := Some i, alp_businessId := Some businessId,
                 alp_beforeState := Some (JObj [(''displayName'', JStr previousName)]),
                 alp_afterState := Some (JObj [(''displayName'', JStr (rn_newName dto))]),
                 alp_reasonCode := rn_reason dto\<rparr>))
           (ret updated)))"

lemma renameCustomer_read:
  "renameCustomer e i dto biz actor = bnd (query e (find_customer i biz)) (renameCustomer_resume e i dto biz actor)"
  unfolding renameCustomer_def renameCustomer_resume_def ..

section \<open>KYC tier\<close>

record updateKycTierDto =
  ut_kycTier :: kyc_tier
  ut_verificationProvider :: "string option"
  ut_verificationRef :: "string option"
  ut_reason :: "string option"

record updateKycTierResult =
  ur_customerId :: string
  ur_previousTier :: kyc_tier
  ur_newTier :: kyc_tier
  ur_flaggedRuleIds :: "string list"

text \<open>The rules whose account belongs to the customer, and the customer to the business.\<close>

definition rule_of_customer :: "string \<Rightarrow> string \<Rightarrow> database \<Rightarrow> rule \<Rightarrow> bool" where
  "rule_of_customer i businessId d r =
     (\<exists>a \<in> set (t_account d). acc_id a = rul_accountId r \<and> acc_customerId a = Some i \<and>
        (\<exists>c \<in> set (t_customer d). cus_id c = i \<and> cus_businessId c = businessId))"

definition stale_rules :: "string \<Rightarrow> string \<Rightarrow> kyc_tier \<Rightarrow> database \<Rightarrow> rule list" where
  "stale_rules i businessId newTier d =
     filter (\<lambda>r. rul_status r = RuleACTIVE \<and> rul_kycTierAtCreation r \<noteq> newTier \<and>
               rule_of_customer i businessId d r) (t_rule d)"

definition tier_pair :: "kyc_tier \<Rightarrow> kyc_tier \<Rightarrow> (string \<times> json) list" where
  "tier_pair previousTier newTier =
     [(''previousTier'', JStr (show_tier previousTier)), (''newTier'', JStr (show_tier newTier))]"

definition flag_rules ::
  "env \<Rightarrow> string \<Rightarrow> string \<Rightarrow> string \<Rightarrow> updateKycTierDto \<Rightarrow> kyc_tier \<Rightarrow> rule list \<Rightarrow> unit act" where
  "flag_rules e i businessId actor dto previousTier staleRules =
     (if staleRules = [] then ret ()
      else
        seqm (updateMany_rule e (\<lambda>r. rul_id r \<in> set (map rul_id staleRules))
                (\<lambda>r. r\<lparr>rul_status := RuleFLAGGED_FOR_REVIEW\<rparr>))
          (foreach staleRules (\<lambda>r.
             AuditService_log e ((auditParams actor RULE_FLAGGED_KYC_CHANGE)\<lparr>
               alp_accountId := Some (rul_accountId r), alp_customerId := Some i,
               alp_businessId := Some businessId,
               alp_metadata := Some (JObj ((''ruleId'', JStr (rul_id r)) #
                 tier_pair previousTier (ut_kycTier dto))),
               alp_reasonCode := ut_reason dto\<rparr>))))"

definition updateKycTier ::
  "env \<Rightarrow> string \<Rightarrow> updateKycTierDto \<Rightarrow> string \<Rightarrow> string \<Rightarrow> updateKycTierResult act" where
  "updateKycTier e i dto businessId actor =
     bnd (query e (find_customer i businessId)) (\<lambda>found.
     case found of
       None \<Rightarrow> throw (customer_not_found i)
     | Some customer \<Rightarrow>
         let previousTier = cus_kycTier customer; newTier = ut_kycTier dto in
         seqm (update_customer e i (\<lambda>c. c\<lparr>cus_kycTier := newTier,
                 cus_kycVerificationProvider :=
                   orElse (ut_verificationProvider dto) (cus_kycVerificationProvider customer),
                 cus_kycVerificationRef :=
                   orElse (ut_verificationRef dto) (cus_kycVerificationRef customer)\<rparr>)) (
         bnd (query e (stale_rules i businessId newTier)) (\<lambda>staleRules.
         let flaggedRuleIds = map rul_id staleRules in
         seqm (flag_rules e i businessId actor dto previousTier staleRules) (
         seqm (AuditService_log e ((auditParams actor KYC_TIER_CHANGED)\<lparr>
                 alp_customerId := Some i, alp_businessId := Some businessId,
                 alp_beforeState := Some (JObj [(''kycTier'', JStr (show_tier previousTier))]),
                 alp_afterState := Some (JObj [(''kycTier'', JStr (show_tier newTier))]),
                 alp_reasonCode := ut_reason dto,
                 alp_metadata := Some (JObj [
                   (''verificationProvider'', jstr_opt (ut_verificationProvider dto)),
                   (''verificationRef'', jstr_opt (ut_verificationRef dto)),
                   (''flaggedRuleIds'', JArr (map JStr flaggedRuleIds))])\<rparr>))
           (ret \<lparr>ur_customerId = i, ur_previousTier = previousTier, ur_newTier = newTier,
                 ur_flaggedRuleIds = flaggedRuleIds\<rparr>)))))"

section \<open>Reading\<close>

record customerListItem =
  cli_customer :: customer
  cli_accounts :: nat

definition accounts_of :: "string \<Rightarrow> database \<Rightarrow> account list" where
  "accounts_of i d = filter (\<lambda>a. acc_customerId a = Some i) (t_account d)"

definition listCustomers ::
  "env \<Rightarrow> string \<Rightarrow> js_num option \<Rightarrow> js_num option \<Rightarrow> (customerListItem list \<times> page_meta) act" where
  "listCustomers e businessId page_opt limit_opt =
     (let page = getOr page_opt (Fin 1); takeN = js_min (getOr limit_opt (Fin 20)) (Fin 100);
          rows = (\<lambda>d. filter (\<lambda>c. cus_businessId c = businessId) (t_customer d)) in
      bnd (query e (\<lambda>d. map_sum id
             (map (\<lambda>c. \<lparr>cli_customer = c, cli_accounts = length (accounts_of (cus_id c) d)\<rparr>))
             (page_rows page takeN (order_desc cus_createdAt (rows d))))) (\<lambda>found.
      bnd (lift_sum found) (\<lambda>customers.
      bnd (query e (\<lambda>d. length (rows d))) (\<lambda>total.
      ret (customers, page_info total page takeN)))))"

definition getCustomer ::
  "env \<Rightarrow> string \<Rightarrow> string \<Rightarrow> (customer \<times> nameHistoryEntry list \<times> account list) act" where
  "getCustomer e i businessId =
     bnd (query e (\<lambda>d. map_option (\<lambda>c. (c, order_asc nh_changedAt (history_of i d),
            order_desc acc_createdAt (accounts_of i d))) (find_customer i businessId d))) (\<lambda>found.
     case found of
       None \<Rightarrow> throw (customer_not_found i)
     | Some x \<Rightarrow> ret x)"

section \<open>The name history\<close>

text \<open>The name a history leads to when each entry continues the one before it.\<close>

fun name_chain :: "string \<Rightarrow> nameHistoryEntry list \<Rightarrow> string option" where
  "name_chain n [] = Some n"
| "name_chain n (h # hs) = (if nh_previousName h = n then name_chain (nh_newName h) hs else None)"

lemma name_chain_snoc:
  "name_chain n (hs @ [h]) =
     (if name_chain n hs = Some (nh_previousName h) then Some (nh_newName h) else None)"
  by (induction hs arbitrary: n) auto

definition names_ok :: "database \<Rightarrow> bool" where
  "names_ok d =
     (distinct (map cus_id (t_customer d)) \<and>
      (\<forall>h \<in> set (t_nameHistory d). nh_customerId h \<in> cus_id ` set (t_customer d)) \<and>
      (\<forall>c \<in> set (t_customer d). name_chain '''' (history_of (cus_id c) d) = Some (cus_displayName c)))"

lemma names_ok_create:
  assumes "names_ok d" "cus_id c \<notin> cus_id ` set (t_customer d)"
    and "nh_customerId h = cus_id c" "nh_previousName h = ''''" "nh_newName h = cus_displayName c"
  shows "names_ok (d\<lparr>t_customer := t_customer d @ [c], t_nameHistory := t_nameHistory d @ [h]\<rparr>)"
proof -
  have "nh_customerId x \<noteq> cus_id c" if "x \<in> set (t_nameHistory d)" for x
    using assms(1,2) that by (metis names_ok_def)
  then have none: "history_of (cus_id c) d = []"
    by (auto simp: history_of_def filter_empty_conv)
  let ?d = "d\<lparr>t_customer := t_customer d @ [c], t_nameHistory := t_nameHistory d @ [h]\<rparr>"
  have hist: "history_of j ?d = history_of j d @ (if j = cus_id c then [h] else [])" for j
    by (simp add: history_of_def assms(3))
  have "cus_id x \<noteq> cus_id c" if "x \<in> set (t_customer d)" for x
    using assms(2) that by (metis imageI)
  then show ?thesis
    using assms none by (auto simp: names_ok_def hist)
qed

lemma names_ok_rename:
  assumes "names_ok d" "find_customer i biz d = Some c"
    and "nh_customerId h = i" "nh_previousName h = cus_displayName c" "nh_newName h = n"
  shows "names_ok (d\<lparr>t_customer := update_rows (\<lambda>c. cus_id c = i) (\<lambda>c. c\<lparr>cus_displayName := n\<rparr>) (t_customer d),
    t_nameHistory := t_nameHistory d @ [h]\<rparr>)"
proof -
  let ?f = "\<lambda>c. c\<lparr>cus_displayName := n\<rparr>"
  let ?d = "d\<lparr>t_customer := update_rows (\<lambda>c. cus_id c = i) ?f (t_customer d),
    t_nameHistory := t_nameHistory d @ [h]\<rparr>"
  have ids: "map cus_id (update_rows (\<lambda>c. cus_id c = i) ?f (t_customer d)) = map cus_id (t_customer d)"
    by (simp add: map_update_rows)
  then have img: "cus_id ` set (update_rows (\<lambda>c. cus_id c = i) ?f (t_customer d)) = cus_id ` set (t_customer d)"
    by (metis set_map)
  from assms(2) have c: "c \<in> set (t_customer d)" "cus_id c = i"
    by (auto simp: find_customer_def dest!: find_SomeD)
  have hist: "history_of j ?d = history_of j d @ (if j = i then [h] else [])" for j
    by (simp add: history_of_def assms(3))
  show ?thesis
    using assms(1,3-5) c imageI [OF c(1), of cus_id]
    by (auto simp: names_ok_def ids img hist ball_update_rows name_chain_snoc)
qed

lemma createCustomer_names: "keeps_db names_ok (createCustomer e dto biz)"
proof (rule keeps_from_wp)
  fix d assume "names_ok d"
  then show "wp d (\<lambda>_. names_ok) names_ok (createCustomer e dto biz)"
    unfolding createCustomer_def create_customer_def create_nameHistoryEntry_def
    by (intro wp_rules audit.log_wp TrueI)
      (auto simp: customer_row_def history_row_def taken_def split: if_splits intro!: names_ok_create)
qed

lemma renameCustomer_names: "keeps_db names_ok (renameCustomer e i dto biz actor)"
proof (rule keeps_from_wp)
  fix d assume d: "names_ok d"
  then show "wp d (\<lambda>_. names_ok) names_ok (renameCustomer e i dto biz actor)"
    unfolding renameCustomer_def update_customer_def create_nameHistoryEntry_def
    by (intro wp_rules audit.log_wp TrueI d)
      (auto simp: history_row_def intro!: wp_rules audit.log_wp names_ok_rename)
qed

lemma names_ok_update:
  assumes "names_ok d" "\<And>c. cus_id (f c) = cus_id c \<and> cus_displayName (f c) = cus_displayName c"
  shows "names_ok (d\<lparr>t_customer := update_rows P f (t_customer d)\<rparr>)"
proof -
  have ids: "map cus_id (update_rows P f (t_customer d)) = map cus_id (t_customer d)"
    by (simp add: map_update_rows assms(2))
  then have "cus_id ` set (update_rows P f (t_customer d)) = cus_id ` set (t_customer d)"
    by (metis set_map)
  with ids assms show ?thesis
    by (auto simp: names_ok_def history_of_def ball_update_rows)
qed

lemma names_ok_rule [simp]: "names_ok (d\<lparr>t_rule := rs\<rparr>) = names_ok d"
  by (simp add: names_ok_def history_of_def)

lemma updateKycTier_names: "keeps_db names_ok (updateKycTier e i dto biz actor)"
  unfolding updateKycTier_def flag_rules_def update_customer_def updateMany_rule_def
  by (intro keeps_intro keeps_update_row keeps_update_many) (simp_all add: names_ok_update)

section \<open>The tier of a customer\<close>

lemma identity_evolves [keeps_intro]:
  "keeps_db (evolves d0) (createCustomer e dto biz)"
  "keeps_db (evolves d0) (renameCustomer e i dto' biz actor)"
  "keeps_db (evolves d0) (updateKycTier e i dto'' biz actor)"
  unfolding createCustomer_def renameCustomer_def updateKycTier_def flag_rules_def
  by (intro keeps_intro)+

text \<open>
  What a change of tier leaves: the customer has the tier; the ACTIVE rules on accounts of the customer that were
  created under another tier are flagged, and every other rule is as it was.
\<close>

definition owned_accounts :: "string \<Rightarrow> database \<Rightarrow> string set" where
  "owned_accounts i d = acc_id ` {a \<in> set (t_account d). acc_customerId a = Some i}"

definition retiered :: "string \<Rightarrow> string \<Rightarrow> kyc_tier \<Rightarrow> database \<Rightarrow> updateKycTierResult \<Rightarrow> database \<Rightarrow> bool" where
  "retiered i biz tier d res d' =
     ((\<exists>c \<in> set (t_customer d). cus_id c = i \<and> cus_businessId c = biz) \<and>
      (\<forall>c \<in> set (t_customer d'). cus_id c = i \<longrightarrow> cus_kycTier c = tier) \<and>
      ur_flaggedRuleIds res = map rul_id (filter (\<lambda>r. rul_status r = RuleACTIVE \<and>
        rul_kycTierAtCreation r \<noteq> tier \<and> rul_accountId r \<in> owned_accounts i d) (t_rule d)) \<and>
      t_rule d' = map (\<lambda>r. if rul_id r \<in> set (ur_flaggedRuleIds res)
                           then r\<lparr>rul_status := RuleFLAGGED_FOR_REVIEW\<rparr> else r) (t_rule d) \<and>
      (\<forall>r \<in> set (t_rule d'). rul_status r = RuleACTIVE \<and> rul_accountId r \<in> owned_accounts i d' \<longrightarrow>
         rul_kycTierAtCreation r = tier))"

lemma rule_of_customer_tables [simp]:
  "rule_of_customer i biz (d\<lparr>t_rule := rs\<rparr>) r = rule_of_customer i biz d r"
  by (simp add: rule_of_customer_def)

lemma rule_of_customer_update:
  assumes "\<And>c. cus_id (f c) = cus_id c \<and> cus_businessId (f c) = cus_businessId c"
  shows "rule_of_customer i biz (d\<lparr>t_customer := update_rows P f (t_customer d)\<rparr>) r = rule_of_customer i biz d r"
proof -
  have "(\<exists>c \<in> set (update_rows P f cs). cus_id c = i \<and> cus_businessId c = biz) \<longleftrightarrow>
      (\<exists>c \<in> set cs. cus_id c = i \<and> cus_businessId c = biz)" for cs
    using assms by (auto simp: update_rows_def split: if_splits)
  then show ?thesis by (simp add: rule_of_customer_def)
qed

lemma stale_rules_owned:
  assumes "find_customer i biz d = Some c"
  shows "stale_rules i biz tier d = filter (\<lambda>r. rul_status r = RuleACTIVE \<and> rul_kycTierAtCreation r \<noteq> tier \<and>
    rul_accountId r \<in> owned_accounts i d) (t_rule d)"
proof -
  from assms have "\<exists>c \<in> set (t_customer d). cus_id c = i \<and> cus_businessId c = biz"
    by (auto simp: find_customer_def dest!: find_SomeD)
  then show ?thesis
    unfolding stale_rules_def rule_of_customer_def owned_accounts_def
    by (intro filter_cong) (auto simp: image_iff)
qed

lemma flag_rules_wp:
  assumes "Q () (d\<lparr>t_rule := update_rows (\<lambda>r. rul_id r \<in> set (map rul_id rs))
      (\<lambda>r. r\<lparr>rul_status := RuleFLAGGED_FOR_REVIEW\<rparr>) (t_rule d)\<rparr>)" and "E d"
  shows "wp d Q E (flag_rules e i biz actor dto prev rs)"
proof -
  have logs: "wp d' Q E (foreach xs (\<lambda>x. AuditService_log e (p x)))" if "Q () d'" for d' p and xs :: "rule list"
    using that by (induction xs) (auto intro!: wp_rules audit.log_wp)
  show ?thesis
    unfolding flag_rules_def updateMany_rule_def
    by (intro wp_rules logs) (use assms in \<open>auto simp: update_rows_def\<close>)
qed

lemma updateKycTier_wp:
  "wp d (retiered i biz (ut_kycTier dto) d) (\<lambda>_. True) (updateKycTier e i dto biz actor)"
  unfolding updateKycTier_def update_customer_def
proof (intro wp_rules audit.log_wp TrueI flag_rules_wp, goal_cases)
  case (1 c r)
  let ?f = "\<lambda>c'. c'\<lparr>cus_kycTier := ut_kycTier dto,
    cus_kycVerificationProvider := orElse (ut_verificationProvider dto) (cus_kycVerificationProvider c),
    cus_kycVerificationRef := orElse (ut_verificationRef dto) (cus_kycVerificationRef c)\<rparr>"
  let ?d = "d\<lparr>t_customer := update_rows (\<lambda>r. cus_id r = i) ?f (t_customer d)\<rparr>"
  have stale: "stale_rules i biz (ut_kycTier dto) ?d = stale_rules i biz (ut_kycTier dto) d"
    by (simp add: stale_rules_def rule_of_customer_update)
  have c: "c \<in> set (t_customer d)" "cus_id c = i" "cus_businessId c = biz" "find_customer i biz d = Some c"
    using 1 by (auto simp: find_customer_def dest!: find_SomeD)
  have owned: "owned_accounts i (d\<lparr>t_customer := cs, t_rule := rs\<rparr>) = owned_accounts i d" for cs rs
    by (simp add: owned_accounts_def)
  show ?case
    using c
    by (auto simp: retiered_def stale stale_rules_owned [OF c(4)] ball_update_rows owned)
      (auto simp: update_rows_def)
qed

section \<open>Properties\<close>


text \<open>Both requests have read the name Ada; the first has renamed the customer to Eve when the second goes on.\<close>

definition demo_rename :: "string \<Rightarrow> renameCustomerDto" where
  "demo_rename n = \<lparr>rn_newName = n, rn_reason = None\<rparr>"

definition demo_named_world :: world where
  "demo_named_world = demo_world\<lparr>db := demo_db\<lparr>t_nameHistory := [history_row ''k1'' '''' ''Ada'' None ''system'' ''h0'' 0]\<rparr>\<rparr>"

definition demo_renamed_world :: world where
  "demo_renamed_world = snd (renameCustomer demo_env ''k1'' (demo_rename ''Eve'') ''b1'' ''key'' demo_named_world)"

lemma demo_names_ok: "names_ok (db demo_named_world)"
  by (simp add: names_ok_def history_of_def history_row_def demo_named_world_def demo_defs)


text \<open>C36: when a change of KYC tier, run alone, returns, the customer of the business has the new tier; the ids
  returned are those of the ACTIVE rules on accounts of the customer that were created under another tier,
  in the order of the table; exactly the rules with these ids become FLAGGED_FOR_REVIEW and every other rule is
  unchanged; no ACTIVE rule on an account of the customer is left that was created under another tier.\<close>

theorem updateKycTier_flags:
  assumes "updateKycTier e i dto biz actor w = (Inr res, w')"
  shows "retiered i biz (ut_kycTier dto) (db w) res (db w')"
  using wpD_Inr [OF updateKycTier_wp refl assms] .

definition demo_tier :: updateKycTierDto where
  "demo_tier = \<lparr>ut_kycTier = TIER_2, ut_verificationProvider = None, ut_verificationRef = None,
     ut_reason = Some ''BVN_VERIFIED''\<rparr>"

theorem updateKycTier_flags_witness:
  "\<exists>res w'. updateKycTier demo_env ''k1'' demo_tier ''b1'' ''key'' demo_rules_world = (Inr res, w') \<and>
     retiered ''k1'' ''b1'' TIER_2 (db demo_rules_world) res (db w') \<and>
     ur_flaggedRuleIds res = [''r1'', ''r2'', ''r3'']"
proof -
  let ?m = "updateKycTier demo_env ''k1'' demo_tier ''b1'' ''key'' demo_rules_world"
  let ?res = "\<lparr>ur_customerId = ''k1'', ur_previousTier = TIER_1, ur_newTier = TIER_2,
    ur_flaggedRuleIds = [''r1'', ''r2'', ''r3'']\<rparr>"
  have "fst ?m = Inr ?res" by code_simp
  from fst_run [OF this] have run: "?m = (Inr ?res, snd ?m)" .
  have "ut_kycTier demo_tier = TIER_2" by (simp add: demo_tier_def)
  with updateKycTier_flags [OF run] run show ?thesis by (metis updateKycTierResult.select_convs(4))
qed

end
