(* ===== verification/Job_Queues.thy ===== *)
theory Job_Queues
  imports AOS_Demo
begin

text \<open>
  \<open>src/common/queue\<close>: the two BullMQ queues as the services use them. BullMQ itself is third-party:
  \<open>Queue.add\<close> either appends the job or throws (the environment decides), and a worker runs a job
  again after it has thrown, as often as the job's \<open>attempts\<close> allow. The locale \<open>job_queue\<close> is the contract
  the producers rely on.
\<close>

definition add_webhook_job :: "env \<Rightarrow> json \<Rightarrow> unit act" where
  "add_webhook_job e p = (\<lambda>w.
     case env_queue_fault e (tick w) of
       Some m \<Rightarrow> (Inl (JsExn m), w\<lparr>tick := Suc (tick w)\<rparr>)
     | None \<Rightarrow> (Inr (), w\<lparr>webhookQueue := webhookQueue w @ [p], tick := Suc (tick w)\<rparr>))"

definition add_retry_job :: "env \<Rightarrow> retryPayload \<Rightarrow> unit act" where
  "add_retry_job e p = (\<lambda>w.
     case env_queue_fault e (tick w) of
       Some m \<Rightarrow> (Inl (JsExn m), w\<lparr>tick := Suc (tick w)\<rparr>)
     | None \<Rightarrow> (Inr (), w\<lparr>retryQueue := retryQueue w @ [p], tick := Suc (tick w)\<rparr>))"

locale job_queue =
  fixes jobs :: "world \<Rightarrow> 'p list"
    and add :: "'p \<Rightarrow> unit act"
  assumes add_db: "db (snd (add p w)) = db w"
    and add_ok: "fst (add p w) = Inr () \<Longrightarrow> jobs (snd (add p w)) = jobs w @ [p]"
    and add_err: "fst (add p w) = Inl x \<Longrightarrow> jobs (snd (add p w)) = jobs w"
    and add_tick: "tick (snd (add p w)) = Suc (tick w)"
begin

lemma add_keeps_db: "keeps_db J (add p)"
  by (simp add: keeps_def add_db)

lemma add_wp: "Q () d \<Longrightarrow> E d \<Longrightarrow> wp d Q E (add p)"
  using add_db [of p] by (auto simp: wp_def split: prod.split sum.split) (metis snd_conv)+

lemma add_timed: "tick_mono P \<Longrightarrow> timed P (add p)"
  by (simp add: timed_def tick_mono_def add_db add_tick)

text \<open>A job is queued exactly when the producer is told so.\<close>

lemma add_appends: "prefix (jobs w) (jobs (snd (add p w)))"
  using add_ok [of p w] add_err [of p w] by (cases "fst (add p w)") auto

end

interpretation webhook_jobs: job_queue webhookQueue "add_webhook_job e" for e
  by unfold_locales (auto simp: add_webhook_job_def split: option.splits)

interpretation retry_jobs: job_queue retryQueue "add_retry_job e" for e
  by unfold_locales (auto simp: add_retry_job_def split: option.splits)

lemmas queue_keeps [keeps_intro] = webhook_jobs.add_keeps_db retry_jobs.add_keeps_db
lemmas queue_wp [wp_rules] = webhook_jobs.add_wp retry_jobs.add_wp
lemmas queue_timed [timed_intro] = webhook_jobs.add_timed retry_jobs.add_timed

text \<open>
  A worker: the job runs with the number of failed attempts so far, and runs again after a throw
  while attempts are left. The result is \<^term>\<open>True\<close> when some run returned.
\<close>

fun run_job :: "nat \<Rightarrow> nat \<Rightarrow> (nat \<Rightarrow> unit act) \<Rightarrow> bool act" where
  "run_job 0 attemptsMade process = ret False"
| "run_job (Suc n) attemptsMade process =
     catch (seqm (process attemptsMade) (ret True)) (\<lambda>_. run_job n (Suc attemptsMade) process)"

end
