(* ===== verification/Webhook_Processor.thy ===== *)
theory Webhook_Processor
  imports Account_Lifecycle Job_Queues
begin

text \<open>
  \<open>src/common/queue/webhook.processor.ts\<close>: the worker of the webhook-processing queue. An inflow is
  written to the account ledger, the account's rules are evaluated and executed, the entry is
  reconciled and the event is recorded; custom events run rules without a ledger entry; duplicates are
  discarded at the unique constraints.
\<close>

section \<open>The job\<close>

definition duplicate_audit :: "(string \<times> json) list \<Rightarrow> auditLogParams" where
  "duplicate_audit meta =
     (auditParams ''system'' DUPLICATE_EVENT_DISCARDED)\<lparr>alp_metadata := Some (JObj meta)\<rparr>"

definition is_custom_event :: "inflowPayload \<Rightarrow> bool" where
  "is_custom_event p = (str_truthy (inf_eventType p) \<and> inf_eventType p \<noteq> Some ''NOMBA_INFLOW'')"

definition event_row :: "inflowPayload \<Rightarrow> string \<Rightarrow> account \<Rightarrow> string \<Rightarrow> int \<Rightarrow> processedEvent" where
  "event_row p eventType account i t = \<lparr>
     pev_id = i, pev_eventId = inf_eventId p, pev_eventType = eventType,
     pev_accountRef = Some (acc_accountRef account), pev_businessId = Some (acc_businessId account),
     pev_payload = p, pev_processedAt = t\<rparr>"

definition inflow_dto :: "inflowPayload \<Rightarrow> account \<Rightarrow> customer option \<Rightarrow> writeInflowDto" where
  "inflow_dto p account customer = \<lparr>
     wi_accountId = acc_id account, wi_nombaTransactionRef = inf_transactionRef p,
     wi_nombaEventId = inf_eventId p, wi_amountKobo = inf_amountKobo p,
     wi_senderName = inf_senderName p, wi_senderAccountNumber = inf_senderAccountNumber p,
     wi_senderBankCode = inf_senderBankCode p, wi_narration = inf_narration p,
     wi_customerNameSnapshot = Some (getOr (map_option cus_displayName customer) ''Unknown''),
     wi_kycTierAtTime = Some (getOr (map_option cus_kycTier customer) TIER_0)\<rparr>"

text \<open>The audit entry of an inflow, with the fields that the branches add.\<close>

definition inflow_audit :: "account \<Rightarrow> (string \<times> json) list \<Rightarrow> auditLogParams" where
  "inflow_audit account meta =
     (auditParams ''system'' AudINFLOW_RECEIVED)\<lparr>
       alp_accountId := Some (acc_id account), alp_businessId := Some (acc_businessId account),
       alp_metadata := Some (JObj meta)\<rparr>"

section \<open>Custom events\<close>

definition custom_params :: "inflowPayload \<Rightarrow> account \<Rightarrow> evalParams" where
  "custom_params p account = \<lparr>
     ep_accountId = acc_id account, ep_executionModel = acc_executionModel account,
     ep_amountKobo = 0, ep_cumulativeAmountKobo = 0,
     ep_eventType = getOr (inf_eventType p) ''CUSTOM_EVENT'', ep_eventName = inf_eventType p\<rparr>"

definition pseudoLedgerEntry :: "inflowPayload \<Rightarrow> execEntry" where
  "pseudoLedgerEntry p = \<lparr>xe_id = ''custom_'' @ inf_eventId p, xe_amountKobo = 0,
     xe_nombaTransactionRef = inf_transactionRef p, xe_nombaEventId = inf_eventId p\<rparr>"

definition find_business :: "string \<Rightarrow> database \<Rightarrow> business option" where
  "find_business i d = find (\<lambda>b. biz_id b = i) (t_business d)"

definition run_custom_rules :: "env \<Rightarrow> inflowPayload \<Rightarrow> account \<Rightarrow> unit act" where
  "run_custom_rules e p account =
     bnd (evaluate e (custom_params p account)) (\<lambda>matchingRules.
     seqm
       (if matchingRules = [] then ret ()
        else
          bnd (query e (find_business (acc_businessId account))) (\<lambda>business.
          case business of
            None \<Rightarrow> ret ()
          | Some _ \<Rightarrow>
              foreach matchingRules (\<lambda>ev. seqm (execute e ev (pseudoLedgerEntry p)) (ret ()))))
       (AuditService_log e ((auditParams ''system'' CUSTOM_EVENT_PROCESSED)\<lparr>
          alp_accountId := Some (acc_id account), alp_businessId := Some (acc_businessId account),
          alp_metadata := Some (JObj [(''eventId'', JStr (inf_eventId p)),
            (''eventType'', jstr_opt (inf_eventType p)),
            (''matchedRules'', JNum (of_nat (length matchingRules)))])\<rparr>)))"

text \<open>The event is claimed before any rule runs; a conflict means another delivery has it.\<close>

definition process_custom :: "env \<Rightarrow> inflowPayload \<Rightarrow> account \<Rightarrow> unit act" where
  "process_custom e p account =
     bnd (catch
            (seqm (create_processedEvent e
                     (event_row p (getOr (inf_eventType p) ''CUSTOM_EVENT'') account)) (ret True))
            (\<lambda>err.
               if err = DbExn P2002
               then seqm (AuditService_log e (duplicate_audit [(''eventId'', JStr (inf_eventId p))]))
                      (ret False)
               else throw err)) (\<lambda>claimed.
     if claimed then run_custom_rules e p account else ret ())"

section \<open>Inflows\<close>

definition process_suspended :: "env \<Rightarrow> inflowPayload \<Rightarrow> account \<Rightarrow> customer option \<Rightarrow> unit act" where
  "process_suspended e p account customer =
     seqm (writeInflow e (inflow_dto p account customer) FLAGGED)
       (AuditService_log e (inflow_audit account
          [(''eventId'', JStr (inf_eventId p)), (''amountKobo'', JNum (inf_amountKobo p)),
           (''reconciliationStatus'', JStr ''FLAGGED''),
           (''reason'', JStr (''Account is SUSPENDED '' @ em_dash @ '' rule evaluation skipped''))]))"

definition process_terminal :: "env \<Rightarrow> inflowPayload \<Rightarrow> account \<Rightarrow> unit act" where
  "process_terminal e p account =
     AuditService_log e (inflow_audit account
       [(''eventId'', JStr (inf_eventId p)), (''amountKobo'', JNum (inf_amountKobo p)),
        (''status'', JStr (show_status (acc_status account))),
        (''reason'', JStr (''Account is '' @ show_status (acc_status account) @ '' '' @ em_dash @
           '' inflow discarded''))])"

definition inflow_params :: "inflowPayload \<Rightarrow> account \<Rightarrow> int \<Rightarrow> int \<Rightarrow> evalParams" where
  "inflow_params p account amount cumulative = \<lparr>
     ep_accountId = acc_id account, ep_executionModel = acc_executionModel account,
     ep_amountKobo = amount, ep_cumulativeAmountKobo = cumulative,
     ep_eventType = ''NOMBA_INFLOW'', ep_eventName = None\<rparr>"

definition entry_of :: "ledgerEntry \<Rightarrow> execEntry" where
  "entry_of r = \<lparr>xe_id = led_id r, xe_amountKobo = led_amountKobo r,
     xe_nombaTransactionRef = led_nombaTransactionRef r, xe_nombaEventId = led_nombaEventId r\<rparr>"

definition retry_job :: "executionResult \<Rightarrow> retryPayload" where
  "retry_job res = \<lparr>rty_ruleExecutionId = xr_ruleExecutionId res, rty_attempt = getOr (xr_attempt res) 1,
     rty_maxAttempts = 5, rty_errorMessage = xr_errorMessage res\<rparr>"

definition run_inflow_rule :: "env \<Rightarrow> ledgerEntry \<Rightarrow> evaluatedRule \<Rightarrow> unit act" where
  "run_inflow_rule e r ev =
     bnd (execute e ev (entry_of r)) (\<lambda>result.
     if xr_status result = ExRETRYING \<and> xr_ruleExecutionId result \<noteq> []
     then add_retry_job e (retry_job result)
     else ret ())"

definition run_inflow_rules :: "env \<Rightarrow> inflowPayload \<Rightarrow> account \<Rightarrow> evaluatedRule list \<Rightarrow> unit act" where
  "run_inflow_rules e p account matchingRules =
     bnd (query e (find_business (acc_businessId account))) (\<lambda>business.
     case business of
       None \<Rightarrow> ret ()
     | Some _ \<Rightarrow>
         bnd (query e (\<lambda>d. find (\<lambda>r. led_nombaTransactionRef r = inf_transactionRef p) (t_ledgerEntry d)))
           (\<lambda>ledgerEntryRecord.
         case ledgerEntryRecord of
           None \<Rightarrow> ret ()
         | Some r \<Rightarrow> foreach matchingRules (run_inflow_rule e r)))"

fun show_rule_action :: "rule_action \<Rightarrow> string" where
  "show_rule_action SUSPEND_ACCOUNT = ''SUSPEND_ACCOUNT''"
| "show_rule_action REACTIVATE_ACCOUNT = ''REACTIVATE_ACCOUNT''"
| "show_rule_action EXPIRE_ACCOUNT = ''EXPIRE_ACCOUNT''"
| "show_rule_action NOTIFY_WEBHOOK = ''NOTIFY_WEBHOOK''"
| "show_rule_action RELEASE_FUNDS = ''RELEASE_FUNDS''"
| "show_rule_action FLAG_FOR_REVIEW = ''FLAG_FOR_REVIEW''"

text \<open>Steps 7 to 10: the matched rules, the reconciliation status, the audit entry, the ProcessedEvent.\<close>

definition finish_inflow :: "env \<Rightarrow> inflowPayload \<Rightarrow> account \<Rightarrow> evaluatedRule list \<Rightarrow> unit act" where
  "finish_inflow e p account matchingRules =
     (let common = [(''eventId'', JStr (inf_eventId p)), (''transactionRef'', JStr (inf_transactionRef p)),
                    (''amountKobo'', JNum (inf_amountKobo p))] in
      seqm
       (if matchingRules \<noteq> [] then
          seqm (run_inflow_rules e p account matchingRules) (
          seqm (updateReconciliationStatus e (inf_transactionRef p) MATCHED)
            (AuditService_log e (inflow_audit account (common @
               [(''reconciliationStatus'', JStr ''MATCHED''),
                (''matchedRules'', JArr (map (\<lambda>ev. JObj [(''ruleId'', JStr (ev_ruleId ev)),
                   (''action'', JStr (show_rule_action (ev_action ev)))]) matchingRules))]))))
        else
          seqm (updateReconciliationStatus e (inf_transactionRef p) UNMATCHED)
            (AuditService_log e (inflow_audit account (common @
               [(''reconciliationStatus'', JStr ''UNMATCHED'')]))))
       (seqm (create_processedEvent e (event_row p ''NOMBA_INFLOW'' account)) (ret ())))"

definition process_inflow :: "env \<Rightarrow> inflowPayload \<Rightarrow> account \<Rightarrow> customer option \<Rightarrow> unit act" where
  "process_inflow e p account customer =
     bnd (writeInflow e (inflow_dto p account customer) RecPENDING) (\<lambda>cumulativeAmount.
     bnd (lift_sum (js_BigInt (inf_amountKobo p))) (\<lambda>amount.
     bnd (evaluate e (inflow_params p account amount cumulativeAmount)) (\<lambda>matchingRules.
     finish_inflow e p account matchingRules)))"

section \<open>The worker\<close>

text \<open>\<open>account.findUnique\<close> by number, with its customer.\<close>

definition find_by_number :: "string \<Rightarrow> database \<Rightarrow> (account \<times> customer option) option" where
  "find_by_number n d =
     map_option (\<lambda>a. (a, customer_of a d)) (find (\<lambda>a. acc_accountNumber a = n) (t_account d))"

definition find_event :: "string \<Rightarrow> database \<Rightarrow> processedEvent option" where
  "find_event i d = find (\<lambda>r. pev_eventId r = i) (t_processedEvent d)"

definition process_event :: "env \<Rightarrow> inflowPayload \<Rightarrow> unit act" where
  "process_event e p =
     bnd (query e (find_event (inf_eventId p))) (\<lambda>existing.
     if existing \<noteq> None
     then AuditService_log e (duplicate_audit [(''eventId'', JStr (inf_eventId p))])
     else
       bnd (query e (find_by_number (inf_accountNumber p))) (\<lambda>found.
       case found of
         None \<Rightarrow>
           AuditService_log e ((auditParams ''system'' UNKNOWN_ACCOUNT_WEBHOOK)\<lparr>
             alp_metadata := Some (JObj [(''accountNumber'', JStr (inf_accountNumber p)),
               (''eventId'', JStr (inf_eventId p))])\<rparr>)
       | Some (account, customer) \<Rightarrow>
           if is_custom_event p then process_custom e p account
           else if acc_status account = SUSPENDED then process_suspended e p account customer
           else if acc_status account = CLOSED \<or> acc_status account = EXPIRED
           then process_terminal e p account
           else process_inflow e p account customer))"

definition WebhookProcessor_process :: "env \<Rightarrow> inflowPayload \<Rightarrow> unit act" where
  "WebhookProcessor_process e p =
     catch (process_event e p) (\<lambda>err.
       if err = DbExn P2002
       then AuditService_log e (duplicate_audit [(''eventId'', JStr (inf_eventId p)),
              (''reason'', JStr ''unique_conflict'')])
       else throw err)"

section \<open>What the rules of an event leave alone\<close>

lemma webhook_evolves [keeps_intro]: "keeps_db (evolves d0) (WebhookProcessor_process e p)"
  unfolding WebhookProcessor_process_def process_event_def process_custom_def run_custom_rules_def
    process_suspended_def process_terminal_def process_inflow_def finish_inflow_def run_inflow_rules_def
    run_inflow_rule_def
  by (intro keeps_intro)

text \<open>The executions of an event change neither the recorded events nor the immutable columns of the ledger.\<close>

abbreviation event_part ::
  "(ledgerEntry list \<Rightarrow> processedEvent list \<Rightarrow> bool) \<Rightarrow> database \<Rightarrow> bool" where
  "event_part J d \<equiv> J (map immutable_part (t_ledgerEntry d)) (t_processedEvent d)"

lemma event_part_statements:
  "keeps_db (event_part J) (create_ruleExecution e mk1)"
  "keeps_db (event_part J) (update_ruleExecution e i f1)"
  "keeps_db (event_part J) (update_account e i f2)"
  "keeps_db (event_part J) (create_bucketLedgerEntry e mk2)"
  unfolding create_ruleExecution_def update_ruleExecution_def update_account_def
    create_bucketLedgerEntry_def
  by (rule keeps_create_row keeps_update_row; simp)+

lemma event_part_flag:
  "keeps_db (event_part J) (update_ledgerEntry e P (\<lambda>r. r\<lparr>led_reconciliationStatus := st\<rparr>))"
  unfolding update_ledgerEntry_def
  by (rule keeps_update_row) (simp add: map_update_rows immutable_part_def)

lemmas execute_defs =
  execute_def handleReleaseFunds_def allocate_def handleStatusChange_def handleFlagForReview_def
  handleNotifyWebhook_def complete_execution_def retry_execution_def markExecutionFailed_def
  credit_def credit_tx_def

lemma execute_event_part: "keeps_db (event_part J) (execute e ev entry)"
  unfolding execute_defs
  by (intro keeps_intro event_part_statements event_part_flag)

lemma run_inflow_rules_event_part: "keeps_db (event_part J) (run_inflow_rules e p a rs)"
  unfolding run_inflow_rules_def run_inflow_rule_def
  by (intro keeps_intro execute_event_part)

text \<open>A custom event has no ledger entry to flag.\<close>

lemma ledger_statements:
  "keeps_db (\<lambda>d. J (t_ledgerEntry d)) (create_ruleExecution e mk1)"
  "keeps_db (\<lambda>d. J (t_ledgerEntry d)) (update_ruleExecution e i f1)"
  "keeps_db (\<lambda>d. J (t_ledgerEntry d)) (update_account e i f2)"
  "keeps_db (\<lambda>d. J (t_ledgerEntry d)) (create_bucketLedgerEntry e mk2)"
  "keeps_db (\<lambda>d. J (t_ledgerEntry d)) (create_processedEvent e mk3)"
  unfolding create_ruleExecution_def update_ruleExecution_def update_account_def
    create_bucketLedgerEntry_def create_processedEvent_def
  by (rule keeps_create_row keeps_update_row; simp)+

lemma custom_rules_ledger: "keeps_db (\<lambda>d. J (t_ledgerEntry d)) (execute e ev (pseudoLedgerEntry p))"
proof -
  have "real_entry_id (pseudoLedgerEntry p) = None"
    by (simp add: real_entry_id_def pseudoLedgerEntry_def)
  then show ?thesis
    unfolding execute_defs Let_def
    by (simp only: str_truthy_simps if_False) (intro keeps_intro ledger_statements)
qed

lemma wp_bnd_query: "wp d Q E (g (f d)) \<Longrightarrow> E d \<Longrightarrow> wp d Q E (bnd (query e f) g)"
  by (intro wp_bnd wp_query)

section \<open>The effect of an inflow\<close>

text \<open>A completed inflow: one new entry, reconciled by whether a rule matched, and the event recorded.\<close>

definition reconciled ::
  "env \<Rightarrow> inflowPayload \<Rightarrow> account \<Rightarrow> customer option \<Rightarrow> database \<Rightarrow> database \<Rightarrow> bool" where
  "reconciled e p a c d d' =
     (\<exists>amount row. inf_amountKobo p = of_int amount \<and>
        led_amountKobo row = amount \<and> led_direction row = INFLOW \<and> led_accountId row = acc_id a \<and>
        led_nombaTransactionRef row = inf_transactionRef p \<and>
        led_cumulativeAmountKobo row = inflow_sum (acc_id a) d + amount \<and>
        map immutable_part (t_ledgerEntry d') = map immutable_part (t_ledgerEntry d @ [row]) \<and>
        led_reconciliationStatus (last (t_ledgerEntry d')) =
          (if evaluate_spec e (inflow_params p a amount (inflow_sum (acc_id a) d + amount)) d = []
           then UNMATCHED else MATCHED) \<and>
        find_event (inf_eventId p) d' \<noteq> None)"

lemma immutable_fields:
  "led_nombaTransactionRef (immutable_part r) = led_nombaTransactionRef r"
  by (simp add: immutable_part_def)

lemma last_ref:
  assumes "map immutable_part xs = map immutable_part (ys @ [row])"
  shows "xs \<noteq> [] \<and> led_nombaTransactionRef (last xs) = led_nombaTransactionRef row"
proof -
  from assms have ne: "xs \<noteq> []" by auto
  with assms have "immutable_part (last xs) = immutable_part row"
    by (metis last_map last_snoc list.map_disc_iff map_append list.simps(8,9))
  with ne show ?thesis by (metis immutable_fields)
qed

lemma last_update_rows:
  "xs \<noteq> [] \<Longrightarrow> P (last xs) \<Longrightarrow> last (update_rows P f xs) = f (last xs)"
  by (simp add: update_rows_def last_map)

lemma find_event_snoc:
  "pev_eventId r = i \<Longrightarrow> find_event i (d\<lparr>t_processedEvent := xs @ [r]\<rparr>) \<noteq> None"
  by (auto simp: find_event_def find_None_iff)

text \<open>
  \<open>pending_inflow\<close>: the entry has been appended and the event is not yet recorded. The rules keep it,
  the reconciliation sets the status of the entry, the recording of the event completes the inflow.
\<close>

definition pending_inflow :: "database \<Rightarrow> ledgerEntry \<Rightarrow> database \<Rightarrow> bool" where
  "pending_inflow d row d' =
     (map immutable_part (t_ledgerEntry d') = map immutable_part (t_ledgerEntry d @ [row]) \<and>
      t_processedEvent d' = t_processedEvent d)"

lemma wp_run_inflow_rules:
  assumes "pending_inflow d row d1" "\<And>d'. pending_inflow d row d' \<Longrightarrow> Q d'" "\<And>d'. pending_inflow d row d' \<Longrightarrow> E d'"
  shows "wp d1 (\<lambda>_. Q) E (run_inflow_rules e p a rs)"
proof -
  have "keeps_db (pending_inflow d row) (run_inflow_rules e p a rs)"
    unfolding pending_inflow_def
    by (rule run_inflow_rules_event_part [where J = "\<lambda>l ev. l = map immutable_part (t_ledgerEntry d @ [row]) \<and>
          ev = t_processedEvent d"])
  from wp_conseq [OF wp_keeps [OF this assms(1)] assms(2,3)] show ?thesis .
qed

lemma wp_reconcile:
  assumes "pending_inflow d row d1" "led_nombaTransactionRef row = ref"
    and "\<And>d'. pending_inflow d row d' \<Longrightarrow> led_reconciliationStatus (last (t_ledgerEntry d')) = st \<Longrightarrow> Q d'"
    and "E d1"
  shows "wp d1 (\<lambda>_. Q) E (updateReconciliationStatus e ref st)"
  unfolding updateReconciliationStatus_def update_ledgerEntry_def
proof (intro wp_rules assms(3,4))
  have last: "t_ledgerEntry d1 \<noteq> [] \<and> led_nombaTransactionRef (last (t_ledgerEntry d1)) = ref"
    using last_ref assms(1,2) unfolding pending_inflow_def by metis
  show "pending_inflow d row (d1\<lparr>t_ledgerEntry := update_rows (\<lambda>r. led_nombaTransactionRef r = ref)
      (\<lambda>r. r\<lparr>led_reconciliationStatus := st\<rparr>) (t_ledgerEntry d1)\<rparr>)"
    using assms(1) by (simp add: pending_inflow_def map_update_rows immutable_part_def)
  show "led_reconciliationStatus (last (t_ledgerEntry (d1\<lparr>t_ledgerEntry :=
      update_rows (\<lambda>r. led_nombaTransactionRef r = ref) (\<lambda>r. r\<lparr>led_reconciliationStatus := st\<rparr>)
        (t_ledgerEntry d1)\<rparr>))) = st"
    using last by (simp add: last_update_rows)
qed

lemma wp_record_event:
  assumes "\<And>r xs. pev_eventId r = inf_eventId p \<Longrightarrow> Q (d\<lparr>t_processedEvent := xs @ [r]\<rparr>)" "E d"
  shows "wp d (\<lambda>_. Q) E (create_processedEvent e (event_row p ty a))"
  unfolding create_processedEvent_def
  by (intro wp_rules assms) (simp_all add: event_row_def)

lemma evaluate_spec_ledger: "evaluate_spec e ps (d\<lparr>t_ledgerEntry := l\<rparr>) = evaluate_spec e ps d"
  by (simp add: evaluate_spec_def matching_rules_def active_rules_def)

lemma finish_inflow_wp:
  assumes "pending_inflow d row d1" "led_nombaTransactionRef row = inf_transactionRef p"
    and "\<And>d' r xs. pending_inflow d row d' \<Longrightarrow> pev_eventId r = inf_eventId p \<Longrightarrow>
      led_reconciliationStatus (last (t_ledgerEntry d')) = (if rs = [] then UNMATCHED else MATCHED) \<Longrightarrow>
      Q (d'\<lparr>t_processedEvent := xs @ [r]\<rparr>)"
    and "\<And>d'. pending_inflow d row d' \<Longrightarrow> E d'"
  shows "wp d1 (\<lambda>_. Q) E (finish_inflow e p a rs)"
  unfolding finish_inflow_def Let_def
  by (intro wp_bnd wp_if wp_ret audit.log_wp wp_run_inflow_rules [where d = d and row = row]
      wp_reconcile [where d = d and row = row] wp_record_event assms) (simp_all add: assms)

lemma process_inflow_wp:
  "wp d (\<lambda>_. reconciled e p a c d) (\<lambda>d'. t_processedEvent d' = t_processedEvent d)
    (process_inflow e p a c)"
proof -
  have fin: "reconciled e p a c d (d'\<lparr>t_processedEvent := xs @ [r]\<rparr>)"
    if "pending_inflow d row d'" "js_BigInt (inf_amountKobo p) = Inr am"
      "row = inflow_row (inflow_dto p a c) RecPENDING am (inflow_sum (acc_id a) d + am) t i s"
      "led_reconciliationStatus (last (t_ledgerEntry d')) =
        (if evaluate_spec e (inflow_params p a am (inflow_sum (acc_id a) d + am)) d = []
         then UNMATCHED else MATCHED)"
      "pev_eventId r = inf_eventId p" for d' row am t i s xs r
  proof -
    have "inf_amountKobo p = of_int am" using js_BigInt_value [OF that(2)] by simp
    with that find_event_snoc [OF that(5), of xs d'] show ?thesis
      unfolding reconciled_def pending_inflow_def
      by (intro exI [of _ am] exI [of _ row]) (simp add: inflow_row_def inflow_dto_def)
  qed
  have start: "pending_inflow d row (d\<lparr>t_ledgerEntry := t_ledgerEntry d @ [row]\<rparr>)" for row
    by (simp add: pending_inflow_def)
  have pending: "pending_inflow d row d' \<Longrightarrow> t_processedEvent d' = t_processedEvent d" for row d'
    by (simp add: pending_inflow_def)
  have ref: "led_nombaTransactionRef (inflow_row (inflow_dto p a c) st am cu t i s) = inf_transactionRef p"
    for st am cu t i s by (simp add: inflow_row_def inflow_dto_def)
  show ?thesis
    unfolding process_inflow_def
  proof (rule wp_bnd, rule writeInflow_wp, unfold Let_def, rule disjI2)
    fix am i t s assume am: "js_BigInt (wi_amountKobo (inflow_dto p a c)) = Inr am"
    let ?row = "inflow_row (inflow_dto p a c) RecPENDING am (inflow_sum (acc_id a) d + am) s i t"
    have am': "js_BigInt (inf_amountKobo p) = Inr am" using am by (simp add: inflow_dto_def)
    have "wp (d\<lparr>t_ledgerEntry := t_ledgerEntry d @ [?row]\<rparr>) (\<lambda>_. reconciled e p a c d)
        (\<lambda>d'. t_processedEvent d' = t_processedEvent d)
        (bnd (lift_sum (js_BigInt (inf_amountKobo p))) (\<lambda>amount.
          bnd (evaluate e (inflow_params p a amount (inflow_sum (acc_id a) d + am)))
            (\<lambda>rs. finish_inflow e p a rs)))"
      unfolding am'
      by (intro wp_bnd wp_lift_sum evaluate_wp finish_inflow_wp [where d = d and row = ?row])
        (auto simp: evaluate_spec_ledger ref intro: start pending fin [OF _ am' refl])
    then show "wp (d\<lparr>t_ledgerEntry := t_ledgerEntry d @ [inflow_row (inflow_dto p a c) RecPENDING am
          (inflow_sum (wi_accountId (inflow_dto p a c)) d + am) s i t]\<rparr>) (\<lambda>_. reconciled e p a c d)
        (\<lambda>d'. t_processedEvent d' = t_processedEvent d)
        (bnd (lift_sum (js_BigInt (inf_amountKobo p))) (\<lambda>amount.
          bnd (evaluate e (inflow_params p a amount (inflow_sum (wi_accountId (inflow_dto p a c)) d + am)))
            (\<lambda>rs. finish_inflow e p a rs)))"
      by (simp add: inflow_dto_def)
  qed (simp add: inflow_dto_def)
qed

section \<open>Properties\<close>

text \<open>C6: an inflow on an ACTIVE account that is processed to the end (its event is recorded afterwards) has
  appended exactly one ledger entry, with the amount and the running total of the account, whose status
  is MATCHED when some active rule matched the event and UNMATCHED otherwise; no other entry has changed
  in any column but its status.\<close>

theorem inflow_reconciled:
  assumes "WebhookProcessor_process e p w = (Inr (), w')"
    and "\<not> is_custom_event p" "find_by_number (inf_accountNumber p) (db w) = Some (a, c)"
    and "acc_status a = ACTIVE" "find_event (inf_eventId p) (db w) = None"
    and "find_event (inf_eventId p) (db w') \<noteq> None"
  shows "reconciled e p a c (db w) (db w')"
proof -
  have "wp (db w) (\<lambda>_. reconciled e p a c (db w)) (\<lambda>d'. t_processedEvent d' = t_processedEvent (db w))
      (process_event e p)"
    unfolding process_event_def
    by (intro wp_rules audit.log_wp) (use assms process_inflow_wp in \<open>auto\<close>)
  then have "wp (db w) (\<lambda>_ d'. reconciled e p a c (db w) d' \<or> t_processedEvent d' = t_processedEvent (db w))
      (\<lambda>_. True) (WebhookProcessor_process e p)"
    unfolding WebhookProcessor_process_def
    by (intro wp_catch, elim wp_conseq) (auto intro!: wp_rules audit.log_wp)
  from wpD_Inr [OF this refl assms(1)] assms(5,6) show ?thesis by (auto simp: find_event_def)
qed

definition demo_payload :: inflowPayload where
  "demo_payload = \<lparr>inf_eventId = ''ev1'', inf_transactionRef = ''tx1'', inf_accountNumber = ''0001'',
     inf_amountKobo = 1000, inf_senderName = None, inf_senderAccountNumber = None,
     inf_senderBankCode = None, inf_narration = None, inf_eventType = Some ''NOMBA_INFLOW''\<rparr>"

definition demo_processed :: world where
  "demo_processed = snd (WebhookProcessor_process demo_env demo_payload demo_rules_world)"

theorem inflow_reconciled_witness:
  "reconciled demo_env demo_payload demo_account (Some demo_customer) (db demo_rules_world)
     (db demo_processed)"
proof -
  have ok: "fst (WebhookProcessor_process demo_env demo_payload demo_rules_world) = Inr ()" by code_simp
  have run: "WebhookProcessor_process demo_env demo_payload demo_rules_world = (Inr (), demo_processed)"
    using fst_run [OF ok] by (simp add: demo_processed_def)
  have acc: "find_by_number (inf_accountNumber demo_payload) (db demo_rules_world) =
      Some (demo_account, Some demo_customer)"
    by (simp add: find_by_number_def customer_of_def demo_payload_def demo_rules_world_def demo_defs)
  have "(find_event (inf_eventId demo_payload) (db demo_processed) = None) = False" by code_simp
  then have after: "find_event (inf_eventId demo_payload) (db demo_processed) \<noteq> None" by simp
  show ?thesis
    by (rule inflow_reconciled [OF run _ acc _ _ after])
      (simp_all add: is_custom_event_def demo_payload_def demo_account_def find_event_def
        demo_rules_world_def demo_db_def)
qed

text \<open>An event that is already recorded is discarded: processing it again changes no table, sends no request
  and queues no job (it only adds an audit row), whatever the payload says.\<close>

theorem recorded_event_discarded:
  assumes "find_event (inf_eventId p) (db w) \<noteq> None"
  shows "db (snd (WebhookProcessor_process e p w)) = db w \<and>
    outbox (snd (WebhookProcessor_process e p w)) = outbox w \<and>
    retryQueue (snd (WebhookProcessor_process e p w)) = retryQueue w \<and>
    webhookQueue (snd (WebhookProcessor_process e p w)) = webhookQueue w"
proof (cases "env_fault e (tick w)")
  case None
  let ?p = "duplicate_audit [(''eventId'', JStr (inf_eventId p))]" and ?w = "w\<lparr>tick := Suc (tick w)\<rparr>"
  have "process_event e p w = AuditService_log e ?p ?w"
    using None assms by (simp add: process_event_def query_def prisma_def bnd_def)
  also have "\<dots> = (Inr (), snd (AuditService_log e ?p ?w))" by (rule audit.log_run)
  finally have "WebhookProcessor_process e p w = (Inr (), snd (AuditService_log e ?p ?w))"
    unfolding WebhookProcessor_process_def by (rule catch_run(1))
  then show ?thesis by simp
next
  case (Some f)
  then show ?thesis
    by (auto simp: WebhookProcessor_process_def process_event_def query_def prisma_def bnd_def catch_def
        throw_def)
qed

theorem recorded_event_discarded_witness:
  "db (snd (WebhookProcessor_process demo_env demo_payload demo_processed)) = db demo_processed"
proof -
  have "(find_event (inf_eventId demo_payload) (db demo_processed) = None) = False" by code_simp
  then have "find_event (inf_eventId demo_payload) (db demo_processed) \<noteq> None" by simp
  from recorded_event_discarded [OF this, of demo_env] show ?thesis by simp
qed

text \<open>C21: a transaction is never booked twice: when the transaction reference of an inflow is already in the
  ledger, the job leaves every table as it was, even under another event id; in particular no rule runs.\<close>

theorem duplicate_transaction_discarded:
  assumes "inf_transactionRef p \<in> set (map led_nombaTransactionRef (t_ledgerEntry (db w)))"
    and "\<not> is_custom_event p"
  shows "db (snd (WebhookProcessor_process e p w)) = db w"
proof -
  have dup: "wp (db w) Q E (bnd (writeInflow e (inflow_dto p a c) st) f)" if "E (db w)"
    for Q :: "unit \<Rightarrow> database \<Rightarrow> bool" and E a c st f
    by (rule wp_bnd, rule writeInflow_wp)
      (use assms(1) that in \<open>auto simp: Let_def taken_def inflow_row_def inflow_dto_def\<close>)
  have "wp (db w) (\<lambda>_ d. d = db w) (\<lambda>d. d = db w) (WebhookProcessor_process e p)"
    unfolding WebhookProcessor_process_def process_event_def process_suspended_def process_terminal_def
      process_inflow_def
    by (intro wp_catch wp_bnd_query wp_if wp_case_option wp_case_prod dup)
      (use assms(2) in \<open>auto intro!: wp_rules audit.log_wp\<close>)
  from wp_run [OF this] show ?thesis by (auto split: prod.splits sum.splits)
qed

theorem duplicate_transaction_discarded_witness:
  "db (snd (WebhookProcessor_process demo_env (demo_payload\<lparr>inf_eventId := ''ev2''\<rparr>) demo_processed)) =
     db demo_processed"
proof -
  have "inf_transactionRef (demo_payload\<lparr>inf_eventId := ''ev2''\<rparr>)
      \<in> set (map led_nombaTransactionRef (t_ledgerEntry (db demo_processed)))" by code_simp
  from duplicate_transaction_discarded [OF this] show ?thesis
    by (simp add: is_custom_event_def demo_payload_def)
qed

text \<open>A custom event never touches the account ledger, whichever rules it triggers and whether or not it
  fails.\<close>

theorem custom_event_no_ledger:
  assumes "is_custom_event p"
  shows "t_ledgerEntry (db (snd (WebhookProcessor_process e p w))) = t_ledgerEntry (db w)"
proof -
  have "keeps_db (\<lambda>d. t_ledgerEntry d = t_ledgerEntry (db w)) (WebhookProcessor_process e p)"
    unfolding WebhookProcessor_process_def process_event_def process_custom_def run_custom_rules_def
    by (intro keeps_intro custom_rules_ledger ledger_statements) (use assms in simp_all)
  from keepsD [OF this, of w] show ?thesis by simp
qed

theorem custom_event_no_ledger_witness:
  "t_ledgerEntry (db (snd (WebhookProcessor_process demo_env
     (demo_payload\<lparr>inf_eventType := Some ''cycle_reset''\<rparr>) demo_rules_world))) = []"
  using custom_event_no_ledger [of "demo_payload\<lparr>inf_eventType := Some ''cycle_reset''\<rparr>" demo_env
      demo_rules_world]
  by (simp add: is_custom_event_def demo_rules_world_def demo_db_def)

text \<open>A world in which the only rule flags every inflow.\<close>

definition demo_flag_world :: world where
  "demo_flag_world = demo_world\<lparr>db := demo_db\<lparr>t_rule := [demo_rule ''r1'' 0 FLAG_FOR_REVIEW JNull]\<rparr>\<rparr>"

text \<open>A FLAG_FOR_REVIEW rule has no lasting effect on the inflow: the entry it flags ends as MATCHED,
  because the reconciliation step runs after the rules.\<close>

theorem flagged_inflow_matched:
  "map led_reconciliationStatus
     (t_ledgerEntry (db (snd (WebhookProcessor_process demo_env demo_payload demo_flag_world)))) = [MATCHED] \<and>
   map rex_status
     (t_ruleExecution (db (snd (WebhookProcessor_process demo_env demo_payload demo_flag_world)))) =
     [ExCOMPLETED]"
  by code_simp

end
