(* ===== verification/Http_Values.thy ===== *)
theory Http_Values
  imports Account_Lifecycle Identity_Service Treasury_Service Auth_Service Webhook_Processor
begin

text \<open>
  The values that cross the HTTP boundary. JavaScript values as the handlers see them, with \<open>undefined\<close>,
  BigInt and Date; their serialisation by
  \<open>src/common/interceptors/bigint-serialize.interceptor.ts\<close>; the conversions the controllers apply to
  query parameters; and the objects the services return, one printer for each result. The column
  \<open>updatedAt\<close>, which the tables here do not keep, is an argument \<open>u\<close> of the printers (a function of the row's id).
\<close>

section \<open>JavaScript values\<close>

datatype jsv =
    JsUndefined
  | JsNull
  | JsBool bool
  | JsNum js_num
  | JsStr string
  | JsBigInt int
  | JsDate int
  | JsArr "jsv list"
  | JsObj "(string \<times> jsv) list"

primrec of_json :: "json \<Rightarrow> jsv" where
  "of_json JNull = JsNull"
| "of_json (JBool b) = JsBool b"
| "of_json (JNum x) = JsNum (Fin x)"
| "of_json (JStr s) = JsStr s"
| "of_json (JArr xs) = JsArr (map of_json xs)"
| "of_json (JObj kvs) = JsObj (map (map_prod id of_json) kvs)"

text \<open>
  \<open>JSON.parse(JSON.stringify(data, bigintReplacer))\<close>: a BigInt becomes its decimal text, a Date its ISO
  text, a number that is not finite \<open>null\<close>; an undefined property is dropped and an undefined element is \<open>null\<close>.
  The result is \<^term>\<open>None\<close> for \<open>undefined\<close> itself, which has no JSON text.
\<close>

fun js_number_json :: "js_num \<Rightarrow> json" where
  "js_number_json (Fin x) = JNum x"
| "js_number_json _ = JNull"

primrec bigint_replaced :: "jsv \<Rightarrow> json option" where
  "bigint_replaced JsUndefined = None"
| "bigint_replaced JsNull = Some JNull"
| "bigint_replaced (JsBool b) = Some (JBool b)"
| "bigint_replaced (JsNum n) = Some (js_number_json n)"
| "bigint_replaced (JsStr s) = Some (JStr s)"
| "bigint_replaced (JsBigInt n) = Some (JStr (show_int n))"
| "bigint_replaced (JsDate t) = Some (JStr (iso_string t))"
| "bigint_replaced (JsArr xs) = Some (JArr (map (\<lambda>v. getOr v JNull) (map bigint_replaced xs)))"
| "bigint_replaced (JsObj kvs) =
     Some (JObj (List.map_filter (\<lambda>(k, v). map_option (Pair k) v) (map (map_prod id bigint_replaced) kvs)))"

definition BigIntSerialize :: "jsv \<Rightarrow> exn + json" where
  "BigIntSerialize data =
     (case bigint_replaced data of
        None \<Rightarrow> Inl (JsExn ''undefined is not valid JSON'')
      | Some j \<Rightarrow> Inr j)"

text \<open>A JSON value passes unchanged.\<close>

lemma bigint_replaced_json: "bigint_replaced (of_json j) = Some j"
proof (induction j)
  case (JArr xs)
  then show ?case by (simp add: map_idI)
next
  case (JObj kvs)
  then have "\<forall>x \<in> set kvs. bigint_replaced (of_json (snd x)) = Some (snd x)" by force
  then have "List.map_filter (\<lambda>(k, v). map_option (Pair k) v)
      (map (map_prod id bigint_replaced) (map (map_prod id of_json) kvs)) = kvs"
    by (induction kvs) auto
  then show ?case by simp
qed simp_all

section \<open>Query parameters\<close>

text \<open>\<open>parseInt(s, 10)\<close>: leading white space, a sign, then the longest run of digits.\<close>

definition is_space :: "char \<Rightarrow> bool" where
  "is_space c = (c \<in> set [CHR '' '', CHR 0x09, CHR 0x0A, CHR 0x0B, CHR 0x0C, CHR 0x0D])"

definition is_digit :: "char \<Rightarrow> bool" where
  "is_digit c = (48 \<le> (of_char c :: nat) \<and> (of_char c :: nat) \<le> 57)"

definition digits_value :: "string \<Rightarrow> nat" where
  "digits_value ds = foldl (\<lambda>n c. 10 * n + (of_char c - 48)) 0 ds"

definition parse_digits :: "rat \<Rightarrow> string \<Rightarrow> js_num" where
  "parse_digits sign s =
     (let ds = takeWhile is_digit s in
      if ds = [] then NaN else Fin (sign * to_double (of_nat (digits_value ds))))"

definition parseInt :: "string \<Rightarrow> js_num" where
  "parseInt s =
     (case dropWhile is_space s of
        [] \<Rightarrow> NaN
      | c # cs \<Rightarrow>
          if c = CHR ''-'' then parse_digits (- 1) cs
          else if c = CHR ''+'' then parse_digits 1 cs
          else parse_digits 1 (c # cs))"

text \<open>\<open>page ? parseInt(page, 10) : 1\<close>.\<close>

definition int_param :: "string option \<Rightarrow> rat \<Rightarrow> js_num" where
  "int_param s absent = (if str_truthy s then parseInt (the s) else Fin absent)"

section \<open>Results\<close>

definition js_text :: "string option \<Rightarrow> jsv" where
  "js_text s = (case s of None \<Rightarrow> JsNull | Some x \<Rightarrow> JsStr x)"

definition js_date :: "int option \<Rightarrow> jsv" where
  "js_date t = (case t of None \<Rightarrow> JsNull | Some x \<Rightarrow> JsDate x)"

definition js_nat :: "nat \<Rightarrow> jsv" where
  "js_nat n = JsNum (Fin (of_nat n))"

fun show_archived_reason :: "archived_reason \<Rightarrow> string" where
  "show_archived_reason CLOSED_BEFORE_COMPLETION = ''CLOSED_BEFORE_COMPLETION''"
| "show_archived_reason SUPERSEDED_BY_UPDATE = ''SUPERSEDED_BY_UPDATE''"
| "show_archived_reason MANUALLY_ARCHIVED = ''MANUALLY_ARCHIVED''"

fun show_trigger :: "rule_trigger \<Rightarrow> string" where
  "show_trigger INFLOW_RECEIVED = ''INFLOW_RECEIVED''"
| "show_trigger TIME_ELAPSED = ''TIME_ELAPSED''"
| "show_trigger TIER_CHANGED = ''TIER_CHANGED''"
| "show_trigger CUSTOM_EVENT = ''CUSTOM_EVENT''"

fun show_entry_type :: "bucket_entry_type \<Rightarrow> string" where
  "show_entry_type CREDIT = ''CREDIT''"
| "show_entry_type DEBIT = ''DEBIT''"

fun show_settlement_status :: "settlement_status \<Rightarrow> string" where
  "show_settlement_status StPENDING = ''PENDING''"
| "show_settlement_status StPROCESSING = ''PROCESSING''"
| "show_settlement_status StCOMPLETED = ''COMPLETED''"
| "show_settlement_status StFAILED = ''FAILED''"
| "show_settlement_status StCANCELLED = ''CANCELLED''"

text \<open>Rows as the client returns them: every column, in the order of the schema.\<close>

type_synonym updated_at = "string \<Rightarrow> int"

definition bucket_object :: "updated_at \<Rightarrow> treasuryBucket \<Rightarrow> (string \<times> jsv) list" where
  "bucket_object u b =
     [(''id'', JsStr (bkt_id b)), (''bucketRef'', JsStr (bkt_bucketRef b)), (''name'', JsStr (bkt_name b)),
      (''bucketType'', JsStr (show_bucket_type (bkt_bucketType b))),
      (''description'', js_text (bkt_description b)), (''status'', JsStr (show_status (bkt_status b))),
      (''businessId'', JsStr (bkt_businessId b)),
      (''settlementType'', js_text (map_option show_destination (bkt_settlementType b))),
      (''settlementAccountName'', js_text (bkt_settlementAccountName b)),
      (''settlementAccountNumber'', js_text (bkt_settlementAccountNumber b)),
      (''settlementBankCode'', js_text (bkt_settlementBankCode b)),
      (''closedAt'', js_date (bkt_closedAt b)), (''closedReason'', js_text (bkt_closedReason b)),
      (''createdAt'', JsDate (bkt_createdAt b)), (''updatedAt'', JsDate (u (bkt_id b)))]"

definition bucket_entry_object :: "bucketLedgerEntry \<Rightarrow> (string \<times> jsv) list" where
  "bucket_entry_object r =
     [(''id'', JsStr (ble_id r)), (''bucketId'', JsStr (ble_bucketId r)),
      (''entryType'', JsStr (show_entry_type (ble_entryType r))),
      (''amountKobo'', JsBigInt (ble_amountKobo r)),
      (''cumulativeAmountKobo'', JsBigInt (ble_cumulativeAmountKobo r)),
      (''reference'', JsStr (ble_reference r)),
      (''sourceLedgerEntryId'', js_text (ble_sourceLedgerEntryId r)),
      (''narration'', js_text (ble_narration r)), (''createdAt'', JsDate (ble_createdAt r))]"

definition settlement_object :: "settlement \<Rightarrow> (string \<times> jsv) list" where
  "settlement_object s =
     [(''id'', JsStr (stl_id s)), (''bucketId'', JsStr (stl_bucketId s)),
      (''businessId'', JsStr (stl_businessId s)), (''amountKobo'', JsBigInt (stl_amountKobo s)),
      (''currency'', JsStr ''NGN''), (''status'', JsStr (show_settlement_status (stl_status s))),
      (''destinationType'', JsStr (show_destination (stl_destinationType s))),
      (''destinationAccountName'', js_text (stl_destinationAccountName s)),
      (''destinationAccountNumber'', js_text (stl_destinationAccountNumber s)),
      (''destinationBankCode'', js_text (stl_destinationBankCode s)),
      (''destinationBucketRef'', js_text (stl_destinationBucketRef s)),
      (''nombaTransferReference'', js_text (stl_nombaTransferReference s)),
      (''failureReason'', js_text (stl_failureReason s)), (''initiatedBy'', JsStr (stl_initiatedBy s)),
      (''completedAt'', js_date (stl_completedAt s)), (''createdAt'', JsDate (stl_createdAt s))]"

definition account_object :: "updated_at \<Rightarrow> account \<Rightarrow> (string \<times> jsv) list" where
  "account_object u a =
     [(''id'', JsStr (acc_id a)), (''accountRef'', JsStr (acc_accountRef a)),
      (''nombaAccountId'', JsStr (acc_nombaAccountId a)), (''accountNumber'', JsStr (acc_accountNumber a)),
      (''bankName'', JsStr (acc_bankName a)), (''status'', JsStr (show_status (acc_status a))),
      (''executionModel'', JsStr (show_model (acc_executionModel a))),
      (''accountNameAtCreation'', JsStr (acc_accountNameAtCreation a)),
      (''accountType'', JsStr ''CUSTOMER_ACCOUNT''), (''description'', JsNull),
      (''customerId'', js_text (acc_customerId a)), (''businessId'', JsStr (acc_businessId a)),
      (''closedAt'', js_date (acc_closedAt a)), (''closedReason'', js_text (acc_closedReason a)),
      (''createdAt'', JsDate (acc_createdAt a)), (''updatedAt'', JsDate (u (acc_id a)))]"

definition rule_object :: "updated_at \<Rightarrow> rule \<Rightarrow> (string \<times> jsv) list" where
  "rule_object u r =
     [(''id'', JsStr (rul_id r)), (''accountId'', JsStr (rul_accountId r)),
      (''trigger'', JsStr (show_trigger (rul_trigger r))), (''condition'', of_json (rul_condition r)),
      (''action'', JsStr (show_rule_action (rul_action r))), (''payload'', of_json (rul_payload r)),
      (''priority'', JsNum (Fin (of_int (rul_priority r)))),
      (''status'', JsStr (show_rule_status (rul_status r))),
      (''kycTierAtCreation'', JsStr (show_tier (rul_kycTierAtCreation r))),
      (''archivedAt'', js_date (rul_archivedAt r)),
      (''archivedReason'', js_text (map_option show_archived_reason (rul_archivedReason r))),
      (''createdAt'', JsDate (rul_createdAt r)), (''updatedAt'', JsDate (u (rul_id r)))]"

definition customer_object :: "updated_at \<Rightarrow> customer \<Rightarrow> (string \<times> jsv) list" where
  "customer_object u c =
     [(''id'', JsStr (cus_id c)), (''displayName'', JsStr (cus_displayName c)),
      (''kycTier'', JsStr (show_tier (cus_kycTier c))), (''bvnRef'', js_text (cus_bvnRef c)),
      (''email'', js_text (cus_email c)), (''phone'', js_text (cus_phone c)),
      (''kycVerificationProvider'', js_text (cus_kycVerificationProvider c)),
      (''kycVerificationRef'', js_text (cus_kycVerificationRef c)),
      (''businessId'', JsStr (cus_businessId c)), (''parentId'', js_text (cus_parentId c)),
      (''createdAt'', JsDate (cus_createdAt c)), (''updatedAt'', JsDate (u (cus_id c)))]"

definition history_object :: "nameHistoryEntry \<Rightarrow> (string \<times> jsv) list" where
  "history_object h =
     [(''id'', JsStr (nh_id h)), (''customerId'', JsStr (nh_customerId h)),
      (''previousName'', JsStr (nh_previousName h)), (''newName'', JsStr (nh_newName h)),
      (''reason'', js_text (nh_reason h)), (''changedBy'', JsStr (nh_changedBy h)),
      (''changedAt'', JsDate (nh_changedAt h))]"

definition ledger_object :: "ledgerEntry \<Rightarrow> (string \<times> jsv) list" where
  "ledger_object r =
     [(''id'', JsStr (led_id r)), (''accountId'', JsStr (led_accountId r)),
      (''nombaTransactionRef'', JsStr (led_nombaTransactionRef r)),
      (''nombaEventId'', JsStr (led_nombaEventId r)),
      (''direction'', JsStr (show_direction (led_direction r))),
      (''amountKobo'', JsBigInt (led_amountKobo r)), (''currency'', JsStr (led_currency r)),
      (''senderName'', js_text (led_senderName r)),
      (''senderAccountNumber'', js_text (led_senderAccountNumber r)),
      (''senderBankCode'', js_text (led_senderBankCode r)), (''narration'', js_text (led_narration r)),
      (''customerNameSnapshot'', JsStr (led_customerNameSnapshot r)),
      (''kycTierAtTime'', JsStr (show_tier (led_kycTierAtTime r))),
      (''cumulativeAmountKobo'', JsBigInt (led_cumulativeAmountKobo r)),
      (''reconciliationStatus'', JsStr (show_reconciliation (led_reconciliationStatus r))),
      (''receivedAt'', JsDate (led_receivedAt r)), (''createdAt'', JsDate (led_createdAt r))]"

text \<open>What the service methods return.\<close>

definition meta_value :: "string \<Rightarrow> page_meta \<Rightarrow> jsv" where
  "meta_value pages m = JsObj
     [(''total'', js_nat (pm_total m)), (''page'', JsNum (pm_page m)), (''limit'', JsNum (pm_limit m)),
      (pages, JsNum (pm_totalPages m))]"

definition paged_value :: "string \<Rightarrow> ('r \<Rightarrow> (string \<times> jsv) list) \<Rightarrow> 'r list \<times> page_meta \<Rightarrow> jsv" where
  "paged_value pages f r = JsObj
     [(''data'', JsArr (map (\<lambda>x. JsObj (f x)) (fst r))), (''meta'', meta_value pages (snd r))]"

definition cursor_value :: "('r \<Rightarrow> (string \<times> jsv) list) \<Rightarrow> 'r list \<times> string option \<Rightarrow> jsv" where
  "cursor_value f r = JsObj
     [(''data'', JsArr (map (\<lambda>x. JsObj (f x)) (fst r))), (''nextCursor'', js_text (snd r))]"

definition balance_fields :: "bucketBalance \<Rightarrow> (string \<times> jsv) list" where
  "balance_fields b =
     [(''balanceKobo'', JsBigInt (bb_balanceKobo b)), (''availableKobo'', JsBigInt (bb_availableKobo b)),
      (''reservedKobo'', JsBigInt (bb_reservedKobo b))]"

definition transfer_value :: "rat \<Rightarrow> transferOutcome \<Rightarrow> jsv" where
  "transfer_value amountKobo r = JsObj
     [(''reference'', JsStr (to_reference r)), (''amountKobo'', JsNum (Fin amountKobo)),
      (''sourceBalanceKobo'', JsBigInt (to_sourceBalance r)),
      (''destinationBalanceKobo'', JsBigInt (to_destinationBalance r)), (''status'', JsStr ''COMPLETED'')]"

definition settlement_value :: "settlementResult \<Rightarrow> jsv" where
  "settlement_value r = JsObj
     [(''settlementId'', JsStr (sr_settlementId r)), (''amountKobo'', JsNum (Fin (sr_amountKobo r))),
      (''status'', JsStr (sr_status r))]"

definition rules_field :: "updated_at \<Rightarrow> rule list \<Rightarrow> string \<times> jsv" where
  "rules_field u rs = (''rules'', JsArr (map (\<lambda>r. JsObj (rule_object u r)) rs))"

definition history_field :: "nameHistoryEntry list \<Rightarrow> string \<times> jsv" where
  "history_field hs = (''nameHistory'', JsArr (map (\<lambda>h. JsObj (history_object h)) hs))"

definition account_item_object :: "updated_at \<Rightarrow> accountListItem \<Rightarrow> (string \<times> jsv) list" where
  "account_item_object u x = account_object u (ali_account x) @
     [(''customer'', case ali_customer x of None \<Rightarrow> JsNull | Some c \<Rightarrow> JsObj
         [(''id'', JsStr (cus_id c)), (''displayName'', JsStr (cus_displayName c)),
          (''kycTier'', JsStr (show_tier (cus_kycTier c)))]),
      rules_field u (ali_rules x),
      (''_count'', JsObj [(''ledgerEntries'', js_nat (ali_ledgerEntries x))])]"

definition summary_value :: "ledgerSummary \<Rightarrow> jsv" where
  "summary_value s = JsObj
     [(''totalInflows'', js_nat (sum_totalInflows s)), (''totalAmountKobo'', JsBigInt (sum_totalAmountKobo s)),
      (''lastInflowAt'', js_date (sum_lastInflowAt s)),
      (''reconciliationBreakdown'', JsObj (List.map_filter
         (\<lambda>st. map_option (\<lambda>n. (show_reconciliation st, js_nat n)) (sum_reconciliationBreakdown s st))
         [RecPENDING, MATCHED, UNMATCHED, FLAGGED]))]"

definition state_value :: "updated_at \<Rightarrow> accountState \<Rightarrow> jsv" where
  "state_value u x = JsObj (account_object u (ast_account x) @
     [(''customer'', case ast_customer x of None \<Rightarrow> JsNull | Some c \<Rightarrow> JsObj
         [(''id'', JsStr (cus_id c)), (''displayName'', JsStr (cus_displayName c)),
          (''email'', js_text (cus_email c)), (''phone'', js_text (cus_phone c)),
          (''kycTier'', JsStr (show_tier (cus_kycTier c)))]),
      rules_field u (ast_rules x), (''ledgerSummary'', summary_value (ast_ledgerSummary x))])"

definition customer_item_object :: "updated_at \<Rightarrow> customerListItem \<Rightarrow> (string \<times> jsv) list" where
  "customer_item_object u x =
     (let c = cli_customer x in
      [(''id'', JsStr (cus_id c)), (''displayName'', JsStr (cus_displayName c)),
       (''kycTier'', JsStr (show_tier (cus_kycTier c))), (''email'', js_text (cus_email c)),
       (''phone'', js_text (cus_phone c)), (''createdAt'', JsDate (cus_createdAt c)),
       (''updatedAt'', JsDate (u (cus_id c))),
       (''_count'', JsObj [(''accounts'', js_nat (cli_accounts x))])])"

definition tier_value :: "updateKycTierResult \<Rightarrow> jsv" where
  "tier_value r = JsObj
     [(''customerId'', JsStr (ur_customerId r)), (''previousTier'', JsStr (show_tier (ur_previousTier r))),
      (''newTier'', JsStr (show_tier (ur_newTier r))),
      (''flaggedRuleIds'', JsArr (map JsStr (ur_flaggedRuleIds r)))]"

definition ruleSet_value :: "replaceResult \<Rightarrow> jsv" where
  "ruleSet_value x = JsObj
     [(''accountRef'', JsStr (rp_accountRef x)), (''executionModel'', JsStr (show_model (rp_executionModel x))),
      (''rules'', JsArr (map (\<lambda>r. JsObj
         [(''id'', JsStr (rul_id r)), (''trigger'', JsStr (show_trigger (rul_trigger r))),
          (''condition'', of_json (rul_condition r)), (''action'', JsStr (show_rule_action (rul_action r))),
          (''payload'', of_json (rul_payload r)), (''priority'', JsNum (Fin (of_int (rul_priority r)))),
          (''status'', JsStr (show_rule_status (rul_status r))),
          (''kycTierAtCreation'', JsStr (show_tier (rul_kycTierAtCreation r)))]) (rp_rules x)))]"

definition rule_status_value :: "string \<times> rule_status \<Rightarrow> jsv" where
  "rule_status_value r = JsObj
     [(''ruleId'', JsStr (fst r)), (''status'', JsStr (show_rule_status (snd r)))]"

definition apiKey_item_value :: "apiKeyListItem \<Rightarrow> jsv" where
  "apiKey_item_value k = JsObj
     [(''id'', JsStr (kl_id k)), (''prefix'', JsStr (kl_prefix k)), (''name'', JsStr (kl_name k)),
      (''lastUsedAt'', js_date (kl_lastUsedAt k)), (''createdAt'', JsDate (kl_createdAt k)),
      (''revokedAt'', js_date (kl_revokedAt k))]"

definition profile_value :: "updated_at \<Rightarrow> businessProfile \<Rightarrow> jsv" where
  "profile_value u b = JsObj
     [(''id'', JsStr (bp_id b)), (''name'', JsStr (bp_name b)), (''email'', JsStr (bp_email b)),
      (''webhookUrl'', js_text (bp_webhookUrl b)), (''nombaAccountId'', js_text (bp_nombaAccountId b)),
      (''nombaSubAccountId'', js_text (bp_nombaSubAccountId b)),
      (''nombaClientId'', js_text (bp_nombaClientId b)),
      (''nombaClientSecretSet'', JsBool (bp_nombaClientSecretSet b)),
      (''nombaWebhookSecretSet'', JsBool (bp_nombaWebhookSecretSet b)),
      (''hasNombaCredentials'', JsBool (bp_hasNombaCredentials b)),
      (''createdAt'', JsDate (bp_createdAt b)), (''updatedAt'', JsDate (u (bp_id b)))]"

definition received_value :: jsv where
  "received_value = JsObj [(''received'', JsBool True)]"

end
