(* ===== verification/Dto_Validation.thy ===== *)
theory Dto_Validation
  imports Http_Values
begin

text \<open>
  The request bodies (\<open>dto/*.ts\<close>): each DTO class as its table of decorated properties, the global
  ValidationPipe of \<open>src/main.ts\<close> (\<open>whitelist\<close>, \<open>forbidNonWhitelisted\<close>) over these tables, and the reading
  of a validated body as the record its service takes. What a decorator of class-validator accepts is an
  argument; the locale \<open>class_validator\<close> states the documented behaviour of the decorators that the readers
  rely on. A body is a JSON object, or absent.
\<close>

section \<open>Decorators and the server's surroundings\<close>

datatype decorator =
    IsOptional | IsString | IsNotEmpty | IsEmail | IsPhoneNumber | IsUrl | IsDateString
  | IsNumber | IsBoolean | IsArray | Min rat | MinLength nat | MaxLength nat | ArrayMinSize nat
  | IsEnum "string list" | IsIn "string list" | Matches string | TypeNumber

type_synonym properties = "(string \<times> decorator list) list"
type_synonym body = "(string \<times> json) list"

text \<open>A class: its properties, and the class of the elements of its \<open>ValidateNested\<close> arrays.\<close>

record dto_class =
  cl_properties :: properties
  cl_nested :: "(string \<times> properties) list"

text \<open>
  What surrounds the handlers and is not in the repository or not in the tables: class-validator and its
  messages, the throttler (by route and effect number), the \<open>updatedAt\<close> columns, Redis, and the configuration
  the controllers read.
\<close>

record server =
  srv_accepts :: "decorator \<Rightarrow> jsv \<Rightarrow> bool"
  srv_messages :: "dto_class \<Rightarrow> body \<Rightarrow> string list"
  srv_throttled :: "string \<Rightarrow> nat \<Rightarrow> bool"
  srv_updatedAt :: updated_at
  srv_redis_ping :: "nat \<Rightarrow> bool"
  srv_demo_mode :: bool
  srv_version :: string

section \<open>The validation pipe\<close>

text \<open>The value of a property after class-transformer: \<open>@Type(() => Number)\<close> converts what is there.\<close>

definition property_value :: "env \<Rightarrow> decorator list \<Rightarrow> json option \<Rightarrow> jsv" where
  "property_value e ds x =
     (case x of
        None \<Rightarrow> JsUndefined
      | Some JNull \<Rightarrow> JsNull
      | Some j \<Rightarrow> if TypeNumber \<in> set ds then JsNum (to_number e j) else of_json j)"

definition property_ok :: "server \<Rightarrow> decorator list \<Rightarrow> jsv \<Rightarrow> bool" where
  "property_ok srv ds v =
     (IsOptional \<in> set ds \<and> (v = JsUndefined \<or> v = JsNull) \<or>
      (\<forall>d \<in> set ds. d = IsOptional \<or> d = TypeNumber \<or> srv_accepts srv d v))"

definition valid_properties :: "env \<Rightarrow> server \<Rightarrow> properties \<Rightarrow> body \<Rightarrow> bool" where
  "valid_properties e srv ps b =
     (set (map fst b) \<subseteq> set (map fst ps) \<and>
      (\<forall>(k, ds) \<in> set ps. property_ok srv ds (property_value e ds (map_of b k))))"

text \<open>
  \<open>ValidateNested\<close>: what is absent or null is skipped, an object is validated against the class, an array (of any
  depth) element by element, and any other value is refused.
\<close>

fun valid_element :: "env \<Rightarrow> server \<Rightarrow> properties \<Rightarrow> json \<Rightarrow> bool" where
  "valid_element e srv ps JNull = True"
| "valid_element e srv ps (JObj kvs) = valid_properties e srv ps kvs"
| "valid_element e srv ps (JArr xs) = list_all (valid_element e srv ps) xs"
| "valid_element e srv ps _ = False"

definition valid_elements :: "env \<Rightarrow> server \<Rightarrow> properties \<Rightarrow> json option \<Rightarrow> bool" where
  "valid_elements e srv ps x = (case x of None \<Rightarrow> True | Some j \<Rightarrow> valid_element e srv ps j)"

definition valid_body :: "env \<Rightarrow> server \<Rightarrow> dto_class \<Rightarrow> body \<Rightarrow> bool" where
  "valid_body e srv c b =
     (valid_properties e srv (cl_properties c) b \<and>
      (\<forall>(k, ps) \<in> set (cl_nested c). valid_elements e srv ps (map_of b k)))"

definition validation_error :: "server \<Rightarrow> dto_class \<Rightarrow> body \<Rightarrow> exn" where
  "validation_error srv c b = BadRequest VALIDATION_ERROR (join ''; '' (srv_messages srv c b))"

text \<open>The pipe and the reading of the body; a body that does not have the declared types does not pass.\<close>

definition ValidationPipe :: "env \<Rightarrow> server \<Rightarrow> dto_class \<Rightarrow> (body \<Rightarrow> 'a option) \<Rightarrow> body \<Rightarrow> 'a act" where
  "ValidationPipe e srv c read b =
     (if valid_body e srv c b
      then (case read b of None \<Rightarrow> throw (validation_error srv c b) | Some dto \<Rightarrow> ret dto)
      else throw (validation_error srv c b))"

section \<open>The classes\<close>

definition kycTiers :: "string list" where
  "kycTiers = map show_tier [TIER_0, TIER_1, TIER_2, TIER_3]"

definition accountStatuses :: "string list" where
  "accountStatuses = map show_status [ACTIVE, SUSPENDED, EXPIRED, CLOSED]"

definition executionModels :: "string list" where
  "executionModels = map show_model [SEQUENTIAL, PARALLEL]"

definition bucketTypes :: "string list" where
  "bucketTypes = map show_bucket_type [PAYROLL, TAX_RESERVE, OPERATIONS, MARKETING, SAVINGS, CUSTOM]"

definition settlementDestinations :: "string list" where
  "settlementDestinations = map show_destination [BANK_ACCOUNT, NOMBA_ACCOUNT, INTERNAL_BUCKET, WEBHOOK]"

definition reconciliationStatuses :: "string list" where
  "reconciliationStatuses = map show_reconciliation [RecPENDING, MATCHED, UNMATCHED, FLAGGED]"

definition KYC_TIER_REASON_VALUES :: "string list" where
  "KYC_TIER_REASON_VALUES =
     [''BVN_VERIFIED'', ''NIN_VERIFIED'', ''ADDRESS_VERIFIED'', ''BUSINESS_VERIFIED'', ''ENHANCED_DUE_DILIGENCE'',
      ''TIER_DOWNGRADED'', ''MANUAL_COMPLIANCE_REVIEW'']"

definition plain_class :: "properties \<Rightarrow> dto_class" where
  "plain_class ps = \<lparr>cl_properties = ps, cl_nested = []\<rparr>"

definition CreateBucketDto :: dto_class where
  "CreateBucketDto = plain_class
     [(''bucketRef'', [IsString, IsNotEmpty, MinLength 1, MaxLength 100]),
      (''name'', [IsString, IsNotEmpty, MinLength 1, MaxLength 200]),
      (''bucketType'', [IsEnum bucketTypes, IsNotEmpty]),
      (''description'', [IsString, IsOptional, MaxLength 500]),
      (''settlementType'', [IsEnum settlementDestinations, IsOptional]),
      (''settlementAccountName'', [IsString, IsOptional, MaxLength 200]),
      (''settlementAccountNumber'', [IsString, IsOptional, MaxLength 20]),
      (''settlementBankCode'', [IsString, IsOptional, MaxLength 10])]"

definition RenameBucketDto :: dto_class where
  "RenameBucketDto = plain_class [(''name'', [IsString, IsNotEmpty, MinLength 1, MaxLength 200])]"

definition TransferBucketDto :: dto_class where
  "TransferBucketDto = plain_class
     [(''destinationBucketRef'', [IsString, IsNotEmpty, MaxLength 100]),
      (''amountKobo'', [IsNumber, Min 1]),
      (''narration'', [IsString, IsNotEmpty, MaxLength 500])]"

definition WithdrawDto :: dto_class where
  "WithdrawDto = plain_class
     [(''amountKobo'', [IsNumber, Min 1]),
      (''narration'', [IsString, IsNotEmpty]),
      (''destinationAccountNumber'', [IsString, IsOptional, MaxLength 20]),
      (''destinationBankCode'', [IsString, IsOptional, MaxLength 10]),
      (''destinationAccountName'', [IsString, IsOptional, MaxLength 200]),
      (''destinationType'', [IsString, IsOptional])]"

definition CreateCustomerDto :: dto_class where
  "CreateCustomerDto = plain_class
     [(''displayName'', [IsString, IsNotEmpty]),
      (''bvnRef'', [IsString, Matches ''^sha256:[a-f0-9]{64}$'', IsOptional]),
      (''kycVerificationProvider'', [IsString, IsOptional]),
      (''kycVerificationRef'', [IsString, IsOptional]),
      (''email'', [IsEmail, IsOptional]),
      (''phone'', [IsPhoneNumber, IsOptional]),
      (''parentId'', [IsString, IsOptional])]"

definition RenameCustomerDto :: dto_class where
  "RenameCustomerDto = plain_class
     [(''newName'', [IsString, IsNotEmpty]), (''reason'', [IsString, IsOptional])]"

definition UpdateKycTierDto :: dto_class where
  "UpdateKycTierDto = plain_class
     [(''kycTier'', [IsEnum kycTiers, IsNotEmpty]),
      (''verificationProvider'', [IsString, IsOptional]),
      (''verificationRef'', [IsString, IsOptional]),
      (''reason'', [IsIn KYC_TIER_REASON_VALUES, IsOptional])]"

definition credentials_properties :: properties where
  "credentials_properties =
     [(''nombaAccountId'', [IsString, IsOptional]), (''nombaSubAccountId'', [IsString, IsOptional]),
      (''nombaClientId'', [IsString, IsOptional]), (''nombaClientSecret'', [IsString, IsOptional]),
      (''nombaWebhookSecret'', [IsString, IsOptional]), (''webhookUrl'', [IsUrl, IsOptional])]"

definition RegisterBusinessDto :: dto_class where
  "RegisterBusinessDto = plain_class
     ([(''name'', [IsString, IsNotEmpty]), (''email'', [IsEmail])] @ credentials_properties)"

definition UpdateBusinessCredentialsDto :: dto_class where
  "UpdateBusinessCredentialsDto = plain_class credentials_properties"

definition CreateApiKeyDto :: dto_class where
  "CreateApiKeyDto = plain_class
     [(''businessId'', [IsString, IsNotEmpty]), (''name'', [IsString, IsNotEmpty]),
      (''expiresAt'', [IsDateString, IsOptional])]"

definition CustomEventDto :: dto_class where
  "CustomEventDto = plain_class
     [(''eventId'', [IsString, IsNotEmpty]), (''eventName'', [IsString, IsNotEmpty])]"

definition LedgerFiltersDto :: dto_class where
  "LedgerFiltersDto = plain_class
     [(''from'', [IsOptional, IsString]), (''to'', [IsOptional, IsString]),
      (''reconciliationStatus'', [IsOptional, IsEnum reconciliationStatuses]),
      (''cursor'', [IsOptional, IsString]), (''limit'', [IsOptional, IsNumber, TypeNumber])]"

definition RuleDefinition :: properties where
  "RuleDefinition =
     [(''trigger'', [IsString, IsNotEmpty]), (''condition'', [IsNotEmpty]),
      (''action'', [IsString, IsNotEmpty]), (''payload'', [IsOptional]), (''priority'', [IsOptional])]"

definition ReplaceRuleSetDto :: dto_class where
  "ReplaceRuleSetDto =
     \<lparr>cl_properties =
        [(''executionModel'', [IsEnum executionModels, IsOptional]), (''rules'', [IsArray, ArrayMinSize 1])],
      cl_nested = [(''rules'', RuleDefinition)]\<rparr>"

definition ToggleRuleDto :: dto_class where
  "ToggleRuleDto = plain_class [(''enabled'', [IsBoolean])]"

definition ProvisionAccountDto :: dto_class where
  "ProvisionAccountDto =
     \<lparr>cl_properties =
        [(''customerId'', [IsString, IsNotEmpty]), (''accountRef'', [IsString, IsNotEmpty]),
         (''accountName'', [IsString, IsNotEmpty]), (''executionModel'', [IsEnum executionModels, IsOptional]),
         (''rules'', [IsArray, ArrayMinSize 1])],
      cl_nested = [(''rules'', RuleDefinition)]\<rparr>"

definition UpdateStatusDto :: dto_class where
  "UpdateStatusDto = plain_class
     [(''status'', [IsEnum accountStatuses, IsNotEmpty]), (''reason'', [IsString, IsNotEmpty])]"

definition SimulateInflowDto :: dto_class where
  "SimulateInflowDto = plain_class
     [(''accountNumber'', [IsString, IsNotEmpty]), (''amountKobo'', [IsNumber, Min 1, TypeNumber]),
      (''senderName'', [IsString, IsOptional]), (''senderAccountNumber'', [IsString, IsOptional]),
      (''senderBankCode'', [IsString, IsOptional]), (''narration'', [IsString, IsOptional])]"

section \<open>Reading a body\<close>

definition text_of :: "body \<Rightarrow> string \<Rightarrow> string option" where
  "text_of b k = (case map_of b k of Some (JStr s) \<Rightarrow> Some s | _ \<Rightarrow> None)"

definition opt_text_of :: "body \<Rightarrow> string \<Rightarrow> string option option" where
  "opt_text_of b k =
     (case map_of b k of
        None \<Rightarrow> Some None | Some JNull \<Rightarrow> Some None | Some (JStr s) \<Rightarrow> Some (Some s) | _ \<Rightarrow> None)"

definition nullable_of :: "body \<Rightarrow> string \<Rightarrow> nullable option" where
  "nullable_of b k =
     (case map_of b k of
        None \<Rightarrow> Some None | Some JNull \<Rightarrow> Some (Some None) | Some (JStr s) \<Rightarrow> Some (Some (Some s)) | _ \<Rightarrow> None)"

definition enum_of :: "(string \<Rightarrow> 'a option) \<Rightarrow> body \<Rightarrow> string \<Rightarrow> 'a option" where
  "enum_of parse b k = Option.bind (text_of b k) parse"

definition opt_enum_of :: "(string \<Rightarrow> 'a option) \<Rightarrow> body \<Rightarrow> string \<Rightarrow> 'a option option" where
  "opt_enum_of parse b k =
     (case opt_text_of b k of
        None \<Rightarrow> None | Some None \<Rightarrow> Some None | Some (Some s) \<Rightarrow> map_option Some (parse s))"

definition num_of :: "env \<Rightarrow> decorator list \<Rightarrow> body \<Rightarrow> string \<Rightarrow> rat option" where
  "num_of e ds b k =
     (case property_value e ds (map_of b k) of JsNum (Fin x) \<Rightarrow> Some x | _ \<Rightarrow> None)"

definition opt_num_of :: "env \<Rightarrow> decorator list \<Rightarrow> body \<Rightarrow> string \<Rightarrow> js_num option option" where
  "opt_num_of e ds b k =
     (case property_value e ds (map_of b k) of
        JsUndefined \<Rightarrow> Some None | JsNull \<Rightarrow> Some None | JsNum n \<Rightarrow> Some (Some n) | _ \<Rightarrow> None)"

definition bool_of :: "body \<Rightarrow> string \<Rightarrow> bool option" where
  "bool_of b k = (case map_of b k of Some (JBool x) \<Rightarrow> Some x | _ \<Rightarrow> None)"

text \<open>An enum by its members.\<close>

definition parse_enum :: "('a \<Rightarrow> string) \<Rightarrow> 'a list \<Rightarrow> string \<Rightarrow> 'a option" where
  "parse_enum sh xs s = find (\<lambda>x. sh x = s) xs"

definition read_bucket :: "body \<Rightarrow> createBucketDto option" where
  "read_bucket b =
     Option.bind (text_of b ''bucketRef'') (\<lambda>bucketRef.
     Option.bind (text_of b ''name'') (\<lambda>name.
     Option.bind (enum_of (parse_enum show_bucket_type
       [PAYROLL, TAX_RESERVE, OPERATIONS, MARKETING, SAVINGS, CUSTOM]) b ''bucketType'') (\<lambda>bucketType.
     Option.bind (opt_text_of b ''description'') (\<lambda>description.
     Option.bind (opt_enum_of (parse_enum show_destination
       [BANK_ACCOUNT, NOMBA_ACCOUNT, INTERNAL_BUCKET, WEBHOOK]) b ''settlementType'') (\<lambda>settlementType.
     Option.bind (opt_text_of b ''settlementAccountName'') (\<lambda>accountName.
     Option.bind (opt_text_of b ''settlementAccountNumber'') (\<lambda>accountNumber.
     Option.bind (opt_text_of b ''settlementBankCode'') (\<lambda>bankCode.
     Some \<lparr>cb_bucketRef = bucketRef, cb_name = name, cb_bucketType = bucketType,
       cb_description = description, cb_settlementType = settlementType,
       cb_settlementAccountName = accountName, cb_settlementAccountNumber = accountNumber,
       cb_settlementBankCode = bankCode\<rparr>))))))))"

definition read_bucket_name :: "body \<Rightarrow> string option" where
  "read_bucket_name b = text_of b ''name''"

definition read_transfer :: "env \<Rightarrow> body \<Rightarrow> transferBucketDto option" where
  "read_transfer e b =
     Option.bind (text_of b ''destinationBucketRef'') (\<lambda>destinationBucketRef.
     Option.bind (num_of e [IsNumber, Min 1] b ''amountKobo'') (\<lambda>amountKobo.
     Option.bind (text_of b ''narration'') (\<lambda>narration.
     Some \<lparr>tb_destinationBucketRef = destinationBucketRef, tb_amountKobo = amountKobo,
       tb_narration = narration\<rparr>)))"

text \<open>The settlement the withdraw route asks for: \<open>{ ...dto, destinationType: dto.destinationType ?? 'BANK_ACCOUNT' }\<close>.\<close>

definition read_withdraw :: "env \<Rightarrow> body \<Rightarrow> createSettlementDto option" where
  "read_withdraw e b =
     Option.bind (num_of e [IsNumber, Min 1] b ''amountKobo'') (\<lambda>amountKobo.
     Option.bind (text_of b ''narration'') (\<lambda>narration.
     Option.bind (opt_text_of b ''destinationAccountNumber'') (\<lambda>accountNumber.
     Option.bind (opt_text_of b ''destinationBankCode'') (\<lambda>bankCode.
     Option.bind (opt_text_of b ''destinationAccountName'') (\<lambda>accountName.
     Option.bind (opt_text_of b ''destinationType'') (\<lambda>destinationType.
     Some \<lparr>cs_amountKobo = amountKobo, cs_destinationType = Some (getOr destinationType ''BANK_ACCOUNT''),
       cs_destinationAccountName = accountName, cs_destinationAccountNumber = accountNumber,
       cs_destinationBankCode = bankCode, cs_destinationBucketRef = None, cs_narration = Some narration\<rparr>))))))"

definition read_customer :: "body \<Rightarrow> createCustomerDto option" where
  "read_customer b =
     Option.bind (text_of b ''displayName'') (\<lambda>displayName.
     Option.bind (opt_text_of b ''bvnRef'') (\<lambda>bvnRef.
     Option.bind (opt_text_of b ''kycVerificationProvider'') (\<lambda>provider.
     Option.bind (opt_text_of b ''kycVerificationRef'') (\<lambda>ref.
     Option.bind (opt_text_of b ''email'') (\<lambda>email.
     Option.bind (opt_text_of b ''phone'') (\<lambda>phone.
     Option.bind (opt_text_of b ''parentId'') (\<lambda>parentId.
     Some \<lparr>cc_displayName = displayName, cc_bvnRef = bvnRef, cc_kycVerificationProvider = provider,
       cc_kycVerificationRef = ref, cc_email = email, cc_phone = phone, cc_parentId = parentId\<rparr>)))))))"

definition read_rename :: "body \<Rightarrow> renameCustomerDto option" where
  "read_rename b =
     Option.bind (text_of b ''newName'') (\<lambda>newName.
     Option.bind (opt_text_of b ''reason'') (\<lambda>reason.
     Some \<lparr>rn_newName = newName, rn_reason = reason\<rparr>))"

definition read_tier :: "body \<Rightarrow> updateKycTierDto option" where
  "read_tier b =
     Option.bind (enum_of (parse_enum show_tier [TIER_0, TIER_1, TIER_2, TIER_3]) b ''kycTier'') (\<lambda>kycTier.
     Option.bind (opt_text_of b ''verificationProvider'') (\<lambda>provider.
     Option.bind (opt_text_of b ''verificationRef'') (\<lambda>ref.
     Option.bind (opt_text_of b ''reason'') (\<lambda>reason.
     Some \<lparr>ut_kycTier = kycTier, ut_verificationProvider = provider, ut_verificationRef = ref,
       ut_reason = reason\<rparr>))))"

definition read_credentials :: "body \<Rightarrow> credentialsDto option" where
  "read_credentials b =
     Option.bind (nullable_of b ''nombaAccountId'') (\<lambda>accountId.
     Option.bind (nullable_of b ''nombaSubAccountId'') (\<lambda>subAccountId.
     Option.bind (nullable_of b ''nombaClientId'') (\<lambda>clientId.
     Option.bind (nullable_of b ''nombaClientSecret'') (\<lambda>clientSecret.
     Option.bind (nullable_of b ''nombaWebhookSecret'') (\<lambda>webhookSecret.
     Option.bind (nullable_of b ''webhookUrl'') (\<lambda>webhookUrl.
     Some \<lparr>cd_nombaAccountId = accountId, cd_nombaSubAccountId = subAccountId, cd_nombaClientId = clientId,
       cd_nombaClientSecret = clientSecret, cd_nombaWebhookSecret = webhookSecret,
       cd_webhookUrl = webhookUrl\<rparr>))))))"

definition read_business :: "body \<Rightarrow> registerBusinessDto option" where
  "read_business b =
     Option.bind (text_of b ''name'') (\<lambda>name.
     Option.bind (text_of b ''email'') (\<lambda>email.
     Option.bind (read_credentials b) (\<lambda>c.
     Some (credentialsDto.extend c \<lparr>rb_name = name, rb_email = email\<rparr>))))"

definition read_api_key :: "body \<Rightarrow> createApiKeyDto option" where
  "read_api_key b =
     Option.bind (text_of b ''businessId'') (\<lambda>businessId.
     Option.bind (text_of b ''name'') (\<lambda>name.
     Option.bind (opt_text_of b ''expiresAt'') (\<lambda>expiresAt.
     Some \<lparr>ck_businessId = businessId, ck_name = name, ck_expiresAt = expiresAt\<rparr>)))"

definition read_event :: "body \<Rightarrow> (string \<times> string) option" where
  "read_event b =
     Option.bind (text_of b ''eventId'') (\<lambda>eventId.
     Option.bind (text_of b ''eventName'') (\<lambda>eventName. Some (eventId, eventName)))"

definition read_filters :: "env \<Rightarrow> body \<Rightarrow> ledgerFilters option" where
  "read_filters e b =
     Option.bind (opt_text_of b ''from'') (\<lambda>lo.
     Option.bind (opt_text_of b ''to'') (\<lambda>hi.
     Option.bind (opt_enum_of (parse_enum show_reconciliation [RecPENDING, MATCHED, UNMATCHED, FLAGGED])
       b ''reconciliationStatus'') (\<lambda>status.
     Option.bind (opt_text_of b ''cursor'') (\<lambda>cursor.
     Option.bind (opt_num_of e [IsOptional, IsNumber, TypeNumber] b ''limit'') (\<lambda>limit.
     Some \<lparr>lf_from = lo, lf_to = hi, lf_reconciliationStatus = status, lf_cursor = cursor,
       lf_limit = limit\<rparr>)))))"

definition read_rule :: "json \<Rightarrow> ruleDefinition option" where
  "read_rule j =
     (case j of
        JObj b \<Rightarrow>
          Option.bind (text_of b ''trigger'') (\<lambda>trigger.
          Option.bind (map_of b ''condition'') (\<lambda>condition.
          Option.bind (text_of b ''action'') (\<lambda>action.
          Some \<lparr>rd_trigger = trigger, rd_condition = condition, rd_action = action,
            rd_payload = map_of b ''payload'', rd_priority = map_of b ''priority''\<rparr>)))
      | _ \<Rightarrow> None)"

definition read_element :: "json \<Rightarrow> ruleElement option" where
  "read_element j =
     (case j of
        JNull \<Rightarrow> Some NullRule
      | JArr xs \<Rightarrow> Some (RuleArray xs)
      | _ \<Rightarrow> map_option Rule (read_rule j))"

definition read_rules :: "body \<Rightarrow> ruleElement list option" where
  "read_rules b =
     (case map_of b ''rules'' of
        Some (JArr xs) \<Rightarrow> those (map read_element xs)
      | _ \<Rightarrow> None)"

definition opt_model_of :: "body \<Rightarrow> execution_model option option" where
  "opt_model_of b = opt_enum_of (parse_enum show_model [SEQUENTIAL, PARALLEL]) b ''executionModel''"

definition read_rule_set :: "body \<Rightarrow> replaceRuleSetDto option" where
  "read_rule_set b =
     Option.bind (opt_model_of b) (\<lambda>executionModel.
     Option.bind (read_rules b) (\<lambda>rules.
     Some \<lparr>rr_executionModel = executionModel, rr_rules = rules\<rparr>))"

definition read_toggle :: "body \<Rightarrow> bool option" where
  "read_toggle b = bool_of b ''enabled''"

definition read_account :: "body \<Rightarrow> provisionAccountDto option" where
  "read_account b =
     Option.bind (text_of b ''customerId'') (\<lambda>customerId.
     Option.bind (text_of b ''accountRef'') (\<lambda>accountRef.
     Option.bind (text_of b ''accountName'') (\<lambda>accountName.
     Option.bind (opt_model_of b) (\<lambda>executionModel.
     Option.bind (read_rules b) (\<lambda>rules.
     Some \<lparr>pa_customerId = customerId, pa_accountRef = accountRef, pa_accountName = accountName,
       pa_executionModel = executionModel, pa_rules = rules\<rparr>)))))"

definition read_status :: "body \<Rightarrow> updateStatusDto option" where
  "read_status b =
     Option.bind (enum_of (parse_enum show_status [ACTIVE, SUSPENDED, EXPIRED, CLOSED]) b ''status'') (\<lambda>status.
     Option.bind (text_of b ''reason'') (\<lambda>reason.
     Some \<lparr>us_status = status, us_reason = reason\<rparr>))"

record simulateInflowDto =
  si_accountNumber :: string
  si_amountKobo :: rat
  si_senderName :: "string option"
  si_senderAccountNumber :: "string option"
  si_senderBankCode :: "string option"
  si_narration :: "string option"

definition read_simulation :: "env \<Rightarrow> body \<Rightarrow> simulateInflowDto option" where
  "read_simulation e b =
     Option.bind (text_of b ''accountNumber'') (\<lambda>accountNumber.
     Option.bind (num_of e [IsNumber, Min 1, TypeNumber] b ''amountKobo'') (\<lambda>amountKobo.
     Option.bind (opt_text_of b ''senderName'') (\<lambda>senderName.
     Option.bind (opt_text_of b ''senderAccountNumber'') (\<lambda>senderAccountNumber.
     Option.bind (opt_text_of b ''senderBankCode'') (\<lambda>senderBankCode.
     Option.bind (opt_text_of b ''narration'') (\<lambda>narration.
     Some \<lparr>si_accountNumber = accountNumber, si_amountKobo = amountKobo, si_senderName = senderName,
       si_senderAccountNumber = senderAccountNumber, si_senderBankCode = senderBankCode,
       si_narration = narration\<rparr>))))))"

section \<open>What class-validator promises\<close>

definition is_text :: "decorator \<Rightarrow> bool" where
  "is_text d = (d \<in> {IsString, IsEmail, IsPhoneNumber, IsUrl, IsDateString})"

locale class_validator =
  fixes accepts :: "decorator \<Rightarrow> jsv \<Rightarrow> bool"
  assumes texts: "is_text d \<Longrightarrow> accepts d v \<Longrightarrow> \<exists>s. v = JsStr s"
    and numbers: "accepts IsNumber v \<Longrightarrow> \<exists>x. v = JsNum (Fin x)"
    and booleans: "accepts IsBoolean v \<Longrightarrow> \<exists>x. v = JsBool x"
    and arrays: "accepts IsArray v \<Longrightarrow> \<exists>xs. v = JsArr xs"
    and enums: "accepts (IsEnum ss) v \<or> accepts (IsIn ss) v \<Longrightarrow> \<exists>s \<in> set ss. v = JsStr s"
    and not_empty: "accepts IsNotEmpty v \<Longrightarrow> v \<noteq> JsUndefined \<and> v \<noteq> JsNull \<and> v \<noteq> JsStr []"
    and minimum: "accepts (Min m) (JsNum (Fin x)) \<Longrightarrow> m \<le> x"

text \<open>An instance that computes: the formats (mail, telephone, URL, date, pattern) accept any text.\<close>

fun plain_accepts :: "decorator \<Rightarrow> jsv \<Rightarrow> bool" where
  "plain_accepts (Min m) v = (case v of JsNum (Fin x) \<Rightarrow> m \<le> x | _ \<Rightarrow> False)"
| "plain_accepts (IsEnum ss) v = (case v of JsStr s \<Rightarrow> s \<in> set ss | _ \<Rightarrow> False)"
| "plain_accepts (IsIn ss) v = (case v of JsStr s \<Rightarrow> s \<in> set ss | _ \<Rightarrow> False)"
| "plain_accepts (MinLength n) v = (case v of JsStr s \<Rightarrow> n \<le> length s | _ \<Rightarrow> False)"
| "plain_accepts (MaxLength n) v = (case v of JsStr s \<Rightarrow> length s \<le> n | _ \<Rightarrow> False)"
| "plain_accepts (ArrayMinSize n) v = (case v of JsArr xs \<Rightarrow> n \<le> length xs | _ \<Rightarrow> False)"
| "plain_accepts IsNotEmpty v = (v \<noteq> JsUndefined \<and> v \<noteq> JsNull \<and> v \<noteq> JsStr [])"
| "plain_accepts IsNumber v = (case v of JsNum (Fin x) \<Rightarrow> True | _ \<Rightarrow> False)"
| "plain_accepts IsBoolean v = (case v of JsBool x \<Rightarrow> True | _ \<Rightarrow> False)"
| "plain_accepts IsArray v = (case v of JsArr xs \<Rightarrow> True | _ \<Rightarrow> False)"
| "plain_accepts d v = (case v of JsStr s \<Rightarrow> True | _ \<Rightarrow> False)"

interpretation plain: class_validator plain_accepts
proof
  show "\<exists>s. v = JsStr s" if "is_text d" "plain_accepts d v" for d v
    using that by (cases v) (auto simp: is_text_def)
  show "\<exists>s \<in> set ss. v = JsStr s" if "plain_accepts (IsEnum ss) v \<or> plain_accepts (IsIn ss) v" for ss v
    using that by (cases v) auto
qed (auto split: jsv.splits js_num.splits)

section \<open>A validated body has the declared types\<close>

lemma of_json_inverse [simp]:
  "of_json j = JsStr s \<longleftrightarrow> j = JStr s" "of_json j = JsBool x \<longleftrightarrow> j = JBool x"
  "of_json j = JsNum n \<longleftrightarrow> (\<exists>x. j = JNum x \<and> n = Fin x)" "of_json j = JsNull \<longleftrightarrow> j = JNull"
  "of_json j = JsArr vs \<longleftrightarrow> (\<exists>xs. j = JArr xs \<and> vs = map of_json xs)" "of_json j \<noteq> JsUndefined"
  by (cases j; auto)+

text \<open>What a property without \<open>@Type\<close> holds, from its value.\<close>

lemma property_value_plain:
  assumes "TypeNumber \<notin> set ds"
  shows "property_value e ds x = JsUndefined \<longleftrightarrow> x = None" "property_value e ds x = JsNull \<longleftrightarrow> x = Some JNull"
    "property_value e ds x = JsStr s \<longleftrightarrow> x = Some (JStr s)" "property_value e ds x = JsBool y \<longleftrightarrow> x = Some (JBool y)"
    "property_value e ds x = JsArr vs \<longleftrightarrow> (\<exists>xs. x = Some (JArr xs) \<and> vs = map of_json xs)"
  using assms by (auto simp: property_value_def split: option.splits json.splits)

context class_validator
begin

lemma checked:
  assumes "property_ok srv ds v" "srv_accepts srv = accepts" "d \<in> set ds" "d \<noteq> IsOptional" "d \<noteq> TypeNumber"
  shows "IsOptional \<in> set ds \<and> (v = JsUndefined \<or> v = JsNull) \<or> accepts d v"
  using assms by (auto simp: property_ok_def)

text \<open>What the decorators of a property promise of the value under its name.\<close>

lemma required_text:
  assumes "property_ok srv ds (property_value e ds (map_of b k))" "srv_accepts srv = accepts"
    and "IsOptional \<notin> set ds" "TypeNumber \<notin> set ds" "d \<in> set ds" "is_text d"
  shows "\<exists>s. text_of b k = Some s"
  using checked [OF assms(1,2,5)] texts [OF assms(6), of "property_value e ds (map_of b k)"] assms(3,4,6)
  by (auto simp: property_value_plain text_of_def is_text_def)

lemma required_enum:
  assumes "property_ok srv ds (property_value e ds (map_of b k))" "srv_accepts srv = accepts"
    and "IsOptional \<notin> set ds" "TypeNumber \<notin> set ds" "IsEnum ss \<in> set ds"
  shows "\<exists>s \<in> set ss. text_of b k = Some s"
  using checked [OF assms(1,2,5)] enums [of ss "property_value e ds (map_of b k)"] assms(3,4)
  by (auto simp: property_value_plain text_of_def)

lemma optional_text:
  assumes "property_ok srv ds (property_value e ds (map_of b k))" "srv_accepts srv = accepts"
    and "TypeNumber \<notin> set ds" "d \<in> set ds" "is_text d \<or> d = IsIn ss"
  shows "(\<exists>s. opt_text_of b k = Some s) \<and> (\<exists>s. nullable_of b k = Some s)"
  using checked [OF assms(1,2,4)] texts [of d "property_value e ds (map_of b k)"]
    enums [of ss "property_value e ds (map_of b k)"] assms(3,5)
  by (auto simp: property_value_plain opt_text_of_def nullable_of_def is_text_def)

lemma optional_enum:
  assumes "property_ok srv ds (property_value e ds (map_of b k))" "srv_accepts srv = accepts"
    and "TypeNumber \<notin> set ds" "IsEnum ss \<in> set ds"
  shows "opt_text_of b k = Some None \<or> (\<exists>s \<in> set ss. opt_text_of b k = Some (Some s))"
  using checked [OF assms(1,2,4)] enums [of ss "property_value e ds (map_of b k)"] assms(3)
  by (fastforce simp: property_value_plain opt_text_of_def)

lemma required_number:
  assumes "property_ok srv ds (property_value e ds (map_of b k))" "srv_accepts srv = accepts"
    and "IsOptional \<notin> set ds" "IsNumber \<in> set ds"
  shows "\<exists>x. num_of e ds b k = Some x" and "Min m \<in> set ds \<Longrightarrow> num_of e ds b k = Some x \<Longrightarrow> m \<le> x"
  using checked [OF assms(1,2,4)] checked [OF assms(1,2), of "Min m"] numbers [of "property_value e ds (map_of b k)"]
    minimum assms(3)
  by (auto simp: num_of_def)

lemma optional_number:
  assumes "property_ok srv ds (property_value e ds (map_of b k))" "srv_accepts srv = accepts"
    and "IsNumber \<in> set ds"
  shows "\<exists>n. opt_num_of e ds b k = Some n"
  using checked [OF assms] numbers [of "property_value e ds (map_of b k)"] by (auto simp: opt_num_of_def)

lemma required_others:
  assumes "property_ok srv ds (property_value e ds (map_of b k))" "srv_accepts srv = accepts"
    and "IsOptional \<notin> set ds" "TypeNumber \<notin> set ds"
  shows "IsBoolean \<in> set ds \<Longrightarrow> \<exists>x. bool_of b k = Some x"
    and "IsArray \<in> set ds \<Longrightarrow> \<exists>xs. map_of b k = Some (JArr xs)"
    and "IsNotEmpty \<in> set ds \<Longrightarrow> \<exists>j. map_of b k = Some j"
  using checked [OF assms(1,2), of IsBoolean] checked [OF assms(1,2), of IsArray] checked [OF assms(1,2), of IsNotEmpty]
    booleans [of "property_value e ds (map_of b k)"] arrays [of "property_value e ds (map_of b k)"]
    not_empty [of "property_value e ds (map_of b k)"] assms(3,4)
  by (auto simp: property_value_plain bool_of_def)

end

lemma parse_enum_total: "s \<in> set (map sh xs) \<Longrightarrow> \<exists>x. parse_enum sh xs s = Some x"
  by (auto simp: parse_enum_def find_None_iff simp flip: not_None_eq)

lemma bind_total:
  "\<exists>x. m = Some x \<Longrightarrow> (\<And>x. \<exists>y. f x = Some y) \<Longrightarrow> \<exists>y. Option.bind m f = Some y"
  by auto

lemma enum_total:
  "\<exists>s \<in> set (map sh xs). text_of b k = Some s \<Longrightarrow> \<exists>x. enum_of (parse_enum sh xs) b k = Some x"
  using parse_enum_total [of _ sh xs] by (auto simp: enum_of_def simp del: set_map)

lemma opt_enum_total:
  "opt_text_of b k = Some None \<or> (\<exists>s \<in> set (map sh xs). opt_text_of b k = Some (Some s)) \<Longrightarrow>
     \<exists>x. opt_enum_of (parse_enum sh xs) b k = Some x"
  using parse_enum_total [of _ sh xs] by (fastforce simp: opt_enum_of_def simp del: set_map)

lemma some_total: "\<exists>x. Some y = Some x"
  by simp

lemmas read_total = bind_total some_total
text \<open>A property of a class whose decorators satisfy a condition: computed on the table.\<close>

definition declared :: "(decorator list \<Rightarrow> bool) \<Rightarrow> dto_class \<Rightarrow> string \<Rightarrow> bool" where
  "declared P c k = (case map_of (cl_properties c) k of None \<Rightarrow> False | Some ds \<Rightarrow> P ds)"

definition required :: "decorator list \<Rightarrow> bool" where
  "required ds = (IsOptional \<notin> set ds \<and> TypeNumber \<notin> set ds)"

fun is_choice :: "decorator \<Rightarrow> bool" where
  "is_choice (IsIn ss) = True"
| "is_choice _ = False"

lemma is_choiceD: "is_choice d \<Longrightarrow> \<exists>ss. d = IsIn ss"
  by (cases d) auto

definition textual :: "decorator list \<Rightarrow> bool" where
  "textual ds = (TypeNumber \<notin> set ds \<and> (\<exists>d \<in> set ds. is_text d \<or> is_choice d))"

lemma declaredD:
  assumes "declared P c k" "valid_body e srv c b"
  shows "\<exists>ds. P ds \<and> property_ok srv ds (property_value e ds (map_of b k))"
proof -
  from assms(1) obtain ds where ds: "P ds" "map_of (cl_properties c) k = Some ds"
    by (auto simp: declared_def split: option.splits)
  with assms(2) have "property_ok srv ds (property_value e ds (map_of b k))"
    by (auto simp: valid_body_def valid_properties_def dest!: map_of_SomeD)
  with ds(1) show ?thesis by blast
qed

context class_validator
begin

lemma field_total:
  assumes "valid_body e srv c b" "srv_accepts srv = accepts"
  shows "declared (\<lambda>ds. required ds \<and> (\<exists>d \<in> set ds. is_text d)) c k \<Longrightarrow> \<exists>s. text_of b k = Some s"
    and "declared textual c k \<Longrightarrow> \<exists>s. opt_text_of b k = Some s"
    and "declared textual c k \<Longrightarrow> \<exists>s. nullable_of b k = Some s"
    and "declared (\<lambda>ds. required ds \<and> IsEnum (map sh xs) \<in> set ds) c k \<Longrightarrow>
      \<exists>x. enum_of (parse_enum sh xs) b k = Some x"
    and "declared (\<lambda>ds. TypeNumber \<notin> set ds \<and> IsEnum (map sh xs) \<in> set ds) c k \<Longrightarrow>
      \<exists>x. opt_enum_of (parse_enum sh xs) b k = Some x"
    and "declared (\<lambda>ds'. ds' = ds \<and> IsNumber \<in> set ds \<and> IsOptional \<notin> set ds) c k \<Longrightarrow>
      \<exists>x. num_of e ds b k = Some x"
    and "declared (\<lambda>ds'. ds' = ds \<and> IsNumber \<in> set ds) c k \<Longrightarrow> \<exists>x. opt_num_of e ds b k = Some x"
    and "declared (\<lambda>ds. required ds \<and> IsBoolean \<in> set ds) c k \<Longrightarrow> \<exists>x. bool_of b k = Some x"
proof -
  show "\<exists>s. text_of b k = Some s" if "declared (\<lambda>ds. required ds \<and> (\<exists>d \<in> set ds. is_text d)) c k"
    using declaredD [OF that assms(1)] required_text [OF _ assms(2)] unfolding required_def by blast
  have texts: "(\<exists>s. opt_text_of b k = Some s) \<and> (\<exists>s. nullable_of b k = Some s)" if t: "declared textual c k"
  proof -
    from declaredD [OF t assms(1)] obtain ds d ss where "property_ok srv ds (property_value e ds (map_of b k))"
      "TypeNumber \<notin> set ds" "d \<in> set ds" "is_text d \<or> d = IsIn ss"
      unfolding textual_def using is_choiceD by blast
    from optional_text [OF this(1) assms(2) this(2-4)] show ?thesis .
  qed
  show "\<exists>s. opt_text_of b k = Some s" "\<exists>s. nullable_of b k = Some s" if "declared textual c k"
    using texts [OF that] by blast+
  show "\<exists>x. enum_of (parse_enum sh xs) b k = Some x"
    if "declared (\<lambda>ds. required ds \<and> IsEnum (map sh xs) \<in> set ds) c k"
    using declaredD [OF that assms(1)] required_enum [OF _ assms(2)] unfolding required_def
    by (intro enum_total) blast
  show "\<exists>x. opt_enum_of (parse_enum sh xs) b k = Some x"
    if "declared (\<lambda>ds. TypeNumber \<notin> set ds \<and> IsEnum (map sh xs) \<in> set ds) c k"
    using declaredD [OF that assms(1)] optional_enum [OF _ assms(2)] by (intro opt_enum_total) blast
  show "\<exists>x. num_of e ds b k = Some x"
    if "declared (\<lambda>ds'. ds' = ds \<and> IsNumber \<in> set ds \<and> IsOptional \<notin> set ds) c k"
    using declaredD [OF that assms(1)] required_number(1) [OF _ assms(2)] by blast
  show "\<exists>x. opt_num_of e ds b k = Some x" if "declared (\<lambda>ds'. ds' = ds \<and> IsNumber \<in> set ds) c k"
    using declaredD [OF that assms(1)] optional_number [OF _ assms(2)] by blast
  show "\<exists>x. bool_of b k = Some x" if "declared (\<lambda>ds. required ds \<and> IsBoolean \<in> set ds) c k"
    using declaredD [OF that assms(1)] required_others(1) [OF _ assms(2)] unfolding required_def by blast
qed

lemma field_minimum:
  assumes "valid_body e srv c b" "srv_accepts srv = accepts"
    and "declared (\<lambda>ds'. ds' = ds \<and> IsNumber \<in> set ds \<and> IsOptional \<notin> set ds \<and> Min m \<in> set ds) c k"
    and "num_of e ds b k = Some x"
  shows "m \<le> x"
  using declaredD [OF assms(3,1)] required_number(2) [OF _ assms(2)] assms(4) by blast

end

context class_validator
begin

lemma read_rule_total:
  assumes "valid_properties e srv RuleDefinition b" "srv_accepts srv = accepts"
  shows "\<exists>x. read_rule (JObj b) = Some x"
proof -
  have valid: "valid_body e srv (plain_class RuleDefinition) b"
    using assms(1) by (simp add: valid_body_def plain_class_def)
  have "declared (\<lambda>ds. required ds \<and> IsNotEmpty \<in> set ds) (plain_class RuleDefinition) ''condition''"
    by code_simp
  from declaredD [OF this valid] have condition: "\<exists>j. map_of b ''condition'' = Some j"
    using required_others(3) [OF _ assms(2)] unfolding required_def by blast
  show ?thesis
    unfolding read_rule_def json.case
    by (intro read_total; (rule condition | rule field_total [OF valid assms(2)], code_simp))
qed

lemma read_rules_total:
  assumes "valid_body e srv c b" "srv_accepts srv = accepts"
    and "declared (\<lambda>ds. required ds \<and> IsArray \<in> set ds) c ''rules''" "cl_nested c = [(''rules'', RuleDefinition)]"
  shows "\<exists>x. read_rules b = Some x"
proof -
  from declaredD [OF assms(3,1)] obtain xs where xs: "map_of b ''rules'' = Some (JArr xs)"
    using required_others(2) [OF _ assms(2)] unfolding required_def by blast
  with assms(1,4) have "list_all (valid_element e srv RuleDefinition) xs"
    by (simp add: valid_body_def valid_elements_def)
  moreover have "\<exists>x. read_element j = Some x" if "valid_element e srv RuleDefinition j" for j
    using that read_rule_total [OF _ assms(2)] by (cases j) (force simp: read_element_def)+
  ultimately have "list_all (\<lambda>j. \<exists>x. read_element j = Some x) xs" by (simp add: list_all_iff)
  then have "\<exists>ys. those (map read_element xs) = Some ys"
    by (induction xs) auto
  with xs show ?thesis by (simp add: read_rules_def)
qed

lemma read_credentials_total:
  assumes "valid_body e srv c b" "srv_accepts srv = accepts"
    and "list_all (declared textual c) (map fst credentials_properties)"
  shows "\<exists>x. read_credentials b = Some x"
  unfolding read_credentials_def
  by (intro read_total field_total(3) [OF assms(1,2)]; use assms(3) in \<open>simp add: credentials_properties_def\<close>)

lemma read_bucket_total:
  assumes "valid_body e srv CreateBucketDto b" "srv_accepts srv = accepts"
  shows "\<exists>x. read_bucket b = Some x"
  unfolding read_bucket_def by (intro read_total; rule field_total [OF assms]; code_simp)

lemma read_bucket_name_total:
  assumes "valid_body e srv RenameBucketDto b" "srv_accepts srv = accepts"
  shows "\<exists>x. read_bucket_name b = Some x"
  unfolding read_bucket_name_def by (rule field_total [OF assms]; code_simp)

lemma read_transfer_total:
  assumes "valid_body e srv TransferBucketDto b" "srv_accepts srv = accepts"
  shows "\<exists>x. read_transfer e b = Some x"
  unfolding read_transfer_def by (intro read_total; rule field_total [OF assms]; code_simp)

lemma read_withdraw_total:
  assumes "valid_body e srv WithdrawDto b" "srv_accepts srv = accepts"
  shows "\<exists>x. read_withdraw e b = Some x"
  unfolding read_withdraw_def by (intro read_total; rule field_total [OF assms]; code_simp)

lemma read_customer_total:
  assumes "valid_body e srv CreateCustomerDto b" "srv_accepts srv = accepts"
  shows "\<exists>x. read_customer b = Some x"
  unfolding read_customer_def by (intro read_total; rule field_total [OF assms]; code_simp)

lemma read_rename_total:
  assumes "valid_body e srv RenameCustomerDto b" "srv_accepts srv = accepts"
  shows "\<exists>x. read_rename b = Some x"
  unfolding read_rename_def by (intro read_total; rule field_total [OF assms]; code_simp)

lemma read_tier_total:
  assumes "valid_body e srv UpdateKycTierDto b" "srv_accepts srv = accepts"
  shows "\<exists>x. read_tier b = Some x"
  unfolding read_tier_def by (intro read_total; rule field_total [OF assms]; code_simp)

lemma read_business_total:
  assumes "valid_body e srv RegisterBusinessDto b" "srv_accepts srv = accepts"
  shows "\<exists>x. read_business b = Some x"
  unfolding read_business_def by (intro read_total; rule field_total [OF assms] read_credentials_total [OF assms]; code_simp)

lemma read_api_key_total:
  assumes "valid_body e srv CreateApiKeyDto b" "srv_accepts srv = accepts"
  shows "\<exists>x. read_api_key b = Some x"
  unfolding read_api_key_def by (intro read_total; rule field_total [OF assms]; code_simp)

lemma read_event_total:
  assumes "valid_body e srv CustomEventDto b" "srv_accepts srv = accepts"
  shows "\<exists>x. read_event b = Some x"
  unfolding read_event_def by (intro read_total; rule field_total [OF assms]; code_simp)

lemma read_filters_total:
  assumes "valid_body e srv LedgerFiltersDto b" "srv_accepts srv = accepts"
  shows "\<exists>x. read_filters e b = Some x"
  unfolding read_filters_def by (intro read_total; rule field_total [OF assms]; code_simp)

lemma read_toggle_total:
  assumes "valid_body e srv ToggleRuleDto b" "srv_accepts srv = accepts"
  shows "\<exists>x. read_toggle b = Some x"
  unfolding read_toggle_def by (rule field_total [OF assms]; code_simp)

lemma read_status_total:
  assumes "valid_body e srv UpdateStatusDto b" "srv_accepts srv = accepts"
  shows "\<exists>x. read_status b = Some x"
  unfolding read_status_def by (intro read_total; rule field_total [OF assms]; code_simp)

lemma read_simulation_total:
  assumes "valid_body e srv SimulateInflowDto b" "srv_accepts srv = accepts"
  shows "\<exists>x. read_simulation e b = Some x"
  unfolding read_simulation_def by (intro read_total; rule field_total [OF assms]; code_simp)

lemma read_rule_set_total:
  assumes "valid_body e srv ReplaceRuleSetDto b" "srv_accepts srv = accepts"
  shows "\<exists>x. read_rule_set b = Some x"
  unfolding read_rule_set_def opt_model_of_def by (intro read_total; rule field_total [OF assms] read_rules_total [OF assms]; code_simp)

lemma read_account_total:
  assumes "valid_body e srv ProvisionAccountDto b" "srv_accepts srv = accepts"
  shows "\<exists>x. read_account b = Some x"
  unfolding read_account_def opt_model_of_def by (intro read_total; rule field_total [OF assms] read_rules_total [OF assms]; code_simp)

end

end
