(* ===== verification/Http_Layer.thy ===== *)
theory Http_Layer
  imports Auth_Service Ledger_Service
begin

text \<open>
  What surrounds every request (\<open>src/main.ts\<close>): the idempotency interceptor
  (\<open>src/common/interceptors/idempotency.interceptor.ts\<close>), which replays the stored response of a POST
  with a known Idempotency-Key, and the exception filter
  (\<open>src/common/filters/http-exception.filter.ts\<close>), which turns every thrown value into a response.
  The handler the interceptor wraps is an argument.
\<close>

section \<open>Idempotency keys\<close>

record request =
  rq_method :: string
  rq_idempotencyKey :: "string option"
  rq_path :: string
  rq_body :: json
  rq_businessId :: "string option"

definition toUpperCase :: "string \<Rightarrow> string" where
  "toUpperCase s =
     map (\<lambda>c. if 97 \<le> (of_char c :: nat) \<and> (of_char c :: nat) \<le> 122 then char_of ((of_char c :: nat) - 32) else c) s"

definition normalizePath :: "string \<Rightarrow> string" where
  "normalizePath path =
     (let p = hd (split_on (CHR ''?'') path);
          q = (if p \<noteq> [] \<and> last p = CHR ''/'' then butlast p else p) in
      if q = [] then ''/'' else q)"

definition request_hash :: "env \<Rightarrow> json \<Rightarrow> string" where
  "request_hash e body =
     to_hex (env_sha256 e (env_stringify e (if body = JNull then JObj [] else body)))"

definition find_idempotencyKey :: "string \<Rightarrow> string \<Rightarrow> database \<Rightarrow> idempotencyKey option" where
  "find_idempotencyKey businessId key d =
     find (\<lambda>r. idk_businessId r = businessId \<and> idk_key r = key) (t_idempotencyKey d)"

definition key_row ::
  "request \<Rightarrow> string \<Rightarrow> string \<Rightarrow> string \<Rightarrow> nat \<Rightarrow> json \<Rightarrow> string \<Rightarrow> int \<Rightarrow> idempotencyKey" where
  "key_row rq businessId key requestHash status body i t = \<lparr>
     idk_id = i, idk_key = key, idk_businessId = businessId, idk_method = toUpperCase (rq_method rq),
     idk_path = normalizePath (rq_path rq), idk_requestHash = requestHash, idk_responseStatus = status,
     idk_responseBody = body\<rparr>"

text \<open>The row is stored after the handler has answered; a failure to store it is only logged.\<close>

definition intercept :: "env \<Rightarrow> request \<Rightarrow> nat \<Rightarrow> json act \<Rightarrow> json act" where
  "intercept e rq status handler =
     (if toUpperCase (rq_method rq) \<noteq> ''POST'' then handler
      else if \<not> str_truthy (rq_idempotencyKey rq) then handler
      else if \<not> str_truthy (rq_businessId rq) then handler
      else
        let key = the (rq_idempotencyKey rq); businessId = the (rq_businessId rq);
            requestHash = request_hash e (rq_body rq) in
        bnd (query e (find_idempotencyKey businessId key)) (\<lambda>existing.
        case existing of
          Some r \<Rightarrow>
            if idk_requestHash r = requestHash then ret (idk_responseBody r)
            else throw (Conflict IDEMPOTENCY_KEY_CONFLICT
                   ''Idempotency-Key already used with a different request body'')
        | None \<Rightarrow>
            bnd handler (\<lambda>body.
            seqm (catch (seqm (create_idempotencyKey e
                                 (key_row rq businessId key requestHash status body)) (ret ()))
                    (\<lambda>_. ret ()))
              (ret body))))"

section \<open>The exception filter\<close>

fun show_code :: "error_code \<Rightarrow> string" where
  "show_code error_code.MISSING_API_KEY = ''MISSING_API_KEY''"
| "show_code error_code.INVALID_API_KEY = ''INVALID_API_KEY''"
| "show_code error_code.API_KEY_REVOKED = ''API_KEY_REVOKED''"
| "show_code error_code.API_KEY_EXPIRED = ''API_KEY_EXPIRED''"
| "show_code error_code.INVALID_ADMIN_SECRET = ''INVALID_ADMIN_SECRET''"
| "show_code error_code.VALIDATION_ERROR = ''VALIDATION_ERROR''"
| "show_code error_code.INVALID_RULE_SET = ''INVALID_RULE_SET''"
| "show_code error_code.BUSINESS_NOT_FOUND = ''BUSINESS_NOT_FOUND''"
| "show_code error_code.DUPLICATE_EMAIL = ''DUPLICATE_EMAIL''"
| "show_code error_code.CUSTOMER_NOT_FOUND = ''CUSTOMER_NOT_FOUND''"
| "show_code error_code.ACCOUNT_NOT_FOUND = ''ACCOUNT_NOT_FOUND''"
| "show_code error_code.ACCOUNT_NOT_ACTIVE = ''ACCOUNT_NOT_ACTIVE''"
| "show_code error_code.ACCOUNT_ALREADY_CLOSED = ''ACCOUNT_ALREADY_CLOSED''"
| "show_code error_code.ACCOUNT_TERMINAL_STATE = ''ACCOUNT_TERMINAL_STATE''"
| "show_code error_code.DUPLICATE_ACCOUNT_REF = ''DUPLICATE_ACCOUNT_REF''"
| "show_code error_code.RULE_NOT_FOUND = ''RULE_NOT_FOUND''"
| "show_code error_code.RULE_CONFLICT = ''RULE_CONFLICT''"
| "show_code error_code.PERCENTAGE_SUM_EXCEEDS_100 = ''PERCENTAGE_SUM_EXCEEDS_100''"
| "show_code error_code.INSUFFICIENT_BUCKET_BALANCE = ''INSUFFICIENT_BUCKET_BALANCE''"
| "show_code error_code.BUCKET_NOT_FOUND = ''BUCKET_NOT_FOUND''"
| "show_code error_code.DEMO_MODE_ONLY = ''DEMO_MODE_ONLY''"
| "show_code error_code.NOMBA_API_ERROR = ''NOMBA_API_ERROR''"
| "show_code error_code.INVALID_WEBHOOK_SIGNATURE = ''INVALID_WEBHOOK_SIGNATURE''"
| "show_code error_code.IDEMPOTENCY_KEY_CONFLICT = ''IDEMPOTENCY_KEY_CONFLICT''"
| "show_code error_code.INTERNAL_ERROR = ''INTERNAL_ERROR''"

text \<open>
  A thrown value as the filter sees it: a Nest exception with its status, its response (a text or an
  object) and its message, another Error, or anything else.
\<close>

datatype exception = HttpException nat json string | ErrorException string | OtherException

text \<open>The exceptions of the services.\<close>

fun exception_of :: "env \<Rightarrow> exn \<Rightarrow> exception" where
  "exception_of e (HttpExn status code message) =
     HttpException status (JObj [(''message'', JStr message), (''code'', JStr (show_code code))]) message"
| "exception_of e x = ErrorException (exn_message e x)"

definition default_code :: "nat \<Rightarrow> error_code" where
  "default_code status =
     (if status = 400 then VALIDATION_ERROR else if status = 401 then INVALID_API_KEY
      else if status = 404 then ACCOUNT_NOT_FOUND else if status = 409 then DUPLICATE_EMAIL
      else INTERNAL_ERROR)"

definition response_code :: "nat \<Rightarrow> json \<Rightarrow> string" where
  "response_code status resp =
     (case jget resp ''code'' of Some (JStr c) \<Rightarrow> c | _ \<Rightarrow> show_code (default_code status))"

definition response_message :: "env \<Rightarrow> json \<Rightarrow> string \<Rightarrow> string" where
  "response_message e resp message =
     (case jget resp ''message'' of
        Some (JArr ms) \<Rightarrow> join ''; '' (map (\<lambda>m. if m = JNull then [] else to_str e m) ms)
      | Some (JStr m) \<Rightarrow> m
      | _ \<Rightarrow> message)"

fun filter_parts :: "env \<Rightarrow> exception \<Rightarrow> nat \<times> string \<times> string" where
  "filter_parts e (HttpException status (JStr s) message) = (status, show_code INTERNAL_ERROR, s)"
| "filter_parts e (HttpException status (JObj kvs) message) =
     (status, response_code status (JObj kvs), response_message e (JObj kvs) message)"
| "filter_parts e (HttpException status (JArr xs) message) =
     (status, response_code status (JArr xs), response_message e (JArr xs) message)"
| "filter_parts e (HttpException status resp message) = (status, show_code INTERNAL_ERROR, message)"
| "filter_parts e (ErrorException message) = (500, show_code INTERNAL_ERROR, message)"
| "filter_parts e OtherException = (500, show_code INTERNAL_ERROR, ''An unexpected error occurred'')"

definition catch_exception :: "env \<Rightarrow> exception \<Rightarrow> string \<Rightarrow> string option \<Rightarrow> int \<Rightarrow> nat \<times> json" where
  "catch_exception e exc url requestId t =
     (case filter_parts e exc of
        (statusCode, code, message) \<Rightarrow>
          (statusCode, JObj [(''statusCode'', JNum (of_nat statusCode)), (''code'', JStr code),
             (''message'', JStr message), (''timestamp'', JStr (iso_string t)), (''path'', JStr url),
             (''requestId'', jstr_opt requestId)]))"

section \<open>Lemmas\<close>

lemma show_code_inject: "show_code c = show_code c' \<Longrightarrow> c = c'"
  by (cases c; cases c'; simp)

text \<open>An HTTP exception of a service keeps its status, its code and its message; every other error is a 500.\<close>

lemma filter_service_exception:
  "filter_parts e (exception_of e x) =
     (case x of
        HttpExn status code message \<Rightarrow> (status, show_code code, message)
      | _ \<Rightarrow> (500, show_code INTERNAL_ERROR, exn_message e x))"
  by (cases x) (simp_all add: response_code_def response_message_def)

definition keyed :: "request \<Rightarrow> string \<Rightarrow> string \<Rightarrow> bool" where
  "keyed rq businessId key =
     (toUpperCase (rq_method rq) = ''POST'' \<and> rq_idempotencyKey rq = Some key \<and> key \<noteq> [] \<and>
      rq_businessId rq = Some businessId \<and> businessId \<noteq> [])"

lemma intercept_known:
  assumes "keyed rq b k" "find_idempotencyKey b k (db w) = Some r" "env_fault e (tick w) = None"
  shows "intercept e rq st h w =
    ((if idk_requestHash r = request_hash e (rq_body rq) then Inr (idk_responseBody r)
      else Inl (Conflict IDEMPOTENCY_KEY_CONFLICT
        ''Idempotency-Key already used with a different request body'')), w\<lparr>tick := Suc (tick w)\<rparr>)"
  using assms
  by (simp add: intercept_def keyed_def str_truthy_def query_def prisma_def bnd_def ret_def throw_def Let_def)

lemma key_row_fields [simp]:
  "idk_requestHash (key_row rq b k h st x i t) = h" "idk_responseBody (key_row rq b k h st x i t) = x"
  by (simp_all add: key_row_def)

lemma stored_key:
  "find_idempotencyKey b k d = None \<Longrightarrow>
     find_idempotencyKey b k (d\<lparr>t_idempotencyKey := t_idempotencyKey d @ [key_row rq b k h st x i t]\<rparr>) =
       Some (key_row rq b k h st x i t)"
  by (simp add: find_idempotencyKey_def find_None_iff key_row_def find_snoc)

lemma intercept_first:
  assumes "keyed rq b k" "find_idempotencyKey b k (db w) = None"
    and "intercept e rq st h w = (Inr body, w')" "find_idempotencyKey b k (db w') = Some r"
    and "keeps_db (\<lambda>d. find_idempotencyKey b k d = None) h"
  shows "idk_requestHash r = request_hash e (rq_body rq) \<and> idk_responseBody r = body"
proof -
  let ?ok = "\<lambda>x d. \<forall>r. find_idempotencyKey b k d = Some r \<longrightarrow>
      idk_requestHash r = request_hash e (rq_body rq) \<and> idk_responseBody r = x"
  have h: "wp (db w) (\<lambda>x d. find_idempotencyKey b k d = None) (\<lambda>_. True) h"
    using wp_keeps [OF assms(5,2)] by (rule wp_conseq) simp_all
  have "wp (db w) ?ok (\<lambda>_. True) (intercept e rq st h)"
    unfolding intercept_def create_idempotencyKey_def
    by (intro wp_rules TrueI wp_conseq [OF h])
      (use assms(1,2) in \<open>auto simp: keyed_def str_truthy_def stored_key intro!: wp_rules\<close>)
  from wpD_Inr [OF this refl assms(3)] assms(4) show ?thesis by blast
qed

section \<open>Properties\<close>

text \<open>C26: a POST with an Idempotency-Key is safe to repeat. When the first request has answered and its key is
  stored, the same request again returns the same body without running the handler (whatever the
  handler would do now) and changes no table, and a request with the same key whose body has another hash
  is refused with 409; the path of the request plays no part.\<close>

theorem idempotent_replay:
  assumes "keyed rq b k" "find_idempotencyKey b k (db w) = None"
    and "intercept e rq st h w = (Inr body, w1)" "find_idempotencyKey b k (db w1) \<noteq> None"
    and "keeps_db (\<lambda>d. find_idempotencyKey b k d = None) h" "env_fault e (tick w1) = None"
  shows "intercept e (rq\<lparr>rq_path := path\<rparr>) st' h' w1 = (Inr body, w1\<lparr>tick := Suc (tick w1)\<rparr>) \<and>
    (request_hash e body' \<noteq> request_hash e (rq_body rq) \<longrightarrow>
     intercept e (rq\<lparr>rq_path := path, rq_body := body'\<rparr>) st' h' w1 =
       (Inl (Conflict IDEMPOTENCY_KEY_CONFLICT ''Idempotency-Key already used with a different request body''),
        w1\<lparr>tick := Suc (tick w1)\<rparr>))"
proof -
  from assms(4) obtain r where r: "find_idempotencyKey b k (db w1) = Some r" by auto
  note first = intercept_first [OF assms(1-3) r assms(5)]
  have "keyed (rq\<lparr>rq_path := path\<rparr>) b k" "keyed (rq\<lparr>rq_path := path, rq_body := body'\<rparr>) b k"
    using assms(1) by (simp_all add: keyed_def)
  then show ?thesis
    using first by (simp add: intercept_known [OF _ r assms(6)])
qed

definition demo_request :: request where
  "demo_request = \<lparr>rq_method = ''post'', rq_idempotencyKey = Some ''idem-1'', rq_path = ''/api/v1/accounts/'',
     rq_body = JNull, rq_businessId = Some ''b1''\<rparr>"

theorem idempotent_replay_witness:
  "\<exists>w1. intercept demo_env demo_request 201 (ret (JStr ''done'')) demo_world = (Inr (JStr ''done''), w1) \<and>
     intercept demo_env (demo_request\<lparr>rq_path := ''/other''\<rparr>) 201 (ret (JStr ''again'')) w1 =
       (Inr (JStr ''done''), w1\<lparr>tick := Suc (tick w1)\<rparr>)"
proof -
  let ?m = "intercept demo_env demo_request 201 (ret (JStr ''done'')) demo_world"
  have "fst ?m = Inr (JStr ''done'')" by code_simp
  from fst_run [OF this] have run: "?m = (Inr (JStr ''done''), snd ?m)" .
  have "(find_idempotencyKey ''b1'' ''idem-1'' (db (snd ?m)) = None) = False" by code_simp
  then have stored: "find_idempotencyKey ''b1'' ''idem-1'' (db (snd ?m)) \<noteq> None" by simp
  have keyed: "keyed demo_request ''b1'' ''idem-1''" by code_simp
  have fresh: "find_idempotencyKey ''b1'' ''idem-1'' (db demo_world) = None"
    by (simp add: find_idempotencyKey_def demo_world_def demo_db_def)
  have ok: "env_fault demo_env n = None" for n by (simp add: demo_env_def)
  from idempotent_replay [OF keyed fresh run stored keeps_ret ok, of "''/other''" 201 "ret (JStr ''again'')"] run
  show ?thesis by metis
qed

end
