(* ===== verification/Webhooks_Service.thy ===== *)
theory Webhooks_Service
  imports Webhook_Processor Auth_Service
begin

text \<open>
  \<open>src/webhooks/webhooks.service.ts\<close> and \<open>src/events/events.service.ts\<close>: the two producers of the
  webhook-processing queue. A Nomba delivery is queued only after its HMAC has been checked with the
  secret of the business that owns the account; a custom event of an authenticated business is queued
  for one of its accounts. A job holds the JSON the producer built; \<open>read_job\<close> is the worker's view of it.
\<close>

section \<open>Nomba deliveries\<close>

text \<open>\<open>body?.data?.accountNumber\<close>, and the other fields of \<open>body.data\<close>.\<close>

definition data_field :: "json \<Rightarrow> string \<Rightarrow> json option" where
  "data_field body k = Option.bind (jget body ''data'') (\<lambda>d. jget d k)"

definition inflow_job :: "json \<Rightarrow> json" where
  "inflow_job body = jobj
     [(''eventId'', jget body ''eventId''),
      (''transactionRef'', data_field body ''transactionRef''),
      (''accountNumber'', data_field body ''accountNumber''),
      (''amountKobo'', data_field body ''amount''),
      (''senderName'', data_field body ''senderName''),
      (''senderAccountNumber'', data_field body ''senderAccountNumber''),
      (''senderBankCode'', data_field body ''senderBankCode''),
      (''narration'', data_field body ''narration''),
      (''eventType'', Some (JStr ''NOMBA_INFLOW''))]"

definition enqueueInflow :: "env \<Rightarrow> json \<Rightarrow> unit act" where
  "enqueueInflow e body = add_webhook_job e (inflow_job body)"

text \<open>\<open>account.findUnique\<close> with its customer's business; a number that is no text the client refuses.\<close>

definition find_owner :: "string \<Rightarrow> database \<Rightarrow> (account \<times> business option) option" where
  "find_owner n d =
     map_option (\<lambda>(a, c). (a, Option.bind c (\<lambda>c. find_business (cus_businessId c) d)))
       (find_by_number n d)"

definition invalid_signature :: "string \<Rightarrow> exn" where
  "invalid_signature m = Unauthorized INVALID_WEBHOOK_SIGNATURE m"

definition processInflow :: "env \<Rightarrow> string option \<Rightarrow> string option \<Rightarrow> unit act" where
  "processInflow e rawBody signature =
     (case rawBody of
        None \<Rightarrow> throw (BadRequest INVALID_WEBHOOK_SIGNATURE
                  ''Raw body is required for webhook signature verification'')
      | Some raw \<Rightarrow>
     (case env_parse_json e raw of
        None \<Rightarrow> throw (BadRequest INVALID_WEBHOOK_SIGNATURE ''Invalid JSON in webhook body'')
      | Some body \<Rightarrow>
     (if falsy (data_field body ''accountNumber'')
      then throw (BadRequest VALIDATION_ERROR ''Missing accountNumber in webhook payload'')
      else
        bnd (lift_sum (case the (data_field body ''accountNumber'') of
               JStr n \<Rightarrow> Inr n | _ \<Rightarrow> Inl (DbExn ValidationFailed))) (\<lambda>accountNumber.
        bnd (query e (find_owner accountNumber)) (\<lambda>found.
        case found of
          None \<Rightarrow> ret ()
        | Some (account, business) \<Rightarrow>
            let encryptedSecret = Option.bind business biz_nombaWebhookSecret in
            if \<not> str_truthy encryptedSecret
            then throw (invalid_signature ''Business has no webhook secret configured'')
            else if \<not> str_truthy signature
            then throw (invalid_signature ''Missing x-nomba-signature header'')
            else
              bnd (lift_sum (decryptWebhookSecret e (the encryptedSecret))) (\<lambda>secret.
              let expected = to_hex (env_hmac e secret raw) in
              if length expected \<noteq> length (the signature) \<or> expected \<noteq> the signature
              then throw (invalid_signature ''HMAC signature mismatch'')
              else enqueueInflow e body))))))"

section \<open>Custom events\<close>

definition custom_job :: "string \<Rightarrow> string \<Rightarrow> string \<Rightarrow> json" where
  "custom_job eventId accountNumber eventName =
     JObj [(''eventId'', JStr eventId), (''transactionRef'', JStr eventId),
           (''accountNumber'', JStr accountNumber), (''amountKobo'', JNum 0),
           (''eventType'', JStr eventName)]"

definition dispatch :: "env \<Rightarrow> string \<Rightarrow> string \<Rightarrow> string \<Rightarrow> string \<Rightarrow> unit act" where
  "dispatch e accountRef eventId eventName businessId =
     (let meta = JObj [(''eventId'', JStr eventId), (''eventName'', JStr eventName),
                       (''accountRef'', JStr accountRef)] in
      bnd (query e (\<lambda>d. find (\<lambda>r. pev_eventId r = eventId \<and> pev_businessId r = Some businessId)
             (t_processedEvent d))) (\<lambda>existing.
      if existing \<noteq> None
      then AuditService_log e ((auditParams ''system'' DUPLICATE_EVENT_DISCARDED)\<lparr>
             alp_metadata := Some meta, alp_businessId := Some businessId\<rparr>)
      else
        bnd (query e (find_account_by_ref accountRef businessId)) (\<lambda>found.
        case found of
          None \<Rightarrow> throw (NotFound ACCOUNT_NOT_FOUND (''Account '' @ quoted accountRef @ '' not found''))
        | Some account \<Rightarrow>
            seqm (add_webhook_job e (custom_job eventId (acc_accountNumber account) eventName))
              (AuditService_log e ((auditParams ''system'' CUSTOM_EVENT_PROCESSED)\<lparr>
                 alp_accountId := Some (acc_id account), alp_businessId := Some businessId,
                 alp_metadata := Some meta\<rparr>)))))"

section \<open>The worker's view of a job\<close>

text \<open>
  \<open>job.data as InflowPayload\<close>: the worker's types. A job whose required fields have other types has no
  payload here; what the worker would do with it is not modelled.
\<close>

definition opt_text :: "json \<Rightarrow> string \<Rightarrow> string option option" where
  "opt_text j k =
     (case jget j k of
        None \<Rightarrow> Some None | Some JNull \<Rightarrow> Some None | Some (JStr s) \<Rightarrow> Some (Some s) | _ \<Rightarrow> None)"

definition req_text :: "json \<Rightarrow> string \<Rightarrow> string option" where
  "req_text j k = (case jget j k of Some (JStr s) \<Rightarrow> Some s | _ \<Rightarrow> None)"

definition req_num :: "json \<Rightarrow> string \<Rightarrow> rat option" where
  "req_num j k = (case jget j k of Some (JNum x) \<Rightarrow> Some x | _ \<Rightarrow> None)"

definition read_job :: "json \<Rightarrow> inflowPayload option" where
  "read_job j =
     Option.bind (req_text j ''eventId'') (\<lambda>eventId.
     Option.bind (req_text j ''transactionRef'') (\<lambda>transactionRef.
     Option.bind (req_text j ''accountNumber'') (\<lambda>accountNumber.
     Option.bind (req_num j ''amountKobo'') (\<lambda>amountKobo.
     Option.bind (opt_text j ''senderName'') (\<lambda>senderName.
     Option.bind (opt_text j ''senderAccountNumber'') (\<lambda>senderAccountNumber.
     Option.bind (opt_text j ''senderBankCode'') (\<lambda>senderBankCode.
     Option.bind (opt_text j ''narration'') (\<lambda>narration.
     Option.bind (opt_text j ''eventType'') (\<lambda>eventType.
     Some \<lparr>inf_eventId = eventId, inf_transactionRef = transactionRef,
           inf_accountNumber = accountNumber, inf_amountKobo = amountKobo,
           inf_senderName = senderName, inf_senderAccountNumber = senderAccountNumber,
           inf_senderBankCode = senderBankCode, inf_narration = narration,
           inf_eventType = eventType\<rparr>)))))))))"

section \<open>Authenticity\<close>

text \<open>
  A delivery is authentic when its signature is the HMAC of its bytes under the decrypted secret of
  the business that owns the account it names.
\<close>

definition authentic :: "env \<Rightarrow> string \<Rightarrow> json \<Rightarrow> string \<Rightarrow> database \<Rightarrow> bool" where
  "authentic e raw body signature d =
     (\<exists>n a b s secret.
        env_parse_json e raw = Some body \<and> data_field body ''accountNumber'' = Some (JStr n) \<and> n \<noteq> [] \<and>
        find_owner n d = Some (a, Some b) \<and> biz_nombaWebhookSecret b = Some s \<and> s \<noteq> [] \<and>
        decryptWebhookSecret e s = Inr secret \<and> signature \<noteq> [] \<and>
        signature = to_hex (env_hmac e secret raw))"

lemmas run_defs = bnd_def ret_def throw_def lift_sum_def query_def prisma_def

lemma add_webhook_job_run:
  "add_webhook_job e j w =
     (case env_queue_fault e (tick w) of
        Some m \<Rightarrow> (Inl (JsExn m), w\<lparr>tick := Suc (tick w)\<rparr>)
      | None \<Rightarrow> (Inr (), w\<lparr>webhookQueue := webhookQueue w @ [j], tick := Suc (tick w)\<rparr>))"
  by (simp add: add_webhook_job_def)

lemma processInflow_queue:
  "db (snd (processInflow e rawBody sig w)) = db w \<and>
   (webhookQueue (snd (processInflow e rawBody sig w)) = webhookQueue w \<or>
    (\<exists>raw body s. rawBody = Some raw \<and> sig = Some s \<and> authentic e raw body s (db w) \<and>
       webhookQueue (snd (processInflow e rawBody sig w)) = webhookQueue w @ [inflow_job body]))"
  unfolding processInflow_def enqueueInflow_def Let_def
  by (auto simp: run_defs add_webhook_job_run authentic_def str_truthy_def falsy_def
      split: option.splits json.splits sum.splits prod.splits bind_splits)

lemma processInflow_accepts:
  assumes "authentic e raw body s (db w)"
    and "env_fault e (tick w) = None" "env_queue_fault e (Suc (tick w)) = None"
  shows "processInflow e (Some raw) (Some s) w =
    (Inr (), w\<lparr>webhookQueue := webhookQueue w @ [inflow_job body], tick := Suc (Suc (tick w))\<rparr>)"
  using assms unfolding processInflow_def enqueueInflow_def Let_def authentic_def
  by (auto simp: run_defs add_webhook_job_run str_truthy_def falsy_def)

text \<open>The body of a delivery with the fields of \<open>NombaInflowPayload\<close>.\<close>

definition delivery_body :: "inflowPayload \<Rightarrow> json" where
  "delivery_body p =
     JObj [(''eventId'', JStr (inf_eventId p)), (''eventType'', JStr ''payment_success''),
       (''data'', jobj
          [(''transactionRef'', Some (JStr (inf_transactionRef p))),
           (''accountNumber'', Some (JStr (inf_accountNumber p))),
           (''amount'', Some (JNum (inf_amountKobo p))),
           (''senderName'', map_option JStr (inf_senderName p)),
           (''senderAccountNumber'', map_option JStr (inf_senderAccountNumber p)),
           (''senderBankCode'', map_option JStr (inf_senderBankCode p)),
           (''narration'', map_option JStr (inf_narration p))])]"

lemma opt_text_option: "jget j k = map_option JStr v \<Longrightarrow> opt_text j k = Some v"
  by (cases v) (simp_all add: opt_text_def)

lemma read_delivery:
  assumes "inf_eventType p = Some ''NOMBA_INFLOW''"
  shows "read_job (inflow_job (delivery_body p)) = Some p"
proof -
  let ?b = "delivery_body p" and ?j = "inflow_job (delivery_body p)"
  have event: "jget ?b ''eventId'' = Some (JStr (inf_eventId p))" by (simp add: delivery_body_def)
  have field: "data_field ?b k = Option.bind (map_of
      [(''transactionRef'', Some (JStr (inf_transactionRef p))),
       (''accountNumber'', Some (JStr (inf_accountNumber p))),
       (''amount'', Some (JNum (inf_amountKobo p))),
       (''senderName'', map_option JStr (inf_senderName p)),
       (''senderAccountNumber'', map_option JStr (inf_senderAccountNumber p)),
       (''senderBankCode'', map_option JStr (inf_senderBankCode p)),
       (''narration'', map_option JStr (inf_narration p))] k) id" for k
    unfolding data_field_def by (subst jget_jobj [symmetric]) (simp_all add: delivery_body_def)
  have job: "jget ?j k = Option.bind (map_of
     [(''eventId'', Some (JStr (inf_eventId p))), (''transactionRef'', Some (JStr (inf_transactionRef p))),
      (''accountNumber'', Some (JStr (inf_accountNumber p))), (''amountKobo'', Some (JNum (inf_amountKobo p))),
      (''senderName'', map_option JStr (inf_senderName p)),
      (''senderAccountNumber'', map_option JStr (inf_senderAccountNumber p)),
      (''senderBankCode'', map_option JStr (inf_senderBankCode p)),
      (''narration'', map_option JStr (inf_narration p)), (''eventType'', map_option JStr (inf_eventType p))] k) id" for k
    unfolding inflow_job_def by (subst jget_jobj) (simp_all add: event field assms)
  have "req_text ?j ''eventId'' = Some (inf_eventId p)"
    "req_text ?j ''transactionRef'' = Some (inf_transactionRef p)"
    "req_text ?j ''accountNumber'' = Some (inf_accountNumber p)"
    "req_num ?j ''amountKobo'' = Some (inf_amountKobo p)"
    by (simp_all add: req_text_def req_num_def job)
  moreover have "opt_text ?j ''senderName'' = Some (inf_senderName p)"
    "opt_text ?j ''senderAccountNumber'' = Some (inf_senderAccountNumber p)"
    "opt_text ?j ''senderBankCode'' = Some (inf_senderBankCode p)"
    "opt_text ?j ''narration'' = Some (inf_narration p)"
    "opt_text ?j ''eventType'' = Some (inf_eventType p)"
    by (rule opt_text_option, simp add: job)+
  ultimately show ?thesis by (simp add: read_job_def)
qed

section \<open>Properties\<close>

text \<open>C20: an unauthenticated caller cannot queue anything: whatever the body and the header, receiving a delivery
  changes no table, and it adds a job only when the signature is the HMAC of the received bytes under the
  secret of the business that owns the account; the job is then the one built from the body.\<close>

theorem processInflow_authentic:
  "db (snd (processInflow e rawBody sig w)) = db w \<and>
   (webhookQueue (snd (processInflow e rawBody sig w)) = webhookQueue w \<or>
    (\<exists>raw body s. rawBody = Some raw \<and> sig = Some s \<and> authentic e raw body s (db w) \<and>
       webhookQueue (snd (processInflow e rawBody sig w)) = webhookQueue w @ [inflow_job body]))"
  by (rule processInflow_queue)

text \<open>C40: an authentic delivery of a well-typed inflow reaches the worker unchanged: when the database and the
  queue answer, it is accepted and the queued job reads back as exactly the inflow that was signed.\<close>

theorem signed_delivery_roundtrip:
  assumes "authentic e raw (delivery_body p) s (db w)" "inf_eventType p = Some ''NOMBA_INFLOW''"
    and "env_fault e (tick w) = None" "env_queue_fault e (Suc (tick w)) = None"
  shows "fst (processInflow e (Some raw) (Some s) w) = Inr () \<and>
    map read_job (webhookQueue (snd (processInflow e (Some raw) (Some s) w))) =
      map read_job (webhookQueue w) @ [Some p]"
  by (simp add: processInflow_accepts [OF assms(1,3,4)] read_delivery [OF assms(2)])

text \<open>A business with a stored webhook secret and an environment whose parser reads the demo delivery.\<close>

definition demo_signed_env :: env where
  "demo_signed_env = demo_env\<lparr>env_parse_json := (\<lambda>_. Some (delivery_body demo_payload))\<rparr>"

definition demo_secret_business :: business where
  "demo_secret_business = demo_business\<lparr>biz_nombaWebhookSecret :=
     Some (to_hex ''iv'' @ '':'' @ to_hex (rev ''whsec'') @ '':'' @ to_hex ''hkey'')\<rparr>"

definition demo_signed_world :: world where
  "demo_signed_world = demo_world\<lparr>db := demo_db\<lparr>t_business := [demo_secret_business]\<rparr>\<rparr>"

theorem signed_delivery_roundtrip_witness:
  "map read_job (webhookQueue (snd (processInflow demo_signed_env (Some ''{}'')
     (Some (to_hex ''whsec{}'')) demo_signed_world))) = [Some demo_payload]"
proof -
  have "find_owner ''0001'' (db demo_signed_world) = Some (demo_account, Some demo_secret_business)"
    by (simp add: find_owner_def find_by_number_def customer_of_def find_business_def
        demo_secret_business_def demo_signed_world_def demo_defs)
  moreover have "decryptWebhookSecret demo_signed_env (the (biz_nombaWebhookSecret demo_secret_business))
      = Inr ''whsec''" by code_simp
  moreover have "data_field (delivery_body demo_payload) ''accountNumber'' = Some (JStr ''0001'')"
    by code_simp
  ultimately have "authentic demo_signed_env ''{}'' (delivery_body demo_payload) (to_hex ''whsec{}'')
      (db demo_signed_world)"
    unfolding authentic_def
    by (intro exI [of _ "''0001''"] exI [of _ demo_account] exI [of _ demo_secret_business]
        exI [of _ "the (biz_nombaWebhookSecret demo_secret_business)"] exI [of _ "''whsec''"])
      (simp add: demo_signed_env_def demo_env_def demo_secret_business_def)
  from signed_delivery_roundtrip [OF this] show ?thesis
    by (simp add: demo_payload_def demo_signed_env_def demo_env_def demo_signed_world_def demo_world_def)
qed

text \<open>Dispatching a custom event changes no table. When it returns, either the event was already recorded for
  the business and nothing is queued, or exactly one job is queued for the named account of the
  business; the worker treats it as a custom event exactly when its name is not \<open>NOMBA_INFLOW\<close>.\<close>

theorem dispatch_queues_once:
  assumes "dispatch e ref ev name biz w = (Inr (), w')" "name \<noteq> []"
  shows "db w' = db w \<and>
    ((\<exists>r \<in> set (t_processedEvent (db w)). pev_eventId r = ev \<and> pev_businessId r = Some biz) \<and>
       webhookQueue w' = webhookQueue w \<or>
     (\<exists>a p. find_account_by_ref ref biz (db w) = Some a \<and>
        map read_job (webhookQueue w') = map read_job (webhookQueue w) @ [Some p] \<and>
        inf_eventId p = ev \<and> inf_accountNumber p = acc_accountNumber a \<and> inf_amountKobo p = 0 \<and>
        is_custom_event p = (name \<noteq> ''NOMBA_INFLOW'')))"
proof -
  have job: "\<exists>p. read_job (custom_job ev n name) = Some p \<and> inf_eventId p = ev \<and> inf_accountNumber p = n \<and>
      inf_amountKobo p = 0 \<and> is_custom_event p = (name \<noteq> ''NOMBA_INFLOW'')" for n
    using assms(2)
    by (simp add: read_job_def custom_job_def req_text_def req_num_def opt_text_def is_custom_event_def
        str_truthy_def)
  have log: "db w2 = db w1 \<and> webhookQueue w2 = webhookQueue w1" if "AuditService_log e q w1 = (r, w2)" for q r w1 w2
    using that by (subst (asm) audit.log_run) auto
  have "db w' = db w \<and>
    ((\<exists>r \<in> set (t_processedEvent (db w)). pev_eventId r = ev \<and> pev_businessId r = Some biz) \<and>
       webhookQueue w' = webhookQueue w \<or>
     (\<exists>a. find_account_by_ref ref biz (db w) = Some a \<and>
        webhookQueue w' = webhookQueue w @ [custom_job ev (acc_accountNumber a) name]))"
    using assms(1) unfolding dispatch_def run_defs Let_def
    by (auto simp: add_webhook_job_run split: option.splits prod.splits if_splits
        dest!: log find_SomeD)
  then consider "db w' = db w"
      "\<exists>r \<in> set (t_processedEvent (db w)). pev_eventId r = ev \<and> pev_businessId r = Some biz"
      "webhookQueue w' = webhookQueue w"
    | a where "db w' = db w" "find_account_by_ref ref biz (db w) = Some a"
      "webhookQueue w' = webhookQueue w @ [custom_job ev (acc_accountNumber a) name]"
    by blast
  then show ?thesis
  proof cases
    case 1
    then show ?thesis by blast
  next
    case (2 a)
    from job [of "acc_accountNumber a"] obtain p where "read_job (custom_job ev (acc_accountNumber a) name) = Some p"
      "inf_eventId p = ev" "inf_accountNumber p = acc_accountNumber a" "inf_amountKobo p = 0"
      "is_custom_event p = (name \<noteq> ''NOMBA_INFLOW'')" by blast
    with 2 show ?thesis by (intro conjI disjI2 exI [of _ a] exI [of _ p]) simp_all
  qed
qed

theorem dispatch_queues_once_witness:
  "\<exists>w'. dispatch demo_env ''acc-1'' ''ev9'' ''cycle_reset'' ''b1'' demo_world = (Inr (), w') \<and> db w' = demo_db"
proof -
  let ?m = "dispatch demo_env ''acc-1'' ''ev9'' ''cycle_reset'' ''b1'' demo_world"
  have "fst ?m = Inr ()" by code_simp
  from fst_run [OF this] have run: "?m = (Inr (), snd ?m)" .
  from dispatch_queues_once [OF run] have "db (snd ?m) = db demo_world" by simp
  then have "db (snd ?m) = demo_db" by (simp add: demo_world_def)
  with run show ?thesis by metis
qed

end
