(* ===== verification/Http_Server.thy ===== *)
theory Http_Server
  imports Dto_Validation Http_Layer Webhooks_Service
begin

text \<open>
  The HTTP surface: the controllers (\<open>src/*/*.controller.ts\<close>) with the demo, health and metrics services
  they call, the route table their decorators declare, and the way a request takes through the application
  (\<open>src/main.ts\<close>, \<open>src/app.module.ts\<close>): routing, ApiKeyGuard, throttler, the request-id, idempotency and BigInt
  interceptors, the validation pipe, the handler, and the exception filter.
\<close>

section \<open>Requests and routes\<close>

datatype http_method = GET | POST | PUT | PATCH | DELETE

text \<open>
  A request after Express: the decoded path segments, the query (one value for each name), the parsed JSON
  body, and the headers the application reads.
\<close>

record http_request =
  hr_method :: http_method
  hr_path :: "string list"
  hr_url :: string
  hr_query :: "(string \<times> string) list"
  hr_body :: "body option"
  hr_rawBody :: "string option"
  hr_apiKey :: "string option"
  hr_adminSecret :: "string option"
  hr_signature :: "string option"
  hr_idempotencyKey :: "string option"

datatype route =
    GetMyBusiness | RegisterBusiness | UpdateBusinessCredentials string
  | CreateApiKey | ListApiKeys | RevokeApiKey string
  | ProvisionAccount | ListAccounts | GetAccountState string | UpdateAccountStatus string | CloseAccount string
  | ReplaceRuleSet string | ToggleRule string string | DeleteRule string string
  | GetLedger string | GetLedgerSummary string | ExportLedger string
  | DispatchEvent string
  | CreateCustomer | ListCustomers | GetCustomer string | RenameCustomer string | UpdateKycTier string
  | ProvisionBucket | ListBuckets | GetBucket string | RenameBucket string | CloseBucket string
  | GetBucketBalance string | GetBucketStatement string | TransferBucket string | WithdrawBucket string
  | ListSettlements string
  | ReceiveNombaWebhook | SimulateInflow | WebhookEcho | CheckHealth | GetMetrics

datatype segment = Lit string | Param

type_synonym route_entry = "http_method \<times> segment list \<times> (string list \<Rightarrow> route)"

text \<open>The paths of the decorators under the global prefix \<open>api/v1\<close>.\<close>

definition entry :: "http_method \<Rightarrow> segment list \<Rightarrow> (string list \<Rightarrow> route) \<Rightarrow> route_entry" where
  "entry m p f = (m, Lit ''api'' # Lit ''v1'' # p, f)"

definition auth_routes :: "route_entry list" where
  "auth_routes =
     [entry GET [Lit ''businesses'', Lit ''me''] (\<lambda>_. GetMyBusiness),
      entry POST [Lit ''businesses''] (\<lambda>_. RegisterBusiness),
      entry PATCH [Lit ''businesses'', Param, Lit ''credentials''] (\<lambda>p. UpdateBusinessCredentials (p ! 0)),
      entry POST [Lit ''api-keys''] (\<lambda>_. CreateApiKey),
      entry GET [Lit ''api-keys''] (\<lambda>_. ListApiKeys),
      entry DELETE [Lit ''api-keys'', Param] (\<lambda>p. RevokeApiKey (p ! 0))]"

definition account_routes :: "route_entry list" where
  "account_routes =
     [entry POST [Lit ''accounts''] (\<lambda>_. ProvisionAccount),
      entry GET [Lit ''accounts''] (\<lambda>_. ListAccounts),
      entry GET [Lit ''accounts'', Param, Lit ''state''] (\<lambda>p. GetAccountState (p ! 0)),
      entry PATCH [Lit ''accounts'', Param, Lit ''status''] (\<lambda>p. UpdateAccountStatus (p ! 0)),
      entry DELETE [Lit ''accounts'', Param] (\<lambda>p. CloseAccount (p ! 0))]"

definition rule_routes :: "route_entry list" where
  "rule_routes =
     [entry PUT [Lit ''accounts'', Param, Lit ''rules''] (\<lambda>p. ReplaceRuleSet (p ! 0)),
      entry PATCH [Lit ''accounts'', Param, Lit ''rules'', Param] (\<lambda>p. ToggleRule (p ! 0) (p ! 1)),
      entry DELETE [Lit ''accounts'', Param, Lit ''rules'', Param] (\<lambda>p. DeleteRule (p ! 0) (p ! 1))]"

definition ledger_routes :: "route_entry list" where
  "ledger_routes =
     [entry GET [Lit ''accounts'', Param, Lit ''ledger''] (\<lambda>p. GetLedger (p ! 0)),
      entry GET [Lit ''accounts'', Param, Lit ''ledger'', Lit ''summary''] (\<lambda>p. GetLedgerSummary (p ! 0)),
      entry GET [Lit ''accounts'', Param, Lit ''ledger'', Lit ''export''] (\<lambda>p. ExportLedger (p ! 0))]"

definition identity_routes :: "route_entry list" where
  "identity_routes =
     [entry POST [Lit ''customers''] (\<lambda>_. CreateCustomer),
      entry GET [Lit ''customers''] (\<lambda>_. ListCustomers),
      entry GET [Lit ''customers'', Param] (\<lambda>p. GetCustomer (p ! 0)),
      entry PATCH [Lit ''customers'', Param, Lit ''name''] (\<lambda>p. RenameCustomer (p ! 0)),
      entry PATCH [Lit ''customers'', Param, Lit ''kyc-tier''] (\<lambda>p. UpdateKycTier (p ! 0))]"

definition treasury_routes :: "route_entry list" where
  "treasury_routes =
     [entry POST [Lit ''treasury-buckets''] (\<lambda>_. ProvisionBucket),
      entry GET [Lit ''treasury-buckets''] (\<lambda>_. ListBuckets),
      entry GET [Lit ''treasury-buckets'', Param] (\<lambda>p. GetBucket (p ! 0)),
      entry PATCH [Lit ''treasury-buckets'', Param] (\<lambda>p. RenameBucket (p ! 0)),
      entry DELETE [Lit ''treasury-buckets'', Param] (\<lambda>p. CloseBucket (p ! 0)),
      entry GET [Lit ''treasury-buckets'', Param, Lit ''balance''] (\<lambda>p. GetBucketBalance (p ! 0)),
      entry GET [Lit ''treasury-buckets'', Param, Lit ''statement''] (\<lambda>p. GetBucketStatement (p ! 0)),
      entry POST [Lit ''treasury-buckets'', Param, Lit ''transfer''] (\<lambda>p. TransferBucket (p ! 0)),
      entry POST [Lit ''treasury-buckets'', Param, Lit ''withdraw''] (\<lambda>p. WithdrawBucket (p ! 0)),
      entry GET [Lit ''treasury-buckets'', Param, Lit ''settlements''] (\<lambda>p. ListSettlements (p ! 0))]"

definition other_routes :: "route_entry list" where
  "other_routes =
     [entry GET [Lit ''health''] (\<lambda>_. CheckHealth),
      entry POST [Lit ''webhooks'', Lit ''nomba''] (\<lambda>_. ReceiveNombaWebhook),
      entry POST [Lit ''accounts'', Param, Lit ''events''] (\<lambda>p. DispatchEvent (p ! 0)),
      entry POST [Lit ''demo'', Lit ''simulate-inflow''] (\<lambda>_. SimulateInflow),
      entry GET [Lit ''metrics''] (\<lambda>_. GetMetrics)] @
     map (\<lambda>m. entry m [Lit ''demo'', Lit ''webhook-echo''] (\<lambda>_. WebhookEcho)) [GET, POST, PUT, PATCH, DELETE]"

definition routes :: "route_entry list" where
  "routes = auth_routes @ account_routes @ rule_routes @ ledger_routes @ identity_routes @ treasury_routes @
     other_routes"

text \<open>Express compares the literal segments without regard to case; a parameter is one segment that is not empty.\<close>

definition toLowerCase :: "string \<Rightarrow> string" where
  "toLowerCase s =
     map (\<lambda>c. if 65 \<le> (of_char c :: nat) \<and> (of_char c :: nat) \<le> 90 then char_of ((of_char c :: nat) + 32) else c) s"

fun bind_path :: "segment list \<Rightarrow> string list \<Rightarrow> string list option" where
  "bind_path [] [] = Some []"
| "bind_path (Lit s # ps) (x # xs) = (if toLowerCase x = s then bind_path ps xs else None)"
| "bind_path (Param # ps) (x # xs) = (if x = [] then None else map_option ((#) x) (bind_path ps xs))"
| "bind_path _ _ = None"

definition route_matches :: "http_method \<Rightarrow> string list \<Rightarrow> route_entry \<Rightarrow> bool" where
  "route_matches m path x = (case x of (m', p, f) \<Rightarrow> m' = m \<and> bind_path p path \<noteq> None)"

definition find_route :: "http_method \<Rightarrow> string list \<Rightarrow> route option" where
  "find_route m path =
     map_option (\<lambda>(m', p, f). f (the (bind_path p path))) (find (route_matches m path) routes)"

text \<open>\<open>@Public()\<close>, \<open>@HttpCode\<close> and \<open>@Throttle\<close> of the handlers.\<close>

fun is_public :: "route \<Rightarrow> bool" where
  "is_public RegisterBusiness = True"
| "is_public (UpdateBusinessCredentials _) = True"
| "is_public CreateApiKey = True"
| "is_public ReceiveNombaWebhook = True"
| "is_public SimulateInflow = True"
| "is_public WebhookEcho = True"
| "is_public CheckHealth = True"
| "is_public GetMetrics = True"
| "is_public _ = False"

definition route_status :: "route \<Rightarrow> nat" where
  "route_status r =
     (if r \<in> {RegisterBusiness, CreateApiKey, ProvisionAccount, CreateCustomer, ProvisionBucket} then 201 else 200)"

fun throttle_of :: "route \<Rightarrow> string" where
  "throttle_of RegisterBusiness = ''admin''"
| "throttle_of (UpdateBusinessCredentials _) = ''admin''"
| "throttle_of CreateApiKey = ''admin''"
| "throttle_of ReceiveNombaWebhook = ''webhook''"
| "throttle_of _ = ''default''"

section \<open>Controllers\<close>

definition query_param :: "http_request \<Rightarrow> string \<Rightarrow> string option" where
  "query_param rq k = map_of (hr_query rq) k"

definition body_of :: "http_request \<Rightarrow> body" where
  "body_of rq = getOr (hr_body rq) []"

text \<open>The admin secret as AuthService gets it: without the header, \<open>timingSafeCompare\<close> throws on \<open>undefined\<close>.\<close>

definition admin_call :: "env \<Rightarrow> string option \<Rightarrow> (string \<Rightarrow> 'a act) \<Rightarrow> 'a act" where
  "admin_call e adminSecret f =
     (case adminSecret of
        None \<Rightarrow> seqm (randomBytes e) (throw (JsExn ''The data argument must be of type string''))
      | Some s \<Rightarrow> f s)"

definition AuthController_getMyBusiness :: "env \<Rightarrow> server \<Rightarrow> business \<Rightarrow> jsv act" where
  "AuthController_getMyBusiness e srv b =
     bnd (getMyBusiness e (biz_id b)) (\<lambda>p. ret (profile_value (srv_updatedAt srv) p))"

definition AuthController_registerBusiness :: "env \<Rightarrow> server \<Rightarrow> http_request \<Rightarrow> jsv act" where
  "AuthController_registerBusiness e srv rq =
     bnd (ValidationPipe e srv RegisterBusinessDto read_business (body_of rq)) (\<lambda>dto.
     bnd (admin_call e (hr_adminSecret rq) (registerBusiness e dto)) (\<lambda>(businessId, name).
     ret (JsObj [(''businessId'', JsStr businessId), (''name'', JsStr name)])))"

definition AuthController_updateBusinessCredentials ::
  "env \<Rightarrow> server \<Rightarrow> http_request \<Rightarrow> string \<Rightarrow> jsv act" where
  "AuthController_updateBusinessCredentials e srv rq i =
     bnd (ValidationPipe e srv UpdateBusinessCredentialsDto read_credentials (body_of rq)) (\<lambda>dto.
     bnd (admin_call e (hr_adminSecret rq) (updateBusinessCredentials e i dto)) (\<lambda>(businessId, name, has).
     ret (JsObj [(''businessId'', JsStr businessId), (''name'', JsStr name),
       (''hasNombaCredentials'', JsBool has)])))"

definition AuthController_createApiKey :: "env \<Rightarrow> server \<Rightarrow> http_request \<Rightarrow> jsv act" where
  "AuthController_createApiKey e srv rq =
     bnd (ValidationPipe e srv CreateApiKeyDto read_api_key (body_of rq)) (\<lambda>dto.
     bnd (admin_call e (hr_adminSecret rq) (createApiKey e dto)) (\<lambda>r.
     ret (JsObj [(''keyId'', JsStr (kr_keyId r)), (''key'', JsStr (kr_key r)), (''prefix'', JsStr (kr_prefix r)),
       (''name'', JsStr (kr_name r))])))"

definition AuthController_listApiKeys :: "env \<Rightarrow> business \<Rightarrow> jsv act" where
  "AuthController_listApiKeys e b =
     bnd (listApiKeys e (biz_id b)) (\<lambda>keys. ret (JsArr (map apiKey_item_value keys)))"

definition AuthController_revokeApiKey :: "env \<Rightarrow> string \<Rightarrow> apiKey \<Rightarrow> business \<Rightarrow> jsv act" where
  "AuthController_revokeApiKey e i k b =
     seqm (revokeApiKey e i (biz_id b) (key_keyPrefix k)) (ret (JsObj [(''revoked'', JsBool True)]))"

definition AccountsController_provision :: "env \<Rightarrow> server \<Rightarrow> http_request \<Rightarrow> business \<Rightarrow> jsv act" where
  "AccountsController_provision e srv rq b =
     bnd (ValidationPipe e srv ProvisionAccountDto read_account (body_of rq)) (\<lambda>dto.
     bnd (provisionAccount e dto (biz_id b)) (\<lambda>(account, rules).
     ret (JsObj (account_object (srv_updatedAt srv) account @ [rules_field (srv_updatedAt srv) rules]))))"

definition AccountsController_list :: "env \<Rightarrow> server \<Rightarrow> http_request \<Rightarrow> business \<Rightarrow> jsv act" where
  "AccountsController_list e srv rq b =
     bnd (listAccounts e (biz_id b) (query_param rq ''status'') (int_param (query_param rq ''page'') 1)
            (int_param (query_param rq ''limit'') 20)) (\<lambda>r.
     ret (paged_value ''totalPages'' (account_item_object (srv_updatedAt srv)) r))"

definition AccountsController_getState :: "env \<Rightarrow> server \<Rightarrow> string \<Rightarrow> business \<Rightarrow> jsv act" where
  "AccountsController_getState e srv ref b =
     bnd (getAccountState e ref (biz_id b)) (\<lambda>s. ret (state_value (srv_updatedAt srv) s))"

definition AccountsController_updateStatus ::
  "env \<Rightarrow> server \<Rightarrow> http_request \<Rightarrow> string \<Rightarrow> apiKey \<Rightarrow> business \<Rightarrow> jsv act" where
  "AccountsController_updateStatus e srv rq ref k b =
     bnd (ValidationPipe e srv UpdateStatusDto read_status (body_of rq)) (\<lambda>dto.
     bnd (updateStatus e ref dto (biz_id b) (key_keyPrefix k)) (\<lambda>a.
     ret (JsObj (account_object (srv_updatedAt srv) a))))"

definition AccountsController_close :: "env \<Rightarrow> server \<Rightarrow> string \<Rightarrow> apiKey \<Rightarrow> business \<Rightarrow> jsv act" where
  "AccountsController_close e srv ref k b =
     bnd (closeAccount e ref (biz_id b) (key_keyPrefix k) b) (\<lambda>a.
     ret (JsObj (account_object (srv_updatedAt srv) a)))"

definition RulesController_replaceRuleSet ::
  "env \<Rightarrow> server \<Rightarrow> http_request \<Rightarrow> string \<Rightarrow> business \<Rightarrow> jsv act" where
  "RulesController_replaceRuleSet e srv rq ref b =
     bnd (ValidationPipe e srv ReplaceRuleSetDto read_rule_set (body_of rq)) (\<lambda>dto.
     bnd (replaceRuleSet e ref (biz_id b) dto) (\<lambda>r. ret (ruleSet_value r)))"

definition RulesController_toggleRule ::
  "env \<Rightarrow> server \<Rightarrow> http_request \<Rightarrow> string \<Rightarrow> string \<Rightarrow> business \<Rightarrow> jsv act" where
  "RulesController_toggleRule e srv rq ref ruleId b =
     bnd (ValidationPipe e srv ToggleRuleDto read_toggle (body_of rq)) (\<lambda>enabled.
     bnd (toggleRule e ref ruleId (biz_id b) enabled) (\<lambda>r. ret (rule_status_value r)))"

definition RulesController_deleteRule :: "env \<Rightarrow> string \<Rightarrow> string \<Rightarrow> business \<Rightarrow> jsv act" where
  "RulesController_deleteRule e ref ruleId b =
     bnd (deleteRule e ref ruleId (biz_id b)) (\<lambda>r. ret (rule_status_value r))"

definition LedgerController_getEntries :: "env \<Rightarrow> server \<Rightarrow> http_request \<Rightarrow> string \<Rightarrow> business \<Rightarrow> jsv act" where
  "LedgerController_getEntries e srv rq ref b =
     bnd (ValidationPipe e srv LedgerFiltersDto (read_filters e) (map (map_prod id JStr) (hr_query rq))) (\<lambda>filters.
     bnd (getEntriesByAccountRef e ref (biz_id b) filters) (\<lambda>r. ret (cursor_value ledger_object r)))"

definition LedgerController_getSummary :: "env \<Rightarrow> string \<Rightarrow> business \<Rightarrow> jsv act" where
  "LedgerController_getSummary e ref b =
     bnd (getSummaryByAccountRef e ref (biz_id b)) (\<lambda>s. ret (summary_value s))"

text \<open>The file name and the text of the CSV the handler sends itself.\<close>

definition LedgerController_exportCsv :: "env \<Rightarrow> string \<Rightarrow> business \<Rightarrow> (string \<times> string) act" where
  "LedgerController_exportCsv e ref b =
     bnd (exportCsvByAccountRef e ref (biz_id b)) (\<lambda>csv. ret (''ledger-'' @ ref @ ''.csv'', csv))"

definition EventsController_dispatch :: "env \<Rightarrow> server \<Rightarrow> http_request \<Rightarrow> string \<Rightarrow> business \<Rightarrow> jsv act" where
  "EventsController_dispatch e srv rq ref b =
     bnd (ValidationPipe e srv CustomEventDto read_event (body_of rq)) (\<lambda>(eventId, eventName).
     seqm (dispatch e ref eventId eventName (biz_id b)) (ret received_value))"

definition IdentityController_createCustomer :: "env \<Rightarrow> server \<Rightarrow> http_request \<Rightarrow> business \<Rightarrow> jsv act" where
  "IdentityController_createCustomer e srv rq b =
     bnd (ValidationPipe e srv CreateCustomerDto read_customer (body_of rq)) (\<lambda>dto.
     bnd (createCustomer e dto (biz_id b)) (\<lambda>(customer, history).
     ret (JsObj (customer_object (srv_updatedAt srv) customer @ [history_field history]))))"

definition IdentityController_listCustomers :: "env \<Rightarrow> server \<Rightarrow> http_request \<Rightarrow> business \<Rightarrow> jsv act" where
  "IdentityController_listCustomers e srv rq b =
     bnd (listCustomers e (biz_id b) (Some (int_param (query_param rq ''page'') 1))
            (Some (int_param (query_param rq ''limit'') 20))) (\<lambda>r.
     ret (paged_value ''pages'' (customer_item_object (srv_updatedAt srv)) r))"

definition IdentityController_getCustomer :: "env \<Rightarrow> server \<Rightarrow> string \<Rightarrow> business \<Rightarrow> jsv act" where
  "IdentityController_getCustomer e srv i b =
     bnd (getCustomer e i (biz_id b)) (\<lambda>(customer, history, accounts).
     ret (JsObj (customer_object (srv_updatedAt srv) customer @ [history_field history,
       (''accounts'', JsArr (map (\<lambda>a. JsObj (account_object (srv_updatedAt srv) a)) accounts))])))"

definition IdentityController_renameCustomer ::
  "env \<Rightarrow> server \<Rightarrow> http_request \<Rightarrow> string \<Rightarrow> apiKey \<Rightarrow> business \<Rightarrow> jsv act" where
  "IdentityController_renameCustomer e srv rq i k b =
     bnd (ValidationPipe e srv RenameCustomerDto read_rename (body_of rq)) (\<lambda>dto.
     bnd (renameCustomer e i dto (biz_id b) (key_keyPrefix k)) (\<lambda>(customer, history).
     ret (JsObj (customer_object (srv_updatedAt srv) customer @ [history_field history]))))"

definition IdentityController_updateKycTier ::
  "env \<Rightarrow> server \<Rightarrow> http_request \<Rightarrow> string \<Rightarrow> apiKey \<Rightarrow> business \<Rightarrow> jsv act" where
  "IdentityController_updateKycTier e srv rq i k b =
     bnd (ValidationPipe e srv UpdateKycTierDto read_tier (body_of rq)) (\<lambda>dto.
     bnd (updateKycTier e i dto (biz_id b) (key_keyPrefix k)) (\<lambda>r. ret (tier_value r)))"

definition TreasuryController_provision :: "env \<Rightarrow> server \<Rightarrow> http_request \<Rightarrow> business \<Rightarrow> jsv act" where
  "TreasuryController_provision e srv rq b =
     bnd (ValidationPipe e srv CreateBucketDto read_bucket (body_of rq)) (\<lambda>dto.
     bnd (provisionBucket e dto (biz_id b)) (\<lambda>(bucket, balance).
     ret (JsObj (bucket_object (srv_updatedAt srv) bucket @ [(''balanceKobo'', JsBigInt balance)]))))"

definition TreasuryController_list :: "env \<Rightarrow> server \<Rightarrow> http_request \<Rightarrow> business \<Rightarrow> jsv act" where
  "TreasuryController_list e srv rq b =
     bnd (getBuckets e (biz_id b) (int_param (query_param rq ''page'') 1) (int_param (query_param rq ''limit'') 20)
            (query_param rq ''status'')) (\<lambda>r.
     ret (paged_value ''totalPages'' (bucket_object (srv_updatedAt srv)) r))"

definition TreasuryController_get :: "env \<Rightarrow> server \<Rightarrow> string \<Rightarrow> business \<Rightarrow> jsv act" where
  "TreasuryController_get e srv ref b =
     bnd (getBucket e ref (biz_id b)) (\<lambda>(bucket, balance).
     ret (JsObj (bucket_object (srv_updatedAt srv) bucket @ balance_fields balance)))"

definition TreasuryController_rename ::
  "env \<Rightarrow> server \<Rightarrow> http_request \<Rightarrow> string \<Rightarrow> business \<Rightarrow> jsv act" where
  "TreasuryController_rename e srv rq ref b =
     bnd (ValidationPipe e srv RenameBucketDto read_bucket_name (body_of rq)) (\<lambda>name.
     bnd (renameBucket e ref name (biz_id b)) (\<lambda>bucket.
     ret (JsObj (bucket_object (srv_updatedAt srv) bucket))))"

definition TreasuryController_close :: "env \<Rightarrow> server \<Rightarrow> string \<Rightarrow> apiKey \<Rightarrow> business \<Rightarrow> jsv act" where
  "TreasuryController_close e srv ref k b =
     bnd (closeBucket e ref (biz_id b) (key_keyPrefix k)) (\<lambda>bucket.
     ret (JsObj (bucket_object (srv_updatedAt srv) bucket)))"

definition TreasuryController_balance :: "env \<Rightarrow> string \<Rightarrow> business \<Rightarrow> jsv act" where
  "TreasuryController_balance e ref b =
     bnd (TreasuryService_getBalance e ref (biz_id b)) (\<lambda>(bucketRef, balance).
     ret (JsObj ((''bucketRef'', JsStr bucketRef) # balance_fields balance)))"

definition TreasuryController_statement :: "env \<Rightarrow> http_request \<Rightarrow> string \<Rightarrow> business \<Rightarrow> jsv act" where
  "TreasuryController_statement e rq ref b =
     bnd (getStatement e ref (biz_id b)
            \<lparr>sf_from = query_param rq ''from'', sf_to = query_param rq ''to'',
             sf_entryType = query_param rq ''entryType'', sf_cursor = query_param rq ''cursor'',
             sf_limit = Some (int_param (query_param rq ''limit'') 50)\<rparr>) (\<lambda>r.
     ret (cursor_value bucket_entry_object r))"

definition TreasuryController_transfer ::
  "env \<Rightarrow> server \<Rightarrow> http_request \<Rightarrow> string \<Rightarrow> apiKey \<Rightarrow> business \<Rightarrow> jsv act" where
  "TreasuryController_transfer e srv rq ref k b =
     bnd (ValidationPipe e srv TransferBucketDto (read_transfer e) (body_of rq)) (\<lambda>dto.
     bnd (transferBetweenBuckets e ref dto (biz_id b) (key_keyPrefix k)) (\<lambda>r.
     ret (transfer_value (tb_amountKobo dto) r)))"

definition TreasuryController_withdraw ::
  "env \<Rightarrow> server \<Rightarrow> http_request \<Rightarrow> string \<Rightarrow> apiKey \<Rightarrow> business \<Rightarrow> jsv act" where
  "TreasuryController_withdraw e srv rq ref k b =
     bnd (ValidationPipe e srv WithdrawDto (read_withdraw e) (body_of rq)) (\<lambda>dto.
     bnd (initiate e ref dto (biz_id b) b (key_keyPrefix k)) (\<lambda>r. ret (settlement_value r)))"

definition TreasuryController_listSettlements :: "env \<Rightarrow> http_request \<Rightarrow> string \<Rightarrow> business \<Rightarrow> jsv act" where
  "TreasuryController_listSettlements e rq ref b =
     bnd (getByBucket e ref (biz_id b) (query_param rq ''status'') (Some (int_param (query_param rq ''page'') 1))
            (Some (int_param (query_param rq ''limit'') 20))) (\<lambda>r.
     ret (paged_value ''totalPages'' settlement_object r))"

definition WebhooksController_receive :: "env \<Rightarrow> http_request \<Rightarrow> jsv act" where
  "WebhooksController_receive e rq =
     seqm (processInflow e (hr_rawBody rq) (hr_signature rq)) (ret received_value)"

section \<open>Demo, health and metrics\<close>

definition demo_job :: "string \<Rightarrow> string \<Rightarrow> simulateInflowDto \<Rightarrow> json" where
  "demo_job eventId transactionRef p =
     JObj [(''eventId'', JStr eventId), (''transactionRef'', JStr transactionRef),
       (''accountNumber'', JStr (si_accountNumber p)), (''amountKobo'', JNum (si_amountKobo p)),
       (''senderName'', JStr (getOr (si_senderName p) ''Demo Sender'')),
       (''senderAccountNumber'', JStr (getOr (si_senderAccountNumber p) ''0000000000'')),
       (''senderBankCode'', JStr (getOr (si_senderBankCode p) ''000'')),
       (''narration'', JStr (getOr (si_narration p) ''Simulated inflow for demo'')),
       (''eventType'', JStr ''NOMBA_INFLOW'')]"

definition simulateInflow :: "env \<Rightarrow> simulateInflowDto \<Rightarrow> (string \<times> string) act" where
  "simulateInflow e p =
     bnd (uuidv4 e) (\<lambda>u. bnd (uuidv4 e) (\<lambda>v.
     let eventId = ''demo_'' @ u; transactionRef = ''DEMO-TXN-'' @ v in
     seqm (add_webhook_job e (demo_job eventId transactionRef p)) (ret (eventId, transactionRef))))"

definition demo_only :: "string \<Rightarrow> exn" where
  "demo_only what = HttpExn 403 DEMO_MODE_ONLY (what @ '' requires DEMO_MODE_ENABLED=true'')"

definition DemoController_simulateInflow :: "env \<Rightarrow> server \<Rightarrow> http_request \<Rightarrow> jsv act" where
  "DemoController_simulateInflow e srv rq =
     bnd (ValidationPipe e srv SimulateInflowDto (read_simulation e) (body_of rq)) (\<lambda>dto.
     if \<not> srv_demo_mode srv then throw (demo_only ''POST /demo/simulate-inflow'')
     else
       bnd (if str_truthy (hr_adminSecret rq) then timingSafeCompare e (the (hr_adminSecret rq)) (cfg_admin_secret e)
            else ret False) (\<lambda>same.
       if \<not> same then throw (Unauthorized INVALID_ADMIN_SECRET ''Invalid admin secret'')
       else
         bnd (simulateInflow e dto) (\<lambda>(eventId, transactionRef).
         ret (JsObj [(''received'', JsBool True), (''eventId'', JsStr eventId),
           (''transactionRef'', JsStr transactionRef)]))))"

definition DemoController_webhookEcho :: "env \<Rightarrow> server \<Rightarrow> http_request \<Rightarrow> jsv act" where
  "DemoController_webhookEcho e srv rq =
     (if \<not> srv_demo_mode srv then throw (demo_only ''ANY /demo/webhook-echo'')
      else
        bnd (now e) (\<lambda>t.
        ret (JsObj [(''received'', JsBool True), (''timestamp'', JsStr (iso_string t)),
          (''payload'', case hr_body rq of None \<Rightarrow> JsUndefined | Some b \<Rightarrow> of_json (JObj b))])))"

definition checkDb :: "env \<Rightarrow> string act" where
  "checkDb e = catch (seqm (query e (\<lambda>_. ())) (ret ''connected'')) (\<lambda>_. ret ''error'')"

text \<open>\<open>RedisService.ping\<close>: whether the client's PING succeeds.\<close>

definition redis_ping :: "server \<Rightarrow> bool act" where
  "redis_ping srv = (\<lambda>w. (Inr (srv_redis_ping srv (tick w)), w\<lparr>tick := Suc (tick w)\<rparr>))"

definition checkRedis :: "server \<Rightarrow> string act" where
  "checkRedis srv = bnd (redis_ping srv) (\<lambda>ok. ret (if ok then ''connected'' else ''error''))"

definition count_executions :: "env \<Rightarrow> execution_status \<Rightarrow> nat act" where
  "count_executions e st = query e (\<lambda>d. length (filter (\<lambda>x. rex_status x = st) (t_ruleExecution d)))"

definition HealthController_check :: "env \<Rightarrow> server \<Rightarrow> jsv act" where
  "HealthController_check e srv =
     bnd (checkDb e) (\<lambda>database.
     bnd (checkRedis srv) (\<lambda>redis.
     bnd (count_executions e ExPENDING) (\<lambda>pending.
     bnd (count_executions e ExFAILED) (\<lambda>failed.
     bnd (now e) (\<lambda>t.
     ret (JsObj [(''status'', JsStr ''ok''), (''db'', JsStr database), (''redis'', JsStr redis),
       (''version'', JsStr (srv_version srv)),
       (''queueDepth'', JsObj [(''pending'', js_nat pending), (''failed'', js_nat failed)]),
       (''timestamp'', JsStr (iso_string t))]))))))"

record counters =
  ct_inflows_processed :: nat
  ct_rule_executions_succeeded :: nat
  ct_rule_executions_failed :: nat
  ct_settlements_completed :: nat
  ct_settlements_failed :: nat

definition initial_counters :: counters where
  "initial_counters = \<lparr>ct_inflows_processed = 0, ct_rule_executions_succeeded = 0,
     ct_rule_executions_failed = 0, ct_settlements_completed = 0, ct_settlements_failed = 0\<rparr>"

definition inc :: "string \<Rightarrow> nat \<Rightarrow> counters \<Rightarrow> counters" where
  "inc name delta c =
     (if name = ''inflows_processed'' then c\<lparr>ct_inflows_processed := ct_inflows_processed c + delta\<rparr>
      else if name = ''rule_executions_succeeded''
      then c\<lparr>ct_rule_executions_succeeded := ct_rule_executions_succeeded c + delta\<rparr>
      else if name = ''rule_executions_failed''
      then c\<lparr>ct_rule_executions_failed := ct_rule_executions_failed c + delta\<rparr>
      else if name = ''settlements_completed''
      then c\<lparr>ct_settlements_completed := ct_settlements_completed c + delta\<rparr>
      else if name = ''settlements_failed'' then c\<lparr>ct_settlements_failed := ct_settlements_failed c + delta\<rparr>
      else c)"

definition getCounter :: "counters \<Rightarrow> string \<Rightarrow> nat" where
  "getCounter c name =
     (if name = ''inflows_processed'' then ct_inflows_processed c
      else if name = ''rule_executions_succeeded'' then ct_rule_executions_succeeded c
      else if name = ''rule_executions_failed'' then ct_rule_executions_failed c
      else if name = ''settlements_completed'' then ct_settlements_completed c
      else if name = ''settlements_failed'' then ct_settlements_failed c
      else 0)"

definition prometheusText :: "env \<Rightarrow> counters \<Rightarrow> string act" where
  "prometheusText e c =
     bnd (count_executions e ExPENDING) (\<lambda>pendingRules.
     bnd (count_executions e ExFAILED) (\<lambda>failedRules.
     let q = (\<lambda>s. [CHR 0x22] @ s @ [CHR 0x22]) in
     ret (join [CHR 0x0A]
       [''# HELP accountos_inflows_processed Total inflows processed'',
        ''# TYPE accountos_inflows_processed counter'',
        ''accountos_inflows_processed '' @ show_nat (ct_inflows_processed c),
        [],
        ''# HELP accountos_rule_executions_total Rule executions by status'',
        ''# TYPE accountos_rule_executions_total counter'',
        ''accountos_rule_executions_total{status='' @ q ''succeeded'' @ ''} '' @ show_nat (ct_rule_executions_succeeded c),
        ''accountos_rule_executions_total{status='' @ q ''failed'' @ ''} '' @ show_nat (ct_rule_executions_failed c),
        [],
        ''# HELP accountos_settlements_total Settlements by status'',
        ''# TYPE accountos_settlements_total counter'',
        ''accountos_settlements_total{status='' @ q ''completed'' @ ''} '' @ show_nat (ct_settlements_completed c),
        ''accountos_settlements_total{status='' @ q ''failed'' @ ''} '' @ show_nat (ct_settlements_failed c),
        [],
        ''# HELP accountos_queue_depth Queue depth by state'',
        ''# TYPE accountos_queue_depth gauge'',
        ''accountos_queue_depth{state='' @ q ''pending'' @ ''} '' @ show_nat pendingRules,
        ''accountos_queue_depth{state='' @ q ''failed'' @ ''} '' @ show_nat failedRules,
        []])))"

text \<open>No caller increments a counter, so the endpoint prints the initial ones.\<close>

definition MetricsController_metrics :: "env \<Rightarrow> jsv act" where
  "MetricsController_metrics e = bnd (prometheusText e initial_counters) (\<lambda>s. ret (JsStr s))"

section \<open>The way of a request\<close>

text \<open>The handler of a route; \<open>req.business\<close> is undefined on a public route.\<close>

definition with_business :: "(apiKey \<times> business) option \<Rightarrow> (apiKey \<Rightarrow> business \<Rightarrow> 'a act) \<Rightarrow> 'a act" where
  "with_business who f =
     (case who of
        None \<Rightarrow> throw (JsExn ''Cannot read properties of undefined (reading id)'')
      | Some (k, b) \<Rightarrow> f k b)"

fun handle_public :: "env \<Rightarrow> server \<Rightarrow> http_request \<Rightarrow> route \<Rightarrow> jsv act" where
  "handle_public e srv rq RegisterBusiness = AuthController_registerBusiness e srv rq"
| "handle_public e srv rq (UpdateBusinessCredentials i) = AuthController_updateBusinessCredentials e srv rq i"
| "handle_public e srv rq CreateApiKey = AuthController_createApiKey e srv rq"
| "handle_public e srv rq ReceiveNombaWebhook = WebhooksController_receive e rq"
| "handle_public e srv rq SimulateInflow = DemoController_simulateInflow e srv rq"
| "handle_public e srv rq WebhookEcho = DemoController_webhookEcho e srv rq"
| "handle_public e srv rq CheckHealth = HealthController_check e srv"
| "handle_public e srv rq GetMetrics = MetricsController_metrics e"
| "handle_public e srv rq _ = throw (JsExn ''Cannot read properties of undefined (reading id)'')"

fun handle_business :: "env \<Rightarrow> server \<Rightarrow> http_request \<Rightarrow> apiKey \<Rightarrow> business \<Rightarrow> route \<Rightarrow> jsv act" where
  "handle_business e srv rq k b GetMyBusiness = AuthController_getMyBusiness e srv b"
| "handle_business e srv rq k b ListApiKeys = AuthController_listApiKeys e b"
| "handle_business e srv rq k b (RevokeApiKey i) = AuthController_revokeApiKey e i k b"
| "handle_business e srv rq k b ProvisionAccount = AccountsController_provision e srv rq b"
| "handle_business e srv rq k b ListAccounts = AccountsController_list e srv rq b"
| "handle_business e srv rq k b (GetAccountState ref) = AccountsController_getState e srv ref b"
| "handle_business e srv rq k b (UpdateAccountStatus ref) = AccountsController_updateStatus e srv rq ref k b"
| "handle_business e srv rq k b (CloseAccount ref) = AccountsController_close e srv ref k b"
| "handle_business e srv rq k b (ReplaceRuleSet ref) = RulesController_replaceRuleSet e srv rq ref b"
| "handle_business e srv rq k b (ToggleRule ref i) = RulesController_toggleRule e srv rq ref i b"
| "handle_business e srv rq k b (DeleteRule ref i) = RulesController_deleteRule e ref i b"
| "handle_business e srv rq k b (GetLedger ref) = LedgerController_getEntries e srv rq ref b"
| "handle_business e srv rq k b (GetLedgerSummary ref) = LedgerController_getSummary e ref b"
| "handle_business e srv rq k b (DispatchEvent ref) = EventsController_dispatch e srv rq ref b"
| "handle_business e srv rq k b CreateCustomer = IdentityController_createCustomer e srv rq b"
| "handle_business e srv rq k b ListCustomers = IdentityController_listCustomers e srv rq b"
| "handle_business e srv rq k b (GetCustomer i) = IdentityController_getCustomer e srv i b"
| "handle_business e srv rq k b (RenameCustomer i) = IdentityController_renameCustomer e srv rq i k b"
| "handle_business e srv rq k b (UpdateKycTier i) = IdentityController_updateKycTier e srv rq i k b"
| "handle_business e srv rq k b ProvisionBucket = TreasuryController_provision e srv rq b"
| "handle_business e srv rq k b ListBuckets = TreasuryController_list e srv rq b"
| "handle_business e srv rq k b (GetBucket ref) = TreasuryController_get e srv ref b"
| "handle_business e srv rq k b (RenameBucket ref) = TreasuryController_rename e srv rq ref b"
| "handle_business e srv rq k b (CloseBucket ref) = TreasuryController_close e srv ref k b"
| "handle_business e srv rq k b (GetBucketBalance ref) = TreasuryController_balance e ref b"
| "handle_business e srv rq k b (GetBucketStatement ref) = TreasuryController_statement e rq ref b"
| "handle_business e srv rq k b (TransferBucket ref) = TreasuryController_transfer e srv rq ref k b"
| "handle_business e srv rq k b (WithdrawBucket ref) = TreasuryController_withdraw e srv rq ref k b"
| "handle_business e srv rq k b (ListSettlements ref) = TreasuryController_listSettlements e rq ref b"
| "handle_business e srv rq k b r = handle_public e srv rq r"

datatype content = Json json | Csv string string

record response =
  rs_status :: nat
  rs_requestId :: "string option"
  rs_content :: content

fun show_method :: "http_method \<Rightarrow> string" where
  "show_method GET = ''GET''"
| "show_method POST = ''POST''"
| "show_method PUT = ''PUT''"
| "show_method PATCH = ''PATCH''"
| "show_method DELETE = ''DELETE''"

text \<open>What the idempotency interceptor reads of a request.\<close>

definition idempotency_view :: "http_request \<Rightarrow> (apiKey \<times> business) option \<Rightarrow> request" where
  "idempotency_view rq who = \<lparr>
     rq_method = show_method (hr_method rq), rq_idempotencyKey = hr_idempotencyKey rq,
     rq_path = concat (map ((#) (CHR ''/'')) (hr_path rq)),
     rq_body = (case hr_body rq of None \<Rightarrow> JNull | Some b \<Rightarrow> JObj b),
     rq_businessId = map_option (\<lambda>(k, b). biz_id b) who\<rparr>"

definition handle :: "env \<Rightarrow> server \<Rightarrow> http_request \<Rightarrow> (apiKey \<times> business) option \<Rightarrow> route \<Rightarrow> jsv act" where
  "handle e srv rq who r =
     (case who of
        None \<Rightarrow> handle_public e srv rq r
      | Some (k, b) \<Rightarrow> handle_business e srv rq k b r)"

text \<open>
  The idempotency interceptor around the BigInt interceptor around the handler. The export has sent its
  answer itself when the interceptors see its result \<open>undefined\<close>; it is a GET, so no key is stored.
\<close>

definition answer :: "env \<Rightarrow> server \<Rightarrow> http_request \<Rightarrow> (apiKey \<times> business) option \<Rightarrow> route \<Rightarrow> content act" where
  "answer e srv rq who r =
     (case r of
        ExportLedger ref \<Rightarrow>
          with_business who (\<lambda>k b.
            bnd (LedgerController_exportCsv e ref b) (\<lambda>(name, csv). ret (Csv name csv)))
      | _ \<Rightarrow>
          bnd (intercept e (idempotency_view rq who) (route_status r)
                 (bnd (handle e srv rq who r) (\<lambda>v. lift_sum (BigIntSerialize v)))) (\<lambda>j. ret (Json j)))"

definition ThrottlerGuard :: "server \<Rightarrow> route \<Rightarrow> unit act" where
  "ThrottlerGuard srv r = (\<lambda>w.
     if srv_throttled srv (throttle_of r) (tick w)
     then (Inl (HttpExn 429 INTERNAL_ERROR ''ThrottlerException: Too Many Requests''), w)
     else (Inr (), w))"

definition error_response :: "env \<Rightarrow> http_request \<Rightarrow> string option \<Rightarrow> exn \<Rightarrow> response act" where
  "error_response e rq requestId x =
     bnd (now e) (\<lambda>t.
     case catch_exception e (exception_of e x) (hr_url rq) requestId t of
       (status, body) \<Rightarrow> ret \<lparr>rs_status = status, rs_requestId = requestId, rs_content = Json body\<rparr>)"

definition unknown_route :: "http_request \<Rightarrow> exn" where
  "unknown_route rq =
     NotFound ACCOUNT_NOT_FOUND (''Cannot '' @ show_method (hr_method rq) @ '' '' @ hr_url rq)"

text \<open>RequestIdInterceptor: the id of the request is in its audit entries and in its answer.\<close>

definition identified :: "env \<Rightarrow> server \<Rightarrow> http_request \<Rightarrow> (apiKey \<times> business) option \<Rightarrow> route \<Rightarrow> response act" where
  "identified e srv rq who r =
     bnd (uuidv4 e) (\<lambda>u.
     let requestId = Some (''req_'' @ u) in
     catch
       (bnd (answer (e\<lparr>env_requestId := requestId\<rparr>) srv rq who r) (\<lambda>c.
        ret \<lparr>rs_status = route_status r, rs_requestId = requestId, rs_content = c\<rparr>))
       (error_response e rq requestId))"

definition respond :: "env \<Rightarrow> server \<Rightarrow> http_request \<Rightarrow> response act" where
  "respond e srv rq =
     (case find_route (hr_method rq) (hr_path rq) of
        None \<Rightarrow> error_response e rq None (unknown_route rq)
      | Some r \<Rightarrow>
          catch
            (bnd (bnd (canActivate e (is_public r) (hr_apiKey rq)) (\<lambda>who.
                  seqm (ThrottlerGuard srv r) (ret who))) (\<lambda>who.
             identified e srv rq who r))
            (error_response e rq None))"

end
