(* ===== verification/AOS_Faultless.thy ===== *)
theory AOS_Faultless
  imports Job_Queues Notification_Service
begin

text \<open>
  Progress needs more than the rules of \<open>wp\<close>, which allow every statement to fail. \<open>runs e d Q X m\<close>: when the
  environment injects no database and no queue fault, \<open>m\<close> run on a world with database \<open>d\<close> returns with \<open>Q\<close>
  or throws an exception with \<open>X\<close>; with \<open>X\<close> false everywhere this says that \<open>m\<close> returns.
\<close>

definition faultless :: "env \<Rightarrow> bool" where
  "faultless e = (\<forall>n. env_fault e n = None \<and> env_queue_fault e n = None)"

definition runs ::
  "env \<Rightarrow> database \<Rightarrow> ('a \<Rightarrow> database \<Rightarrow> bool) \<Rightarrow> (exn \<Rightarrow> database \<Rightarrow> bool) \<Rightarrow> 'a act \<Rightarrow> bool" where
  "runs e d Q X m =
     (faultless e \<longrightarrow> (\<forall>w. db w = d \<longrightarrow>
        (case m w of (Inr x, w') \<Rightarrow> Q x (db w') | (Inl y, w') \<Rightarrow> X y (db w'))))"

named_theorems run_rules \<open>syntax-directed rules for fault-free runs\<close>

lemma runs_ret [run_rules]: "Q x d \<Longrightarrow> runs e d Q X (ret x)"
  by (simp add: runs_def ret_def)

lemma runs_throw [run_rules]: "X y d \<Longrightarrow> runs e d Q X (throw y)"
  by (simp add: runs_def throw_def)

lemma runs_lift_sum [run_rules]:
  "(\<And>x. r = Inr x \<Longrightarrow> Q x d) \<Longrightarrow> (\<And>y. r = Inl y \<Longrightarrow> X y d) \<Longrightarrow> runs e d Q X (lift_sum r)"
  by (cases r) (simp_all add: runs_def lift_sum_def)

lemma runs_bnd [run_rules]: "runs e d (\<lambda>x d'. runs e d' Q X (f x)) X m \<Longrightarrow> runs e d Q X (bnd m f)"
  by (fastforce simp: runs_def bnd_def split: prod.splits sum.splits)

lemma runs_catch [run_rules]: "runs e d Q (\<lambda>y d'. runs e d' Q X (h y)) m \<Longrightarrow> runs e d Q X (catch m h)"
  by (fastforce simp: runs_def catch_def split: prod.splits sum.splits)

lemma runs_query [run_rules]: "Q (f d) d \<Longrightarrow> runs e d Q X (query e f)"
  by (simp add: runs_def query_def prisma_def faultless_def)

lemma runs_now [run_rules]: "(\<And>t. Q t d) \<Longrightarrow> runs e d Q X (now e)"
  by (simp add: runs_def now_def)

lemma runs_if [run_rules]:
  "(c \<Longrightarrow> runs e d Q X m) \<Longrightarrow> (\<not> c \<Longrightarrow> runs e d Q X n) \<Longrightarrow> runs e d Q X (if c then m else n)"
  by simp

lemma runs_case_option [run_rules]:
  "(v = None \<Longrightarrow> runs e d Q X m) \<Longrightarrow> (\<And>x. v = Some x \<Longrightarrow> runs e d Q X (f x)) \<Longrightarrow>
     runs e d Q X (case v of None \<Rightarrow> m | Some x \<Rightarrow> f x)"
  by (cases v) auto

lemma runs_case_prod [run_rules]:
  "(\<And>x y. v = (x, y) \<Longrightarrow> runs e d Q X (f x y)) \<Longrightarrow> runs e d Q X (case v of (x, y) \<Rightarrow> f x y)"
  by (cases v) auto

lemma runs_Let [run_rules]: "runs e d Q X (f t) \<Longrightarrow> runs e d Q X (Let t f)"
  by simp

lemma runs_update_row [run_rules]:
  assumes "find P (rows d) = Some r" "Q (f r) (put (update_rows P f (rows d)) d)"
  shows "runs e d Q X (update_row e rows put P f)"
  using assms by (simp add: runs_def update_row_def prisma_def faultless_def)

lemma runs_log [run_rules]: "Q () d \<Longrightarrow> runs e d Q X (AuditService_log e p)"
  unfolding runs_def by (subst audit.log_run) simp

lemma runs_deliver [run_rules]: "(\<And>r. Q r d) \<Longrightarrow> runs e d Q X (deliver e u b)"
  by (simp add: runs_def deliver_def http_call_def bnd_def ret_def)

lemma runs_wp: "wp d Q E m \<Longrightarrow> (\<And>y d'. E d' \<Longrightarrow> X y d') \<Longrightarrow> runs e d Q X m"
  by (fastforce simp: runs_def wp_def split: prod.splits sum.splits)

lemma runs_conseq:
  "runs e d Q X m \<Longrightarrow> (\<And>x d'. Q x d' \<Longrightarrow> Q' x d') \<Longrightarrow> (\<And>y d'. X y d' \<Longrightarrow> X' y d') \<Longrightarrow> runs e d Q' X' m"
  by (fastforce simp: runs_def split: prod.splits sum.splits)

lemma runs_returns:
  assumes "runs e (db w) Q (\<lambda>_ _. False) m" "faultless e"
  shows "\<exists>x w'. m w = (Inr x, w') \<and> Q x (db w')"
  using assms by (cases "m w"; cases "fst (m w)") (auto simp: runs_def)

end
