(* ===== verification/Retry_Processor.thy ===== *)
theory Retry_Processor
  imports Webhook_Processor AOS_Faultless
begin

text \<open>
  \<open>src/common/queue/retry.processor.ts\<close>: the worker of the retry queue. It runs the action of a
  RuleExecution again, records the outcome, and throws on a transient failure so that BullMQ repeats
  the job; \<open>job.attemptsMade\<close> is the argument \<open>attemptsMade\<close>.
\<close>

section \<open>One attempt\<close>

record attemptOutcome =
  ao_ok :: bool
  ao_terminal :: bool
  ao_error :: "string option"
  ao_meta :: "(string \<times> json) list"

definition ok_outcome :: "(string \<times> json) list \<Rightarrow> attemptOutcome" where
  "ok_outcome meta = \<lparr>ao_ok = True, ao_terminal = False, ao_error = None, ao_meta = meta\<rparr>"

definition terminal_outcome :: "string \<Rightarrow> attemptOutcome" where
  "terminal_outcome m = \<lparr>ao_ok = False, ao_terminal = True, ao_error = Some m, ao_meta = []\<rparr>"

definition transient_outcome :: "string option \<Rightarrow> attemptOutcome" where
  "transient_outcome m = \<lparr>ao_ok = False, ao_terminal = False, ao_error = m, ao_meta = []\<rparr>"

text \<open>The execution with its rule, the rule's account and the triggering ledger entry.\<close>

record retryContext =
  rx_execution :: ruleExecution
  rx_rule :: rule
  rx_account :: account
  rx_ledgerEntry :: "ledgerEntry option"

definition find_execution :: "string \<Rightarrow> database \<Rightarrow> retryContext option" where
  "find_execution i d =
     Option.bind (find (\<lambda>x. rex_id x = i) (t_ruleExecution d)) (\<lambda>x.
     Option.bind (find (\<lambda>r. rul_id r = rex_ruleId x) (t_rule d)) (\<lambda>r.
     Option.bind (find (\<lambda>a. acc_id a = rul_accountId r) (t_account d)) (\<lambda>a.
     Some \<lparr>rx_execution = x, rx_rule = r, rx_account = a,
           rx_ledgerEntry = Option.bind (rex_triggeredByLedgerEntryId x)
             (\<lambda>l. find (\<lambda>le. led_id le = l) (t_ledgerEntry d))\<rparr>)))"

definition attemptRelease :: "env \<Rightarrow> retryContext \<Rightarrow> nat \<Rightarrow> attemptOutcome act" where
  "attemptRelease e ctx attempt =
     (let payload = payload_of (rul_payload (rx_rule ctx));
          dest = jget payload ''destinationAccountRef''; biz = acc_businessId (rx_account ctx) in
      if falsy dest then ret (terminal_outcome missing_destination)
      else
        bnd (find_destination e (the dest) biz) (\<lambda>bucket.
        case bucket of
          None \<Rightarrow> ret (terminal_outcome (destination_not_found (to_str e (the dest))))
        | Some b \<Rightarrow>
            (case rx_ledgerEntry ctx of
               None \<Rightarrow> ret (terminal_outcome ''No ledger entry attached to execution'')
             | Some le \<Rightarrow>
                 bnd (lift_sum (release_amount e payload (led_amountKobo le))) (\<lambda>amount.
                 case amount of
                   None \<Rightarrow> ret (terminal_outcome missing_amount)
                 | Some creditAmountKobo \<Rightarrow>
                     let reference = alloc_reference (led_nombaTransactionRef le) (bkt_id b) in
                     catch
                       (bnd (credit e \<lparr>cr_bucketId = bkt_id b, cr_businessId = biz,
                               cr_amountKobo = creditAmountKobo, cr_reference = reference,
                               cr_sourceLedgerEntryId = Some (led_id le),
                               cr_narration = Some (''RELEASE_FUNDS retry '' @ show_nat attempt @ '': '' @
                                 led_nombaTransactionRef le),
                               cr_sourceAccountRef = None\<rparr>) (\<lambda>cumulative.
                        ret (ok_outcome [(''reference'', JStr reference),
                          (''amountKobo'', JStr (show_int creditAmountKobo)),
                          (''bucketBalanceKobo'', JStr (show_int cumulative)),
                          (''destinationAccountRef'', the dest)])))
                       (\<lambda>err. ret (transient_outcome (Some (exn_message e err))))))))"

definition attemptNotify :: "env \<Rightarrow> retryContext \<Rightarrow> nat \<Rightarrow> attemptOutcome act" where
  "attemptNotify e ctx attempt =
     (let url = jget (payload_of (rul_payload (rx_rule ctx))) ''url'' in
      if falsy url then ret (terminal_outcome missing_url)
      else
        bnd (deliver e (to_str e (the url))
               (JObj [(''event'', JStr ''rule.notify_webhook''),
                      (''accountRef'', JStr (acc_accountRef (rx_account ctx))),
                      (''eventId'', JStr (rex_triggeredBy (rx_execution ctx))),
                      (''ruleExecutionId'', JStr (rex_id (rx_execution ctx))),
                      (''attempt'', JNum (of_nat attempt))])) (\<lambda>result.
        if dr_ok result
        then ret (ok_outcome ((''url'', the url) #
               (case dr_status result of None \<Rightarrow> [] | Some s \<Rightarrow> [(''status'', JNum (of_int s))])))
        else ret (transient_outcome (dr_error result))))"

section \<open>The worker\<close>

definition is_resolved :: "execution_status \<Rightarrow> bool" where
  "is_resolved st = (st = ExCOMPLETED \<or> st = ExFAILED \<or> st = ExARCHIVED)"

definition retry_audit :: "retryContext \<Rightarrow> audit_action \<Rightarrow> (string \<times> json option) list \<Rightarrow> auditLogParams" where
  "retry_audit ctx action meta =
     (auditParams ''system'' action)\<lparr>
       alp_accountId := Some (rul_accountId (rx_rule ctx)),
       alp_businessId := Some (acc_businessId (rx_account ctx)),
       alp_metadata := Some (jobj meta)\<rparr>"

text \<open>The last part of \<open>process\<close>: record the outcome of the attempt.\<close>

definition record_outcome ::
  "env \<Rightarrow> retryPayload \<Rightarrow> retryContext \<Rightarrow> nat \<Rightarrow> attemptOutcome \<Rightarrow> unit act" where
  "record_outcome e p ctx currentAttempt outcome =
     (let i = rty_ruleExecutionId p; exhausted = rty_maxAttempts p \<le> currentAttempt;
          attempt = Some (JNum (of_nat currentAttempt)) in
      if ao_ok outcome then
        bnd (now e) (\<lambda>t.
        seqm (update_ruleExecution e i (\<lambda>x. x\<lparr>rex_status := ExCOMPLETED, rex_attempt := currentAttempt,
                rex_completedAt := Some t, rex_nextRetryAt := None, rex_errorMessage := None\<rparr>))
          (AuditService_log e (retry_audit ctx RULE_ACTION_COMPLETED
             ([(''ruleExecutionId'', Some (JStr i)), (''attempt'', attempt)] @
              map (\<lambda>(k, v). (k, Some v)) (ao_meta outcome)))))
      else if ao_terminal outcome \<or> exhausted then
        seqm (update_ruleExecution e i (\<lambda>x. x\<lparr>rex_status := ExFAILED, rex_attempt := currentAttempt,
                rex_errorMessage := orElse (ao_error outcome) (rex_errorMessage x),
                rex_nextRetryAt := None\<rparr>))
          (AuditService_log e (retry_audit ctx RULE_ACTION_FAILED
             [(''ruleExecutionId'', Some (JStr i)), (''ruleId'', Some (JStr (rul_id (rx_rule ctx)))),
              (''attempt'', attempt), (''errorMessage'', map_option JStr (ao_error outcome)),
              (''reason'', Some (JStr (if ao_terminal outcome then ''non_retryable'' else ''max_attempts'')))]))
      else
        seqm (update_ruleExecution e i (\<lambda>x. x\<lparr>rex_status := ExRETRYING, rex_attempt := currentAttempt,
                rex_errorMessage := orElse (ao_error outcome) (rex_errorMessage x)\<rparr>))
          (throw (JsExn (getOr (ao_error outcome) ''Rule action retry failed''))))"

definition RetryProcessor_process :: "env \<Rightarrow> retryPayload \<Rightarrow> nat \<Rightarrow> unit act" where
  "RetryProcessor_process e p attemptsMade =
     (let currentAttempt = attemptsMade + 1; i = rty_ruleExecutionId p in
      bnd (query e (find_execution i)) (\<lambda>found.
      case found of
        None \<Rightarrow> ret ()
      | Some ctx \<Rightarrow>
          if is_resolved (rex_status (rx_execution ctx)) then ret ()
          else if rul_action (rx_rule ctx) = RELEASE_FUNDS
          then bnd (attemptRelease e ctx currentAttempt) (record_outcome e p ctx currentAttempt)
          else if rul_action (rx_rule ctx) = NOTIFY_WEBHOOK
          then bnd (attemptNotify e ctx currentAttempt) (record_outcome e p ctx currentAttempt)
          else
            bnd (now e) (\<lambda>t.
            seqm (update_ruleExecution e i (\<lambda>x. x\<lparr>rex_status := ExCOMPLETED, rex_completedAt := Some t\<rparr>))
              (ret ()))))"

text \<open>The dead-letter handler (the alert it raises is a log line). The job id is BullMQ's.\<close>

definition onFailed :: "env \<Rightarrow> retryPayload \<Rightarrow> nat \<Rightarrow> string \<Rightarrow> string \<Rightarrow> unit act" where
  "onFailed e p attemptsMade jobId errorMessage =
     (if attemptsMade < rty_maxAttempts p then ret ()
      else AuditService_log e ((auditParams ''system'' RULE_ACTION_FAILED)\<lparr>
        alp_metadata := Some (JObj [(''deadLetter'', JBool True),
          (''ruleExecutionId'', JStr (rty_ruleExecutionId p)),
          (''attemptsMade'', JNum (of_nat attemptsMade)), (''maxAttempts'', JNum (of_nat (rty_maxAttempts p))),
          (''queueName'', JStr ''retry''), (''jobId'', JStr jobId), (''error'', JStr errorMessage)])\<rparr>))"

section \<open>Progress\<close>

lemma keeps_outcome [keeps_intro]:
  "keeps_db (evolves d0) (record_outcome e p ctx n outcome)"
  unfolding record_outcome_def by (intro keeps_intro)

lemma retry_evolves [keeps_intro]: "keeps_db (evolves d0) (RetryProcessor_process e p n)"
  unfolding RetryProcessor_process_def attemptRelease_def attemptNotify_def
  by (intro keeps_intro)

text \<open>A payload the engine can read: what validation guarantees of a stored rule.\<close>

definition readable_payload :: "env \<Rightarrow> json \<Rightarrow> bool" where
  "readable_payload e payload =
     ((falsy (jget payload ''destinationAccountRef'') \<or>
       (\<exists>s. jget payload ''destinationAccountRef'' = Some (JStr s))) \<and>
      (\<forall>amount. \<not> isl (release_amount e payload amount)))"

text \<open>An execution that can be retried, and one that is resolved.\<close>

definition retryable :: "env \<Rightarrow> string \<Rightarrow> database \<Rightarrow> bool" where
  "retryable e i d =
     (case find_execution i d of
        None \<Rightarrow> False
      | Some ctx \<Rightarrow> readable_payload e (payload_of (rul_payload (rx_rule ctx))))"

definition resolved :: "string \<Rightarrow> database \<Rightarrow> bool" where
  "resolved i d =
     (case find (\<lambda>x. rex_id x = i) (t_ruleExecution d) of
        None \<Rightarrow> False
      | Some x \<Rightarrow> is_resolved (rex_status x))"

lemma find_execution_find:
  "find_execution i d = Some ctx \<Longrightarrow>
     find (\<lambda>x. rex_id x = i) (t_ruleExecution d) = Some (rx_execution ctx)"
  by (auto simp: find_execution_def split: bind_splits)

lemma find_updated:
  assumes "find (\<lambda>x. key x = i) xs = Some x" "\<And>x. key (f x) = key x"
  shows "find (\<lambda>x. key x = i) (update_rows (\<lambda>x. key x = i) f xs) = Some (f x)"
  using assms by (induction xs) (auto split: if_splits)

text \<open>An update of the execution that keeps its id and its references keeps the context.\<close>

lemma retryable_update:
  assumes "retryable e i d" "\<And>x. rex_id (f x) = rex_id x \<and> rex_ruleId (f x) = rex_ruleId x"
  shows "retryable e i (d\<lparr>t_ruleExecution := update_rows (\<lambda>x. rex_id x = i) f (t_ruleExecution d)\<rparr>)"
proof -
  from assms(1) obtain x where x: "find (\<lambda>x. rex_id x = i) (t_ruleExecution d) = Some x"
    by (auto simp: retryable_def find_execution_def split: option.splits bind_splits)
  have "find (\<lambda>x. rex_id x = i) (update_rows (\<lambda>x. rex_id x = i) f (t_ruleExecution d)) = Some (f x)"
    by (rule find_updated [OF x]) (simp add: assms(2))
  with x assms show ?thesis
    by (auto simp: retryable_def find_execution_def split: option.splits bind_splits)
qed

lemma resolved_update:
  assumes "find (\<lambda>x. rex_id x = i) (t_ruleExecution d) = Some x"
    and "\<And>x. rex_id (f x) = rex_id x \<and> is_resolved (rex_status (f x))"
  shows "resolved i (d\<lparr>t_ruleExecution := update_rows (\<lambda>x. rex_id x = i) f (t_ruleExecution d)\<rparr>)"
  using find_updated [OF assms(1), of f] assms(2) by (simp add: resolved_def)

lemma record_outcome_runs:
  assumes "retryable e (rty_ruleExecutionId p) d"
  shows "runs e d (\<lambda>_. resolved (rty_ruleExecutionId p))
    (\<lambda>_ d'. retryable e (rty_ruleExecutionId p) d' \<and> n < rty_maxAttempts p)
    (record_outcome e p ctx n outcome)"
proof -
  from assms(1) obtain x
    where x: "find (\<lambda>x. rex_id x = rty_ruleExecutionId p) (t_ruleExecution d) = Some x"
    by (auto simp: retryable_def find_execution_def split: option.splits bind_splits)
  show ?thesis
    unfolding record_outcome_def update_ruleExecution_def
    by (intro run_rules; (rule x resolved_update [OF x])?; (simp add: is_resolved_def)?;
        (intro conjI retryable_update [OF assms])?; simp)
qed

lemma retryable_bucketLedger [simp]: "retryable e i (d\<lparr>t_bucketLedger := rs\<rparr>) = retryable e i d"
  by (simp add: retryable_def find_execution_def)

lemma credit_runs: "retryable e i d \<Longrightarrow> runs e d (\<lambda>_. retryable e i) (\<lambda>_. retryable e i) (credit e p)"
  by (rule runs_wp, rule credit_wp [where E = "retryable e i"]) simp_all

lemma find_destination_runs:
  "Q (find_bucket s b d) d \<Longrightarrow> runs e d Q X (find_destination e (JStr s) b)"
  by (simp add: find_destination_def runs_query)

lemma attemptNotify_runs:
  "retryable e i d \<Longrightarrow> runs e d (\<lambda>_. retryable e i) (\<lambda>_ _. False) (attemptNotify e ctx n)"
  unfolding attemptNotify_def by (intro run_rules)

lemma attemptRelease_runs:
  assumes "retryable e i d" "readable_payload e (payload_of (rul_payload (rx_rule ctx)))"
  shows "runs e d (\<lambda>_. retryable e i) (\<lambda>_ _. False) (attemptRelease e ctx n)"
proof (cases "falsy (jget (payload_of (rul_payload (rx_rule ctx))) ''destinationAccountRef'')")
  case True
  then show ?thesis unfolding attemptRelease_def by (simp add: assms(1) run_rules)
next
  case False
  with assms(2) obtain s where s: "jget (payload_of (rul_payload (rx_rule ctx))) ''destinationAccountRef'' = Some (JStr s)"
    by (auto simp: readable_payload_def)
  have amount: "release_amount e (payload_of (rul_payload (rx_rule ctx))) a \<noteq> Inl y" for a y
    using assms(2) unfolding readable_payload_def by (metis isl_def)
  show ?thesis
    unfolding attemptRelease_def Let_def s option.sel
    by (intro run_rules find_destination_runs runs_conseq [OF credit_runs] assms(1))
      (use assms(1) amount in \<open>auto intro: run_rules\<close>)
qed

lemma process_runs:
  assumes "retryable e (rty_ruleExecutionId p) d"
  shows "runs e d (\<lambda>_. resolved (rty_ruleExecutionId p))
    (\<lambda>_ d'. retryable e (rty_ruleExecutionId p) d' \<and> Suc k < rty_maxAttempts p)
    (RetryProcessor_process e p k)"
proof -
  from assms obtain ctx where ctx: "find_execution (rty_ruleExecutionId p) d = Some ctx"
    and readable: "readable_payload e (payload_of (rul_payload (rx_rule ctx)))"
    by (auto simp: retryable_def split: option.splits)
  note x = find_execution_find [OF ctx]
  show ?thesis
    unfolding RetryProcessor_process_def Let_def
    apply (rule runs_bnd, rule runs_query)
    apply (simp only: ctx option.case)
    apply (intro run_rules)
    subgoal using x by (simp add: resolved_def)
    subgoal by (rule runs_conseq [OF attemptRelease_runs [OF assms readable]])
        (simp_all add: record_outcome_runs)
    subgoal by (rule runs_conseq [OF attemptNotify_runs [OF assms]])
        (simp_all add: record_outcome_runs)
    subgoal unfolding update_ruleExecution_def
      by (intro run_rules; (rule x resolved_update [OF x])?; simp add: is_resolved_def)
    done
qed

lemma run_job_resolves:
  assumes "retryable e (rty_ruleExecutionId p) d" "k + n = rty_maxAttempts p" "0 < n"
  shows "runs e d (\<lambda>r d'. r \<and> resolved (rty_ruleExecutionId p) d') (\<lambda>_ _. False)
    (run_job n k (RetryProcessor_process e p))"
  using assms
proof (induction n arbitrary: k d)
  case (Suc n)
  show ?case unfolding run_job.simps
  proof (intro run_rules runs_conseq [OF process_runs [OF Suc.prems(1)]])
    fix d' :: database assume "retryable e (rty_ruleExecutionId p) d' \<and> Suc k < rty_maxAttempts p"
    then show "runs e d' (\<lambda>r d'. r \<and> resolved (rty_ruleExecutionId p) d') (\<lambda>_ _. False)
        (run_job n (Suc k) (RetryProcessor_process e p))"
      using Suc.prems(2) by (intro Suc.IH) auto
  qed simp_all
qed simp

text \<open>C10: a retried rule action is always resolved. When the database and the queue answer, a worker that runs the
  job of an execution whose rule payload is readable, as often as the job's \<open>maxAttempts\<close> allow, ends with a
  run that returns, and the execution is then COMPLETED, FAILED or ARCHIVED, whatever bank and
  webhook calls answered and whatever the credits threw.\<close>

theorem retry_job_resolves:
  assumes "faultless e" "retryable e (rty_ruleExecutionId p) (db w)" "0 < rty_maxAttempts p"
  shows "\<exists>w'. run_job (rty_maxAttempts p) 0 (RetryProcessor_process e p) w = (Inr True, w') \<and>
    resolved (rty_ruleExecutionId p) (db w')"
proof -
  have "runs e (db w) (\<lambda>r d'. r \<and> resolved (rty_ruleExecutionId p) d') (\<lambda>_ _. False)
      (run_job (rty_maxAttempts p) 0 (RetryProcessor_process e p))"
    by (rule run_job_resolves) (use assms in simp_all)
  from runs_returns [OF this assms(1)] show ?thesis by auto
qed

text \<open>The demo execution's rule releases 30 percent into a bucket of the demo business.\<close>

definition demo_retry_job :: retryPayload where
  "demo_retry_job = \<lparr>rty_ruleExecutionId = ''x1'', rty_attempt = 1, rty_maxAttempts = 3, rty_errorMessage = None\<rparr>"

theorem retry_job_resolves_witness:
  "\<exists>w'. run_job 3 0 (RetryProcessor_process demo_env demo_retry_job) demo_retrying_world = (Inr True, w') \<and>
    resolved ''x1'' (db w')"
proof -
  have "readable_payload demo_env (demo_release ''payroll'' 30)"
    by (simp add: readable_payload_def demo_release_def release_amount_def)
  moreover have "payload_of (demo_release ''payroll'' 30) = demo_release ''payroll'' 30"
    by (simp add: payload_of_def demo_release_def)
  ultimately have "retryable demo_env ''x1'' (db demo_retrying_world)"
    by (simp add: retryable_def find_execution_def demo_retrying_world_def demo_rules_world_def demo_defs
        execution_row_def demo_ev_def evaluated_def demo_rule_def demo_entry_def)
  moreover have "faultless demo_env" by (simp add: faultless_def demo_env_def)
  ultimately show ?thesis
    using retry_job_resolves [of demo_env demo_retry_job demo_retrying_world]
    by (simp add: demo_retry_job_def)
qed

end
