(* ===== verification/Scheduler_Service.thy ===== *)
theory Scheduler_Service
  imports Webhook_Processor
begin

text \<open>
  \<open>src/common/scheduler/scheduler.service.ts\<close>: the hourly scan for TIME_ELAPSED rules. It compares the
  days since the last ledger entry (or since the account was created) with the rule's condition and
  writes one audit row per match; log lines are not modelled.
\<close>

section \<open>The scan\<close>

record scannedAccount =
  sa_account :: account
  sa_rules :: "rule list"
  sa_lastEntry :: "ledgerEntry option"

definition time_rules :: "account \<Rightarrow> database \<Rightarrow> rule list" where
  "time_rules a d =
     filter (\<lambda>r. rul_accountId r = acc_id a \<and> rul_trigger r = TIME_ELAPSED \<and> rul_status r = RuleACTIVE)
       (t_rule d)"

definition latest_entry :: "account \<Rightarrow> database \<Rightarrow> ledgerEntry option" where
  "latest_entry a d =
     (case order_desc led_createdAt (filter (\<lambda>r. led_accountId r = acc_id a) (t_ledgerEntry d)) of
        [] \<Rightarrow> None | r # _ \<Rightarrow> Some r)"

definition scanned_accounts :: "database \<Rightarrow> scannedAccount list" where
  "scanned_accounts d =
     map (\<lambda>a. \<lparr>sa_account = a, sa_rules = order_asc rul_priority (time_rules a d),
               sa_lastEntry = latest_entry a d\<rparr>)
       (filter (\<lambda>a. acc_status a = ACTIVE \<and> time_rules a d \<noteq> []) (t_account d))"

definition ms_per_day :: rat where
  "ms_per_day = 1000 * 60 * 60 * 24"

definition at_least :: "env \<Rightarrow> int \<Rightarrow> json option \<Rightarrow> bool" where
  "at_least e days bound =
     (case bound of None \<Rightarrow> False | Some v \<Rightarrow> js_le (to_number e v) (Fin (of_int days)))"

definition matchesTimeRule :: "env \<Rightarrow> rule \<Rightarrow> int \<Rightarrow> bool act" where
  "matchesTimeRule e r lastActivityAt =
     (if \<not> js_truthy (rul_condition r) then ret False
      else
        bnd (now e) (\<lambda>t.
        let days = \<lfloor>to_double (of_int (t - lastActivityAt) / ms_per_day)\<rfloor> in
        ret (at_least e days (jget (rul_condition r) ''no_inflow_for_days'') \<or>
             at_least e days (jget (rul_condition r) ''no_event_for_days''))))"

definition scan_rule :: "env \<Rightarrow> scannedAccount \<Rightarrow> rule \<Rightarrow> unit act" where
  "scan_rule e s r =
     bnd (matchesTimeRule e r
            (case sa_lastEntry s of None \<Rightarrow> acc_createdAt (sa_account s) | Some le \<Rightarrow> led_createdAt le))
       (\<lambda>shouldFire.
     if shouldFire
     then AuditService_log e ((auditParams ''scheduler'' RULE_ACTION_COMPLETED)\<lparr>
            alp_businessId := Some (acc_businessId (sa_account s)),
            alp_accountId := Some (acc_id (sa_account s)),
            alp_metadata := Some (JObj [(''ruleId'', JStr (rul_id r)), (''trigger'', JStr ''TIME_ELAPSED''),
              (''action'', JStr (show_rule_action (rul_action r)))])\<rparr>)
     else ret ())"

definition evaluateTimeElapsedRules :: "env \<Rightarrow> unit act" where
  "evaluateTimeElapsedRules e =
     bnd (query e scanned_accounts) (\<lambda>accounts.
     foreach accounts (\<lambda>s. catch (foreach (sa_rules s) (scan_rule e s)) (\<lambda>_. ret ())))"

section \<open>Properties\<close>

lemma scheduler_evolves [keeps_intro]: "keeps_db J (evaluateTimeElapsedRules e)"
  unfolding evaluateTimeElapsedRules_def scan_rule_def matchesTimeRule_def by (intro keeps_intro)

lemma scheduler_frame:
  "keeps (\<lambda>w. J (db w) (outbox w) (retryQueue w) (webhookQueue w)) (evaluateTimeElapsedRules e)"
proof -
  have log: "keeps (\<lambda>w. J (db w) (outbox w) (retryQueue w) (webhookQueue w)) (AuditService_log e p)" for p
    by (simp add: keeps_def)
  have read: "keeps (\<lambda>w. J (db w) (outbox w) (retryQueue w) (webhookQueue w)) (query e f)" for f :: "database \<Rightarrow> 'x"
    by (simp add: keeps_def query_def prisma_def split: option.split)
  show ?thesis
    unfolding evaluateTimeElapsedRules_def scan_rule_def matchesTimeRule_def
    by (intro log read keeps_ret keeps_bnd keeps_catch keeps_if keeps_Let keeps_foreach keeps_now)
qed

text \<open>The scheduler changes no table: it records no rule execution and runs no action, however many
  TIME_ELAPSED rules match, so a rule that matches in one hour matches again in the next.\<close>

theorem scheduler_only_audits:
  "db (snd (evaluateTimeElapsedRules e w)) = db w \<and>
   outbox (snd (evaluateTimeElapsedRules e w)) = outbox w \<and>
   retryQueue (snd (evaluateTimeElapsedRules e w)) = retryQueue w \<and>
   webhookQueue (snd (evaluateTimeElapsedRules e w)) = webhookQueue w"
  using keepsD [OF scheduler_frame, of "\<lambda>d b r q. d = db w \<and> b = outbox w \<and> r = retryQueue w \<and> q = webhookQueue w" w]
  by simp

end
