(* ===== verification/Account_Machine.thy ===== *)
theory Account_Machine
  imports Retry_Processor Identity_Service Webhooks_Service Scheduler_Service
begin

text \<open>
  The contract of the system towards one account, as an abstract machine, and the proof that every
  operation of every service refines it. The abstract state of an account is its status, if it
  exists, and its ledger without the reconciliation column; the machine opens an account, moves it
  along the edges of its life cycle and posts inflows to a live account.
\<close>

section \<open>The abstract machine\<close>

record account_view =
  av_status :: "account_status option"
  av_ledger :: "ledgerEntry list"

definition received :: "ledgerEntry list \<Rightarrow> int" where
  "received rs = sum_list (map led_amountKobo (filter is_inflow rs))"

inductive account_step :: "account_view \<Rightarrow> account_view \<Rightarrow> bool" where
  opened: "account_step \<lparr>av_status = None, av_ledger = []\<rparr> \<lparr>av_status = Some ACTIVE, av_ledger = []\<rparr>"
| moved: "account_edge s t \<Longrightarrow>
    account_step \<lparr>av_status = Some s, av_ledger = rs\<rparr> \<lparr>av_status = Some t, av_ledger = rs\<rparr>"
| posted: "s \<in> {ACTIVE, SUSPENDED} \<Longrightarrow> is_inflow r \<Longrightarrow>
    led_cumulativeAmountKobo r = received rs + led_amountKobo r \<Longrightarrow>
    account_step \<lparr>av_status = Some s, av_ledger = rs\<rparr> \<lparr>av_status = Some s, av_ledger = rs @ [r]\<rparr>"

text \<open>Nothing happens to a closed or expired account.\<close>

inductive_cases account_stepE: "account_step v v'"

lemma terminal_view_final:
  assumes "account_step\<^sup>*\<^sup>* v v'" "av_status v = Some s" "s \<in> {EXPIRED, CLOSED}"
  shows "v' = v"
  using assms(1)
proof (induction rule: rtranclp_induct)
  case (step y z)
  with assms(2,3) show ?case
    by (auto elim!: account_stepE terminal_edgeE)
qed simp

section \<open>The abstraction\<close>

definition entries_of :: "string \<Rightarrow> ledgerEntry list \<Rightarrow> ledgerEntry list" where
  "entries_of i rs = map immutable_part (filter (\<lambda>r. led_accountId r = i) rs)"

definition account_of :: "string \<Rightarrow> database \<Rightarrow> account_view" where
  "account_of i d = \<lparr>av_status = status_of i d, av_ledger = entries_of i (t_ledgerEntry d)\<rparr>"

text \<open>Every ledger entry belongs to an account (a foreign key of the schema).\<close>

definition linked :: "database \<Rightarrow> bool" where
  "linked d = (\<forall>r \<in> set (t_ledgerEntry d). status_of (led_accountId r) d \<noteq> None)"

text \<open>What an operation may add to the ledger: inflows of accounts that were live when it started.\<close>

definition posts :: "database \<Rightarrow> database \<Rightarrow> bool" where
  "posts d d' =
     (\<exists>rs. map immutable_part (t_ledgerEntry d') = map immutable_part (t_ledgerEntry d) @ rs \<and>
        (\<forall>r \<in> set rs. is_inflow r \<and> status_of (led_accountId r) d \<in> {Some ACTIVE, Some SUSPENDED}))"

lemma immutable_simps [simp]:
  "led_accountId (immutable_part r) = led_accountId r"
  "is_inflow (immutable_part r) = is_inflow r"
  "led_amountKobo (immutable_part r) = led_amountKobo r"
  "led_cumulativeAmountKobo (immutable_part r) = led_cumulativeAmountKobo r"
  "led_delta (immutable_part r) = led_delta r"
  "immutable_part (immutable_part r) = immutable_part r"
  by (simp_all add: immutable_part_def is_inflow_def led_delta_def)

lemma entries_of_map: "entries_of i rs = filter (\<lambda>r. led_accountId r = i) (map immutable_part rs)"
  by (simp add: entries_of_def filter_map comp_def)

lemma received_total: "received (entries_of i rs) = total_by led_accountId led_delta i rs"
  by (induction rs) (auto simp: received_def entries_of_def total_by_def led_delta_def)

text \<open>With right running totals, the entries of an account can be posted one after the other.\<close>

lemma post_entries:
  assumes "run_ok_by led_accountId led_delta led_cumulativeAmountKobo is_inflow (ls @ rs)"
    and "\<forall>r \<in> set rs. led_accountId r = i \<longrightarrow> is_inflow r" "s \<in> {ACTIVE, SUSPENDED}"
  shows "account_step\<^sup>*\<^sup>* \<lparr>av_status = Some s, av_ledger = entries_of i ls\<rparr>
    \<lparr>av_status = Some s, av_ledger = entries_of i (ls @ rs)\<rparr>"
  using assms(1,2)
proof (induction rs rule: rev_induct)
  case (snoc r rs)
  from snoc.prems(1) have ok: "run_ok_by led_accountId led_delta led_cumulativeAmountKobo is_inflow (ls @ rs)"
    and r: "is_inflow r \<Longrightarrow> led_cumulativeAmountKobo r = received (entries_of (led_accountId r) (ls @ rs)) + led_delta r"
    using acct.run_ok_snoc [of "ls @ rs" r] by (simp_all add: received_total)
  have IH: "account_step\<^sup>*\<^sup>* \<lparr>av_status = Some s, av_ledger = entries_of i ls\<rparr>
      \<lparr>av_status = Some s, av_ledger = entries_of i (ls @ rs)\<rparr>"
    using snoc.IH [OF ok] snoc.prems(2) by simp
  show ?case
  proof (cases "led_accountId r = i")
    case True
    with snoc.prems(2) have inflow: "is_inflow r" by simp
    with r True have "led_cumulativeAmountKobo (immutable_part r) =
        received (entries_of i (ls @ rs)) + led_amountKobo (immutable_part r)"
      by (simp add: led_delta_def)
    from posted [OF assms(3) _ this] inflow
    have "account_step \<lparr>av_status = Some s, av_ledger = entries_of i (ls @ rs)\<rparr>
        \<lparr>av_status = Some s, av_ledger = entries_of i (ls @ rs @ [r])\<rparr>"
      using True by (simp add: entries_of_def)
    with IH show ?thesis by (rule rtranclp.rtrancl_into_rtrancl)
  next
    case False
    with IH show ?thesis by (simp add: entries_of_def)
  qed
qed simp

lemma moves:
  "account_edge\<^sup>*\<^sup>* s t \<Longrightarrow>
     account_step\<^sup>*\<^sup>* \<lparr>av_status = Some s, av_ledger = rs\<rparr> \<lparr>av_status = Some t, av_ledger = rs\<rparr>"
  by (induction rule: rtranclp_induct) (auto intro: moved rtranclp.rtrancl_into_rtrancl)

lemma active_reaches: "account_edge\<^sup>*\<^sup>* ACTIVE t"
  by (cases t) (auto intro: account_edge.intros)

text \<open>The simulation: an operation that evolves the database and posts only to live accounts.\<close>

lemma account_simulation:
  assumes "evolves d d'" "posts d d'" "linked d"
  shows "account_step\<^sup>*\<^sup>* (account_of i d) (account_of i d')"
proof -
  from assms(2) obtain rs where rs: "map immutable_part (t_ledgerEntry d') = map immutable_part (t_ledgerEntry d) @ rs"
    and live: "\<And>r. r \<in> set rs \<Longrightarrow> is_inflow r \<and> status_of (led_accountId r) d \<in> {Some ACTIVE, Some SUSPENDED}"
    by (auto simp: posts_def)
  have ents: "entries_of i (t_ledgerEntry d') = entries_of i (map immutable_part (t_ledgerEntry d) @ rs)"
    and ents0: "entries_of i (t_ledgerEntry d) = entries_of i (map immutable_part (t_ledgerEntry d))"
    unfolding entries_of_map rs [symmetric] by (simp_all add: comp_def)
  have "run_ok_by led_accountId led_delta led_cumulativeAmountKobo is_inflow (map immutable_part (t_ledgerEntry d'))"
    using assms(1) by (subst acct.run_ok_map) (auto simp: evolves_def ledger_inv_def)
  note ok = this [unfolded rs]
  have none: "entries_of i rs = []" if "status_of i d \<notin> {Some ACTIVE, Some SUSPENDED}"
    using live that by (auto simp: entries_of_def filter_empty_conv)
  show ?thesis
  proof (cases "status_of i d")
    case None
    with assms(3) have "entries_of i (t_ledgerEntry d) = []"
      by (auto simp: linked_def entries_of_def filter_empty_conv)
    with none None ents ents0 have empty: "entries_of i (t_ledgerEntry d) = []" "entries_of i (t_ledgerEntry d') = []"
      by (simp_all add: entries_of_def)
    show ?thesis
    proof (cases "status_of i d'")
      case (Some t)
      show ?thesis
        unfolding account_of_def None Some empty
        by (rule converse_rtranclp_into_rtranclp [OF opened moves [OF active_reaches]])
    qed (simp add: account_of_def None empty)
  next
    case (Some s)
    with assms(1) obtain t where t: "status_of i d' = Some t" "account_edge\<^sup>*\<^sup>* s t"
      by (auto simp: evolves_def statuses_follow_def)
    have "account_step\<^sup>*\<^sup>* \<lparr>av_status = Some s, av_ledger = entries_of i (t_ledgerEntry d)\<rparr>
        \<lparr>av_status = Some s, av_ledger = entries_of i (t_ledgerEntry d')\<rparr>"
    proof (cases "s \<in> {ACTIVE, SUSPENDED}")
      case True
      with live show ?thesis unfolding ents ents0 by (intro post_entries [OF ok]) auto
    next
      case False
      with none Some show ?thesis unfolding ents ents0 by (simp add: entries_of_def)
    qed
    also have "account_step\<^sup>*\<^sup>* \<dots> \<lparr>av_status = Some t, av_ledger = entries_of i (t_ledgerEntry d')\<rparr>"
      by (rule moves [OF t(2)])
    finally show ?thesis by (simp add: account_of_def Some t(1))
  qed
qed

lemma linked_kept:
  assumes "evolves d d'" "posts d d'" "linked d"
  shows "linked d'"
proof -
  from assms(2) obtain rs where rs: "map immutable_part (t_ledgerEntry d') = map immutable_part (t_ledgerEntry d) @ rs"
    and live: "\<And>r. r \<in> set rs \<Longrightarrow> status_of (led_accountId r) d \<noteq> None"
    by (fastforce simp: posts_def)
  have "status_of (led_accountId r) d' \<noteq> None" if "r \<in> set (t_ledgerEntry d')" for r
  proof -
    from that have "immutable_part r \<in> set (map immutable_part (t_ledgerEntry d) @ rs)"
      unfolding rs [symmetric] by simp
    then have "status_of (led_accountId r) d \<noteq> None"
      using assms(3) live by (auto simp: linked_def) (metis immutable_simps(1))+
    with assms(1) show ?thesis by (auto simp: evolves_def statuses_follow_def)
  qed
  then show ?thesis by (simp add: linked_def)
qed

section \<open>Operations\<close>

definition consistent :: "database \<Rightarrow> bool" where
  "consistent d = (evolves d d \<and> linked d)"

text \<open>
  The interface every operation of a service meets: it evolves the database and posts only inflows of
  live accounts. Its clients get the refinement and the invariant for each run.
\<close>

locale account_operation =
  fixes op :: "'a act"
  assumes op_evolves: "keeps_db (evolves d0) op"
    and op_posts: "evolves d d \<Longrightarrow> wp d (\<lambda>_. posts d) (posts d) op"
begin

lemma run_evolves: "consistent (db w) \<Longrightarrow> evolves (db w) (db (snd (op w)))"
  using keepsD [OF op_evolves, of "db w" w] by (simp add: consistent_def)

lemma run_posts: "consistent (db w) \<Longrightarrow> posts (db w) (db (snd (op w)))"
  using wp_run [OF op_posts, of w] by (auto simp: consistent_def split: prod.splits sum.splits)

lemma refines:
  "consistent (db w) \<Longrightarrow> account_step\<^sup>*\<^sup>* (account_of i (db w)) (account_of i (db (snd (op w))))"
  by (rule account_simulation [OF run_evolves run_posts]) (simp_all add: consistent_def)

lemma run_consistent:
  assumes "consistent (db w)"
  shows "consistent (db (snd (op w)))"
proof -
  from run_evolves [OF assms] have "evolves (db (snd (op w))) (db (snd (op w)))"
    by (intro evolves_refl) (auto simp: evolves_def)
  moreover have "linked (db (snd (op w)))"
    using linked_kept [OF run_evolves run_posts] assms by (simp add: consistent_def)
  ultimately show ?thesis by (simp add: consistent_def)
qed

end

text \<open>Most operations leave the entries alone.\<close>

abbreviation entries_part :: "(ledgerEntry list \<Rightarrow> bool) \<Rightarrow> database \<Rightarrow> bool" where
  "entries_part J d \<equiv> J (map immutable_part (t_ledgerEntry d))"

lemma quiet_operation:
  assumes "\<And>d0. keeps_db (evolves d0) op" "\<And>J. keeps_db (entries_part J) op"
  shows "account_operation op"
proof
  show "keeps_db (evolves d0) op" for d0 by (rule assms(1))
  show "wp d (\<lambda>_. posts d) (posts d) op" for d
    by (rule wp_conseq [OF wp_keeps [OF assms(2) [of "\<lambda>l. l = map immutable_part (t_ledgerEntry d)"]]])
      (auto simp: posts_def)
qed

lemma entries_statements [keeps_intro]:
  "keeps_db (entries_part J) (create_business e m1)" "keeps_db (entries_part J) (create_apiKey e m2)"
  "keeps_db (entries_part J) (create_customer e m3)" "keeps_db (entries_part J) (create_nameHistoryEntry e m4)"
  "keeps_db (entries_part J) (create_account e m5)" "keeps_db (entries_part J) (create_rule e m6)"
  "keeps_db (entries_part J) (create_ruleExecution e m7)" "keeps_db (entries_part J) (create_processedEvent e m8)"
  "keeps_db (entries_part J) (create_treasuryBucket e m9)"
  "keeps_db (entries_part J) (create_bucketLedgerEntry e m10)"
  "keeps_db (entries_part J) (create_settlement e m11)"
  unfolding create_defs by (rule keeps_create_row; simp)+

lemma entries_updates [keeps_intro]:
  "keeps_db (entries_part J) (update_business e i f1)" "keeps_db (entries_part J) (update_apiKey e i f2)"
  "keeps_db (entries_part J) (update_customer e i f3)" "keeps_db (entries_part J) (update_account e i f4)"
  "keeps_db (entries_part J) (update_rule e i f5)" "keeps_db (entries_part J) (updateMany_rule e P f5)"
  "keeps_db (entries_part J) (update_ruleExecution e i f6)"
  "keeps_db (entries_part J) (updateMany_ruleExecution e P' f6)"
  "keeps_db (entries_part J) (update_bucket e i f7)"
  unfolding update_stmt_defs by (rule keeps_update_row keeps_update_many; simp)+

lemma entries_settlement [keeps_intro]: "keeps_db (entries_part J) (update_settlement e i f)"
  by (rule keeps_update_settlement) simp

lemma entries_execute [keeps_intro]: "keeps_db (entries_part J) (execute e ev entry)"
  using execute_event_part [of "\<lambda>l _. J l"] .

lemma entries_reconcile [keeps_intro]: "keeps_db (entries_part J) (updateReconciliationStatus e ref st)"
  unfolding updateReconciliationStatus_def
  using event_part_flag [of "\<lambda>l _. J l"] by (intro keeps_intro) simp

lemma entries_treasury [keeps_intro]:
  "keeps_db (entries_part J) (credit e p)"
  "keeps_db (entries_part J) (transferBetweenBuckets e ref tdto biz actor)"
  "keeps_db (entries_part J) (withdraw e ref wdto biz b)"
  "keeps_db (entries_part J) (closeBucket e ref biz actor)"
  "keeps_db (entries_part J) (renameBucket e ref nm biz)"
  "keeps_db (entries_part J) (provisionBucket e bdto biz)"
  unfolding credit_def credit_tx_def transferBetweenBuckets_def transfer_tx_def withdraw_def
    withdraw_tx_def closeBucket_def renameBucket_def provisionBucket_def
  by (intro keeps_intro)+

lemma entries_initiate [keeps_intro]: "keeps_db (entries_part J) (initiate e ref dto biz b actor)"
  unfolding settlement_defs by (intro keeps_intro)

lemma entries_auth [keeps_intro]:
  "keeps_db (entries_part J) (registerBusiness e rdto secret)"
  "keeps_db (entries_part J) (updateBusinessCredentials e i cdto secret)"
  "keeps_db (entries_part J) (createApiKey e kdto secret)"
  "keeps_db (entries_part J) (validateApiKey e k)"
  "keeps_db (entries_part J) (revokeApiKey e i biz actor)"
  unfolding auth_defs by (intro keeps_intro)+

lemma entries_identity [keeps_intro]:
  "keeps_db (entries_part J) (createCustomer e dto biz)"
  "keeps_db (entries_part J) (renameCustomer e i dto' biz actor)"
  "keeps_db (entries_part J) (updateKycTier e i dto'' biz actor)"
  unfolding createCustomer_def renameCustomer_def updateKycTier_def flag_rules_def
  by (intro keeps_intro)+

lemma entries_rules [keeps_intro]:
  "keeps_db (entries_part J) (replaceRuleSet e ref biz rdto)"
  "keeps_db (entries_part J) (toggleRule e ref i biz enabled)"
  "keeps_db (entries_part J) (deleteRule e ref i biz)"
  unfolding replaceRuleSet_def toggleRule_def deleteRule_def archive_rule_def resolveRule_def
    create_rule_of_def
  by (intro keeps_intro)+

lemma entries_accounts [keeps_intro]:
  "keeps_db (entries_part J) (provisionAccount e pdto biz)"
  "keeps_db (entries_part J) (updateStatus e ref sdto biz actor)"
  "keeps_db (entries_part J) (closeAccount e ref biz actor b)"
  unfolding provisionAccount_def create_account_with_rules_def create_rule_of_def updateStatus_def
    closeAccount_def
  by (intro keeps_intro)+

lemma keeps_run_job [keeps_intro]:
  "(\<And>k. keeps P (process k)) \<Longrightarrow> keeps P (run_job n k process)"
  by (induction n arbitrary: k) (auto intro!: keeps_intro)

lemma entries_retry [keeps_intro]: "keeps_db (entries_part J) (RetryProcessor_process e p n)"
  unfolding RetryProcessor_process_def attemptRelease_def attemptNotify_def record_outcome_def
  by (intro keeps_intro)

section \<open>The inflow worker posts to live accounts only\<close>

lemma live_account:
  assumes "evolves d d" "find_by_number n d = Some (a, c)"
  shows "status_of (acc_id a) d = Some (acc_status a)"
proof -
  from assms(2) have "a \<in> set (t_account d)" by (auto simp: find_by_number_def dest: find_SomeD)
  with assms(1) have "find (\<lambda>x. acc_id x = acc_id a) (t_account d) = Some a"
    by (intro find_by_id) (auto simp: evolves_def)
  then show ?thesis by (simp add: status_of_def)
qed

lemma posts_nothing: "map immutable_part (t_ledgerEntry d') = map immutable_part (t_ledgerEntry d) \<Longrightarrow> posts d d'"
  by (simp add: posts_def)

lemma posts_one:
  assumes "map immutable_part (t_ledgerEntry d') = map immutable_part (t_ledgerEntry d @ [r])" "is_inflow r"
    and "status_of (led_accountId r) d \<in> {Some ACTIVE, Some SUSPENDED}"
  shows "posts d d'"
  using assms by (auto simp: posts_def intro!: exI [of _ "[immutable_part r]"])

text \<open>After the entry is written nothing else touches the entries.\<close>

lemma wp_quiet:
  assumes "\<And>J. keeps_db (entries_part J) m" "posts d d1"
  shows "wp d1 (\<lambda>_. posts d) (posts d) m"
proof -
  have "posts d d'" if "map immutable_part (t_ledgerEntry d') = map immutable_part (t_ledgerEntry d1)" for d'
    using that assms(2) by (simp add: posts_def)
  then show ?thesis
    by (intro wp_conseq [OF wp_keeps [OF assms(1) [of "\<lambda>l. l = map immutable_part (t_ledgerEntry d1)"], of d1]])
      auto
qed

lemma finish_inflow_entries [keeps_intro]: "keeps_db (entries_part J) (finish_inflow e p a rs)"
  unfolding finish_inflow_def run_inflow_rules_def run_inflow_rule_def by (intro keeps_intro)

lemma custom_entries: "keeps_db (entries_part J) (process_custom e p a)"
  unfolding process_custom_def run_custom_rules_def by (intro keeps_intro)

lemma write_posts:
  assumes "evolves d d" "find_by_number n d = Some (a, c)" "acc_status a \<in> {ACTIVE, SUSPENDED}"
    and "\<And>x J. keeps_db (entries_part J) (f x)"
  shows "wp d (\<lambda>_. posts d) (posts d) (bnd (writeInflow e (inflow_dto p a c) st) f)"
proof (rule wp_bnd, rule writeInflow_wp, unfold Let_def, rule disjI2)
  fix am i t s
  let ?r = "inflow_row (inflow_dto p a c) st am (inflow_sum (wi_accountId (inflow_dto p a c)) d + am) s i t"
  have "posts d (d\<lparr>t_ledgerEntry := t_ledgerEntry d @ [?r]\<rparr>)"
    using live_account [OF assms(1,2)] assms(3)
    by (intro posts_one [of _ _ ?r]) (auto simp: inflow_row_def inflow_dto_def is_inflow_def)
  then show "wp (d\<lparr>t_ledgerEntry := t_ledgerEntry d @ [?r]\<rparr>) (\<lambda>_. posts d) (posts d)
      (f (inflow_sum (wi_accountId (inflow_dto p a c)) d + am))"
    by (rule wp_quiet [OF assms(4)])
qed (simp add: posts_nothing)

lemma webhook_posts:
  assumes "evolves d d"
  shows "wp d (\<lambda>_. posts d) (posts d) (WebhookProcessor_process e p)"
proof -
  have quiet: "posts d d" by (simp add: posts_nothing)
  have "wp d (\<lambda>_. posts d) (posts d) (process_event e p)"
    unfolding process_event_def process_suspended_def process_inflow_def process_terminal_def
    by (intro wp_bnd_query wp_if wp_case_option wp_case_prod quiet audit.log_wp
        wp_quiet [OF custom_entries quiet] write_posts [OF assms])
      (auto split: prod.splits option.splits intro!: keeps_intro intro: account_status.exhaust)
  then show ?thesis
    unfolding WebhookProcessor_process_def
    by (intro wp_catch, elim wp_conseq) (auto intro!: wp_rules audit.log_wp)
qed

section \<open>Every operation of the services\<close>

interpretation registering: account_operation "registerBusiness e dto secret" for e dto secret
  by (rule quiet_operation) (intro keeps_intro)+

interpretation recredentialing: account_operation "updateBusinessCredentials e i dto secret" for e i dto secret
  by (rule quiet_operation) (intro keeps_intro)+

interpretation keying: account_operation "createApiKey e dto secret" for e dto secret
  by (rule quiet_operation) (intro keeps_intro)+

interpretation authenticating: account_operation "validateApiKey e k" for e k
  by (rule quiet_operation) (intro keeps_intro)+

interpretation revoking: account_operation "revokeApiKey e i biz actor" for e i biz actor
  by (rule quiet_operation) (intro keeps_intro)+

interpretation enrolling: account_operation "createCustomer e dto biz" for e dto biz
  by (rule quiet_operation) (intro keeps_intro)+

interpretation renaming: account_operation "renameCustomer e i dto biz actor" for e i dto biz actor
  by (rule quiet_operation) (intro keeps_intro)+

interpretation retiering: account_operation "updateKycTier e i dto biz actor" for e i dto biz actor
  by (rule quiet_operation) (intro keeps_intro)+

interpretation provisioning: account_operation "provisionAccount e dto biz" for e dto biz
  by (rule quiet_operation) (intro keeps_intro)+

interpretation overriding: account_operation "updateStatus e ref dto biz actor" for e ref dto biz actor
  by (rule quiet_operation) (intro keeps_intro)+

interpretation closing: account_operation "closeAccount e ref biz actor b" for e ref biz actor b
  by (rule quiet_operation) (intro keeps_intro)+

interpretation replacing: account_operation "replaceRuleSet e ref biz dto" for e ref biz dto
  by (rule quiet_operation) (intro keeps_intro)+

interpretation toggling: account_operation "toggleRule e ref i biz enabled" for e ref i biz enabled
  by (rule quiet_operation) (intro keeps_intro)+

interpretation deleting: account_operation "deleteRule e ref i biz" for e ref i biz
  by (rule quiet_operation) (intro keeps_intro)+

interpretation bucketing: account_operation "provisionBucket e dto biz" for e dto biz
  by (rule quiet_operation) (intro keeps_intro)+

interpretation relabelling: account_operation "renameBucket e ref nm biz" for e ref nm biz
  by (rule quiet_operation) (intro keeps_intro)+

interpretation unbucketing: account_operation "closeBucket e ref biz actor" for e ref biz actor
  by (rule quiet_operation) (intro keeps_intro)+

interpretation transferring: account_operation "transferBetweenBuckets e ref dto biz actor" for e ref dto biz actor
  by (rule quiet_operation) (intro keeps_intro)+

interpretation withdrawing: account_operation "withdraw e ref dto biz b" for e ref dto biz b
  by (rule quiet_operation) (intro keeps_intro)+

interpretation settling: account_operation "initiate e ref dto biz b actor" for e ref dto biz b actor
  by (rule quiet_operation) (intro keeps_intro)+

interpretation retrying: account_operation "run_job n k (RetryProcessor_process e p)" for n k e p
  by (rule quiet_operation) (intro keeps_intro)+

interpretation processing: account_operation "WebhookProcessor_process e p" for e p
  by unfold_locales (rule webhook_evolves, rule webhook_posts)

text \<open>The producers of jobs and the scheduler change no table.\<close>

lemma frame_operation:
  assumes "\<And>w. db (snd (op w)) = db w"
  shows "account_operation op"
  using assms by (intro quiet_operation) (simp_all add: keeps_def)

lemma dispatch_frame: "db (snd (dispatch e ref ev name biz w)) = db w"
proof -
  have "keeps_db (\<lambda>d. d = db w) (dispatch e ref ev name biz)"
    unfolding dispatch_def by (intro keeps_intro)
  from keepsD [OF this, of w] show ?thesis by simp
qed

interpretation receiving: account_operation "processInflow e raw sig" for e raw sig
  by (rule frame_operation) (simp add: processInflow_queue)

interpretation dispatching: account_operation "dispatch e ref ev name biz" for e ref ev name biz
  by (rule frame_operation) (rule dispatch_frame)

interpretation scheduling: account_operation "evaluateTimeElapsedRules e" for e
  by (rule quiet_operation) (rule scheduler_evolves)+

end
