(* ===== verification/Tenant_Isolation.thy ===== *)
theory Tenant_Isolation
  imports Account_Machine
begin

text \<open>
  Every row of the database belongs to one business: directly, through its account, its customer or its
  bucket. \<open>tenant v d\<close> is the part of the database that belongs to business \<open>v\<close>. The locale
  \<open>tenant_operation\<close> states the contract of an operation that acts for a business \<open>b\<close>: the part of every
  other business stays as it is. Each operation a request can reach is interpreted in it.
\<close>

section \<open>The part of a business\<close>

definition owned :: "('r \<Rightarrow> string) \<Rightarrow> string \<Rightarrow> 'r list \<Rightarrow> 'r list" where
  "owned owner v rs = filter (\<lambda>r. owner r = v) rs"

definition linked_rows :: "('r \<Rightarrow> string) \<Rightarrow> string list \<Rightarrow> 'r list \<Rightarrow> 'r list" where
  "linked_rows link ids rs = filter (\<lambda>r. link r \<in> set ids) rs"

definition customer_ids :: "string \<Rightarrow> database \<Rightarrow> string list" where
  "customer_ids v d = map cus_id (owned cus_businessId v (t_customer d))"

definition account_ids :: "string \<Rightarrow> database \<Rightarrow> string list" where
  "account_ids v d = map acc_id (owned acc_businessId v (t_account d))"

definition bucket_ids :: "string \<Rightarrow> database \<Rightarrow> string list" where
  "bucket_ids v d = map bkt_id (owned bkt_businessId v (t_bucket d))"

definition tenant :: "string \<Rightarrow> database \<Rightarrow> database" where
  "tenant v d = \<lparr>
     t_business = owned biz_id v (t_business d),
     t_apiKey = owned key_businessId v (t_apiKey d),
     t_customer = owned cus_businessId v (t_customer d),
     t_nameHistory = linked_rows nh_customerId (customer_ids v d) (t_nameHistory d),
     t_account = owned acc_businessId v (t_account d),
     t_rule = linked_rows rul_accountId (account_ids v d) (t_rule d),
     t_ruleExecution = linked_rows rex_accountId (account_ids v d) (t_ruleExecution d),
     t_ledgerEntry = linked_rows led_accountId (account_ids v d) (t_ledgerEntry d),
     t_processedEvent = filter (\<lambda>p. pev_businessId p = Some v) (t_processedEvent d),
     t_bucket = owned bkt_businessId v (t_bucket d),
     t_bucketLedger = linked_rows ble_bucketId (bucket_ids v d) (t_bucketLedger d),
     t_settlement = owned stl_businessId v (t_settlement d),
     t_idempotencyKey = owned idk_businessId v (t_idempotencyKey d)\<rparr>"

text \<open>
  What the argument needs of the database: primary keys are unique, and the customer of an account is a
  customer of the same business.
\<close>

definition tenancy_ok :: "database \<Rightarrow> bool" where
  "tenancy_ok d =
     (distinct (map key_id (t_apiKey d)) \<and> distinct (map cus_id (t_customer d)) \<and>
      distinct (map acc_id (t_account d)) \<and> distinct (map rul_id (t_rule d)) \<and>
      distinct (map bkt_id (t_bucket d)) \<and> distinct (map stl_id (t_settlement d)) \<and>
      (\<forall>a \<in> set (t_account d). \<forall>i. acc_customerId a = Some i \<longrightarrow>
         (i, acc_businessId a) \<in> set (map (\<lambda>c. (cus_id c, cus_businessId c)) (t_customer d))))"

text \<open>The invariant of an operation of another business: the part of \<open>v\<close> is \<open>p\<close>.\<close>

definition guarded :: "string \<Rightarrow> database \<Rightarrow> database \<Rightarrow> bool" where
  "guarded v p d = (tenancy_ok d \<and> tenant v d = p)"

section \<open>Lists of rows\<close>

lemma owned_simps [simp]:
  "owned owner v [] = []"
  "owned owner v (rs @ [r]) = (if owner r = v then owned owner v rs @ [r] else owned owner v rs)"
  by (simp_all add: owned_def)

lemma owned_update:
  assumes "\<And>r. r \<in> set rs \<Longrightarrow> P r \<Longrightarrow> owner r \<noteq> v \<and> owner (f r) \<noteq> v"
  shows "owned owner v (update_rows P f rs) = owned owner v rs"
  using assms by (induction rs) (auto simp: owned_def)

lemma linked_rows_simps [simp]:
  "linked_rows link ids [] = []"
  "linked_rows link ids (rs @ [r]) =
     (if link r \<in> set ids then linked_rows link ids rs @ [r] else linked_rows link ids rs)"
  by (simp_all add: linked_rows_def)

lemma linked_rows_update:
  assumes "\<And>r. r \<in> set rs \<Longrightarrow> P r \<Longrightarrow> link r \<notin> set ids \<and> link (f r) \<notin> set ids"
  shows "linked_rows link ids (update_rows P f rs) = linked_rows link ids rs"
  using assms by (induction rs) (auto simp: linked_rows_def)

lemma key_unique:
  "distinct (map key rs) \<Longrightarrow> r \<in> set rs \<Longrightarrow> s \<in> set rs \<Longrightarrow> key r = key s \<Longrightarrow> r = s"
  by (metis (mono_tags) distinct_map inj_onD)

lemma owned_keys:
  assumes "distinct (map key rs)" "r \<in> set rs" "owner r \<noteq> v"
  shows "key r \<notin> set (map key (owned owner v rs))"
  using assms by (auto simp: owned_def dest: key_unique [OF assms(1)])

lemma owned_not_key:
  "i \<notin> set (map key (owned owner v rs)) \<Longrightarrow> r \<in> set rs \<Longrightarrow> key r = i \<Longrightarrow> owner r \<noteq> v"
  by (auto simp: owned_def)

text \<open>The ids of the part of a business, kept folded so that automation leaves them alone.\<close>

definition has_account :: "database \<Rightarrow> string \<Rightarrow> bool" where
  "has_account p i = (i \<in> set (map acc_id (t_account p)))"

definition has_customer :: "database \<Rightarrow> string \<Rightarrow> bool" where
  "has_customer p i = (i \<in> set (map cus_id (t_customer p)))"

definition has_bucket :: "database \<Rightarrow> string \<Rightarrow> bool" where
  "has_bucket p i = (i \<in> set (map bkt_id (t_bucket p)))"

definition has_rule :: "database \<Rightarrow> string \<Rightarrow> bool" where
  "has_rule p i = (i \<in> set (map rul_id (t_rule p)))"

definition has_key :: "database \<Rightarrow> string \<Rightarrow> bool" where
  "has_key p i = (i \<in> set (map key_id (t_apiKey p)))"

definition has_settlement :: "database \<Rightarrow> string \<Rightarrow> bool" where
  "has_settlement p i = (i \<in> set (map stl_id (t_settlement p)))"

lemmas has_defs = has_account_def has_customer_def has_bucket_def has_rule_def has_key_def has_settlement_def

section \<open>What belongs to the acting business is not of another\<close>

text \<open>The ids of a business are those of its part, so they stay as they are.\<close>

lemma guarded_ids:
  assumes "guarded v p d"
  shows "account_ids v d = map acc_id (t_account p)" "customer_ids v d = map cus_id (t_customer p)"
    "bucket_ids v d = map bkt_id (t_bucket p)"
  using assms by (auto simp: guarded_def tenant_def account_ids_def customer_ids_def bucket_ids_def)

lemma own_account:
  assumes "guarded v p d" "a \<in> set (t_account d)" "acc_businessId a \<noteq> v"
  shows "\<not> has_account p (acc_id a)"
  using assms owned_keys [of acc_id "t_account d" a acc_businessId v]
  by (auto simp: guarded_def tenancy_ok_def tenant_def has_defs)

lemma own_customer:
  assumes "guarded v p d" "c \<in> set (t_customer d)" "cus_businessId c \<noteq> v"
  shows "\<not> has_customer p (cus_id c)"
  using assms owned_keys [of cus_id "t_customer d" c cus_businessId v]
  by (auto simp: guarded_def tenancy_ok_def tenant_def has_defs)

lemma own_bucket:
  assumes "guarded v p d" "b \<in> set (t_bucket d)" "bkt_businessId b \<noteq> v"
  shows "\<not> has_bucket p (bkt_id b)"
  using assms owned_keys [of bkt_id "t_bucket d" b bkt_businessId v]
  by (auto simp: guarded_def tenancy_ok_def tenant_def has_defs)

lemma own_settlement:
  assumes "guarded v p d" "s \<in> set (t_settlement d)" "stl_businessId s \<noteq> v"
  shows "\<not> has_settlement p (stl_id s)"
  using assms owned_keys [of stl_id "t_settlement d" s stl_businessId v]
  by (auto simp: guarded_def tenancy_ok_def tenant_def has_defs)

lemma own_key:
  assumes "guarded v p d" "k \<in> set (t_apiKey d)" "key_businessId k \<noteq> v"
  shows "\<not> has_key p (key_id k)"
  using assms owned_keys [of key_id "t_apiKey d" k key_businessId v]
  by (auto simp: guarded_def tenancy_ok_def tenant_def has_defs)

lemma own_rule:
  assumes "guarded v p d" "r \<in> set (t_rule d)" "a \<in> set (t_account d)" "acc_id a = rul_accountId r"
    and "acc_businessId a \<noteq> v"
  shows "\<not> has_rule p (rul_id r)"
proof
  assume "has_rule p (rul_id r)"
  then obtain s where s: "s \<in> set (t_rule p)" "rul_id s = rul_id r" by (auto simp: has_rule_def)
  with assms(1) have "s \<in> set (t_rule d)" "rul_accountId s \<in> set (account_ids v d)" "distinct (map rul_id (t_rule d))"
    by (auto simp: guarded_def tenant_def tenancy_ok_def linked_rows_def)
  with s(2) assms(2) have "rul_accountId r \<in> set (account_ids v d)" by (metis key_unique)
  with own_account [OF assms(1,3,5)] assms(4) show False by (simp add: guarded_ids [OF assms(1)] has_account_def)
qed

section \<open>Statements\<close>

text \<open>A read may use that the invariant holds when it runs.\<close>

lemma keeps_bnd_query:
  assumes "\<And>d. J d \<Longrightarrow> keeps_db J (f (g d))"
  shows "keeps_db J (bnd (query e g) f)"
proof (rule keepsI)
  fix w :: world assume J: "J (db w)"
  with keepsD [OF assms [OF J], of "w\<lparr>tick := Suc (tick w)\<rparr>"]
  show "J (db (snd (bnd (query e g) f w)))"
    by (auto simp: bnd_def query_def prisma_def split: option.splits)
qed

lemmas view_defs = guarded_def tenancy_ok_def tenant_def account_ids_def customer_ids_def bucket_ids_def

lemma guarded_creates:
  "(\<And>i t. key_businessId (mk1 i t) \<noteq> v) \<Longrightarrow> keeps_db (guarded v p) (create_apiKey e mk1)"
  "(\<And>i t. cus_businessId (mk2 i t) \<noteq> v) \<Longrightarrow> keeps_db (guarded v p) (create_customer e mk2)"
  "(\<And>i t. bkt_businessId (mk5 i t) \<noteq> v) \<Longrightarrow> keeps_db (guarded v p) (create_treasuryBucket e mk5)"
  "(\<And>i t. stl_businessId (mk7 i t) \<noteq> v) \<Longrightarrow> keeps_db (guarded v p) (create_settlement e mk7)"
  "(\<And>i t. idk_businessId (mk8 i t) \<noteq> v) \<Longrightarrow> keeps_db (guarded v p) (create_idempotencyKey e mk8)"
  unfolding create_defs
  by (rule keeps_create_row; auto simp: view_defs taken_def split: if_splits)+

text \<open>A row that hangs on an account, a customer or a bucket.\<close>

lemma guarded_links:
  assumes "guarded v p d"
  shows "\<not> has_customer p (nh_customerId h) \<Longrightarrow>
      guarded v p (d\<lparr>t_nameHistory := t_nameHistory d @ [h]\<rparr>)"
    and "\<not> has_account p (rul_accountId r) \<Longrightarrow> rul_id r \<notin> set (map rul_id (t_rule d)) \<Longrightarrow>
      guarded v p (d\<lparr>t_rule := t_rule d @ [r]\<rparr>)"
    and "\<not> has_bucket p (ble_bucketId b) \<Longrightarrow>
      guarded v p (d\<lparr>t_bucketLedger := t_bucketLedger d @ [b]\<rparr>)"
  using assms by (auto simp: view_defs has_defs)

lemma guarded_link_creates:
  "(\<And>i t. \<not> has_customer p (nh_customerId (mk3 i t))) \<Longrightarrow>
     keeps_db (guarded v p) (create_nameHistoryEntry e mk3)"
  "(\<And>i t. \<not> has_account p (rul_accountId (mk4 i t))) \<Longrightarrow>
     keeps_db (guarded v p) (create_rule e mk4)"
  "(\<And>i t. \<not> has_bucket p (ble_bucketId (mk6 i t))) \<Longrightarrow>
     keeps_db (guarded v p) (create_bucketLedgerEntry e mk6)"
  unfolding create_defs
  by (rule keeps_create_row; rule guarded_links; simp add: taken_def split: if_splits)+

lemma guarded_update_account:
  assumes "\<not> has_account p i"
    and "\<And>a. acc_id (f a) = acc_id a \<and> acc_businessId (f a) = acc_businessId a \<and> acc_customerId (f a) = acc_customerId a"
  shows "keeps_db (guarded v p) (update_account e i f)"
  unfolding update_account_def
proof (rule keeps_update_row)
  fix d assume d: "guarded v p d"
  have "owned acc_businessId v (update_rows (\<lambda>r. acc_id r = i) f (t_account d)) = owned acc_businessId v (t_account d)"
    using assms d by (intro owned_update) (auto simp: view_defs owned_def has_defs)
  then show "guarded v p (d\<lparr>t_account := update_rows (\<lambda>r. acc_id r = i) f (t_account d)\<rparr>)"
    using d assms(2) by (auto simp: view_defs map_update_rows set_update_rows split: if_splits)
qed

lemma guarded_update_customer:
  assumes "\<not> has_customer p i"
    and "\<And>c. cus_id (f c) = cus_id c \<and> cus_businessId (f c) = cus_businessId c"
  shows "keeps_db (guarded v p) (update_customer e i f)"
  unfolding update_customer_def
proof (rule keeps_update_row)
  fix d assume d: "guarded v p d"
  have "owned cus_businessId v (update_rows (\<lambda>r. cus_id r = i) f (t_customer d)) = owned cus_businessId v (t_customer d)"
    using assms d by (intro owned_update) (auto simp: view_defs owned_def has_defs)
  moreover have "map (\<lambda>c. (cus_id c, cus_businessId c)) (update_rows (\<lambda>r. cus_id r = i) f (t_customer d)) =
      map (\<lambda>c. (cus_id c, cus_businessId c)) (t_customer d)"
    using assms(2) by (intro map_update_rows) simp
  ultimately show "guarded v p (d\<lparr>t_customer := update_rows (\<lambda>r. cus_id r = i) f (t_customer d)\<rparr>)"
    using d assms(2) by (simp add: view_defs map_update_rows del: set_map)
qed

lemma guarded_update_bucket:
  assumes "\<not> has_bucket p i"
    and "\<And>b. bkt_id (f b) = bkt_id b \<and> bkt_businessId (f b) = bkt_businessId b"
  shows "keeps_db (guarded v p) (update_bucket e i f)"
  unfolding update_bucket_def
proof (rule keeps_update_row)
  fix d assume d: "guarded v p d"
  have "owned bkt_businessId v (update_rows (\<lambda>r. bkt_id r = i) f (t_bucket d)) = owned bkt_businessId v (t_bucket d)"
    using assms d by (intro owned_update) (auto simp: view_defs owned_def has_defs)
  then show "guarded v p (d\<lparr>t_bucket := update_rows (\<lambda>r. bkt_id r = i) f (t_bucket d)\<rparr>)"
    using d assms(2) by (simp add: view_defs map_update_rows)
qed

lemma guarded_update_key:
  assumes "\<not> has_key p i"
    and "\<And>k. key_id (f k) = key_id k \<and> key_businessId (f k) = key_businessId k"
  shows "keeps_db (guarded v p) (update_apiKey e i f)"
  unfolding update_apiKey_def
proof (rule keeps_update_row)
  fix d assume d: "guarded v p d"
  have "owned key_businessId v (update_rows (\<lambda>r. key_id r = i) f (t_apiKey d)) = owned key_businessId v (t_apiKey d)"
    using assms d by (intro owned_update) (auto simp: view_defs owned_def has_defs)
  then show "guarded v p (d\<lparr>t_apiKey := update_rows (\<lambda>r. key_id r = i) f (t_apiKey d)\<rparr>)"
    using d assms(2) by (simp add: view_defs map_update_rows)
qed

lemma guarded_update_settlement:
  assumes "\<not> has_settlement p i"
    and "\<And>s. stl_id (f s) = stl_id s \<and> stl_businessId (f s) = stl_businessId s"
  shows "keeps_db (guarded v p) (update_settlement e i f)"
proof (rule keeps_update_settlement)
  fix d assume d: "guarded v p d"
  have "owned stl_businessId v (update_rows (\<lambda>r. stl_id r = i) f (t_settlement d)) =
      owned stl_businessId v (t_settlement d)"
    using assms d by (intro owned_update) (auto simp: view_defs owned_def has_defs)
  then show "guarded v p (d\<lparr>t_settlement := update_rows (\<lambda>r. stl_id r = i) f (t_settlement d)\<rparr>)"
    using d assms(2) by (simp add: view_defs map_update_rows)
qed

lemma guarded_rules:
  assumes "guarded v p d" "\<And>r. rul_id (f r) = rul_id r \<and> rul_accountId (f r) = rul_accountId r"
    and "\<And>r. r \<in> set (t_rule d) \<Longrightarrow> P r \<Longrightarrow> \<not> has_account p (rul_accountId r)"
  shows "guarded v p (d\<lparr>t_rule := update_rows P f (t_rule d)\<rparr>)"
proof -
  have "linked_rows rul_accountId (account_ids v d) (update_rows P f (t_rule d)) =
      linked_rows rul_accountId (account_ids v d) (t_rule d)"
    by (rule linked_rows_update) (use assms in \<open>simp add: guarded_ids has_account_def\<close>)
  then show ?thesis using assms(1,2) by (simp add: view_defs map_update_rows)
qed

lemma guarded_update_rules:
  assumes "\<And>r. rul_id (f r) = rul_id r \<and> rul_accountId (f r) = rul_accountId r"
  shows "\<not> has_rule p i \<Longrightarrow> keeps_db (guarded v p) (update_rule e i f)"
    and "(\<And>r. P r \<Longrightarrow> \<not> has_account p (rul_accountId r)) \<Longrightarrow>
      keeps_db (guarded v p) (updateMany_rule e P f)"
    and "(\<And>r. P r \<Longrightarrow> \<not> has_rule p (rul_id r)) \<Longrightarrow>
      keeps_db (guarded v p) (updateMany_rule e P f)"
proof -
  have foreign: "\<not> has_account p (rul_accountId r)"
    if "guarded v p d" "r \<in> set (t_rule d)" "\<not> has_rule p (rul_id r)" for d r
  proof -
    from that(1) have "t_rule p = linked_rows rul_accountId (account_ids v d) (t_rule d)"
      by (auto simp: guarded_def tenant_def)
    with that show ?thesis by (auto simp: linked_rows_def guarded_ids has_defs)
  qed
  show "\<not> has_rule p i \<Longrightarrow> keeps_db (guarded v p) (update_rule e i f)"
    unfolding update_rule_def by (rule keeps_update_row) (auto intro!: guarded_rules assms dest: foreign)
  show "(\<And>r. P r \<Longrightarrow> \<not> has_account p (rul_accountId r)) \<Longrightarrow>
      keeps_db (guarded v p) (updateMany_rule e P f)"
    unfolding updateMany_rule_def by (rule keeps_update_many) (auto intro!: guarded_rules assms)
  show "(\<And>r. P r \<Longrightarrow> \<not> has_rule p (rul_id r)) \<Longrightarrow>
      keeps_db (guarded v p) (updateMany_rule e P f)"
    unfolding updateMany_rule_def
    by (rule keeps_update_many) (auto intro!: guarded_rules assms dest: foreign)
qed

lemma guarded_update_executions:
  assumes "\<And>x. rex_accountId (f x) = rex_accountId x"
    and "\<And>x. P x \<Longrightarrow> \<not> has_account p (rex_accountId x)"
  shows "keeps_db (guarded v p) (updateMany_ruleExecution e P f)"
  unfolding updateMany_ruleExecution_def
proof (rule keeps_update_many)
  fix d assume d: "guarded v p d"
  have "linked_rows rex_accountId (account_ids v d) (update_rows P f (t_ruleExecution d)) =
      linked_rows rex_accountId (account_ids v d) (t_ruleExecution d)"
    by (rule linked_rows_update) (use assms d in \<open>simp add: guarded_ids has_account_def\<close>)
  then show "guarded v p (d\<lparr>t_ruleExecution := update_rows P f (t_ruleExecution d)\<rparr>)"
    using d by (simp add: view_defs)
qed

lemmas guarded_statements =
  guarded_creates guarded_link_creates guarded_update_account guarded_update_customer guarded_update_bucket
  guarded_update_key guarded_update_settlement guarded_update_rules guarded_update_executions

section \<open>Operations\<close>

locale tenant_operation =
  fixes b :: string and op :: "'a act"
  assumes keeps_others: "v \<noteq> b \<Longrightarrow> keeps_db (guarded v p) op"
begin

lemma isolates:
  "tenancy_ok (db w) \<Longrightarrow> v \<noteq> b \<Longrightarrow> tenant v (db (snd (op w))) = tenant v (db w)"
  using keepsD [OF keeps_others, of v "tenant v (db w)" w] by (simp add: guarded_def)

lemma keeps_tenancy: "keeps_db tenancy_ok op"
  using keepsD [OF keeps_others, of "b @ ''x''"] by (simp add: keeps_def guarded_def)

end

text \<open>What a first step finds out may be used by the rest.\<close>

lemma keeps_bnd_wp:
  assumes "\<And>d. J d \<Longrightarrow> wp d (\<lambda>x d'. J d' \<and> R x) J m" "\<And>x. R x \<Longrightarrow> keeps_db J (f x)"
  shows "keeps_db J (bnd m f)"
proof (rule keeps_from_wp)
  fix d assume "J d"
  from assms(1) [OF this] show "wp d (\<lambda>_. J) J (bnd m f)"
    by (intro wp_bnd) (erule wp_conseq, auto intro: wp_keeps assms(2))
qed

lemma own_account_by_ref:
  "guarded v p d \<Longrightarrow> v \<noteq> b \<Longrightarrow> find_account_by_ref ref b d = Some a \<Longrightarrow>
     \<not> has_account p (acc_id a)"
  by (rule own_account) (auto simp: find_account_by_ref_def dest!: find_SomeD)

lemma own_customer_by_id:
  "guarded v p d \<Longrightarrow> v \<noteq> b \<Longrightarrow> find_customer i b d = Some c \<Longrightarrow> \<not> has_customer p i"
  using own_customer [of v p d c] by (auto simp: find_customer_def dest!: find_SomeD)

lemma own_bucket_by_ref:
  "guarded v p d \<Longrightarrow> v \<noteq> b \<Longrightarrow> find_bucket ref b d = Some x \<Longrightarrow> \<not> has_bucket p (bkt_id x)"
  by (rule own_bucket) (auto simp: find_bucket_def bkt_key_def dest!: find_SomeD)

lemma keeps_bnd_bucket:
  assumes "v \<noteq> b" "\<And>x. \<not> has_bucket p (bkt_id x) \<Longrightarrow> keeps_db (guarded v p) (f x)"
  shows "keeps_db (guarded v p) (bnd (TreasuryService_resolveBucket e ref b) f)"
    and "keeps_db (guarded v p) (bnd (TreasuryService_lockBucket e ref b) f)"
    and "keeps_db (guarded v p) (bnd (SettlementService_resolveBucket e ref b) f)"
    and "keeps_db (guarded v p) (bnd (SettlementService_lockBucket e ref b) f)"
  by (rule keeps_bnd_wp [where R = "\<lambda>x. \<not> has_bucket p (bkt_id x)"];
      auto intro!: wp_rules assms(2) dest: own_bucket_by_ref [OF _ assms(1)])+

text \<open>API keys.\<close>

interpretation revoke: tenant_operation b "revokeApiKey e i b actor" for e i b actor
  by unfold_locales
    (auto simp: revokeApiKey_def dest!: find_SomeD intro!: keeps_bnd_query keeps_intro guarded_update_key dest: own_key)

text \<open>Customers.\<close>

interpretation enrol: tenant_operation b "createCustomer e dto b" for e dto b
proof
  fix v p assume "v \<noteq> b"
  have create: "keeps_db (guarded v p) (bnd (create_customer e (customer_row dto b)) f)"
    if "\<And>c. \<not> has_customer p (cus_id c) \<Longrightarrow> keeps_db (guarded v p) (f c)"
    for f :: "customer \<Rightarrow> (customer \<times> nameHistoryEntry list) act"
  proof (rule keeps_bnd_wp)
    fix d assume d: "guarded v p d"
    show "wp d (\<lambda>c d'. guarded v p d' \<and> \<not> has_customer p (cus_id c)) (guarded v p)
        (create_customer e (customer_row dto b))"
      unfolding create_customer_def
      by (rule wp_create_row) (use d \<open>v \<noteq> b\<close> in \<open>auto simp: view_defs customer_row_def taken_def owned_def has_defs split: if_splits\<close>)
  qed (rule that)
  show "keeps_db (guarded v p) (createCustomer e dto b)"
    unfolding createCustomer_def
    by (rule keeps_bnd, rule keeps_transaction, rule create)
      (intro keeps_intro guarded_link_creates; simp add: history_row_def)+
qed

interpretation rename: tenant_operation b "renameCustomer e i dto b actor" for e i dto b actor
  by unfold_locales
    (auto simp: renameCustomer_def history_row_def intro!: keeps_bnd_query keeps_intro guarded_link_creates
      guarded_update_customer dest: own_customer_by_id)

text \<open>The rules that a tier change flags belong to accounts of the customer.\<close>

lemma own_stale_rule:
  assumes "r \<in> set (stale_rules i b tier d)" "guarded v p d" "v \<noteq> b"
  shows "\<not> has_rule p (rul_id r)"
proof -
  from assms(1) obtain a c where "r \<in> set (t_rule d)" "a \<in> set (t_account d)" "acc_id a = rul_accountId r"
    "acc_customerId a = Some i" and c: "c \<in> set (t_customer d)" "cus_id c = i" "cus_businessId c = b"
    by (auto simp: stale_rules_def rule_of_customer_def)
  moreover from this assms(2) obtain c' where "c' \<in> set (t_customer d)" "cus_id c' = i"
      "cus_businessId c' = acc_businessId a"
    by (fastforce simp: guarded_def tenancy_ok_def)
  with c assms(2) have "acc_businessId a = b"
    by (metis guarded_def key_unique tenancy_ok_def)
  ultimately show ?thesis using assms(2,3) by (intro own_rule [of v p d r a]) auto
qed

lemma keeps_flag_rules:
  assumes "\<And>r. r \<in> set rs \<Longrightarrow> \<not> has_rule p (rul_id r)"
  shows "keeps_db (guarded v p) (flag_rules e i b actor dto tier rs)"
  unfolding flag_rules_def
  by (intro keeps_intro guarded_update_rules(3)) (use assms in auto)

interpretation retier: tenant_operation b "updateKycTier e i dto b actor" for e i dto b actor
  by unfold_locales
    (auto simp: updateKycTier_def intro!: keeps_bnd_query keeps_intro guarded_update_customer keeps_flag_rules
      dest: own_customer_by_id own_stale_rule)

text \<open>Accounts.\<close>

interpretation override: tenant_operation b "updateStatus e ref dto b actor" for e ref dto b actor
  by unfold_locales
    (auto simp: updateStatus_def intro!: keeps_bnd_query keeps_intro guarded_update_account
      dest: own_account_by_ref)

interpretation close: tenant_operation b "closeAccount e ref b actor biz" for e ref b actor biz
  by unfold_locales
    (auto simp: closeAccount_def open_execution_def intro!: keeps_bnd_query keeps_intro guarded_update_account
      guarded_update_executions dest: own_account_by_ref)

lemma keeps_create_rule_of:
  "\<not> has_account p j \<Longrightarrow> keeps_db (guarded v p) (create_rule_of e j tier r)"
  unfolding create_rule_of_def by (intro keeps_intro guarded_link_creates) (simp add: rule_row_def)

lemma create_account_guarded:
  assumes "v \<noteq> b" "c \<in> set (t_customer d)" "cus_businessId c = b" "guarded v p d"
  shows "wp d (\<lambda>a d'. guarded v p d' \<and> \<not> has_account p (acc_id a)) (guarded v p)
    (create_account e (account_row dto nid num bank (cus_id c) b))"
  unfolding create_account_def
  by (rule wp_create_row)
    (use assms in \<open>auto simp: view_defs has_account_def account_row_def taken_def owned_def split: if_splits\<close>)

lemma provision_guarded:
  assumes "v \<noteq> b" "c \<in> set (t_customer d)" "cus_businessId c = b" "guarded v p d"
  shows "wp d (\<lambda>_. guarded v p) (guarded v p) (create_account_with_rules e dto dva c b)"
proof -
  have rest: "wp d' (\<lambda>_. guarded v p) (\<lambda>_. True) (seqm (mapM (create_rule_of e (acc_id a) tier) rs)
      (bnd (query e (rules_of (acc_id a))) (\<lambda>rules. ret (a, rules))))"
    if "guarded v p d' \<and> \<not> has_account p (acc_id a)" for a d' tier rs
    using that by (intro wp_conseq [OF wp_keeps [of "guarded v p"]] keeps_intro keeps_create_rule_of) auto
  have tx: "wp d (\<lambda>_. guarded v p) (guarded v p) (transaction e (
      bnd (create_account e (account_row dto nid num bank (cus_id c) b)) (\<lambda>a.
        seqm (mapM (create_rule_of e (acc_id a) (cus_kycTier c)) (definitions (pa_rules dto)))
          (bnd (query e (rules_of (acc_id a))) (\<lambda>rules. ret (a, rules))))))" for nid num bank
    using assms(4) by (intro wp_transaction wp_bnd wp_conseq [OF create_account_guarded [OF assms]] rest) auto
  show ?thesis
    unfolding create_account_with_rules_def using assms(4) tx
    by (auto split: option.split intro: wp_throw)
qed

interpretation provision: tenant_operation b "provisionAccount e dto b" for e dto b
  by (unfold_locales, rule keeps_from_wp, unfold provisionAccount_def)
    (intro wp_rules audit.log_wp allI wp_conseq [OF provision_guarded], auto intro!: wp_rules audit.log_wp dest!: find_SomeD)

text \<open>Rules.\<close>

interpretation replace: tenant_operation b "replaceRuleSet e ref b dto" for e ref b dto
  by unfold_locales
    (auto simp: replaceRuleSet_def Let_def intro!: keeps_bnd_query keeps_intro guarded_update_account
      guarded_update_rules(2) keeps_create_rule_of dest: own_account_by_ref)

lemma keeps_bnd_rule:
  assumes "v \<noteq> b" "\<And>r. \<not> has_rule p i \<Longrightarrow> keeps_db (guarded v p) (f r)"
  shows "keeps_db (guarded v p) (bnd (resolveRule e ref i b) f)"
  unfolding resolveRule_def bnd_assoc
proof (rule keeps_bnd_query)
  fix d assume d: "guarded v p d"
  let ?found = "find (\<lambda>r. rul_id r = i \<and> (\<exists>a\<in>set (t_account d). acc_id a = rul_accountId r \<and>
      acc_accountRef a = ref \<and> acc_businessId a = b)) (t_rule d)"
  show "keeps_db (guarded v p) (bnd (case ?found of None \<Rightarrow> throw (NotFound RULE_NOT_FOUND ''Rule not found'')
      | Some r \<Rightarrow> ret r) f)"
  proof (cases ?found)
    case (Some r)
    from find_SomeD [OF this] d assms(1) have "\<not> has_rule p i" by (auto dest: own_rule)
    with Some show ?thesis by (simp add: assms(2))
  qed (simp add: keeps_throw)
qed

interpretation toggle: tenant_operation b "toggleRule e ref i b enabled" for e ref i b enabled
  by unfold_locales
    (auto simp: toggleRule_def archive_rule_def intro!: keeps_intro keeps_bnd_rule guarded_update_rules(1))

interpretation delete: tenant_operation b "deleteRule e ref i b" for e ref i b
  by unfold_locales
    (auto simp: deleteRule_def archive_rule_def intro!: keeps_intro keeps_bnd_rule guarded_update_rules(1))

text \<open>Buckets.\<close>

interpretation open_bucket: tenant_operation b "provisionBucket e dto b" for e dto b
  by unfold_locales
    (auto simp: provisionBucket_def new_bucket_def intro!: keeps_intro guarded_creates)

interpretation rename_bucket: tenant_operation b "renameBucket e ref nm b" for e ref nm b
  by unfold_locales
    (auto simp: renameBucket_def intro!: keeps_intro keeps_bnd_bucket guarded_update_bucket)

interpretation close_bucket: tenant_operation b "closeBucket e ref b actor" for e ref b actor
  by unfold_locales
    (auto simp: closeBucket_def intro!: keeps_intro keeps_bnd_bucket guarded_update_bucket)

interpretation transfer: tenant_operation b "transferBetweenBuckets e ref dto b actor" for e ref dto b actor
  by unfold_locales
    (auto simp: transferBetweenBuckets_def transfer_tx_def bucket_row_def Let_def
      intro!: keeps_intro keeps_bnd_bucket guarded_link_creates)

interpretation withdrawal: tenant_operation b "withdraw e ref dto b biz" for e ref dto b biz
  by unfold_locales
    (auto simp: withdraw_def withdraw_tx_def bucket_row_def Let_def
      intro!: keeps_intro keeps_bnd_bucket guarded_link_creates)

lemma create_settlement_guarded:
  assumes "v \<noteq> b" "guarded v p d" "\<And>i t. stl_businessId (mk i t) = b"
  shows "wp d (\<lambda>s d'. guarded v p d' \<and> \<not> has_settlement p (stl_id s)) (guarded v p) (create_settlement e mk)"
  unfolding create_settlement_def
  by (rule wp_create_row)
    (use assms in \<open>auto simp: view_defs has_settlement_def taken_def owned_def split: if_splits\<close>)

lemma reserve_guarded:
  assumes "v \<noteq> b" "guarded v p d"
  shows "wp d (\<lambda>s d'. guarded v p d' \<and> \<not> has_settlement p (stl_id s)) (guarded v p)
    (reserve_tx e ref b amount dst actor)"
proof -
  have row: "stl_businessId (settlement_row bi b amount ty dst actor i t) = b" for bi ty i t
    by (simp add: settlement_row_def)
  show ?thesis
    unfolding reserve_tx_def latestBalance_def
    by (intro wp_rules TrueI assms(2) audit.log_wp wp_conseq [OF create_settlement_guarded [OF assms row]]) auto
qed

lemma finish_guarded:
  assumes "v \<noteq> b" "\<not> has_settlement p (stl_id s)"
  shows "keeps_db (guarded v p) (finish_settlement e s ref dto dst amount b biz actor)"
  unfolding finish_settlement_def execute_transfer_def mark_processing_def mark_completed_def mark_failed_def
    settleInternal_def settleInternal_tx_def completeSettlement_def complete_tx_def latestBalance_def Let_def
  using assms by (auto simp: bucket_row_def intro!: keeps_intro keeps_bnd_bucket guarded_link_creates guarded_update_settlement)

interpretation settle: tenant_operation b "initiate e ref dto b biz actor" for e ref dto b biz actor
proof
  fix v p assume "v \<noteq> b"
  have rest: "keeps_db (guarded v p) (bnd (reserve_tx e ref b amount dst actor) (\<lambda>s.
      finish_settlement e s ref dto dst amount b biz actor))" for amount dst
    using \<open>v \<noteq> b\<close> by (intro keeps_bnd_wp [OF reserve_guarded] finish_guarded)
  show "keeps_db (guarded v p) (initiate e ref dto b biz actor)"
    unfolding initiate_def Let_def
    by (rule keeps_bnd_bucket [OF \<open>v \<noteq> b\<close>], rule keeps_if, rule keeps_throw, rule keeps_bnd, rule keeps_lift_sum, rule rest)
qed

end
