(* ===== verification/Http_Isolation.thy ===== *)
theory Http_Isolation
  imports Http_Server Tenant_Isolation
begin

text \<open>
  What a request can do. The isolation of the tenants is carried from the service methods to whole requests:
  through the handlers, the idempotency interceptor and the guard.
\<close>

section \<open>Handlers that only read\<close>

lemma keeps_ValidationPipe [keeps_intro]: "keeps_db J (ValidationPipe e srv c read b)"
  unfolding ValidationPipe_def by (intro keeps_intro)

lemmas read_defs =
  getMyBusiness_def listApiKeys_def listAccounts_def getAccountState_def getEntriesByAccountRef_def
  getEntries_def getSummaryByAccountRef_def getSummary_def exportCsvByAccountRef_def exportCsv_def
  resolveAccountId_def listCustomers_def getCustomer_def getBuckets_def getBucket_def
  TreasuryService_getBalance_def bucket_balances_def getStatement_def getByBucket_def SettlementService_resolveBucket_def

lemma keeps_reads [keeps_intro]:
  "keeps_db J (getMyBusiness e i)"
  "keeps_db J (listApiKeys e i)"
  "keeps_db J (listAccounts e i st page limit)"
  "keeps_db J (getAccountState e ref i)"
  "keeps_db J (getEntriesByAccountRef e ref i filters)"
  "keeps_db J (getSummaryByAccountRef e ref i)"
  "keeps_db J (exportCsvByAccountRef e ref i)"
  "keeps_db J (listCustomers e i p l)"
  "keeps_db J (getCustomer e cid i)"
  "keeps_db J (getBuckets e i page limit st)"
  "keeps_db J (getBucket e ref i)"
  "keeps_db J (TreasuryService_getBalance e ref i)"
  "keeps_db J (getStatement e ref i sf)"
  "keeps_db J (getByBucket e ref i st p l)"
  unfolding read_defs Let_def by (intro keeps_intro)+

lemma keeps_surroundings [keeps_intro]:
  "keeps_db J (timingSafeCompare e a b)"
  "keeps_db J (simulateInflow e p)"
  "keeps_db J (checkDb e)"
  "keeps_db J (checkRedis srv)"
  "keeps_db J (count_executions e st)"
  "keeps_db J (ThrottlerGuard srv r)"
  "keeps_db J (processInflow e raw sig)"
  "keeps_db J (dispatch e ref ev name i)"
  unfolding timingSafeCompare_def simulateInflow_def checkDb_def checkRedis_def count_executions_def
    processInflow_def enqueueInflow_def dispatch_def Let_def
  by (intro keeps_intro | simp add: keeps_def ThrottlerGuard_def redis_ping_def)+

section \<open>Handlers of a business\<close>

lemmas controller_defs =
  AuthController_getMyBusiness_def AuthController_listApiKeys_def AuthController_revokeApiKey_def
  AccountsController_provision_def AccountsController_list_def AccountsController_getState_def
  AccountsController_updateStatus_def AccountsController_close_def RulesController_replaceRuleSet_def
  RulesController_toggleRule_def RulesController_deleteRule_def LedgerController_getEntries_def
  LedgerController_getSummary_def LedgerController_exportCsv_def EventsController_dispatch_def
  IdentityController_createCustomer_def IdentityController_listCustomers_def IdentityController_getCustomer_def
  IdentityController_renameCustomer_def IdentityController_updateKycTier_def TreasuryController_provision_def
  TreasuryController_list_def TreasuryController_get_def TreasuryController_rename_def
  TreasuryController_close_def TreasuryController_balance_def TreasuryController_statement_def
  TreasuryController_transfer_def TreasuryController_withdraw_def TreasuryController_listSettlements_def

lemmas public_defs =
  WebhooksController_receive_def DemoController_simulateInflow_def DemoController_webhookEcho_def
  HealthController_check_def MetricsController_metrics_def prometheusText_def

text \<open>The admin secret of the request is not taken for the configured one: their digests differ under every key
  \<open>timingSafeCompare\<close> can draw.\<close>

definition not_admin :: "env \<Rightarrow> http_request \<Rightarrow> bool" where
  "not_admin e rq =
     (\<forall>s n. hr_adminSecret rq = Some s \<longrightarrow>
        env_hmac e (env_random e n) s \<noteq> env_hmac e (env_random e n) (cfg_admin_secret e))"

lemma keeps_refused:
  assumes "\<And>n. env_hmac e (env_random e n) s \<noteq> env_hmac e (env_random e n) (cfg_admin_secret e)"
  shows "keeps_db J (bnd (assertAdminSecret e s) f)"
proof (rule keepsI)
  fix w :: world assume "J (db w)"
  with assms show "J (db (snd (bnd (assertAdminSecret e s) f w)))"
    by (simp add: assertAdminSecret_def timingSafeCompare_def randomBytes_def bnd_def ret_def throw_def)
qed

lemma keeps_admin_call:
  assumes "not_admin e rq"
  shows "keeps_db J (admin_call e (hr_adminSecret rq) (registerBusiness e dto))"
    and "keeps_db J (admin_call e (hr_adminSecret rq) (updateBusinessCredentials e i cdto))"
    and "keeps_db J (admin_call e (hr_adminSecret rq) (createApiKey e kdto))"
  unfolding admin_call_def registerBusiness_def updateBusinessCredentials_def createApiKey_def
  by (cases "hr_adminSecret rq"; use assms in \<open>auto simp: not_admin_def intro!: keeps_intro keeps_refused\<close>)+

lemma handle_public_keeps:
  assumes "not_admin e rq"
  shows "keeps_db J (handle_public e srv rq r)"
  by (cases r; simp only: handle_public.simps AuthController_registerBusiness_def
      AuthController_updateBusinessCredentials_def AuthController_createApiKey_def public_defs Let_def)
    (intro keeps_intro keeps_admin_call assms)+

lemma handle_business_keeps:
  assumes "biz_id b \<noteq> v" "not_admin e rq"
  shows "keeps_db (guarded v p) (handle_business e srv rq k b r)"
  by (cases r; simp only: handle_business.simps controller_defs)
    (intro keeps_intro handle_public_keeps assms
      revoke.keeps_others [OF assms(1) [symmetric]] enrol.keeps_others [OF assms(1) [symmetric]]
      rename.keeps_others [OF assms(1) [symmetric]] retier.keeps_others [OF assms(1) [symmetric]]
      override.keeps_others [OF assms(1) [symmetric]] close.keeps_others [OF assms(1) [symmetric]]
      provision.keeps_others [OF assms(1) [symmetric]] replace.keeps_others [OF assms(1) [symmetric]]
      toggle.keeps_others [OF assms(1) [symmetric]] delete.keeps_others [OF assms(1) [symmetric]]
      open_bucket.keeps_others [OF assms(1) [symmetric]] rename_bucket.keeps_others [OF assms(1) [symmetric]]
      close_bucket.keeps_others [OF assms(1) [symmetric]] transfer.keeps_others [OF assms(1) [symmetric]]
      settle.keeps_others [OF assms(1) [symmetric]])+

section \<open>The interceptors and the guard\<close>

lemma intercept_guarded:
  assumes "\<And>i. rq_businessId rq = Some i \<Longrightarrow> i \<noteq> v" "keeps_db (guarded v p) h"
  shows "keeps_db (guarded v p) (intercept e rq st h)"
proof (cases "str_truthy (rq_businessId rq)")
  case True
  then have "the (rq_businessId rq) \<noteq> v" using assms(1) by (cases "rq_businessId rq") auto
  then show ?thesis
    unfolding intercept_def Let_def
    by (intro keeps_intro assms(2) guarded_creates) (simp add: key_row_def)
next
  case False
  then show ?thesis unfolding intercept_def by (auto intro: assms(2))
qed

text \<open>No key of business \<open>v\<close> has the hash of the presented key.\<close>

definition no_key_of :: "env \<Rightarrow> string \<Rightarrow> http_request \<Rightarrow> database \<Rightarrow> bool" where
  "no_key_of e v rq d =
     (\<forall>raw k. hr_apiKey rq = Some raw \<longrightarrow> find_key (key_hash e raw) d = Some k \<longrightarrow> key_businessId k \<noteq> v)"

lemma validateApiKey_guarded:
  assumes "guarded v p d" "\<And>k. find_key (key_hash e raw) d = Some k \<Longrightarrow> key_businessId k \<noteq> v"
  shows "wp d (\<lambda>(k, b) d'. guarded v p d' \<and> biz_id b \<noteq> v) (guarded v p) (validateApiKey e raw)"
proof -
  have upd: "keeps_db (guarded v p) (update_apiKey e (key_id k) (\<lambda>r. r\<lparr>key_lastUsedAt := Some t\<rparr>))"
    if "find_key (key_hash e raw) d = Some k" for k t
    by (intro guarded_update_key own_key [OF assms(1)])
      (use that assms(2) in \<open>auto simp: find_key_def dest: find_SomeD\<close>)
  show ?thesis
    unfolding validateApiKey_def find_key_with_business_def
    using assms
    by (intro wp_bnd wp_prisma)
      (auto intro!: wp_rules wp_conseq [OF wp_keeps [OF upd]] split: option.splits dest!: find_SomeD
        simp: key_business_def)
qed

lemma canActivate_guarded:
  assumes "guarded v p d" "no_key_of e v rq d"
  shows "wp d (\<lambda>who d'. guarded v p d' \<and> (\<forall>k b. who = Some (k, b) \<longrightarrow> biz_id b \<noteq> v)) (guarded v p)
    (canActivate e pub (hr_apiKey rq))"
  unfolding canActivate_def using assms
  by (cases "hr_apiKey rq")
    (auto intro!: wp_rules wp_conseq [OF validateApiKey_guarded [OF assms(1)]] simp: no_key_of_def split: if_splits)

lemma answer_keeps:
  assumes "\<And>k b. who = Some (k, b) \<Longrightarrow> biz_id b \<noteq> v" "not_admin e rq"
  shows "keeps_db (guarded v p) (answer e srv rq who r)"
proof -
  have h: "keeps_db (guarded v p) (handle e srv rq who r)"
    unfolding handle_def using assms
    by (auto split: option.splits intro: handle_public_keeps handle_business_keeps)
  have i: "i \<noteq> v" if "rq_businessId (idempotency_view rq who) = Some i" for i
    using that assms(1) by (cases who) (auto simp: idempotency_view_def)
  have "keeps_db (guarded v p) (bnd (intercept e (idempotency_view rq who) st
      (bnd (handle e srv rq who r) (\<lambda>x. lift_sum (BigIntSerialize x)))) (\<lambda>j. ret (Json j)))" for st
    by (intro keeps_intro intercept_guarded i h)
  moreover have "keeps_db (guarded v p) (with_business who (\<lambda>k b.
      bnd (LedgerController_exportCsv e ref b) (\<lambda>(name, csv). ret (Csv name csv))))" for ref
    unfolding with_business_def LedgerController_exportCsv_def by (intro keeps_intro)
  ultimately show ?thesis
    unfolding answer_def by (cases r) (simp_all only: route.case)
qed

lemma keeps_error_response [keeps_intro]: "keeps_db J (error_response e rq i x)"
  unfolding error_response_def by (intro keeps_intro)

lemma not_admin_request [simp]: "not_admin (e\<lparr>env_requestId := i\<rparr>) rq = not_admin e rq"
  by (simp add: not_admin_def)

lemma respond_guarded:
  assumes "guarded v p d" "no_key_of e v rq d" "not_admin e rq"
  shows "wp d (\<lambda>_. guarded v p) (guarded v p) (respond e srv rq)"
proof -
  have err: "wp d' (\<lambda>_. guarded v p) (guarded v p) (error_response e rq i x)" if "guarded v p d'" for d' i x
    by (intro wp_keeps keeps_error_response that)
  have run: "wp d' (\<lambda>_. guarded v p) (guarded v p) (identified e srv rq who r)"
    if "guarded v p d'" "\<forall>k b. who = Some (k, b) \<longrightarrow> biz_id b \<noteq> v" for d' who r
    unfolding identified_def Let_def
    by (intro wp_keeps keeps_intro answer_keeps) (use that assms(3) in auto)
  have throttle: "wp d' (\<lambda>_. guarded v p) (guarded v p) (ThrottlerGuard srv r)" if "guarded v p d'" for d' r
    by (intro wp_keeps keeps_intro that)
  show ?thesis
  proof (cases "find_route (hr_method rq) (hr_path rq)")
    case None
    with err [OF assms(1)] show ?thesis by (simp add: respond_def)
  next
    case (Some r)
    show ?thesis
      unfolding respond_def Some option.case
      by (intro wp_catch wp_bnd wp_conseq [OF canActivate_guarded [OF assms(1,2)]])
        (auto intro!: wp_conseq [OF throttle] wp_conseq [OF run] wp_ret err)
  qed
qed

section \<open>Properties\<close>

text \<open>C3: no request reaches into another tenant. Whatever route, body, query, headers and faults, a request
  that presents no API key of business \<open>v\<close> and not the admin secret leaves the whole part of the database that
  belongs to \<open>v\<close> as it is: its profile, keys, customers, accounts, rules, executions, ledgers, buckets,
  settlements and stored answers.\<close>

theorem request_isolated:
  assumes "tenancy_ok (db w)" "no_key_of e v rq (db w)" "not_admin e rq"
  shows "tenant v (db (snd (respond e srv rq w))) = tenant v (db w) \<and>
    tenancy_ok (db (snd (respond e srv rq w)))"
proof -
  have "guarded v (tenant v (db w)) (db w)" using assms(1) by (simp add: guarded_def)
  note guard = respond_guarded [OF this assms(2,3), of srv]
  obtain r w' where run: "respond e srv rq w = (r, w')" by fastforce
  with guard have "guarded v (tenant v (db w)) (db w')"
    by (cases r) (auto dest: wpD_Inr [OF guard refl] wpD_Inl [OF guard refl])
  with run show ?thesis by (simp add: guarded_def)
qed

text \<open>Two businesses; the first presents its key and opens a bucket.\<close>

definition demo_server :: server where
  "demo_server = \<lparr>srv_accepts = plain_accepts, srv_messages = (\<lambda>_ _. []), srv_throttled = (\<lambda>_ _. False),
     srv_updatedAt = (\<lambda>_. 0), srv_redis_ping = (\<lambda>_. True), srv_demo_mode = False, srv_version = ''1.0.0''\<rparr>"

definition demo_tenant_key :: apiKey where
  "demo_tenant_key = \<lparr>key_id = ''key1'', key_keyHash = key_hash demo_env ''secret'', key_keyPrefix = ''sec'',
     key_name = ''main'', key_businessId = ''b1'', key_lastUsedAt = None, key_expiresAt = None,
     key_revokedAt = None, key_createdAt = 0\<rparr>"

definition demo_tenants :: world where
  "demo_tenants = demo_world\<lparr>db := demo_db\<lparr>
     t_business := [demo_business, demo_business\<lparr>biz_id := ''b2'', biz_email := ''c@x''\<rparr>],
     t_apiKey := [demo_tenant_key],
     t_bucket := [demo_bucket ''bk1'' ''payroll'', (demo_bucket ''bk2'' ''payroll'')\<lparr>bkt_businessId := ''b2''\<rparr>]\<rparr>\<rparr>"

definition demo_call :: http_request where
  "demo_call = \<lparr>hr_method = POST, hr_path = [''api'', ''v1'', ''treasury-buckets''], hr_url = ''/api/v1/treasury-buckets'',
     hr_query = [], hr_body = Some [(''bucketRef'', JStr ''tax''), (''name'', JStr ''Tax''), (''bucketType'', JStr ''TAX_RESERVE'')],
     hr_rawBody = None, hr_apiKey = Some ''secret'', hr_adminSecret = None, hr_signature = None,
     hr_idempotencyKey = None\<rparr>"

theorem request_isolated_witness:
  "length (t_bucket (db (snd (respond demo_env demo_server demo_call demo_tenants)))) = 3 \<and>
   tenant ''b2'' (db (snd (respond demo_env demo_server demo_call demo_tenants))) = tenant ''b2'' (db demo_tenants)"
proof
  show "length (t_bucket (db (snd (respond demo_env demo_server demo_call demo_tenants)))) = 3" by code_simp
  have "tenancy_ok (db demo_tenants)"
    by (simp add: tenancy_ok_def demo_tenants_def demo_defs demo_tenant_key_def)
  moreover have "no_key_of demo_env ''b2'' demo_call (db demo_tenants)"
    by (simp add: no_key_of_def demo_tenants_def demo_tenant_key_def find_key_def)
  moreover have "not_admin demo_env demo_call" by (simp add: not_admin_def demo_call_def)
  ultimately show "tenant ''b2'' (db (snd (respond demo_env demo_server demo_call demo_tenants))) =
      tenant ''b2'' (db demo_tenants)"
    by (rule request_isolated [THEN conjunct1])
qed

end
