(* ===== verification/Http_Contract.thy ===== *)
theory Http_Contract
  imports Http_Isolation
begin

text \<open>
  The contract of the HTTP surface as a whole. The locale \<open>http_invariant\<close> carries an invariant of the database
  from the service methods to any request; it is interpreted on the account life cycle, on the account
  ledger and on the amounts of the bucket ledger. Then the routing table, the guard, the answers and the
  validated bodies.
\<close>

section \<open>Invariants of a request\<close>

lemma keeps_bnd_pipe:
  assumes "\<And>dto. valid_body e srv c b \<Longrightarrow> read b = Some dto \<Longrightarrow> keeps_db J (f dto)"
  shows "keeps_db J (bnd (ValidationPipe e srv c read b) f)"
proof (cases "valid_body e srv c b")
  case True
  then show ?thesis
    using assms by (cases "read b") (auto simp: ValidationPipe_def keeps_throw)
qed (simp add: ValidationPipe_def keeps_throw)

locale http_invariant =
  fixes srv :: server and J :: "database \<Rightarrow> bool"
  assumes register: "keeps_db J (registerBusiness e rdto secret)"
    and credentials: "keeps_db J (updateBusinessCredentials e i cdto secret)"
    and issue: "keeps_db J (createApiKey e kdto secret)"
    and authenticate: "keeps_db J (validateApiKey e raw)"
    and revoke: "keeps_db J (revokeApiKey e i biz actor)"
    and enrol: "keeps_db J (createCustomer e ccdto biz)"
    and rename: "keeps_db J (renameCustomer e i rndto biz actor)"
    and retier: "keeps_db J (updateKycTier e i utdto biz actor)"
    and provision: "keeps_db J (provisionAccount e padto biz)"
    and override: "keeps_db J (updateStatus e ref usdto biz actor)"
    and close: "keeps_db J (closeAccount e ref biz actor b)"
    and replace: "keeps_db J (replaceRuleSet e ref biz rrdto)"
    and toggle: "keeps_db J (toggleRule e ref i biz enabled)"
    and delete: "keeps_db J (deleteRule e ref i biz)"
    and open_bucket: "keeps_db J (provisionBucket e cbdto biz)"
    and rename_bucket: "keeps_db J (renameBucket e ref nm biz)"
    and close_bucket: "keeps_db J (closeBucket e ref biz actor)"
    and transfer: "valid_body e srv TransferBucketDto body \<Longrightarrow> read_transfer e body = Some tdto \<Longrightarrow>
      keeps_db J (transferBetweenBuckets e ref tdto biz actor)"
    and settle: "valid_body e srv WithdrawDto body \<Longrightarrow> read_withdraw e body = Some sdto \<Longrightarrow>
      keeps_db J (initiate e ref sdto biz b actor)"
    and store_answer: "keeps_db J (create_idempotencyKey e mk)"
begin

lemmas services =
  register credentials issue authenticate revoke enrol rename retier provision override close replace toggle
  delete open_bucket rename_bucket close_bucket store_answer

lemma handle_public_inv: "keeps_db J (handle_public e srv rq r)"
  by (cases r; simp only: handle_public.simps AuthController_registerBusiness_def
      AuthController_updateBusinessCredentials_def AuthController_createApiKey_def admin_call_def public_defs Let_def)
    (intro keeps_intro services)+

lemma money_inv:
  "keeps_db J (TreasuryController_transfer e srv rq ref k b)"
  "keeps_db J (TreasuryController_withdraw e srv rq ref k b)"
  unfolding TreasuryController_transfer_def TreasuryController_withdraw_def
  by (rule keeps_bnd_pipe, rule keeps_bnd, erule (1) transfer settle, rule keeps_ret)+

lemma handle_business_inv: "keeps_db J (handle_business e srv rq k b r)"
  by (cases r; simp only: handle_business.simps;
      (rule money_inv handle_public_inv | simp only: controller_defs, intro keeps_intro services))

lemma answer_inv: "keeps_db J (answer e srv rq who r)"
proof -
  have "keeps_db J (bnd (intercept e q st
      (bnd (handle e srv rq who r) (\<lambda>x. lift_sum (BigIntSerialize x)))) (\<lambda>j. ret (Json j)))" for q st
    unfolding intercept_def handle_def Let_def
    by (intro keeps_intro handle_public_inv handle_business_inv services)
  moreover have "keeps_db J (with_business who (\<lambda>k b.
      bnd (LedgerController_exportCsv e ref b) (\<lambda>(name, csv). ret (Csv name csv))))" for ref
    unfolding with_business_def LedgerController_exportCsv_def by (intro keeps_intro)
  ultimately show ?thesis
    unfolding answer_def by (cases r) (simp_all only: route.case)
qed

lemma respond_inv: "keeps_db J (respond e srv rq)"
  unfolding respond_def identified_def canActivate_def Let_def
  by (intro keeps_intro answer_inv services)

end

text \<open>The life cycle of the accounts, and their ledgers.\<close>

lemma keeps_evolves_answer [keeps_intro]: "keeps_db (evolves d0) (create_idempotencyKey e mk)"
  unfolding create_defs by (rule keeps_evolves_rows) (simp add: untouched_def)

lemma entries_answer [keeps_intro]: "keeps_db (entries_part J) (create_idempotencyKey e mk)"
  unfolding create_defs by (rule keeps_create_row) simp

interpretation http_accounts: http_invariant srv "evolves d0" for srv d0
  by unfold_locales (intro keeps_intro)+

interpretation http_entries: http_invariant srv "entries_part J" for srv J
  by unfold_locales (intro keeps_intro)+

interpretation serving: account_operation "respond e srv rq" for e srv rq
  by (rule quiet_operation) (rule http_accounts.respond_inv http_entries.respond_inv)+

section \<open>Amounts of the bucket ledger\<close>

abbreviation moves_part :: "(bucketLedgerEntry list \<Rightarrow> bool) \<Rightarrow> database \<Rightarrow> bool" where
  "moves_part J d \<equiv> J (t_bucketLedger d)"

lemma moves_statements [keeps_intro]:
  "keeps_db (moves_part J) (create_business e m1)" "keeps_db (moves_part J) (create_apiKey e m2)"
  "keeps_db (moves_part J) (create_customer e m3)" "keeps_db (moves_part J) (create_nameHistoryEntry e m4)"
  "keeps_db (moves_part J) (create_account e m5)" "keeps_db (moves_part J) (create_rule e m6)"
  "keeps_db (moves_part J) (create_treasuryBucket e m9)" "keeps_db (moves_part J) (create_settlement e m11)"
  "keeps_db (moves_part J) (create_idempotencyKey e m12)"
  unfolding create_defs by (rule keeps_create_row; simp)+

lemma moves_updates [keeps_intro]:
  "keeps_db (moves_part J) (update_business e i f1)" "keeps_db (moves_part J) (update_apiKey e i f2)"
  "keeps_db (moves_part J) (update_customer e i f3)" "keeps_db (moves_part J) (update_account e i f4)"
  "keeps_db (moves_part J) (update_rule e i f5)" "keeps_db (moves_part J) (updateMany_rule e P f5)"
  "keeps_db (moves_part J) (updateMany_ruleExecution e P' f6)" "keeps_db (moves_part J) (update_bucket e i f7)"
  unfolding update_stmt_defs by (rule keeps_update_row keeps_update_many; simp)+

lemma moves_settlement [keeps_intro]: "keeps_db (moves_part J) (update_settlement e i f)"
  by (rule keeps_update_settlement) simp

lemma keeps_settlement_helpers [keeps_intro]:
  "keeps_db J (SettlementService_resolveBucket e ref biz)"
  "keeps_db J (SettlementService_lockBucket e ref biz)"
  "keeps_db J (latestBalance e b)"
  unfolding SettlementService_resolveBucket_def SettlementService_lockBucket_def latestBalance_def
  by (intro keeps_intro)+

lemma moves_services [keeps_intro]:
  "keeps_db (moves_part J) (registerBusiness e rdto secret)"
  "keeps_db (moves_part J) (updateBusinessCredentials e i cdto secret)"
  "keeps_db (moves_part J) (createApiKey e kdto secret)"
  "keeps_db (moves_part J) (validateApiKey e raw)"
  "keeps_db (moves_part J) (revokeApiKey e i biz actor)"
  "keeps_db (moves_part J) (createCustomer e ccdto biz)"
  "keeps_db (moves_part J) (renameCustomer e i rndto biz actor)"
  "keeps_db (moves_part J) (updateKycTier e i utdto biz actor)"
  "keeps_db (moves_part J) (provisionAccount e padto biz)"
  "keeps_db (moves_part J) (updateStatus e ref usdto biz actor)"
  "keeps_db (moves_part J) (closeAccount e ref biz actor b)"
  "keeps_db (moves_part J) (replaceRuleSet e ref biz rrdto)"
  "keeps_db (moves_part J) (toggleRule e ref i biz enabled)"
  "keeps_db (moves_part J) (deleteRule e ref i biz)"
  "keeps_db (moves_part J) (provisionBucket e cbdto biz)"
  "keeps_db (moves_part J) (renameBucket e ref nm biz)"
  "keeps_db (moves_part J) (closeBucket e ref biz actor)"
  unfolding auth_defs createCustomer_def renameCustomer_def updateKycTier_def flag_rules_def
    replaceRuleSet_def toggleRule_def deleteRule_def archive_rule_def resolveRule_def create_rule_of_def
    provisionAccount_def create_account_with_rules_def updateStatus_def closeAccount_def
    closeBucket_def renameBucket_def provisionBucket_def
  by (intro keeps_intro)+

text \<open>Every entry moves at least one kobo.\<close>

definition all_positive :: "bucketLedgerEntry list \<Rightarrow> bool" where
  "all_positive rs = (\<forall>r \<in> set rs. 1 \<le> ble_amountKobo r)"

abbreviation positive_moves :: "database \<Rightarrow> bool" where
  "positive_moves d \<equiv> all_positive (t_bucketLedger d)"

lemma positive_move:
  "1 \<le> a \<Longrightarrow> keeps_db positive_moves (create_bucketLedgerEntry e (bucket_row b ty a c ref s nar))"
  unfolding create_defs by (rule keeps_create_row) (auto simp: all_positive_def)

lemma keeps_bnd_BigInt:
  assumes "1 \<le> x" "\<And>n. 1 \<le> n \<Longrightarrow> keeps P (f n)"
  shows "keeps P (bnd (lift_sum (js_BigInt x)) f)"
proof (cases "js_BigInt x")
  case (Inr n)
  with assms(1) have "(of_int 1 :: rat) \<le> of_int n" by (simp add: js_BigInt_value)
  then have "1 \<le> n" by (simp only: of_int_le_iff)
  with Inr show ?thesis by (simp add: lift_sum_def bnd_def assms(2))
qed (simp add: lift_sum_def keeps_def bnd_def)

lemma positive_transfer:
  assumes "1 \<le> tb_amountKobo dto"
  shows "keeps_db positive_moves (transferBetweenBuckets e ref dto biz actor)"
proof -
  have "keeps_db positive_moves (transfer_tx e src dst n nar biz)" if "1 \<le> n" for src dst n nar
    unfolding transfer_tx_def Let_def by (intro keeps_intro positive_move that)
  then show ?thesis
    unfolding transferBetweenBuckets_def
    by (intro keeps_if keeps_throw keeps_bnd_BigInt keeps_bnd keeps_ret audit.log_keeps_db assms)
qed

lemma positive_settlement:
  assumes "1 \<le> cs_amountKobo dto"
  shows "keeps_db positive_moves (initiate e ref dto biz b actor)"
proof -
  have reserve: "keeps_db positive_moves (reserve_tx e ref biz n dst actor)" for n dst
    unfolding reserve_tx_def by (intro keeps_intro)
  have finish: "keeps_db positive_moves (finish_settlement e s ref dto dst n biz b actor)" if "1 \<le> n" for s dst n
    unfolding finish_settlement_def execute_transfer_def mark_processing_def mark_completed_def mark_failed_def
      settleInternal_def settleInternal_tx_def completeSettlement_def complete_tx_def Let_def
    by (intro keeps_intro positive_move that)
  show ?thesis
    unfolding initiate_def Let_def
    by (intro keeps_if keeps_throw keeps_bnd_BigInt keeps_bnd keeps_settlement_helpers reserve finish assms)
qed

text \<open>The amounts a validated body can ask for.\<close>

context class_validator
begin

lemma transfer_amount:
  assumes "valid_body e srv TransferBucketDto b" "srv_accepts srv = accepts" "read_transfer e b = Some dto"
  shows "1 \<le> tb_amountKobo dto"
proof -
  from assms(3) have "num_of e [IsNumber, Min 1] b ''amountKobo'' = Some (tb_amountKobo dto)"
    by (auto simp: read_transfer_def bind_eq_Some_conv)
  then show ?thesis by (rule field_minimum [OF assms(1,2), rotated]) code_simp
qed

lemma withdraw_amount:
  assumes "valid_body e srv WithdrawDto b" "srv_accepts srv = accepts" "read_withdraw e b = Some dto"
  shows "1 \<le> cs_amountKobo dto"
proof -
  from assms(3) have "num_of e [IsNumber, Min 1] b ''amountKobo'' = Some (cs_amountKobo dto)"
    by (auto simp: read_withdraw_def bind_eq_Some_conv)
  then show ?thesis by (rule field_minimum [OF assms(1,2), rotated]) code_simp
qed

lemma simulation_amount:
  assumes "valid_body e srv SimulateInflowDto b" "srv_accepts srv = accepts" "read_simulation e b = Some dto"
  shows "1 \<le> si_amountKobo dto"
proof -
  from assms(3) have "num_of e [IsNumber, Min 1, TypeNumber] b ''amountKobo'' = Some (si_amountKobo dto)"
    by (auto simp: read_simulation_def bind_eq_Some_conv)
  then show ?thesis by (rule field_minimum [OF assms(1,2), rotated]) code_simp
qed

lemma credentials_total:
  assumes "srv_accepts srv = accepts" "valid_body e srv UpdateBusinessCredentialsDto b"
  shows "\<exists>x. read_credentials b = Some x"
  by (rule read_credentials_total [OF assms(2,1)]) code_simp

text \<open>All readers, with the amounts.\<close>

lemma readers:
  assumes "srv_accepts srv = accepts"
  shows "valid_body e srv CreateBucketDto b \<longrightarrow> (\<exists>x. read_bucket b = Some x)"
    "valid_body e srv RenameBucketDto b \<longrightarrow> (\<exists>x. read_bucket_name b = Some x)"
    "valid_body e srv TransferBucketDto b \<longrightarrow> (\<exists>x. read_transfer e b = Some x \<and> 1 \<le> tb_amountKobo x)"
    "valid_body e srv WithdrawDto b \<longrightarrow> (\<exists>x. read_withdraw e b = Some x \<and> 1 \<le> cs_amountKobo x)"
    "valid_body e srv SimulateInflowDto b \<longrightarrow> (\<exists>x. read_simulation e b = Some x \<and> 1 \<le> si_amountKobo x)"
    "valid_body e srv CreateCustomerDto b \<longrightarrow> (\<exists>x. read_customer b = Some x)"
    "valid_body e srv RenameCustomerDto b \<longrightarrow> (\<exists>x. read_rename b = Some x)"
    "valid_body e srv UpdateKycTierDto b \<longrightarrow> (\<exists>x. read_tier b = Some x)"
    "valid_body e srv RegisterBusinessDto b \<longrightarrow> (\<exists>x. read_business b = Some x)"
    "valid_body e srv UpdateBusinessCredentialsDto b \<longrightarrow> (\<exists>x. read_credentials b = Some x)"
    "valid_body e srv CreateApiKeyDto b \<longrightarrow> (\<exists>x. read_api_key b = Some x)"
    "valid_body e srv CustomEventDto b \<longrightarrow> (\<exists>x. read_event b = Some x)"
    "valid_body e srv LedgerFiltersDto b \<longrightarrow> (\<exists>x. read_filters e b = Some x)"
    "valid_body e srv ReplaceRuleSetDto b \<longrightarrow> (\<exists>x. read_rule_set b = Some x)"
    "valid_body e srv ToggleRuleDto b \<longrightarrow> (\<exists>x. read_toggle b = Some x)"
    "valid_body e srv ProvisionAccountDto b \<longrightarrow> (\<exists>x. read_account b = Some x)"
    "valid_body e srv UpdateStatusDto b \<longrightarrow> (\<exists>x. read_status b = Some x)"
  by (blast intro: read_bucket_total [OF _ assms] read_bucket_name_total [OF _ assms] read_customer_total [OF _ assms]
      read_rename_total [OF _ assms] read_tier_total [OF _ assms] read_business_total [OF _ assms]
      credentials_total [OF assms] read_api_key_total [OF _ assms] read_event_total [OF _ assms]
      read_filters_total [OF _ assms] read_rule_set_total [OF _ assms] read_toggle_total [OF _ assms]
      read_account_total [OF _ assms] read_status_total [OF _ assms]
    dest: read_transfer_total [OF _ assms] read_withdraw_total [OF _ assms] read_simulation_total [OF _ assms]
      transfer_amount [OF _ assms] withdraw_amount [OF _ assms] simulation_amount [OF _ assms])+

lemma http_moves:
  assumes "srv_accepts srv = accepts"
  shows "http_invariant srv positive_moves"
  by unfold_locales
    (rule positive_transfer positive_settlement moves_services moves_statements,
      (erule (1) transfer_amount [OF _ assms] withdraw_amount [OF _ assms])?)+

end

section \<open>Properties\<close>

text \<open>C16: a request posts nothing to an account ledger, and what it books in a bucket ledger is a real amount.
  No request, authenticated or not, adds or removes an entry of the account ledger or alters one of its
  immutable columns (only the inflow worker writes there); and with validators that behave as documented, every bucket ledger entry moves at least one
  kobo after the request if it did before.\<close>

theorem request_books_real_amounts:
  assumes "class_validator (srv_accepts srv)" "\<forall>r \<in> set (t_bucketLedger (db w)). 1 \<le> ble_amountKobo r"
  shows "map immutable_part (t_ledgerEntry (db (snd (respond e srv rq w)))) =
      map immutable_part (t_ledgerEntry (db w)) \<and>
    (\<forall>r \<in> set (t_bucketLedger (db (snd (respond e srv rq w)))). 1 \<le> ble_amountKobo r)"
proof
  show "map immutable_part (t_ledgerEntry (db (snd (respond e srv rq w)))) = map immutable_part (t_ledgerEntry (db w))"
    using keepsD [OF http_entries.respond_inv [of "\<lambda>rs. rs = map immutable_part (t_ledgerEntry (db w))"]] by simp
  show "\<forall>r \<in> set (t_bucketLedger (db (snd (respond e srv rq w)))). 1 \<le> ble_amountKobo r"
    using keepsD [OF http_invariant.respond_inv [OF class_validator.http_moves [OF assms(1) refl]], of w] assms(2)
    by (simp add: all_positive_def)
qed

text \<open>A transfer of 30 kobo between two buckets of the business.\<close>

definition demo_bucket_world :: world where
  "demo_bucket_world = demo_credited\<lparr>db := (db demo_credited)\<lparr>t_apiKey := [demo_tenant_key]\<rparr>\<rparr>"

definition demo_transfer_call :: http_request where
  "demo_transfer_call = demo_call\<lparr>hr_path := [''api'', ''v1'', ''treasury-buckets'', ''payroll'', ''transfer''],
     hr_body := Some [(''destinationBucketRef'', JStr ''tax''), (''amountKobo'', JNum 30), (''narration'', JStr ''move'')]\<rparr>"

theorem request_books_real_amounts_witness:
  "all_positive (t_bucketLedger (db (snd (respond demo_env demo_server demo_transfer_call demo_bucket_world))))"
proof -
  have "class_validator (srv_accepts demo_server)"
    using plain.class_validator_axioms by (simp add: demo_server_def)
  moreover have "\<forall>r \<in> set (t_bucketLedger (db demo_bucket_world)). 1 \<le> ble_amountKobo r" by code_simp
  ultimately show ?thesis
    unfolding all_positive_def by (rule request_books_real_amounts [THEN conjunct2])
qed

section \<open>Routing\<close>

text \<open>Two patterns that some path could both match.\<close>

fun compatible :: "segment list \<Rightarrow> segment list \<Rightarrow> bool" where
  "compatible [] [] = True"
| "compatible (Lit a # p) (Lit b # q) = (a = b \<and> compatible p q)"
| "compatible (Param # p) (_ # q) = compatible p q"
| "compatible (_ # p) (Param # q) = compatible p q"
| "compatible _ _ = False"

lemma bind_compatible: "bind_path p xs = Some ps \<Longrightarrow> bind_path q xs = Some qs \<Longrightarrow> compatible p q"
proof (induction p arbitrary: q xs ps qs)
  case Nil
  then show ?case by (cases xs; cases q; cases "hd q") auto
next
  case (Cons s p)
  then show ?case
    by (cases xs; cases s; cases q; cases "hd q") (auto split: if_splits)
qed

definition route_patterns :: "(http_method \<times> segment list) list" where
  "route_patterns = map (\<lambda>(m, p, f). (m, p)) routes"

lemma routes_disjoint: "sorted_wrt (\<lambda>(m, p) (m', p'). \<not> (m = m' \<and> compatible p p')) route_patterns"
  by code_simp

lemma find_filter: "filter P xs = x # ys \<Longrightarrow> find P xs = Some x"
  by (induction xs) (auto split: if_splits)

lemma at_most_one:
  "sorted_wrt R xs \<Longrightarrow> (\<And>x y. P x \<Longrightarrow> P y \<Longrightarrow> \<not> R x y) \<Longrightarrow> length (filter P xs) \<le> 1"
  by (induction xs) (auto simp: filter_empty_conv)

lemma routes_unambiguous: "length (filter (route_matches m path) routes) \<le> 1"
proof (rule at_most_one)
  show "sorted_wrt (\<lambda>x y. \<not> (fst x = fst y \<and> compatible (fst (snd x)) (fst (snd y)))) routes"
    using routes_disjoint by (simp add: route_patterns_def sorted_wrt_map case_prod_beta)
qed (auto simp: route_matches_def split: prod.splits dest: bind_compatible)

text \<open>Routing does not depend on the order of the controllers. A path that fits a declared pattern is
  answered by that handler with the parameters of the path, and by no other: at most one declared route
  fits a request.\<close>

theorem declared_route_found:
  assumes "(m, p, f) \<in> set routes" "bind_path p path = Some ps"
  shows "find_route m path = Some (f ps) \<and> length (filter (route_matches m path) routes) = 1"
proof -
  from assms have fit: "(m, p, f) \<in> set (filter (route_matches m path) routes)" by (simp add: route_matches_def)
  with routes_unambiguous [of m path] have one: "filter (route_matches m path) routes = [(m, p, f)]"
    by (cases "filter (route_matches m path) routes") auto
  then have "find (route_matches m path) routes = Some (m, p, f)"
    by (rule find_filter)
  with one assms(2) show ?thesis by (simp add: find_route_def)
qed

theorem declared_route_found_witness:
  "find_route GET [''api'', ''v1'', ''accounts'', ''acc-1'', ''ledger'', ''export''] = Some (ExportLedger ''acc-1'')"
proof -
  have "find_route GET [''api'', ''v1'', ''accounts'', ''acc-1'', ''ledger'', ''export''] =
      Some ((\<lambda>p. ExportLedger (p ! 0)) [''acc-1'']) \<and>
    length (filter (route_matches GET [''api'', ''v1'', ''accounts'', ''acc-1'', ''ledger'', ''export'']) routes) = 1"
  proof (rule declared_route_found)
    show "(GET, map Lit [''api'', ''v1'', ''accounts''] @ [Param] @ map Lit [''ledger'', ''export''], \<lambda>p. ExportLedger (p ! 0)) \<in> set routes"
      by (simp add: routes_def ledger_routes_def entry_def)
  qed code_simp
  then show ?thesis by simp
qed

section \<open>The guard\<close>

text \<open>A presented key that cannot be used: absent, unknown, revoked, or expired.\<close>

definition unusable_key :: "env \<Rightarrow> string option \<Rightarrow> world \<Rightarrow> bool" where
  "unusable_key e raw w =
     (\<not> str_truthy raw \<or>
      (env_fault e (tick w) = None \<and>
       (case find_key (key_hash e (the raw)) (db w) of
          None \<Rightarrow> True
        | Some k \<Rightarrow> key_business k (db w) \<noteq> None \<and>
            (key_revokedAt k \<noteq> None \<or> (case key_expiresAt k of None \<Rightarrow> False | Some x \<Rightarrow> x < env_now e (Suc (tick w)))))))"

lemma guard_refuses:
  assumes "unusable_key e raw w"
  shows "\<exists>c m n. canActivate e False raw w = (Inl (Unauthorized c m), w\<lparr>tick := n\<rparr>)"
proof (cases "str_truthy raw")
  case False
  then have "canActivate e False raw w = (Inl (Unauthorized MISSING_API_KEY ''Missing API key''), w\<lparr>tick := tick w\<rparr>)"
    by (simp add: canActivate_def throw_def)
  then show ?thesis by blast
next
  case True
  with assms show ?thesis
    unfolding canActivate_def validateApiKey_def find_key_with_business_def prisma_def
    by (auto simp: unusable_key_def bnd_def throw_def now_def split: option.splits prod.splits sum.splits)
qed

text \<open>C12: without a usable API key nothing happens. On every route that is not public, a request whose key is
  missing, unknown, revoked or expired is answered with 401 and the error envelope, and the world stays
  exactly as it is: no table, no audit entry, no job, no call to the outside, no throttling either.\<close>

theorem unauthenticated_request_refused:
  assumes "find_route (hr_method rq) (hr_path rq) = Some r" "\<not> is_public r"
    and "unusable_key e (hr_apiKey rq) w"
  shows "\<exists>resp n. respond e srv rq w = (Inr resp, w\<lparr>tick := n\<rparr>) \<and> rs_status resp = 401 \<and> rs_requestId resp = None"
proof -
  from guard_refuses [OF assms(3)] obtain c m n where
    g: "canActivate e False (hr_apiKey rq) w = (Inl (Unauthorized c m), w\<lparr>tick := n\<rparr>)" by blast
  show ?thesis
    using assms(1,2) g
    by (simp add: respond_def catch_def bnd_def error_response_def now_def ret_def catch_exception_def
        filter_service_exception) blast
qed

theorem unauthenticated_request_refused_witness:
  "\<exists>resp n. respond demo_env demo_server (demo_call\<lparr>hr_apiKey := Some ''guess''\<rparr>) demo_tenants =
     (Inr resp, demo_tenants\<lparr>tick := n\<rparr>) \<and> rs_status resp = 401 \<and> rs_requestId resp = None"
proof (rule unauthenticated_request_refused)
  show "find_route (hr_method (demo_call\<lparr>hr_apiKey := Some ''guess''\<rparr>)) (hr_path (demo_call\<lparr>hr_apiKey := Some ''guess''\<rparr>)) =
      Some ProvisionBucket" by code_simp
  show "\<not> is_public ProvisionBucket" by simp
  show "unusable_key demo_env (hr_apiKey (demo_call\<lparr>hr_apiKey := Some ''guess''\<rparr>)) demo_tenants"
    by code_simp
qed

section \<open>The answer\<close>

text \<open>
  What the caller must get for a thrown value: an HTTP exception is answered with its own status, code and message,
  anything else with 500, INTERNAL_ERROR and its message; the time, the URL and the id of the request are in the body.
\<close>

definition error_answer :: "env \<Rightarrow> http_request \<Rightarrow> string option \<Rightarrow> exn \<Rightarrow> int \<Rightarrow> response" where
  "error_answer e rq requestId x t =
     (let (status, code, message) = (case x of
            HttpExn s c m \<Rightarrow> (s, show_code c, m)
          | DbExn d \<Rightarrow> (500, ''INTERNAL_ERROR'', env_db_message e d)
          | JsExn m \<Rightarrow> (500, ''INTERNAL_ERROR'', m))
      in \<lparr>rs_status = status, rs_requestId = requestId,
          rs_content = Json (JObj [(''statusCode'', JNum (of_nat status)), (''code'', JStr code),
            (''message'', JStr message), (''timestamp'', JStr (iso_string t)), (''path'', JStr (hr_url rq)),
            (''requestId'', (case requestId of None \<Rightarrow> JNull | Some i \<Rightarrow> JStr i))])\<rparr>)"

lemma error_response_exact:
  "error_response e rq i x w = (Inr (error_answer e rq i x (env_now e (tick w))), w)"
  by (cases x) (simp_all add: error_response_def error_answer_def bnd_def now_def ret_def catch_exception_def
      response_code_def response_message_def jstr_opt_def split: option.split)

lemma identified_exact:
  "fst (identified e srv rq who r w) = Inr (let i = Some (''req_'' @ env_uuid e (tick w)) in
     case answer (e\<lparr>env_requestId := i\<rparr>) srv rq who r (w\<lparr>tick := Suc (tick w)\<rparr>) of
       (Inl x, w') \<Rightarrow> error_answer e rq i x (env_now e (tick w'))
     | (Inr c, w') \<Rightarrow> \<lparr>rs_status = route_status r, rs_requestId = i, rs_content = c\<rparr>)"
  by (simp add: identified_def uuidv4_def bnd_def catch_def ret_def Let_def error_response_exact
      split: prod.split sum.split)


section \<open>Bodies\<close>

text \<open>C14: a body that passes validation has the types its handler declares. With validators that behave as
  documented, whatever JSON object a client sends, if the decorators of the DTO accept it then it reads as the
  record the service takes, for every DTO of the API; and the amounts of a transfer, a withdrawal and a
  simulated inflow are at least 1. (\<open>ValidateNested\<close> lets null and arrays pass among the rules; such elements have
  their own constructors in the record, and the rule schema refuses them: \<open>other_elements_refused\<close>.)\<close>

theorem validated_body_typed:
  assumes "class_validator (srv_accepts srv)"
  shows "(valid_body e srv CreateBucketDto b \<longrightarrow> read_bucket b \<noteq> None) \<and>
    (valid_body e srv RenameBucketDto b \<longrightarrow> read_bucket_name b \<noteq> None) \<and>
    (valid_body e srv TransferBucketDto b \<longrightarrow> (\<exists>x. read_transfer e b = Some x \<and> 1 \<le> tb_amountKobo x)) \<and>
    (valid_body e srv WithdrawDto b \<longrightarrow> (\<exists>x. read_withdraw e b = Some x \<and> 1 \<le> cs_amountKobo x)) \<and>
    (valid_body e srv SimulateInflowDto b \<longrightarrow> (\<exists>x. read_simulation e b = Some x \<and> 1 \<le> si_amountKobo x)) \<and>
    (valid_body e srv CreateCustomerDto b \<longrightarrow> read_customer b \<noteq> None) \<and>
    (valid_body e srv RenameCustomerDto b \<longrightarrow> read_rename b \<noteq> None) \<and>
    (valid_body e srv UpdateKycTierDto b \<longrightarrow> read_tier b \<noteq> None) \<and>
    (valid_body e srv RegisterBusinessDto b \<longrightarrow> read_business b \<noteq> None) \<and>
    (valid_body e srv UpdateBusinessCredentialsDto b \<longrightarrow> read_credentials b \<noteq> None) \<and>
    (valid_body e srv CreateApiKeyDto b \<longrightarrow> read_api_key b \<noteq> None) \<and>
    (valid_body e srv CustomEventDto b \<longrightarrow> read_event b \<noteq> None) \<and>
    (valid_body e srv LedgerFiltersDto b \<longrightarrow> read_filters e b \<noteq> None) \<and>
    (valid_body e srv ReplaceRuleSetDto b \<longrightarrow> read_rule_set b \<noteq> None) \<and>
    (valid_body e srv ToggleRuleDto b \<longrightarrow> read_toggle b \<noteq> None) \<and>
    (valid_body e srv ProvisionAccountDto b \<longrightarrow> read_account b \<noteq> None) \<and>
    (valid_body e srv UpdateStatusDto b \<longrightarrow> read_status b \<noteq> None)"
  using class_validator.readers [OF assms refl, of e b] by simp

theorem validated_body_typed_witness:
  "\<exists>x. read_transfer demo_env [(''destinationBucketRef'', JStr ''tax''), (''amountKobo'', JNum 30), (''narration'', JStr ''move'')] =
     Some x \<and> 1 \<le> tb_amountKobo x"
proof -
  have "class_validator (srv_accepts demo_server)"
    using plain.class_validator_axioms by (simp add: demo_server_def)
  moreover have "valid_body demo_env demo_server TransferBucketDto
      [(''destinationBucketRef'', JStr ''tax''), (''amountKobo'', JNum 30), (''narration'', JStr ''move'')]"
    by code_simp
  ultimately show ?thesis by (blast dest: validated_body_typed)
qed

end
