(* ===== verification/Name_History.thy ===== *)
theory Name_History
  imports Http_Contract
begin

text \<open>
  The name histories of the customers, for every operation of the services: only \<open>createCustomer\<close>, \<open>renameCustomer\<close>
  and \<open>updateKycTier\<close> write the tables they are in, and these keep them chains (\<open>names_ok\<close>). The locale
  \<open>history_keeper\<close> is the contract of one operation; it is interpreted on each of them.
\<close>

locale history_keeper =
  fixes op :: "'a act"
  assumes keeps_names: "keeps_db names_ok op"
begin

lemma run_names: "names_ok (db w) \<Longrightarrow> names_ok (db (snd (op w)))"
  by (rule keepsD [OF keeps_names])

end

section \<open>Operations on other tables\<close>

abbreviation names_part :: "(customer list \<Rightarrow> nameHistoryEntry list \<Rightarrow> bool) \<Rightarrow> database \<Rightarrow> bool" where
  "names_part J d \<equiv> J (t_customer d) (t_nameHistory d)"

lemma names_statements [keeps_intro]:
  "keeps_db (names_part J) (create_business e m1)" "keeps_db (names_part J) (create_apiKey e m2)"
  "keeps_db (names_part J) (create_account e m5)" "keeps_db (names_part J) (create_rule e m6)"
  "keeps_db (names_part J) (create_ruleExecution e m7)" "keeps_db (names_part J) (create_processedEvent e m8)"
  "keeps_db (names_part J) (create_treasuryBucket e m9)" "keeps_db (names_part J) (create_bucketLedgerEntry e m10)"
  "keeps_db (names_part J) (create_settlement e m11)" "keeps_db (names_part J) (create_idempotencyKey e m12)"
  unfolding create_defs by (rule keeps_create_row; simp)+

lemma names_ledger [keeps_intro]:
  "keeps_db (names_part J) (create_ledgerEntry e mk)" "keeps_db (names_part J) (update_ledgerEntry e P f)"
  unfolding create_ledgerEntry_def update_ledgerEntry_def by (rule keeps_create_row keeps_update_row; simp)+

lemma names_updates [keeps_intro]:
  "keeps_db (names_part J) (update_business e i f1)" "keeps_db (names_part J) (update_apiKey e i f2)"
  "keeps_db (names_part J) (update_account e i f4)" "keeps_db (names_part J) (update_rule e i f5)"
  "keeps_db (names_part J) (updateMany_rule e P f5)" "keeps_db (names_part J) (update_ruleExecution e i f6)"
  "keeps_db (names_part J) (updateMany_ruleExecution e P' f6)" "keeps_db (names_part J) (update_bucket e i f7)"
  unfolding update_stmt_defs by (rule keeps_update_row keeps_update_many; simp)+

lemma names_settlement [keeps_intro]: "keeps_db (names_part J) (update_settlement e i f)"
  by (rule keeps_update_settlement) simp

lemma names_execute [keeps_intro]: "keeps_db (names_part J) (execute e ev en)"
  unfolding execute_defs by (intro keeps_intro)

lemma names_treasury [keeps_intro]:
  "keeps_db (names_part J) (credit e p)"
  "keeps_db (names_part J) (transferBetweenBuckets e ref tdto biz actor)"
  "keeps_db (names_part J) (withdraw e ref wdto biz b)"
  "keeps_db (names_part J) (closeBucket e ref biz actor)"
  "keeps_db (names_part J) (renameBucket e ref nm biz)"
  "keeps_db (names_part J) (provisionBucket e bdto biz)"
  unfolding credit_def credit_tx_def transferBetweenBuckets_def transfer_tx_def withdraw_def
    withdraw_tx_def closeBucket_def renameBucket_def provisionBucket_def
  by (intro keeps_intro)+

lemma names_initiate [keeps_intro]: "keeps_db (names_part J) (initiate e ref dto biz b actor)"
  unfolding settlement_defs by (intro keeps_intro)

lemma names_auth [keeps_intro]:
  "keeps_db (names_part J) (registerBusiness e rdto secret)"
  "keeps_db (names_part J) (updateBusinessCredentials e i cdto secret)"
  "keeps_db (names_part J) (createApiKey e kdto secret)"
  "keeps_db (names_part J) (validateApiKey e k)"
  "keeps_db (names_part J) (revokeApiKey e i biz actor)"
  unfolding auth_defs by (intro keeps_intro)+

lemma names_rules [keeps_intro]:
  "keeps_db (names_part J) (replaceRuleSet e ref biz rdto)"
  "keeps_db (names_part J) (toggleRule e ref i biz enabled)"
  "keeps_db (names_part J) (deleteRule e ref i biz)"
  unfolding replaceRuleSet_def toggleRule_def deleteRule_def archive_rule_def resolveRule_def
    create_rule_of_def
  by (intro keeps_intro)+

lemma names_accounts [keeps_intro]:
  "keeps_db (names_part J) (provisionAccount e pdto biz)"
  "keeps_db (names_part J) (updateStatus e ref sdto biz actor)"
  "keeps_db (names_part J) (closeAccount e ref biz actor b)"
  unfolding provisionAccount_def create_account_with_rules_def create_rule_of_def updateStatus_def
    closeAccount_def
  by (intro keeps_intro)+

lemma names_retry [keeps_intro]: "keeps_db (names_part J) (RetryProcessor_process e p n)"
  unfolding RetryProcessor_process_def attemptRelease_def attemptNotify_def record_outcome_def
  by (intro keeps_intro)

lemma names_webhook [keeps_intro]: "keeps_db (names_part J) (WebhookProcessor_process e p)"
  unfolding WebhookProcessor_process_def process_event_def process_custom_def run_custom_rules_def
    process_suspended_def process_terminal_def process_inflow_def finish_inflow_def run_inflow_rules_def
    run_inflow_rule_def writeInflow_def updateReconciliationStatus_def
  by (intro keeps_intro)

section \<open>Every operation\<close>

text \<open>\<open>names_ok\<close> reads only the two tables.\<close>

definition histories_ok :: "customer list \<Rightarrow> nameHistoryEntry list \<Rightarrow> bool" where
  "histories_ok cs hs =
     (distinct (map cus_id cs) \<and> (\<forall>h \<in> set hs. nh_customerId h \<in> cus_id ` set cs) \<and>
      (\<forall>c \<in> set cs. name_chain '''' (filter (\<lambda>h. nh_customerId h = cus_id c) hs) = Some (cus_displayName c)))"

lemma names_ok_part: "names_ok = names_part histories_ok"
  by (rule ext) (simp add: names_ok_def histories_ok_def history_of_def)

lemma quiet_names: "(\<And>J. keeps_db (names_part J) op) \<Longrightarrow> keeps_db names_ok op"
  by (simp add: names_ok_part)

lemma quiet_keeper: "(\<And>J. keeps_db (names_part J) op) \<Longrightarrow> history_keeper op"
  by unfold_locales (rule quiet_names)

interpretation http_names: http_invariant srv names_ok for srv
  by unfold_locales
    (rule createCustomer_names renameCustomer_names updateKycTier_names | (rule quiet_names, intro keeps_intro))+

interpretation serving_names: history_keeper "respond e srv rq" for e srv rq
  by unfold_locales (rule http_names.respond_inv)

interpretation enrolling_names: history_keeper "createCustomer e dto biz" for e dto biz
  by unfold_locales (rule createCustomer_names)

interpretation renaming_names: history_keeper "renameCustomer e i dto biz actor" for e i dto biz actor
  by unfold_locales (rule renameCustomer_names)

interpretation retiering_names: history_keeper "updateKycTier e i dto biz actor" for e i dto biz actor
  by unfold_locales (rule updateKycTier_names)

interpretation processing_names: history_keeper "WebhookProcessor_process e p" for e p
  by (rule quiet_keeper) (intro keeps_intro)

interpretation retrying_names: history_keeper "run_job n k (RetryProcessor_process e p)" for n k e p
  by (rule quiet_keeper) (intro keeps_intro)

interpretation receiving_names: history_keeper "processInflow e raw sig" for e raw sig
  by unfold_locales (simp add: keeps_def processInflow_queue)

interpretation dispatching_names: history_keeper "dispatch e ref ev name biz" for e ref ev name biz
  by unfold_locales (simp add: keeps_def dispatch_frame)

interpretation scheduling_names: history_keeper "evaluateTimeElapsedRules e" for e
  by unfold_locales (rule scheduler_evolves)

interpretation registering_names: history_keeper "registerBusiness e dto secret" for e dto secret
  by (rule quiet_keeper) (intro keeps_intro)

interpretation recredentialing_names: history_keeper "updateBusinessCredentials e i dto secret" for e i dto secret
  by (rule quiet_keeper) (intro keeps_intro)

interpretation keying_names: history_keeper "createApiKey e dto secret" for e dto secret
  by (rule quiet_keeper) (intro keeps_intro)

interpretation authenticating_names: history_keeper "validateApiKey e k" for e k
  by (rule quiet_keeper) (intro keeps_intro)

interpretation revoking_names: history_keeper "revokeApiKey e i biz actor" for e i biz actor
  by (rule quiet_keeper) (intro keeps_intro)

interpretation provisioning_names: history_keeper "provisionAccount e dto biz" for e dto biz
  by (rule quiet_keeper) (intro keeps_intro)

interpretation overriding_names: history_keeper "updateStatus e ref dto biz actor" for e ref dto biz actor
  by (rule quiet_keeper) (intro keeps_intro)

interpretation closing_names: history_keeper "closeAccount e ref biz actor b" for e ref biz actor b
  by (rule quiet_keeper) (intro keeps_intro)

interpretation replacing_names: history_keeper "replaceRuleSet e ref biz dto" for e ref biz dto
  by (rule quiet_keeper) (intro keeps_intro)

interpretation toggling_names: history_keeper "toggleRule e ref i biz enabled" for e ref i biz enabled
  by (rule quiet_keeper) (intro keeps_intro)

interpretation deleting_names: history_keeper "deleteRule e ref i biz" for e ref i biz
  by (rule quiet_keeper) (intro keeps_intro)

interpretation bucketing_names: history_keeper "provisionBucket e dto biz" for e dto biz
  by (rule quiet_keeper) (intro keeps_intro)

interpretation relabelling_names: history_keeper "renameBucket e ref nm biz" for e ref nm biz
  by (rule quiet_keeper) (intro keeps_intro)

interpretation unbucketing_names: history_keeper "closeBucket e ref biz actor" for e ref biz actor
  by (rule quiet_keeper) (intro keeps_intro)

interpretation transferring_names: history_keeper "transferBetweenBuckets e ref dto biz actor" for e ref dto biz actor
  by (rule quiet_keeper) (intro keeps_intro)

interpretation withdrawing_names: history_keeper "withdraw e ref dto biz b" for e ref dto biz b
  by (rule quiet_keeper) (intro keeps_intro)

interpretation settling_names: history_keeper "initiate e ref dto biz b actor" for e ref dto biz b actor
  by (rule quiet_keeper) (intro keeps_intro)

end
