(* ===== verification/Inflow_Parts.thy ===== *)
theory Inflow_Parts
  imports Http_Contract
begin

text \<open>
  Concurrency of the inflow worker (\<open>src/common/queue/webhook.processor.ts\<close>). A delivery is not atomic: between
  its duplicate check, its ledger transaction, the evaluation of the rules, each rule and the
  reconciliation, other workers and requests run, and the queue delivers a job again when its worker has died.
  A job in flight is a datatype with one constructor for each point of the code between two of its parts;
  \<open>advance\<close> runs one part, and \<open>rest_of_job\<close> is the remaining code. The parts compose to the code of
  \<open>process\<close>; \<open>moves\<close> says what one part may do to the entries and executions that identify the work done.
\<close>

section \<open>Jobs in flight\<close>

datatype job =
    Arrived inflowPayload
  | Gated inflowPayload account "customer option"
  | Booked inflowPayload account int
  | Matched inflowPayload account "evaluatedRule list"
  | Running inflowPayload account ledgerEntry "evaluatedRule list" "evaluatedRule list"
  | Finishing inflowPayload account "evaluatedRule list"

fun payload_of_job :: "job \<Rightarrow> inflowPayload" where
  "payload_of_job (Arrived p) = p"
| "payload_of_job (Gated p a c) = p"
| "payload_of_job (Booked p a n) = p"
| "payload_of_job (Matched p a ms) = p"
| "payload_of_job (Running p a r todo ms) = p"
| "payload_of_job (Finishing p a ms) = p"

text \<open>The parts: duplicate check and account lookup, the lookup of the booked entry, the reconciliation.\<close>

definition admit :: "env \<Rightarrow> inflowPayload \<Rightarrow> (account \<times> customer option) option act" where
  "admit e p =
     bnd (query e (find_event (inf_eventId p))) (\<lambda>existing.
     if existing \<noteq> None
     then seqm (AuditService_log e (duplicate_audit [(''eventId'', JStr (inf_eventId p))])) (ret None)
     else
       bnd (query e (find_by_number (inf_accountNumber p))) (\<lambda>found.
       case found of
         None \<Rightarrow>
           seqm (AuditService_log e ((auditParams ''system'' UNKNOWN_ACCOUNT_WEBHOOK)\<lparr>
             alp_metadata := Some (JObj [(''accountNumber'', JStr (inf_accountNumber p)),
               (''eventId'', JStr (inf_eventId p))])\<rparr>)) (ret None)
       | Some ac \<Rightarrow> ret (Some ac)))"

definition load_entry :: "env \<Rightarrow> inflowPayload \<Rightarrow> account \<Rightarrow> ledgerEntry option act" where
  "load_entry e p account =
     bnd (query e (find_business (acc_businessId account))) (\<lambda>business.
     case business of
       None \<Rightarrow> ret None
     | Some _ \<Rightarrow> query e (\<lambda>d. find (\<lambda>r. led_nombaTransactionRef r = inf_transactionRef p) (t_ledgerEntry d)))"

definition reconcile_inflow :: "env \<Rightarrow> inflowPayload \<Rightarrow> account \<Rightarrow> evaluatedRule list \<Rightarrow> unit act" where
  "reconcile_inflow e p account matchingRules =
     (let common = [(''eventId'', JStr (inf_eventId p)), (''transactionRef'', JStr (inf_transactionRef p)),
                    (''amountKobo'', JNum (inf_amountKobo p))] in
      seqm
       (if matchingRules \<noteq> [] then
          seqm (updateReconciliationStatus e (inf_transactionRef p) MATCHED)
            (AuditService_log e (inflow_audit account (common @
               [(''reconciliationStatus'', JStr ''MATCHED''),
                (''matchedRules'', JArr (map (\<lambda>ev. JObj [(''ruleId'', JStr (ev_ruleId ev)),
                   (''action'', JStr (show_rule_action (ev_action ev)))]) matchingRules))])))
        else
          seqm (updateReconciliationStatus e (inf_transactionRef p) UNMATCHED)
            (AuditService_log e (inflow_audit account (common @
               [(''reconciliationStatus'', JStr ''UNMATCHED'')]))))
       (seqm (create_processedEvent e (event_row p ''NOMBA_INFLOW'' account)) (ret ())))"

text \<open>One part of a job; the result is the job at its next point, or \<^term>\<open>None\<close> when it is done.\<close>

fun advance :: "env \<Rightarrow> job \<Rightarrow> job option act" where
  "advance e (Arrived p) =
     bnd (admit e p) (\<lambda>r. ret (map_option (\<lambda>(a, c). Gated p a c) r))"
| "advance e (Gated p a c) =
     (if is_custom_event p then seqm (process_custom e p a) (ret None)
      else if acc_status a = SUSPENDED then seqm (process_suspended e p a c) (ret None)
      else if acc_status a = CLOSED \<or> acc_status a = EXPIRED then seqm (process_terminal e p a) (ret None)
      else bnd (writeInflow e (inflow_dto p a c) RecPENDING) (\<lambda>cumulative. ret (Some (Booked p a cumulative))))"
| "advance e (Booked p a cumulative) =
     bnd (lift_sum (js_BigInt (inf_amountKobo p))) (\<lambda>amount.
     bnd (evaluate e (inflow_params p a amount cumulative)) (\<lambda>ms. ret (Some (Matched p a ms))))"
| "advance e (Matched p a ms) =
     (if ms = [] then ret (Some (Finishing p a ms))
      else bnd (load_entry e p a) (\<lambda>found.
        ret (Some (case found of None \<Rightarrow> Finishing p a ms | Some r \<Rightarrow> Running p a r ms ms))))"
| "advance e (Running p a r [] ms) = ret (Some (Finishing p a ms))"
| "advance e (Running p a r (ev # todo) ms) =
     seqm (run_inflow_rule e r ev) (ret (Some (Running p a r todo ms)))"
| "advance e (Finishing p a ms) = seqm (reconcile_inflow e p a ms) (ret None)"

text \<open>The code that remains at a point.\<close>

fun rest_of_job :: "env \<Rightarrow> job \<Rightarrow> unit act" where
  "rest_of_job e (Arrived p) = process_event e p"
| "rest_of_job e (Gated p a c) =
     (if is_custom_event p then process_custom e p a
      else if acc_status a = SUSPENDED then process_suspended e p a c
      else if acc_status a = CLOSED \<or> acc_status a = EXPIRED then process_terminal e p a
      else process_inflow e p a c)"
| "rest_of_job e (Booked p a cumulative) =
     bnd (lift_sum (js_BigInt (inf_amountKobo p))) (\<lambda>amount.
     bnd (evaluate e (inflow_params p a amount cumulative)) (finish_inflow e p a))"
| "rest_of_job e (Matched p a ms) = finish_inflow e p a ms"
| "rest_of_job e (Running p a r todo ms) =
     seqm (foreach todo (run_inflow_rule e r)) (reconcile_inflow e p a ms)"
| "rest_of_job e (Finishing p a ms) = reconcile_inflow e p a ms"

text \<open>The catch clause of \<open>process\<close>.\<close>

definition job_failed :: "env \<Rightarrow> inflowPayload \<Rightarrow> exn \<Rightarrow> unit act" where
  "job_failed e p err =
     (if err = DbExn P2002
      then AuditService_log e (duplicate_audit [(''eventId'', JStr (inf_eventId p)),
             (''reason'', JStr ''unique_conflict'')])
      else throw err)"

lemma process_catches: "WebhookProcessor_process e p = catch (rest_of_job e (Arrived p)) (job_failed e p)"
  by (simp add: WebhookProcessor_process_def job_failed_def [abs_def])

section \<open>The decomposition is the code\<close>

lemma seqm_ret_unit: "seqm m (ret ()) = m" for m :: "unit act"
  by (rule ext) (auto simp: bnd_def ret_def split: prod.split sum.split)

lemma bnd_ret_right [simp]: "bnd m ret = m"
  by (rule ext) (auto simp: bnd_def ret_def split: prod.split sum.split)

lemma bnd_if: "bnd (if c then m else n) f = (if c then bnd m f else bnd n f)"
  by simp

lemma process_event_parts:
  "process_event e p = bnd (admit e p) (\<lambda>r. case r of None \<Rightarrow> ret () | Some (a, c) \<Rightarrow> rest_of_job e (Gated p a c))"
  unfolding process_event_def admit_def
  by (simp add: bnd_assoc bnd_if seqm_ret_unit option.case_distrib [of "\<lambda>m. bnd m f" for f] cong: option.case_cong if_cong)

lemma finish_inflow_parts:
  "finish_inflow e p a ms =
     (if ms = [] then reconcile_inflow e p a ms
      else bnd (load_entry e p a) (\<lambda>found. case found of
        None \<Rightarrow> reconcile_inflow e p a ms
      | Some r \<Rightarrow> seqm (foreach ms (run_inflow_rule e r)) (reconcile_inflow e p a ms)))"
  unfolding finish_inflow_def reconcile_inflow_def run_inflow_rules_def load_entry_def
  by (simp add: Let_def bnd_assoc option.case_distrib [of "\<lambda>m. bnd m f" for f] cong: option.case_cong if_cong)

lemma resume_job:
  "rest_of_job e j = bnd (advance e j) (\<lambda>next. case next of None \<Rightarrow> ret () | Some j' \<Rightarrow> rest_of_job e j')"
proof (cases "(e, j)" rule: advance.cases)
  case (1 e p)
  then show ?thesis
    by (simp add: process_event_parts bnd_assoc option.case_distrib split_def cong: option.case_cong)
next
  case (2 e p a c)
  then show ?thesis by (simp add: process_inflow_def bnd_assoc seqm_ret_unit)
next
  case (3 e p a n)
  then show ?thesis by (simp add: bnd_assoc)
next
  case (4 e p a ms)
  have "(\<lambda>x. rest_of_job e (case x of None \<Rightarrow> Finishing p a ms | Some r \<Rightarrow> Running p a r ms ms)) =
      (\<lambda>found. case found of None \<Rightarrow> reconcile_inflow e p a ms
        | Some r \<Rightarrow> seqm (foreach ms (run_inflow_rule e r)) (reconcile_inflow e p a ms))"
    by (rule ext) (simp split: option.split)
  with 4 show ?thesis by (simp add: finish_inflow_parts bnd_assoc)
next
  case (5 e p a r ms)
  then show ?thesis by simp
next
  case (6 e p a r ev todo ms)
  then show ?thesis by (simp add: bnd_assoc)
next
  case (7 e p a ms)
  then show ?thesis by (simp add: bnd_assoc seqm_ret_unit)
qed

section \<open>What identifies the work done\<close>

text \<open>The entries by id and transaction, and the pairs of a rule and the entry it was executed for.\<close>

definition entry_keys :: "database \<Rightarrow> (string \<times> string) list" where
  "entry_keys d = map (\<lambda>r. (led_id r, led_nombaTransactionRef r)) (t_ledgerEntry d)"

fun exec_keys :: "ruleExecution list \<Rightarrow> (string \<times> string) list" where
  "exec_keys [] = []"
| "exec_keys (x # xs) =
     (case rex_triggeredByLedgerEntryId x of None \<Rightarrow> exec_keys xs | Some i \<Rightarrow> (rex_ruleId x, i) # exec_keys xs)"

lemma exec_keys_append [simp]: "exec_keys (xs @ ys) = exec_keys xs @ exec_keys ys"
  by (induction xs) (auto split: option.split)

lemma exec_keys_update [simp]:
  "(\<And>x. rex_ruleId (f x) = rex_ruleId x \<and> rex_triggeredByLedgerEntryId (f x) = rex_triggeredByLedgerEntryId x) \<Longrightarrow>
     exec_keys (update_rows P f xs) = exec_keys xs"
  by (induction xs) (auto split: option.split)

abbreviation keys_part :: "((string \<times> string) list \<Rightarrow> bool) \<Rightarrow> database \<Rightarrow> bool" where
  "keys_part J d \<equiv> J (exec_keys (t_ruleExecution d)) \<and> distinct (map rul_id (t_rule d))"

lemma keys_statements [keeps_intro]:
  "keeps_db (keys_part J) (create_business e m1)" "keeps_db (keys_part J) (create_apiKey e m2)"
  "keeps_db (keys_part J) (create_customer e m3)" "keeps_db (keys_part J) (create_nameHistoryEntry e m4)"
  "keeps_db (keys_part J) (create_account e m5)" "keeps_db (keys_part J) (create_rule e m6)"
  "keeps_db (keys_part J) (create_ledgerEntry e m7)" "keeps_db (keys_part J) (create_processedEvent e m8)"
  "keeps_db (keys_part J) (create_treasuryBucket e m9)" "keeps_db (keys_part J) (create_bucketLedgerEntry e m10)"
  "keeps_db (keys_part J) (create_settlement e m11)" "keeps_db (keys_part J) (create_idempotencyKey e m12)"
  unfolding create_defs by (rule keeps_create_row; auto simp: taken_def split: if_splits)+

lemma keys_updates [keeps_intro]:
  "keeps_db (keys_part J) (update_business e i f1)" "keeps_db (keys_part J) (update_apiKey e i f2)"
  "keeps_db (keys_part J) (update_customer e i f3)" "keeps_db (keys_part J) (update_account e i f4)"
  "keeps_db (keys_part J) (update_bucket e i f5)" "keeps_db (keys_part J) (update_ledgerEntry e P f6)"
  unfolding update_stmt_defs by (rule keeps_update_row keeps_update_many; simp)+

lemma keys_settlement [keeps_intro]: "keeps_db (keys_part J) (update_settlement e i f)"
  by (rule keeps_update_settlement) simp

lemma keys_rule_updates [keeps_intro]:
  assumes "\<And>r. rul_id (f r) = rul_id r"
  shows "keeps_db (keys_part J) (update_rule e i f)" "keeps_db (keys_part J) (updateMany_rule e P f)"
  unfolding update_stmt_defs
  by (rule keeps_update_row keeps_update_many; simp add: map_update_rows assms)+

lemma keys_execution_updates [keeps_intro]:
  assumes "\<And>x. rex_ruleId (f x) = rex_ruleId x \<and> rex_triggeredByLedgerEntryId (f x) = rex_triggeredByLedgerEntryId x"
  shows "keeps_db (keys_part J) (update_ruleExecution e i f)" "keeps_db (keys_part J) (updateMany_ruleExecution e P f)"
  unfolding update_stmt_defs
  by (rule keeps_update_row keeps_update_many; simp add: assms)+

lemma keys_services [keeps_intro]:
  "keeps_db (keys_part J) (registerBusiness e rdto secret)"
  "keeps_db (keys_part J) (updateBusinessCredentials e i cdto secret)"
  "keeps_db (keys_part J) (createApiKey e kdto secret)"
  "keeps_db (keys_part J) (validateApiKey e raw)"
  "keeps_db (keys_part J) (revokeApiKey e i biz actor)"
  "keeps_db (keys_part J) (createCustomer e ccdto biz)"
  "keeps_db (keys_part J) (renameCustomer e i rndto biz actor)"
  "keeps_db (keys_part J) (updateKycTier e i utdto biz actor)"
  "keeps_db (keys_part J) (provisionAccount e padto biz)"
  "keeps_db (keys_part J) (updateStatus e ref usdto biz actor)"
  "keeps_db (keys_part J) (closeAccount e ref biz actor b)"
  "keeps_db (keys_part J) (replaceRuleSet e ref biz rrdto)"
  "keeps_db (keys_part J) (toggleRule e ref i biz enabled)"
  "keeps_db (keys_part J) (deleteRule e ref i biz)"
  "keeps_db (keys_part J) (provisionBucket e cbdto biz)"
  "keeps_db (keys_part J) (renameBucket e ref nm biz)"
  "keeps_db (keys_part J) (closeBucket e ref biz actor)"
  unfolding auth_defs createCustomer_def renameCustomer_def updateKycTier_def flag_rules_def
    replaceRuleSet_def toggleRule_def deleteRule_def archive_rule_def resolveRule_def create_rule_of_def
    provisionAccount_def create_account_with_rules_def updateStatus_def closeAccount_def
    closeBucket_def renameBucket_def provisionBucket_def
  by (intro keeps_intro; simp)+

lemma keys_treasury [keeps_intro]:
  "keeps_db (keys_part J) (credit e p)"
  "keeps_db (keys_part J) (transferBetweenBuckets e ref tdto biz actor)"
  "keeps_db (keys_part J) (initiate e ref sdto biz b actor)"
  unfolding credit_def credit_tx_def transferBetweenBuckets_def transfer_tx_def settlement_defs
  by (intro keeps_intro)+

interpretation http_keys: http_invariant srv "keys_part J" for srv J
  by unfold_locales (intro keeps_intro)+

lemma keys_retry [keeps_intro]: "keeps_db (keys_part J) (RetryProcessor_process e p n)"
  unfolding RetryProcessor_process_def attemptRelease_def attemptNotify_def record_outcome_def
  by (intro keeps_intro; simp)


text \<open>An execution without a ledger entrytry adds no key; any other adds one at most.\<close>

lemma keys_handlers [keeps_intro]:
  "keeps_db (keys_part J) (handleReleaseFunds e x pl a en)"
  "keeps_db (keys_part J) (handleStatusChange e x a st from act)"
  "keeps_db (keys_part J) (handleFlagForReview e x a l)"
  "keeps_db (keys_part J) (handleNotifyWebhook e x pl a en)"
  unfolding execute_defs by (intro keeps_intro; simp)+

lemma keys_reconcile [keeps_intro]: "keeps_db (keys_part J) (updateReconciliationStatus e ref st)"
  unfolding updateReconciliationStatus_def by (intro keeps_intro)

lemma keys_execute_custom:
  assumes "real_entry_id en = None"
  shows "keeps_db (keys_part J) (execute e ev en)"
  unfolding execute_def assms Let_def
  by (intro keeps_intro) (unfold create_ruleExecution_def, rule keeps_create_row, simp add: execution_row_def)

definition new_key :: "evaluatedRule \<Rightarrow> execEntry \<Rightarrow> (string \<times> string) list" where
  "new_key ev en = (case real_entry_id en of None \<Rightarrow> [] | Some i \<Rightarrow> [(ev_ruleId ev, i)])"

lemma execute_keys:
  assumes "distinct (map rul_id (t_rule d))"
  shows "wp d (\<lambda>_ d'. exec_keys (t_ruleExecution d') = exec_keys (t_ruleExecution d) @ new_key ev en)
    (\<lambda>d'. exec_keys (t_ruleExecution d') \<in>
       {exec_keys (t_ruleExecution d), exec_keys (t_ruleExecution d) @ new_key ev en}) (execute e ev en)"
proof -
  let ?K = "exec_keys (t_ruleExecution d) @ new_key ev en"
  have "keeps_db (keys_part (\<lambda>K. K = ?K)) (case ev_action ev of
        RELEASE_FUNDS \<Rightarrow> handleReleaseFunds e i (ev_payload ev) (ev_account ev) en
      | SUSPEND_ACCOUNT \<Rightarrow>
          handleStatusChange e i (ev_account ev) SUSPENDED [ACTIVE] ACCOUNT_SUSPENDED
      | EXPIRE_ACCOUNT \<Rightarrow>
          handleStatusChange e i (ev_account ev) EXPIRED [ACTIVE, SUSPENDED] ACCOUNT_EXPIRED
      | REACTIVATE_ACCOUNT \<Rightarrow>
          handleStatusChange e i (ev_account ev) ACTIVE [SUSPENDED] ACCOUNT_REACTIVATED
      | FLAG_FOR_REVIEW \<Rightarrow> handleFlagForReview e i (ev_account ev) (real_entry_id en)
      | NOTIFY_WEBHOOK \<Rightarrow> handleNotifyWebhook e i (ev_payload ev) (ev_account ev) en)" for i
    by (intro keeps_intro)
  note rest = wp_conseq [OF wp_keeps [OF this]]
  show ?thesis
    unfolding execute_def create_ruleExecution_def Let_def
    by (rule wp_bnd, rule wp_create_row, rule rest)
      (use assms in \<open>auto simp: execution_row_def new_key_def split: option.splits\<close>)
qed

section \<open>The protocol of the worker\<close>

text \<open>The transaction a job has booked.\<close>

fun booked_refs :: "job \<Rightarrow> string list" where
  "booked_refs (Arrived p) = []"
| "booked_refs (Gated p a c) = []"
| "booked_refs j = [inf_transactionRef (payload_of_job j)]"

text \<open>What one part may do to the keys of the entries, \<open>I\<close>, and of the executions, \<open>K\<close>.\<close>

fun moves :: "job \<Rightarrow> (string \<times> string) list \<Rightarrow> (string \<times> string) list \<Rightarrow> job option \<Rightarrow>
    (string \<times> string) list \<Rightarrow> (string \<times> string) list \<Rightarrow> bool" where
  "moves (Arrived p) I K next I' K' \<longleftrightarrow> I' = I \<and> K' = K \<and> (\<forall>j'. next = Some j' \<longrightarrow> (\<exists>a c. j' = Gated p a c))"
| "moves (Gated p a c) I K next I' K' \<longleftrightarrow> K' = K \<and>
     (I' = I \<and> next = None \<or>
      (\<exists>i. i \<notin> fst ` set I \<and> inf_transactionRef p \<notin> snd ` set I \<and> I' = I @ [(i, inf_transactionRef p)] \<and>
           (next = None \<or> (\<exists>n. next = Some (Booked p a n)))))"
| "moves (Booked p a n) I K next I' K' \<longleftrightarrow> I' = I \<and> K' = K \<and>
     (\<forall>j'. next = Some j' \<longrightarrow> (\<exists>ms. j' = Matched p a ms \<and> distinct (map ev_ruleId ms)))"
| "moves (Matched p a ms) I K next I' K' \<longleftrightarrow> I' = I \<and> K' = K \<and>
     (\<forall>j'. next = Some j' \<longrightarrow> j' = Finishing p a ms \<or>
       (\<exists>r. j' = Running p a r ms ms \<and> (led_id r, inf_transactionRef p) \<in> set I))"
| "moves (Running p a r todo ms) I K next I' K' \<longleftrightarrow> I' = I \<and>
     (case todo of
       [] \<Rightarrow> K' = K \<and> (\<forall>j'. next = Some j' \<longrightarrow> j' = Finishing p a ms)
     | ev # todo' \<Rightarrow> K' \<in> {K, K @ [(ev_ruleId ev, led_id r)]} \<and>
         (\<forall>j'. next = Some j' \<longrightarrow> j' = Running p a r todo' ms))"
| "moves (Finishing p a ms) I K next I' K' \<longleftrightarrow> I' = I \<and> K' = K \<and> next = None"

abbreviation executed :: "database \<Rightarrow> (string \<times> string) list" where
  "executed d \<equiv> exec_keys (t_ruleExecution d)"

definition same_keys :: "database \<Rightarrow> database \<Rightarrow> bool" where
  "same_keys d d' = (entry_keys d' = entry_keys d \<and> executed d' = executed d)"

lemma entry_keys_immutable:
  "entry_keys d = map (\<lambda>r. (led_id r, led_nombaTransactionRef r)) (map immutable_part (t_ledgerEntry d))"
  by (simp add: entry_keys_def immutable_part_def)

lemma wp_both:
  "wp d Q E m \<Longrightarrow> wp d Q' E' m \<Longrightarrow> wp d (\<lambda>x d'. Q x d' \<and> Q' x d') (\<lambda>d'. E d' \<and> E' d') m"
  by (fastforce simp: wp_def split: prod.splits sum.splits)

lemma wp_same_keys:
  assumes "\<And>J. keeps_db (keys_part J) m" "\<And>J. keeps_db (entries_part J) m" "distinct (map rul_id (t_rule d))"
  shows "wp d (\<lambda>_. same_keys d) (same_keys d) m"
  by (rule wp_conseq [OF wp_both [OF
        wp_keeps [OF assms(1) [of "\<lambda>K. K = executed d"]]
        wp_keeps [OF assms(2) [of "\<lambda>l. l = map immutable_part (t_ledgerEntry d)"]]]])
    (use assms(3) in \<open>auto simp: same_keys_def entry_keys_immutable\<close>)

lemma wp_quiet_part:
  assumes "\<And>J. keeps_db (keys_part J) m" "\<And>J. keeps_db (entries_part J) m" "distinct (map rul_id (t_rule d))"
    and "\<And>x d'. same_keys d d' \<Longrightarrow> Q (f x) d'" "\<And>d'. same_keys d d' \<Longrightarrow> E d'"
  shows "wp d Q E (bnd m (\<lambda>x. ret (f x)))"
  by (rule wp_bnd, rule wp_conseq [OF wp_same_keys [OF assms(1-3)]]) (auto intro: wp_ret assms(4,5))


lemma writeInflow_books:
  "wp d (\<lambda>_ d'. executed d' = executed d \<and> (\<exists>i. i \<notin> fst ` set (entry_keys d) \<and>
        wi_nombaTransactionRef dto \<notin> snd ` set (entry_keys d) \<and>
        entry_keys d' = entry_keys d @ [(i, wi_nombaTransactionRef dto)]))
     (same_keys d) (writeInflow e dto st)"
  unfolding writeInflow_def create_ledgerEntry_def
  by (intro wp_rules) (auto simp: same_keys_def entry_keys_def inflow_row_def taken_def image_iff split: if_splits)

lemma audit_same_keys: "same_keys d d' \<Longrightarrow> wp d' (\<lambda>_. same_keys d) (same_keys d) (AuditService_log e x)"
  by (rule audit.log_wp)

text \<open>The rules an evaluation returns are different rules.\<close>

lemma distinct_rule_pairs:
  assumes "distinct (map rul_id rs)" "\<And>r. length (g r) \<le> 1"
  shows "distinct (map (rul_id \<circ> fst) (concat (map (\<lambda>r. map (Pair r) (g r)) rs)))"
  using assms(1)
proof (induction rs)
  case (Cons r rs)
  from assms(2) [of r] have "g r = [] \<or> (\<exists>a. g r = [a])" by (cases "g r") auto
  with Cons show ?case by (auto simp: image_iff)
qed simp

lemma distinct_active_rules:
  assumes "distinct (map rul_id (t_rule d))" "distinct (map acc_id (t_account d))"
  shows "distinct (map (rul_id \<circ> fst) (active_rules i d))"
  unfolding active_rules_def
proof (rule distinct_rule_pairs)
  show "distinct (map rul_id (order_asc rul_priority
      (filter (\<lambda>r. rul_accountId r = i \<and> rul_status r = RuleACTIVE) (t_rule d))))"
    using assms(1) by (auto simp: order_asc_def distinct_map intro: inj_on_subset)
  have "length (filter (\<lambda>a. acc_id a = k) as) \<le> 1" if "distinct (map acc_id as)" for k and as :: "account list"
    using that
  proof (induction as)
    case (Cons a as)
    then show ?case by (cases "acc_id a = k") (auto simp: image_iff filter_empty_conv)
  qed simp
  then show "length (filter (\<lambda>a. acc_id a = rul_accountId r) (t_account d)) \<le> 1" for r
    using assms(2) by blast
qed

lemma distinct_evaluated:
  assumes "distinct (map rul_id (t_rule d))" "distinct (map acc_id (t_account d))"
  shows "distinct (map ev_ruleId (evaluate_spec e ps d))"
proof -
  have "ev_ruleId \<circ> evaluated = rul_id \<circ> fst" by (auto simp: evaluated_def)
  moreover have "distinct (map (rul_id \<circ> fst) (matching_rules e ps d))"
    unfolding matching_rules_def by (rule distinct_map_filter [OF distinct_active_rules [OF assms]])
  ultimately show ?thesis by (simp add: evaluate_spec_def Let_def distinct_take flip: take_map)
qed

lemma keys_custom [keeps_intro]: "keeps_db (keys_part J) (process_custom e p a)"
proof -
  have "keeps_db (keys_part J) (execute e ev (pseudoLedgerEntry p))" for ev
    by (rule keys_execute_custom) (simp add: real_entry_id_def pseudoLedgerEntry_def)
  then show ?thesis
    unfolding process_custom_def run_custom_rules_def by (intro keeps_intro)
qed

lemma keys_admit: "keeps_db (keys_part J) (admit e p)" "keeps_db (entries_part J') (admit e p)"
  unfolding admit_def by (intro keeps_intro)+

lemma keys_reconcile_inflow:
  "keeps_db (keys_part J) (reconcile_inflow e p a ms)" "keeps_db (entries_part J') (reconcile_inflow e p a ms)"
  unfolding reconcile_inflow_def by (intro keeps_intro)+

lemma run_rule_keys:
  assumes "distinct (map rul_id (t_rule d))"
  shows "wp d (\<lambda>_ d'. entry_keys d' = entry_keys d \<and> executed d' \<in> {executed d, executed d @ [(ev_ruleId ev, led_id r)]})
    (\<lambda>d'. entry_keys d' = entry_keys d \<and> executed d' \<in> {executed d, executed d @ [(ev_ruleId ev, led_id r)]})
    (run_inflow_rule e r ev)"
proof -
  have key: "new_key ev (entry_of r) \<in> {[], [(ev_ruleId ev, led_id r)]}"
    by (simp add: new_key_def real_entry_id_def entry_of_def)
  show ?thesis
    unfolding run_inflow_rule_def
    by (rule wp_bnd, rule wp_conseq [OF wp_both [OF execute_keys [OF assms]
          wp_keeps [OF entries_execute [of "\<lambda>l. map (\<lambda>r. (led_id r, led_nombaTransactionRef r)) l = entry_keys d"]]]])
      (use key in \<open>auto simp: entry_keys_def immutable_part_def comp_def intro!: wp_rules\<close>)
qed

lemma load_entry_wp:
  "wp d (\<lambda>found d'. d' = d \<and> (\<forall>r. found = Some r \<longrightarrow> (led_id r, inf_transactionRef p) \<in> set (entry_keys d)))
    (\<lambda>d'. d' = d) (load_entry e p a)"
  unfolding load_entry_def
  by (intro wp_rules) (auto simp: entry_keys_def dest!: find_SomeD)

lemma advance_moves:
  assumes "distinct (map rul_id (t_rule d))" "distinct (map acc_id (t_account d))"
  shows "wp d (\<lambda>next d'. moves j (entry_keys d) (executed d) next (entry_keys d') (executed d'))
    (\<lambda>d'. moves j (entry_keys d) (executed d) None (entry_keys d') (executed d')) (advance e j)"
proof (cases "(e, j)" rule: advance.cases)
  case (1 e p)
  then show ?thesis
    by (auto simp: same_keys_def intro!: wp_quiet_part [OF keys_admit assms(1)])
next
  case (2 e p a c)
  note custom = wp_conseq [OF wp_same_keys [OF keys_custom custom_entries assms(1)]]
  note book = wp_conseq [OF writeInflow_books]
  have ref: "wi_nombaTransactionRef (inflow_dto p a c) = inf_transactionRef p" by (simp add: inflow_dto_def)
  from 2 show ?thesis
    by (auto simp: process_suspended_def process_terminal_def bnd_assoc same_keys_def ref
        intro!: wp_rules custom audit.log_wp book)
next
  case (3 e p a n)
  then show ?thesis
    by (auto intro!: wp_rules simp: distinct_evaluated [OF assms])
next
  case (4 e p a ms)
  then show ?thesis
    by (auto intro!: wp_rules wp_conseq [OF load_entry_wp] split: option.splits)
next
  case (5 e p a r ms)
  then show ?thesis by (auto intro!: wp_rules)
next
  case (6 e p a r ev todo ms)
  then show ?thesis by (auto intro!: wp_rules wp_conseq [OF run_rule_keys [OF assms(1)]])
next
  case (7 e p a ms)
  then show ?thesis
    by (auto simp: same_keys_def intro!: wp_quiet_part [OF keys_reconcile_inflow assms(1)])
qed

end
