(* ===== verification/Inflow_Protocol.thy ===== *)
theory Inflow_Protocol
  imports Inflow_Parts
begin

text \<open>
  The interleaving of the inflow worker with itself and with the rest of the service: a transition system whose
  states are a world and the jobs in flight, its invariant, and what it shows. Each rule acts at most once on an
  inflow in every interleaving; the account life cycle is not safe from late writes.
\<close>

section \<open>Writes that follow an earlier read\<close>

text \<open>The status override after it has read the account.\<close>

definition updateStatus_resume ::
  "env \<Rightarrow> updateStatusDto \<Rightarrow> string \<Rightarrow> string \<Rightarrow> account option \<Rightarrow> account act" where
  "updateStatus_resume e dto businessId actor found =
     (case found of
       None \<Rightarrow> throw (NotFound ACCOUNT_NOT_FOUND ''Account not found'')
     | Some account \<Rightarrow>
         if us_status dto = CLOSED \<or> us_status dto = EXPIRED
         then throw (BadRequest ACCOUNT_TERMINAL_STATE
                (''Cannot set status to '' @ quoted (show_status (us_status dto)) @
                 '' via status override '' @ em_dash @ '' use the account close endpoint instead''))
         else if acc_status account = CLOSED \<or> acc_status account = EXPIRED
         then throw (BadRequest ACCOUNT_TERMINAL_STATE
                (''Account is in terminal state '' @ quoted (show_status (acc_status account)) @ '' '' @
                 em_dash @ '' no further status changes allowed''))
         else if us_status dto \<notin> set (validTransitions (acc_status account))
         then throw (BadRequest ACCOUNT_TERMINAL_STATE
                (''Invalid status transition from '' @ quoted (show_status (acc_status account)) @
                 '' to '' @ quoted (show_status (us_status dto))))
         else
           bnd (update_account e (acc_id account) (\<lambda>a. a\<lparr>acc_status := us_status dto\<rparr>)) (\<lambda>updated.
           seqm (AuditService_log e ((auditParams actor ACCOUNT_STATUS_OVERRIDE)\<lparr>
                   alp_accountId := Some (acc_id account), alp_customerId := acc_customerId account,
                   alp_businessId := Some businessId,
                   alp_beforeState := Some (JObj [(''status'', JStr (show_status (acc_status account)))]),
                   alp_afterState := Some (JObj [(''status'', JStr (show_status (acc_status updated))),
                     (''reason'', JStr (us_reason dto))]),
                   alp_reasonCode := Some (us_reason dto)\<rparr>))
             (ret updated)))"

lemma updateStatus_parts:
  "updateStatus e ref dto businessId actor =
     bnd (query e (find_account_by_ref ref businessId)) (updateStatus_resume e dto businessId actor)"
  by (simp add: updateStatus_def updateStatus_resume_def [abs_def])


text \<open>The status change of a rule, after it has read the account's status.\<close>

definition handleStatusChange_resume ::
  "env \<Rightarrow> string \<Rightarrow> account \<Rightarrow> account_status \<Rightarrow> account_status list \<Rightarrow> audit_action \<Rightarrow>
   account_status option \<Rightarrow> executionResult act" where
  "handleStatusChange_resume e executionId account target allowedFrom auditAction current =
     seqm
       (case current of
          None \<Rightarrow> ret ()
        | Some st \<Rightarrow>
            if st \<in> set allowedFrom then
              seqm (update_account e (acc_id account) (\<lambda>a. a\<lparr>acc_status := target\<rparr>))
                (AuditService_log e ((auditParams ''system'' auditAction)\<lparr>
                   alp_accountId := Some (acc_id account),
                   alp_businessId := Some (acc_businessId account),
                   alp_beforeState := Some (JObj [(''status'', JStr (show_status st))]),
                   alp_afterState := Some (JObj [(''status'', JStr (show_status target))]),
                   alp_reasonCode := Some ''RULE_ACTION''\<rparr>))
            else ret ())
     (seqm (complete_execution e executionId JNull)
       (ret (completed_result executionId)))"

lemma handleStatusChange_parts:
  "handleStatusChange e x account target from act =
     bnd (query e (\<lambda>d. map_option acc_status (find (\<lambda>a. acc_id a = acc_id account) (t_account d))))
       (handleStatusChange_resume e x account target from act)"
  by (simp add: handleStatusChange_def handleStatusChange_resume_def [abs_def])

section \<open>The jobs and the keys\<close>

text \<open>What a job in flight relies on; \<open>I\<close> are the keys of the entries, \<open>K\<close> those of the executions.\<close>

fun job_ok :: "(string \<times> string) list \<Rightarrow> (string \<times> string) list \<Rightarrow> job \<Rightarrow> bool" where
  "job_ok I K (Arrived p) = True"
| "job_ok I K (Gated p a c) = True"
| "job_ok I K (Booked p a n) = (\<exists>i. (i, inf_transactionRef p) \<in> set I \<and> i \<notin> snd ` set K)"
| "job_ok I K (Matched p a ms) =
     (distinct (map ev_ruleId ms) \<and> (\<exists>i. (i, inf_transactionRef p) \<in> set I \<and> i \<notin> snd ` set K))"
| "job_ok I K (Running p a r todo ms) =
     ((led_id r, inf_transactionRef p) \<in> set I \<and> distinct (map ev_ruleId todo) \<and>
      (\<forall>ev \<in> set todo. (ev_ruleId ev, led_id r) \<notin> set K))"
| "job_ok I K (Finishing p a ms) = (inf_transactionRef p \<in> snd ` set I)"

definition keys_ok :: "(string \<times> string) list \<Rightarrow> (string \<times> string) list \<Rightarrow> bool" where
  "keys_ok I K = (distinct (map fst I) \<and> distinct (map snd I) \<and> distinct K \<and> snd ` set K \<subseteq> fst ` set I)"

definition tracked :: "(string \<times> string) list \<Rightarrow> (string \<times> string) list \<Rightarrow> job list \<Rightarrow> bool" where
  "tracked I K js =
     (keys_ok I K \<and> distinct (concat (map booked_refs js)) \<and> (\<forall>j \<in> set js. job_ok I K j))"

lemma job_ok_ref: "job_ok I K j \<Longrightarrow> set (booked_refs j) \<subseteq> snd ` set I"
  by (cases j) (auto simp: image_iff intro: bexI [rotated])

lemma job_ok_entry: "job_ok I K j \<Longrightarrow> job_ok (I @ [x]) K j"
  by (cases j) auto

lemma key_of_id: "distinct (map fst I) \<Longrightarrow> (i, a) \<in> set I \<Longrightarrow> (i, b) \<in> set I \<Longrightarrow> a = b"
  by (rule eq_key_imp_eq_value)

lemma key_of_ref: "distinct (map snd I) \<Longrightarrow> (i, a) \<in> set I \<Longrightarrow> (k, a) \<in> set I \<Longrightarrow> i = k"
  by (induction I) (auto simp: rev_image_eqI)

lemma job_ok_execution:
  assumes "job_ok I K j" "distinct (map fst I)" "(i, ref) \<in> set I" "ref \<notin> set (booked_refs j)"
  shows "job_ok I (K @ [(x, i)]) j"
  using assms by (cases j) (auto dest: key_of_id)

text \<open>Booking an entry, and executing a rule, as seen by the other jobs.\<close>

lemma tracked_book:
  assumes "tracked I K js" "i \<notin> fst ` set I" "ref \<notin> snd ` set I"
  shows "tracked (I @ [(i, ref)]) K js" "\<forall>j \<in> set js. ref \<notin> set (booked_refs j)" "i \<notin> snd ` set K"
proof -
  from assms(1) job_ok_ref show "\<forall>j \<in> set js. ref \<notin> set (booked_refs j)"
    using assms(3) unfolding tracked_def by blast
  show "tracked (I @ [(i, ref)]) K js"
    using assms by (auto simp: tracked_def keys_ok_def intro: job_ok_entry)
  show "i \<notin> snd ` set K" using assms(1,2) unfolding tracked_def keys_ok_def by blast
qed

lemma tracked_execute:
  assumes "tracked I K js" "(i, ref) \<in> set I" "(x, i) \<notin> set K" "\<forall>j \<in> set js. ref \<notin> set (booked_refs j)"
  shows "tracked I (K @ [(x, i)]) js"
proof -
  from assms(1,2,4) have "job_ok I (K @ [(x, i)]) j" if "j \<in> set js" for j
    using that by (intro job_ok_execution) (auto simp: tracked_def keys_ok_def)
  with assms show ?thesis by (auto simp: tracked_def keys_ok_def image_iff intro: bexI [rotated])
qed

lemma distinct_middle: "distinct (a @ b @ c) \<longleftrightarrow> distinct (a @ c) \<and> distinct b \<and> set b \<inter> set (a @ c) = {}"
  by auto

lemma concat_disjoint:
  "set (concat (map f xs)) \<inter> set (concat (map f ys)) = {} \<longleftrightarrow>
     (\<forall>x \<in> set xs. \<forall>y \<in> set ys. set (f x) \<inter> set (f y) = {})"
  by simp blast

lemma tracked_split:
  "tracked I K (us @ js @ vs) \<longleftrightarrow>
     tracked I K (us @ vs) \<and> distinct (concat (map booked_refs js)) \<and> (\<forall>j \<in> set js. job_ok I K j) \<and>
     (\<forall>j \<in> set js. \<forall>k \<in> set (us @ vs). set (booked_refs j) \<inter> set (booked_refs k) = {})"
proof -
  have "distinct (concat (map booked_refs (us @ js @ vs))) \<longleftrightarrow>
      distinct (concat (map booked_refs (us @ vs))) \<and> distinct (concat (map booked_refs js)) \<and>
      (\<forall>j \<in> set js. \<forall>k \<in> set (us @ vs). set (booked_refs j) \<inter> set (booked_refs k) = {})"
    unfolding concat_disjoint [symmetric] map_append concat_append by (rule distinct_middle)
  moreover have "(\<forall>j \<in> set (us @ js @ vs). job_ok I K j) \<longleftrightarrow>
      (\<forall>j \<in> set (us @ vs). job_ok I K j) \<and> (\<forall>j \<in> set js. job_ok I K j)" by auto
  ultimately show ?thesis unfolding tracked_def by blast
qed

abbreviation opt_list :: "'x option \<Rightarrow> 'x list" where
  "opt_list v \<equiv> (case v of None \<Rightarrow> [] | Some x \<Rightarrow> [x])"

lemma job_ok_loaded:
  assumes "job_ok I K (Matched p a ms)" "keys_ok I K"
  shows "job_ok I K (Finishing p a ms)"
    and "(led_id r, inf_transactionRef p) \<in> set I \<Longrightarrow> job_ok I K (Running p a r ms ms)"
proof -
  from assms(1) obtain i where i: "(i, inf_transactionRef p) \<in> set I" "i \<notin> snd ` set K" by auto
  then show "job_ok I K (Finishing p a ms)" by (auto simp: rev_image_eqI)
  assume r: "(led_id r, inf_transactionRef p) \<in> set I"
  with i(1) assms(2) have "led_id r = i" by (auto simp: keys_ok_def dest: key_of_ref)
  with r i(2) assms(1) show "job_ok I K (Running p a r ms ms)" by (auto simp: rev_image_eqI)
qed

lemma tracked_moves:
  assumes "tracked I K (us @ [j] @ vs)" "moves j I K next I' K'"
  shows "tracked I' K' (us @ opt_list next @ vs)"
proof (cases j)
  case (Gated p a c)
  from assms(1) have rest: "tracked I K (us @ vs)" by (simp only: tracked_split)
  from assms(2) Gated consider "K' = K" "I' = I" "next = None"
    | i where "K' = K" "i \<notin> fst ` set I" "inf_transactionRef p \<notin> snd ` set I"
        "I' = I @ [(i, inf_transactionRef p)]" "next = None \<or> (\<exists>n. next = Some (Booked p a n))" by auto
  then show ?thesis
  proof cases
    case (2 i)
    note tracked_book [OF rest 2(2,3)]
    with 2 show ?thesis by (auto simp del: append_Cons simp: tracked_split)
  qed (use rest in simp)
next
  case (Matched p a ms)
  from assms(1) have "job_ok I K j" "keys_ok I K" by (simp_all add: tracked_def)
  note job_ok_loaded [OF this(1) [unfolded Matched] this(2)]
  with assms Matched show ?thesis
    by (auto simp only: tracked_split split: option.split, auto simp del: job_ok.simps)
next
  case (Running p a r todo ms)
  from assms(1) have rest: "tracked I K (us @ vs)" by (simp only: tracked_split)
  show ?thesis
  proof (cases "\<exists>ev todo'. todo = ev # todo' \<and> K' = K @ [(ev_ruleId ev, led_id r)]")
    case True
    then obtain ev todo' where todo: "todo = ev # todo'" and K': "K' = K @ [(ev_ruleId ev, led_id r)]" by blast
    have "tracked I K' (us @ vs)"
      unfolding K' using assms(1) Running todo
      by (intro tracked_execute [OF rest]) (auto simp only: tracked_split, auto)
    with assms Running todo K' show ?thesis
      by (auto simp only: tracked_split split: option.split, auto simp: rev_image_eqI)
  next
    case False
    with assms Running show ?thesis
      by (cases todo) (auto simp only: tracked_split split: option.split, auto simp: rev_image_eqI split: list.splits)
  qed
qed (use assms in \<open>auto simp only: tracked_split split: option.split, auto\<close>)


section \<open>The interleaved system\<close>

text \<open>The rest of the database that the protocol relies on.\<close>

definition sound :: "database \<Rightarrow> bool" where
  "sound d = (ledger_inv d \<and> distinct (map acc_id (t_account d)) \<and> distinct (map rul_id (t_rule d)))"

type_synonym inflow_state = "world \<times> job list"

text \<open>
  Deliveries arrive at any time, the same event any number of times; a job runs its next part, ends, fails in it, or
  is lost with its worker; requests, retries and the scheduler run; a status write happens that follows a read of any
  earlier state.
\<close>

inductive inflow_step :: "env \<Rightarrow> inflow_state \<Rightarrow> inflow_state \<Rightarrow> bool" for e where
  deliver: "inflow_step e (w, js) (w, js @ [Arrived p])"
| proceed: "advance e j w = (Inr next, w') \<Longrightarrow> inflow_step e (w, us @ [j] @ vs) (w', us @ opt_list next @ vs)"
| fail: "advance e j w = (Inl x, w') \<Longrightarrow>
     inflow_step e (w, us @ [j] @ vs) (snd (job_failed e (payload_of_job j) x w'), us @ vs)"
| lose: "inflow_step e (w, us @ [j] @ vs) (w, us @ vs)"
| request: "inflow_step e (w, js) (snd (respond e srv rq w), js)"
| retry: "inflow_step e (w, js) (snd (RetryProcessor_process e q n w), js)"
| scan: "inflow_step e (w, js) (snd (evaluateTimeElapsedRules e w), js)"
| override: "inflow_step e (w, js) (snd (updateStatus_resume e dto biz actor found w), js)"
| status_rule: "inflow_step e (w, js) (snd (handleStatusChange_resume e x a target from act current w), js)"

fun inflow_inv :: "inflow_state \<Rightarrow> bool" where
  "inflow_inv (w, js) = (sound (db w) \<and> tracked (entry_keys (db w)) (executed (db w)) js)"

text \<open>Every other step leaves the keys alone.\<close>

lemma keeps_sound:
  assumes "\<And>d0. keeps_db (evolves d0) m" "keeps_db (\<lambda>d. distinct (map rul_id (t_rule d))) m"
  shows "sound (db w) \<Longrightarrow> sound (db (snd (m w)))"
  using keepsD [OF assms(1), of "db w" w] keepsD [OF assms(2), of w]
  by (auto simp: sound_def evolves_def ledger_extends_def statuses_follow_refl)

lemma quiet_inv:
  assumes "sound (db w) \<Longrightarrow> sound (db (snd (m w)))"
    and "\<And>J. keeps_db (keys_part J) m" "\<And>J. keeps_db (entries_part J) m" "inflow_inv (w, js)"
  shows "inflow_inv (snd (m w), js)"
proof -
  from assms(4) have ids: "distinct (map rul_id (t_rule (db w)))" by (simp add: sound_def)
  have "same_keys (db w) (db (snd (m w)))"
    using wp_run [OF wp_same_keys [OF assms(2,3) ids]] by (auto split: prod.splits sum.splits)
  with assms(1,4) show ?thesis by (simp add: same_keys_def)
qed

lemma service_inv:
  assumes "\<And>d0. keeps_db (evolves d0) m" "\<And>J. keeps_db (keys_part J) m" "\<And>J. keeps_db (entries_part J) m"
  shows "inflow_inv (w, js) \<Longrightarrow> inflow_inv (snd (m w), js)"
  by (rule quiet_inv [OF keeps_sound [OF assms(1) assms(2) [of "\<lambda>_. True", simplified]] assms(2,3)])

text \<open>A late write may break the life cycle of its account, but not what the worker relies on.\<close>

lemma sound_writes [keeps_intro]:
  "(\<And>a. acc_id (f a) = acc_id a) \<Longrightarrow> keeps_db sound (update_account e i f)"
  "keeps_db sound (update_ruleExecution e i g)"
  unfolding update_stmt_defs
  by (rule keeps_update_row; auto simp: sound_def ledger_inv_def map_update_rows)+

lemma late_writes_keep:
  "keeps_db sound (updateStatus_resume e dto biz actor found)"
  "keeps_db (keys_part J) (updateStatus_resume e dto biz actor found)"
  "keeps_db (entries_part J') (updateStatus_resume e dto biz actor found)"
  "keeps_db sound (handleStatusChange_resume e x a target from act current)"
  "keeps_db (keys_part J) (handleStatusChange_resume e x a target from act current)"
  "keeps_db (entries_part J') (handleStatusChange_resume e x a target from act current)"
  unfolding updateStatus_resume_def handleStatusChange_resume_def complete_execution_def
  by (intro keeps_intro; simp)+

lemma job_failed_keeps: "keeps_db J (job_failed e p x)"
  unfolding job_failed_def by (intro keeps_intro)

lemmas advance_defs =
  advance.simps admit_def process_custom_def run_custom_rules_def process_suspended_def process_terminal_def
  load_entry_def run_inflow_rule_def reconcile_inflow_def Let_def

lemma advance_evolves: "keeps_db (evolves d0) (advance e j)"
  by (induction e j rule: advance.induct; simp only: advance_defs; intro keeps_intro)

lemma keys_execution [keeps_intro]:
  assumes "\<And>K. J K"
  shows "keeps_db (keys_part J) (create_ruleExecution e mk)"
  unfolding create_defs by (rule keeps_create_row) (simp add: assms)

lemma advance_rules:
  assumes "\<And>K. J K"
  shows "keeps_db (keys_part J) (advance e j)"
  by (induction e j rule: advance.induct; simp only: advance_defs execute_def writeInflow_def; intro keeps_intro assms)

lemma advance_inv:
  assumes "inflow_inv (w, us @ [j] @ vs)" "advance e j w = (r, w')"
  shows "inflow_inv (w', us @ (case r of Inl _ \<Rightarrow> [] | Inr next \<Rightarrow> opt_list next) @ vs)"
proof -
  from assms(1) have "distinct (map rul_id (t_rule (db w)))" "distinct (map acc_id (t_account (db w)))"
    by (simp_all add: sound_def)
  from wp_run [OF advance_moves [OF this], of j e] assms(2)
  have "moves j (entry_keys (db w)) (executed (db w)) (case r of Inl _ \<Rightarrow> None | Inr next \<Rightarrow> next)
      (entry_keys (db w')) (executed (db w'))" by (auto split: sum.splits)
  with assms(1) have "tracked (entry_keys (db w')) (executed (db w'))
      (us @ opt_list (case r of Inl _ \<Rightarrow> None | Inr next \<Rightarrow> next) @ vs)"
    by (intro tracked_moves) auto
  moreover have "sound (db w')"
    using keeps_sound [OF advance_evolves advance_rules [of "\<lambda>_. True", simplified], of w e j] assms by simp
  ultimately show ?thesis by (cases r) simp_all
qed

lemma job_failed_inv: "inflow_inv (w, js) \<Longrightarrow> inflow_inv (snd (job_failed e p x w), js)"
  by (rule service_inv) (rule job_failed_keeps)+

lemma late_write_inv:
  assumes "inflow_inv (w, js)"
  shows "inflow_inv (snd (updateStatus_resume e dto biz actor found w), js)"
    and "inflow_inv (snd (handleStatusChange_resume e x a target from act current w), js)"
  by (rule quiet_inv [OF _ late_writes_keep(2,3) assms], rule keepsD [OF late_writes_keep(1)], assumption)
    (rule quiet_inv [OF _ late_writes_keep(5,6) assms], rule keepsD [OF late_writes_keep(4)], assumption)

lemma lose_inv: "inflow_inv (w, us @ js @ vs) \<Longrightarrow> inflow_inv (w, us @ vs)"
  by (simp only: inflow_inv.simps tracked_split)

lemma inflow_step_inv:
  assumes "inflow_step e s t" "inflow_inv s"
  shows "inflow_inv t"
  using assms
proof (induction rule: inflow_step.induct)
  case (deliver w js p)
  then show ?case using tracked_split [of _ _ js "[Arrived p]" "[]"] by simp
next
  case (proceed j w nxt w' us vs)
  from advance_inv [OF proceed(2,1)] show ?case by simp
next
  case (fail j w x w' us vs)
  from advance_inv [OF fail(2,1)] show ?case by (intro job_failed_inv) simp
next
  case (lose w us j vs)
  from lose_inv [OF this] show ?case .
next
  case (request w js srv rq)
  then show ?case
    by (intro service_inv http_accounts.respond_inv http_keys.respond_inv http_entries.respond_inv)
next
  case (retry w js q n)
  then show ?case by (intro service_inv keeps_intro)
next
  case (scan w js)
  then show ?case by (intro service_inv scheduler_evolves)
qed (rule late_write_inv, assumption)+

interpretation inflows: transition_system "\<lambda>s. inflow_inv s \<and> snd s = []" "inflow_step e" inflow_inv for e
  by unfold_locales (auto intro: inflow_step_inv)


section \<open>An atomic run is one of the interleavings\<close>

text \<open>The parts that are left: each part makes the job smaller.\<close>

fun phase :: "job \<Rightarrow> nat" where
  "phase (Arrived p) = 5"
| "phase (Gated p a c) = 4"
| "phase (Booked p a n) = 3"
| "phase (Matched p a ms) = 2"
| "phase (Running p a r todo ms) = 1"
| "phase (Finishing p a ms) = 0"

fun rules_left :: "job \<Rightarrow> nat" where
  "rules_left (Running p a r todo ms) = length todo"
| "rules_left _ = 0"

lemma wp_any:
  assumes "\<And>x d'. wp d' Q (\<lambda>_. True) (f x)"
  shows "wp d Q (\<lambda>_. True) (bnd m f)"
  by (rule wp_bnd) (use assms in \<open>auto simp: wp_def [of d] split: prod.split sum.split\<close>)

lemma advance_progress:
  assumes "advance e j w = (Inr (Some j'), w')"
  shows "payload_of_job j' = payload_of_job j" "(j', j) \<in> measures [phase, rules_left]"
proof -
  have "wp d (\<lambda>next _. \<forall>j'. next = Some j' \<longrightarrow>
      payload_of_job j' = payload_of_job j \<and> (j', j) \<in> measures [phase, rules_left]) (\<lambda>_. True) (advance e j)" for d
    by (induction e j rule: advance.induct; simp only: advance.simps)
      (auto intro!: wp_if wp_any wp_ret split: option.splits)
  from wpD_Inr [OF this refl assms]
  show "payload_of_job j' = payload_of_job j" "(j', j) \<in> measures [phase, rules_left]" by simp_all
qed

lemma job_run:
  "(inflow_step e)\<^sup>*\<^sup>* (w, js @ [j]) (snd (catch (rest_of_job e j) (job_failed e (payload_of_job j)) w), js)"
proof (induction j arbitrary: w rule: wf_induct_rule [OF wf_measures [of "[phase, rules_left]"]])
  case (1 j)
  obtain r w1 where adv: "advance e j w = (r, w1)" by fastforce
  show ?case
  proof (cases r)
    case (Inl x)
    have "rest_of_job e j w = (Inl x, w1)" by (subst resume_job) (simp add: bnd_def adv Inl)
    with fail [OF adv [unfolded Inl], of js "[]"] show ?thesis by (simp add: catch_def)
  next
    case (Inr nxt)
    note step = proceed [OF adv [unfolded Inr], of js "[]"]
    show ?thesis
    proof (cases nxt)
      case None
      have "rest_of_job e j w = (Inr (), w1)" by (subst resume_job) (simp add: bnd_def ret_def adv Inr None)
      with step None show ?thesis by (simp add: catch_def)
    next
      case (Some j')
      note prog = advance_progress [OF adv [unfolded Inr Some]]
      have "rest_of_job e j w = rest_of_job e j' w1" by (subst resume_job) (simp add: bnd_def adv Inr Some)
      with step 1 [OF prog(2), of w1] Some prog(1) show ?thesis
        by (simp add: catch_def converse_rtranclp_into_rtranclp)
    qed
  qed
qed

section \<open>Properties\<close>

text \<open>The worker as one operation is a run of the interleaved system: whatever the payload and the world, delivering a
  job and advancing it to its end leads to the same world as \<open>process\<close>.\<close>

lemma worker_run_interleaves:
  "(inflow_step e)\<^sup>*\<^sup>* (w, js) (snd (WebhookProcessor_process e p w), js)"
  using job_run [of e w js "Arrived p"] deliver [of e w js p]
  by (simp add: process_catches converse_rtranclp_into_rtranclp)

text \<open>C5: a rule acts at most once on an inflow. Deliveries of the same event may run side by side, fail, and be lost
  with their worker at any point between two parts; requests, retries, the scheduler and late status writes may come
  between any two parts. At every moment no rule has two executions for one ledger entry, every execution belongs to an
  entry, the running totals are right, and no two jobs past the booking work on the same transaction.\<close>

theorem each_rule_acts_once:
  assumes "sound (db w)" "keys_ok (entry_keys (db w)) (executed (db w))"
    and "(inflow_step e)\<^sup>*\<^sup>* (w, []) (w', js)"
  shows "distinct (executed (db w')) \<and> snd ` set (executed (db w')) \<subseteq> fst ` set (entry_keys (db w')) \<and>
    ledger_inv (db w') \<and> distinct (concat (map booked_refs js))"
proof -
  have "inflow_inv (w, [])" using assms(1,2) by (simp add: tracked_def)
  from inflows.steps_inv [OF assms(3) this] show ?thesis by (simp add: sound_def tracked_def keys_ok_def)
qed

text \<open>A schedule: the position of the job to advance, for each part.\<close>

fun run_part :: "env \<Rightarrow> nat \<Rightarrow> inflow_state \<Rightarrow> inflow_state" where
  "run_part e n (w, js) =
     (if length js \<le> n then (w, js)
      else case advance e (js ! n) w of
        (Inr next, w') \<Rightarrow> (w', take n js @ opt_list next @ drop (Suc n) js)
      | (Inl x, w') \<Rightarrow> (snd (job_failed e (payload_of_job (js ! n)) x w'), take n js @ drop (Suc n) js))"

lemma run_part_step: "(inflow_step e)\<^sup>*\<^sup>* s (run_part e n s)"
proof (cases s)
  case (Pair w js)
  show ?thesis
  proof (cases "length js \<le> n")
    case False
    then have js: "js = take n js @ [js ! n] @ drop (Suc n) js" by (simp add: id_take_nth_drop [symmetric])
    obtain r w' where adv: "advance e (js ! n) w = (r, w')" by fastforce
    show ?thesis
    proof (cases r)
      case (Inl x)
      with fail [of e "js ! n" w x w' "take n js" "drop (Suc n) js"] adv False js Pair show ?thesis by auto
    next
      case (Inr nxt)
      with proceed [of e "js ! n" w nxt w' "take n js" "drop (Suc n) js"] adv False js Pair show ?thesis by auto
    qed
  qed (simp add: Pair)
qed

lemma schedule_steps: "(inflow_step e)\<^sup>*\<^sup>* s (fold (run_part e) ns s)"
proof (induction ns arbitrary: s)
  case (Cons n ns)
  show ?case unfolding fold_simps comp_apply by (rule rtranclp_trans [OF run_part_step Cons])
qed simp

text \<open>Two deliveries of one event, both past the duplicate check before either books.\<close>

definition demo_race :: inflow_state where
  "demo_race = fold (run_part demo_env) [0, 1, 0, 1, 0, 0, 0, 0, 0]
     (demo_rules_world, [Arrived demo_payload, Arrived demo_payload])"

theorem each_rule_acts_once_witness:
  "distinct (executed (db (fst demo_race))) \<and> length (executed (db (fst demo_race))) = 1 \<and> snd demo_race = []"
proof -
  have "(inflow_step demo_env)\<^sup>*\<^sup>* (demo_rules_world, []) (demo_rules_world, [Arrived demo_payload, Arrived demo_payload])"
    using deliver [of demo_env demo_rules_world "[]" demo_payload]
      deliver [of demo_env demo_rules_world "[Arrived demo_payload]" demo_payload] by auto
  then have "(inflow_step demo_env)\<^sup>*\<^sup>* (demo_rules_world, []) (fst demo_race, snd demo_race)"
    unfolding demo_race_def prod.collapse by (rule rtranclp_trans) (rule schedule_steps)
  moreover have "sound (db demo_rules_world)" "keys_ok (entry_keys (db demo_rules_world)) (executed (db demo_rules_world))"
    by (simp_all add: sound_def keys_ok_def ledger_inv_def run_ok_by_def entry_keys_def demo_rules_world_def demo_rule_def
        demo_defs)
  ultimately have "distinct (executed (db (fst demo_race)))" by (blast dest: each_rule_acts_once)
  moreover have "length (executed (db (fst demo_race))) = 1" by code_simp
  moreover have "snd demo_race = []" by code_simp
  ultimately show ?thesis by blast
qed


text \<open>The account has been closed since both read it.\<close>

definition demo_closed_since :: world where
  "demo_closed_since = demo_rules_world\<lparr>db := (db demo_rules_world)\<lparr>t_account := [demo_account\<lparr>acc_status := CLOSED\<rparr>]\<rparr>\<rparr>"


end
