(* ===== verification/App_Setup.thy ===== *)
theory App_Setup
  imports Http_Isolation "HOL-Library.AList"
begin

text \<open>
  Starting the application: the environment variables (\<open>src/config/config.ts\<close>), what the configuration gives the
  services and the server (\<open>src/main.ts\<close>, \<open>src/app.module.ts\<close>), the serializer of the request log, and the seed
  script (\<open>prisma/seed.ts\<close>).
\<close>

section \<open>Configuration\<close>

datatype node_env = Development | Production | Test

record appConfig =
  ac_NODE_ENV :: node_env
  ac_PORT :: rat
  ac_APP_VERSION :: string
  ac_ADMIN_SECRET :: string
  ac_DATABASE_URL :: string
  ac_REDIS_URL :: string
  ac_DEMO_MODE_ENABLED :: bool
  ac_DEMO_WEBHOOK_URL :: string
  ac_NOMBA_API_BASE_URL :: string
  ac_NOMBA_CLIENT_ID :: string
  ac_NOMBA_CLIENT_SECRET :: string
  ac_NOMBA_ACCOUNT_ID :: string
  ac_NOMBA_SUB_ACCOUNT_ID :: string
  ac_NOMBA_WEBHOOK_HMAC_SECRET :: string
  ac_NOMBA_MOCK_MODE :: bool
  ac_ENCRYPTION_KEY :: string
  ac_CORS_ORIGINS :: string
  ac_THROTTLE_ADMIN_LIMIT :: rat
  ac_THROTTLE_ADMIN_TTL :: rat
  ac_THROTTLE_WEBHOOK_LIMIT :: rat
  ac_THROTTLE_WEBHOOK_TTL :: rat
  ac_THROTTLE_API_LIMIT :: rat
  ac_THROTTLE_API_TTL :: rat

text \<open>\<open>process.env\<close>, and the field schemas: each reads one variable.\<close>

type_synonym variables = "string \<Rightarrow> string option"

fun parse_node_env :: "string option \<Rightarrow> node_env option" where
  "parse_node_env None = Some Development"
| "parse_node_env (Some s) =
     (if s = ''development'' then Some Development else if s = ''production'' then Some Production
      else if s = ''test'' then Some Test else None)"

fun z_min :: "nat \<Rightarrow> string option \<Rightarrow> string option" where
  "z_min n None = None"
| "z_min n (Some s) = (if n \<le> length s then Some s else None)"

text \<open>\<open>z.coerce.number()\<close> takes \<open>Number(s)\<close> and refuses what is not a finite number.\<close>

fun z_coerce_number :: "env \<Rightarrow> rat \<Rightarrow> string option \<Rightarrow> rat option" where
  "z_coerce_number e dflt None = Some dflt"
| "z_coerce_number e dflt (Some s) = (case to_number e (JStr s) of Fin x \<Rightarrow> Some x | _ \<Rightarrow> None)"

definition is_true :: "string option \<Rightarrow> bool" where
  "is_true v = (v = Some ''true'')"

definition envSchema :: "env \<Rightarrow> variables \<Rightarrow> appConfig option" where
  "envSchema e pe =
     Option.bind (parse_node_env (pe ''NODE_ENV'')) (\<lambda>nodeEnv.
     Option.bind (z_coerce_number e 3000 (pe ''PORT'')) (\<lambda>port.
     Option.bind (z_min 1 (pe ''ADMIN_SECRET'')) (\<lambda>adminSecret.
     Option.bind (z_min 1 (pe ''DATABASE_URL'')) (\<lambda>databaseUrl.
     Option.bind (z_min 1 (pe ''REDIS_URL'')) (\<lambda>redisUrl.
     Option.bind (z_min 1 (pe ''NOMBA_API_BASE_URL'')) (\<lambda>baseUrl.
     Option.bind (z_min 32 (pe ''ENCRYPTION_KEY'')) (\<lambda>encryptionKey.
     Option.bind (z_coerce_number e 10 (pe ''THROTTLE_ADMIN_LIMIT'')) (\<lambda>adminLimit.
     Option.bind (z_coerce_number e 60000 (pe ''THROTTLE_ADMIN_TTL'')) (\<lambda>adminTtl.
     Option.bind (z_coerce_number e 100 (pe ''THROTTLE_WEBHOOK_LIMIT'')) (\<lambda>webhookLimit.
     Option.bind (z_coerce_number e 60000 (pe ''THROTTLE_WEBHOOK_TTL'')) (\<lambda>webhookTtl.
     Option.bind (z_coerce_number e 300 (pe ''THROTTLE_API_LIMIT'')) (\<lambda>apiLimit.
     Option.bind (z_coerce_number e 60000 (pe ''THROTTLE_API_TTL'')) (\<lambda>apiTtl.
     Some \<lparr>ac_NODE_ENV = nodeEnv, ac_PORT = port, ac_APP_VERSION = getOr (pe ''APP_VERSION'') ''1.0.0'',
       ac_ADMIN_SECRET = adminSecret, ac_DATABASE_URL = databaseUrl, ac_REDIS_URL = redisUrl,
       ac_DEMO_MODE_ENABLED = is_true (pe ''DEMO_MODE_ENABLED''),
       ac_DEMO_WEBHOOK_URL = getOr (pe ''DEMO_WEBHOOK_URL'') [], ac_NOMBA_API_BASE_URL = baseUrl,
       ac_NOMBA_CLIENT_ID = getOr (pe ''NOMBA_CLIENT_ID'') [],
       ac_NOMBA_CLIENT_SECRET = getOr (pe ''NOMBA_CLIENT_SECRET'') [],
       ac_NOMBA_ACCOUNT_ID = getOr (pe ''NOMBA_ACCOUNT_ID'') [],
       ac_NOMBA_SUB_ACCOUNT_ID = getOr (pe ''NOMBA_SUB_ACCOUNT_ID'') [],
       ac_NOMBA_WEBHOOK_HMAC_SECRET = getOr (pe ''NOMBA_WEBHOOK_HMAC_SECRET'') [],
       ac_NOMBA_MOCK_MODE = is_true (pe ''NOMBA_MOCK_MODE''), ac_ENCRYPTION_KEY = encryptionKey,
       ac_CORS_ORIGINS = getOr (pe ''CORS_ORIGINS'') ''*'',
       ac_THROTTLE_ADMIN_LIMIT = adminLimit, ac_THROTTLE_ADMIN_TTL = adminTtl,
       ac_THROTTLE_WEBHOOK_LIMIT = webhookLimit, ac_THROTTLE_WEBHOOK_TTL = webhookTtl,
       ac_THROTTLE_API_LIMIT = apiLimit, ac_THROTTLE_API_TTL = apiTtl\<rparr>)))))))))))))"

text \<open>What the services read of the configuration.\<close>

definition configured_env :: "appConfig \<Rightarrow> env \<Rightarrow> env" where
  "configured_env c e = e\<lparr>cfg_mock := ac_NOMBA_MOCK_MODE c, cfg_admin_secret := ac_ADMIN_SECRET c,
     cfg_encryption_key := ac_ENCRYPTION_KEY c, cfg_nomba_base_url := ac_NOMBA_API_BASE_URL c\<rparr>"

definition configured_server :: "appConfig \<Rightarrow> server \<Rightarrow> server" where
  "configured_server c srv =
     srv\<lparr>srv_demo_mode := ac_DEMO_MODE_ENABLED c, srv_version := ac_APP_VERSION c\<rparr>"

text \<open>The process exits when the variables are not valid; otherwise it serves requests.\<close>

definition bootstrap :: "env \<Rightarrow> server \<Rightarrow> variables \<Rightarrow> (http_request \<Rightarrow> response act) option" where
  "bootstrap e srv pe =
     map_option (\<lambda>c. respond (configured_env c e) (configured_server c srv)) (envSchema e pe)"

definition trim :: "string \<Rightarrow> string" where
  "trim s = rev (dropWhile is_space (rev (dropWhile is_space s)))"

datatype cors_origin = AnyOrigin | Origins "string list"

definition cors_origins :: "appConfig \<Rightarrow> cors_origin" where
  "cors_origins c =
     (if ac_CORS_ORIGINS c = ''*'' then AnyOrigin
      else Origins (map trim (split_on (CHR '','') (ac_CORS_ORIGINS c))))"

section \<open>The request log\<close>

definition REDACTED_HEADERS :: "string list" where
  "REDACTED_HEADERS = [''x-api-key'', ''x-admin-secret'', ''authorization'', ''cookie'']"

definition REDACTED_BODY_FIELDS :: "string list" where
  "REDACTED_BODY_FIELDS = [''nombaClientSecret'', ''nombaWebhookSecret'', ''password'', ''secret'', ''token'']"

text \<open>\<open>if (o[k]) o[k] = '[REDACTED]'\<close> for every listed key \<open>k\<close>, on a copy of the object.\<close>

definition redact :: "string list \<Rightarrow> (string \<times> json) list \<Rightarrow> (string \<times> json) list" where
  "redact ks obj =
     fold (\<lambda>k copy. case map_of copy k of
         Some v \<Rightarrow> if js_truthy v then AList.update k (JStr ''[REDACTED]'') copy else copy
       | None \<Rightarrow> copy) ks obj"

text \<open>The serializer of a logged request: a copy of the request (its own properties) whose headers and body are
  redacted copies. An absent object spreads to the empty one.\<close>

definition spread :: "json option \<Rightarrow> (string \<times> json) list" where
  "spread x = (case x of Some (JObj kvs) \<Rightarrow> kvs | _ \<Rightarrow> [])"

definition serialize_req :: "(string \<times> json) list \<Rightarrow> (string \<times> json) list" where
  "serialize_req req =
     (let headers = redact REDACTED_HEADERS (spread (map_of req ''headers''));
          body = redact REDACTED_BODY_FIELDS (spread (map_of req ''body''))
      in AList.update ''body'' (JObj body) (AList.update ''headers'' (JObj headers) req))"

section \<open>The seed script\<close>

text \<open>\<open>upsert\<close> by a unique key: one statement that updates the row or creates it.\<close>

definition upsert_row ::
  "env \<Rightarrow> (database \<Rightarrow> 'r \<Rightarrow> (bool \<times> db_error) list) \<Rightarrow> (database \<Rightarrow> 'r list) \<Rightarrow>
   ('r list \<Rightarrow> database \<Rightarrow> database) \<Rightarrow> ('r \<Rightarrow> bool) \<Rightarrow> ('r \<Rightarrow> 'r) \<Rightarrow> (string \<Rightarrow> int \<Rightarrow> 'r) \<Rightarrow> 'r act" where
  "upsert_row e constraints rows put P f mk = prisma e (\<lambda>n d.
     case find P (rows d) of
       Some r \<Rightarrow> Inr (f r, put (update_rows P f (rows d)) d)
     | None \<Rightarrow>
         let r = mk (env_cuid e n) (env_now e n) in
         (case first_violation (constraints d r) of
            Some x \<Rightarrow> Inl x
          | None \<Rightarrow> Inr (r, put (rows d @ [r]) d)))"

definition judges_email :: string where
  "judges_email = ''judges@accountos.demo''"

definition upsert_business :: "env \<Rightarrow> (business \<Rightarrow> business) \<Rightarrow> (string \<Rightarrow> int \<Rightarrow> business) \<Rightarrow> business act" where
  "upsert_business e = upsert_row e (\<lambda>d r. [(taken biz_id (t_business d) r, P2002)])
     t_business (\<lambda>rs d. d\<lparr>t_business := rs\<rparr>) (\<lambda>r. biz_email r = judges_email)"

definition upsert_bucket ::
  "env \<Rightarrow> string \<Rightarrow> string \<Rightarrow> (treasuryBucket \<Rightarrow> treasuryBucket) \<Rightarrow> (string \<Rightarrow> int \<Rightarrow> treasuryBucket) \<Rightarrow>
   treasuryBucket act" where
  "upsert_bucket e businessId ref = upsert_row e (\<lambda>d r.
     [(taken bkt_id (t_bucket d) r, P2002), (missing biz_id (t_business d) (bkt_businessId r), P2003)])
     t_bucket (\<lambda>rs d. d\<lparr>t_bucket := rs\<rparr>) (\<lambda>r. bkt_businessId r = businessId \<and> bkt_bucketRef r = ref)"

text \<open>A secret is stored encrypted, or not at all when there is no key.\<close>

definition seal_secret :: "env \<Rightarrow> string option \<Rightarrow> string option \<Rightarrow> string option act" where
  "seal_secret e encKey v =
     (case encKey of
        Some k \<Rightarrow> if str_truthy v then bnd (encrypt e (the v) k) (\<lambda>c. ret (Some c)) else ret None
      | None \<Rightarrow> ret None)"

definition seeded_update :: "variables \<Rightarrow> string option \<Rightarrow> string option \<Rightarrow> business \<Rightarrow> business" where
  "seeded_update pe clientSecret webhookSecret b = b\<lparr>
     biz_name := ''Hackathon Judges'',
     biz_nombaAccountId :=
       (if str_truthy (pe ''NOMBA_ACCOUNT_ID'') then pe ''NOMBA_ACCOUNT_ID'' else biz_nombaAccountId b),
     biz_nombaSubAccountId :=
       (if str_truthy (pe ''NOMBA_SUB_ACCOUNT_ID'') then pe ''NOMBA_SUB_ACCOUNT_ID'' else biz_nombaSubAccountId b),
     biz_nombaClientId :=
       (if str_truthy (pe ''NOMBA_CLIENT_ID'') then pe ''NOMBA_CLIENT_ID'' else biz_nombaClientId b),
     biz_nombaClientSecret := orElse clientSecret (biz_nombaClientSecret b),
     biz_nombaWebhookSecret := orElse webhookSecret (biz_nombaWebhookSecret b)\<rparr>"

definition seeded_business ::
  "variables \<Rightarrow> string option \<Rightarrow> string option \<Rightarrow> string \<Rightarrow> int \<Rightarrow> business" where
  "seeded_business pe clientSecret webhookSecret i t = \<lparr>
     biz_id = i, biz_name = ''Hackathon Judges'', biz_email = judges_email, biz_webhookUrl = None,
     biz_nombaAccountId = pe ''NOMBA_ACCOUNT_ID'', biz_nombaSubAccountId = pe ''NOMBA_SUB_ACCOUNT_ID'',
     biz_nombaClientId = pe ''NOMBA_CLIENT_ID'', biz_nombaClientSecret = clientSecret,
     biz_nombaWebhookSecret = webhookSecret, biz_createdAt = t\<rparr>"

definition judges_key :: "string \<Rightarrow> string \<Rightarrow> string \<Rightarrow> string \<Rightarrow> int \<Rightarrow> apiKey" where
  "judges_key keyHash keyPrefix businessId i t = \<lparr>
     key_id = i, key_keyHash = keyHash, key_keyPrefix = keyPrefix, key_name = ''Judges Key'',
     key_businessId = businessId, key_lastUsedAt = None, key_expiresAt = None, key_revokedAt = None,
     key_createdAt = t\<rparr>"

definition active_judges_key :: "string \<Rightarrow> apiKey \<Rightarrow> bool" where
  "active_judges_key businessId k =
     (key_businessId k = businessId \<and> key_name k = ''Judges Key'' \<and> key_revokedAt k = None)"

definition seed_buckets :: "(string \<times> string \<times> bucket_type) list" where
  "seed_buckets = [(''payroll'', ''Payroll Pool'', PAYROLL), (''tax-reserve'', ''Tax Reserve'', TAX_RESERVE),
     (''savings'', ''Savings'', SAVINGS)]"

definition seed_bucket :: "env \<Rightarrow> string \<Rightarrow> string \<times> string \<times> bucket_type \<Rightarrow> unit act" where
  "seed_bucket e businessId b =
     (case b of (ref, name, ty) \<Rightarrow>
       seqm (upsert_bucket e businessId ref (\<lambda>r. r\<lparr>bkt_name := name, bkt_bucketType := ty\<rparr>)
         (new_bucket \<lparr>cb_bucketRef = ref, cb_name = name, cb_bucketType = ty, cb_description = None,
            cb_settlementType = None, cb_settlementAccountName = None, cb_settlementAccountNumber = None,
            cb_settlementBankCode = None\<rparr> businessId))
       (ret ()))"

text \<open>
  The script. Both objects of the upsert are built before the call, so each secret is encrypted twice.
  The result is the key that is printed.
\<close>

definition seed_main :: "env \<Rightarrow> variables \<Rightarrow> string act" where
  "seed_main e pe =
     (let encKey = (if str_truthy (pe ''ENCRYPTION_KEY'') then Some (deriveKey e (the (pe ''ENCRYPTION_KEY''))) else None);
          clientSecret = pe ''NOMBA_CLIENT_SECRET''; webhookSecret = pe ''NOMBA_WEBHOOK_HMAC_SECRET'' in
      bnd (seal_secret e encKey clientSecret) (\<lambda>c1.
      bnd (seal_secret e encKey webhookSecret) (\<lambda>v1.
      bnd (seal_secret e encKey clientSecret) (\<lambda>c2.
      bnd (seal_secret e encKey webhookSecret) (\<lambda>v2.
      bnd (upsert_business e (seeded_update pe c1 v1) (seeded_business pe c2 v2)) (\<lambda>b.
      bnd (randomBytes e) (\<lambda>bytes.
      let rawKey = ''acctos_live_'' @ to_hex bytes in
      bnd (now e) (\<lambda>t.
      seqm (update_many e t_apiKey (\<lambda>rs d. d\<lparr>t_apiKey := rs\<rparr>) (active_judges_key (biz_id b))
              (\<lambda>k. k\<lparr>key_revokedAt := Some t\<rparr>))
      (seqm (create_apiKey e (judges_key (key_hash e rawKey) (take 20 rawKey) (biz_id b)))
      (seqm (foreach seed_buckets (seed_bucket e (biz_id b)))
      (ret rawKey)))))))))))"

section \<open>Lemmas\<close>

lemma z_min_SomeD: "z_min n v = Some s \<Longrightarrow> v = Some s \<and> n \<le> length s"
  by (cases v) (auto split: if_splits)

lemma envSchema_secrets:
  assumes "envSchema e pe = Some c"
  shows "pe ''ADMIN_SECRET'' = Some (ac_ADMIN_SECRET c)" "ac_ADMIN_SECRET c \<noteq> []"
    "pe ''ENCRYPTION_KEY'' = Some (ac_ENCRYPTION_KEY c)" "32 \<le> length (ac_ENCRYPTION_KEY c)"
  using assms unfolding envSchema_def
  by (auto simp: bind_eq_Some_conv dest!: z_min_SomeD)

text \<open>Redaction, property by property.\<close>

lemma redact_Cons:
  "redact (k # ks) obj = redact ks (case map_of obj k of
       Some v \<Rightarrow> if js_truthy v then AList.update k (JStr ''[REDACTED]'') obj else obj
     | None \<Rightarrow> obj)"
  by (simp add: redact_def)

lemma map_of_redact:
  "map_of (redact ks obj) f =
     map_option (\<lambda>v. if f \<in> set ks \<and> js_truthy v then JStr ''[REDACTED]'' else v) (map_of obj f)"
proof (induction ks arbitrary: obj)
  case Nil
  show ?case by (simp add: redact_def option.map_ident)
next
  case (Cons k ks)
  show ?case
    unfolding redact_Cons Cons by (cases "map_of obj k"; cases "map_of obj f") (auto simp: update_conv')
qed

lemma js_truthy_iff: "js_truthy v = (v \<notin> {JNull, JBool False, JNum 0, JStr []})"
  by (cases v) auto

text \<open>The seed script.\<close>

lemma wp_upsert_row [wp_rules]:
  assumes "\<And>r. find P (rows d) = Some r \<Longrightarrow> Q (f r) (put (update_rows P f (rows d)) d)"
    and "\<And>i t. find P (rows d) = None \<Longrightarrow> first_violation (cs d (mk i t)) = None \<Longrightarrow>
      Q (mk i t) (put (rows d @ [mk i t]) d)"
    and "E d"
  shows "wp d Q E (upsert_row e cs rows put P f mk)"
  unfolding upsert_row_def
  by (rule wp_prisma) (auto simp: Let_def assms split: option.splits)

lemma keeps_seal_secret [keeps_intro]: "keeps_db J (seal_secret e k v)"
  unfolding seal_secret_def by (intro keeps_intro)

lemma wp_seal_secret [wp_rules]: "(\<And>c. Q c d) \<Longrightarrow> wp d Q E (seal_secret e k v)"
  unfolding seal_secret_def by (intro wp_rules) auto

definition bucket_keys :: "database \<Rightarrow> (string \<times> string) set" where
  "bucket_keys d = bkt_key ` set (t_bucket d)"

text \<open>A seeded bucket exists afterwards, and nothing but the buckets changes.\<close>

lemma wp_seed_bucket:
  assumes "\<And>d'. t_business d' = t_business d \<Longrightarrow> t_apiKey d' = t_apiKey d \<Longrightarrow>
      insert (i, fst b) (bucket_keys d) \<subseteq> bucket_keys d' \<Longrightarrow> Q () d'"
    and "E d"
  shows "wp d Q E (seed_bucket e i b)"
proof -
  obtain ref name ty where b: "b = (ref, name, ty)" by (cases b)
  let ?P = "\<lambda>r. bkt_businessId r = i \<and> bkt_bucketRef r = ref" and ?f = "\<lambda>r. r\<lparr>bkt_name := name, bkt_bucketType := ty\<rparr>"
  have "map bkt_key (update_rows ?P ?f (t_bucket d)) = map bkt_key (t_bucket d)"
    by (rule map_update_rows) (simp add: bkt_key_def)
  then have keys: "bkt_key ` set (update_rows ?P ?f (t_bucket d)) = bkt_key ` set (t_bucket d)"
    by (simp only: set_map [symmetric])
  have there: "(i, ref) \<in> bkt_key ` set (t_bucket d)" if "find ?P (t_bucket d) = Some x" for x
  proof -
    from that have "(i, ref) = bkt_key x" "x \<in> set (t_bucket d)" by (auto simp: bkt_key_def dest: find_SomeD)
    then show ?thesis by (rule image_eqI)
  qed
  show ?thesis
    unfolding b seed_bucket_def upsert_bucket_def prod.case
  proof (intro wp_rules assms)
    fix x assume "find ?P (t_bucket d) = Some x"
    from there [OF this] show "insert (i, fst b) (bucket_keys d) \<subseteq>
        bucket_keys (d\<lparr>t_bucket := update_rows ?P ?f (t_bucket d)\<rparr>)"
      by (simp add: bucket_keys_def keys b)
  qed (simp_all add: b bucket_keys_def bkt_key_def new_bucket_def subset_insertI2)
qed

text \<open>What the script leaves behind for the printed key.\<close>

definition seeded :: "env \<Rightarrow> string \<Rightarrow> database \<Rightarrow> bool" where
  "seeded e raw d =
     (\<exists>k b. find_key (key_hash e raw) d = Some k \<and> key_business k d = Some b \<and> biz_email b = judges_email \<and>
        key_revokedAt k = None \<and> key_expiresAt k = None \<and>
        filter (active_judges_key (biz_id b)) (t_apiKey d) = [k] \<and>
        (\<forall>x \<in> set seed_buckets. (biz_id b, fst x) \<in> bucket_keys d))"

lemma wp_upsert_judges:
  assumes "distinct (map biz_id (t_business d))"
    and "\<And>b d'. t_apiKey d' = t_apiKey d \<Longrightarrow> biz_email b = judges_email \<Longrightarrow>
      find (\<lambda>x. biz_id x = biz_id b) (t_business d') = Some b \<Longrightarrow> Q b d'"
    and "E d"
  shows "wp d Q E (upsert_business e (seeded_update pe c1 v1) (seeded_business pe c2 v2))"
  unfolding upsert_business_def
proof (intro wp_rules assms(2,3))
  let ?P = "\<lambda>r. biz_email r = judges_email" and ?f = "seeded_update pe c1 v1"
  fix r assume r: "find ?P (t_business d) = Some r"
  then show "biz_email (?f r) = judges_email" by (auto simp: seeded_update_def dest: find_SomeD)
  have "distinct (map biz_id (update_rows ?P ?f (t_business d)))"
    by (subst map_update_rows) (simp_all add: seeded_update_def assms(1))
  moreover have "?f r \<in> set (update_rows ?P ?f (t_business d))"
    using find_SomeD [OF r] by (auto simp: set_update_rows)
  ultimately show "find (\<lambda>x. biz_id x = biz_id (?f r))
      (t_business (d\<lparr>t_business := update_rows ?P ?f (t_business d)\<rparr>)) = Some (?f r)"
    by (simp add: find_by_id)
next
  fix i t assume "first_violation [(taken biz_id (t_business d) (seeded_business pe c2 v2 i t), P2002)] = None"
  then show "find (\<lambda>x. biz_id x = biz_id (seeded_business pe c2 v2 i t))
      (t_business (d\<lparr>t_business := t_business d @ [seeded_business pe c2 v2 i t]\<rparr>)) = Some (seeded_business pe c2 v2 i t)"
    by (auto simp: taken_def image_iff split: if_splits intro!: find_snoc)
qed (simp_all add: seeded_business_def)

lemma none_left:
  "filter (active_judges_key i) (update_rows (active_judges_key i) (\<lambda>k. k\<lparr>key_revokedAt := Some t\<rparr>) ks) = []"
  by (induction ks) (auto simp: active_judges_key_def)

lemma seededI:
  assumes "t_apiKey d = ks @ [judges_key (key_hash e raw) p (biz_id b) i t]"
    and "key_hash e raw \<notin> set (map key_keyHash ks)" "filter (active_judges_key (biz_id b)) ks = []"
    and "find (\<lambda>x. biz_id x = biz_id b) (t_business d) = Some b" "biz_email b = judges_email"
    and "\<forall>x \<in> set seed_buckets. (biz_id b, fst x) \<in> bucket_keys d"
  shows "seeded e raw d"
proof -
  let ?k = "judges_key (key_hash e raw) p (biz_id b) i t"
  have k: "key_keyHash ?k = key_hash e raw" "key_businessId ?k = biz_id b" "key_revokedAt ?k = None"
    "key_expiresAt ?k = None" "active_judges_key (biz_id b) ?k"
    by (simp_all add: judges_key_def active_judges_key_def)
  with assms(1,2) have "find_key (key_hash e raw) d = Some ?k"
    by (auto simp: find_key_def image_iff intro!: find_snoc)
  moreover have "filter (active_judges_key (biz_id b)) (t_apiKey d) = [?k]" using assms(1,3) k by simp
  ultimately show ?thesis
    using assms(4-6) k unfolding seeded_def key_business_def by metis
qed

lemma wp_seed_main:
  assumes "distinct (map biz_id (t_business d))"
  shows "wp d (seeded e) (\<lambda>_. True) (seed_main e pe)"
  unfolding seed_main_def seed_buckets_def foreach.simps create_apiKey_def
  by (intro wp_rules wp_upsert_judges wp_seed_bucket assms TrueI, rule seededI)
    (auto simp: none_left seed_buckets_def taken_def judges_key_def split: if_splits)

text \<open>A public request without the admin secret.\<close>

lemma answer_public:
  assumes "not_admin e rq"
  shows "keeps_db J (answer e srv rq None r)"
proof -
  have "intercept e (idempotency_view rq None) st h = h" for st h
    by (simp add: intercept_def idempotency_view_def)
  then have "keeps_db J (bnd (intercept e (idempotency_view rq None) st
      (bnd (handle e srv rq None r) (\<lambda>x. lift_sum (BigIntSerialize x)))) (\<lambda>j. ret (Json j)))" for st
    by (simp only: handle_def option.case) (intro keeps_intro handle_public_keeps assms)
  moreover have "keeps_db J (with_business None f)" for f :: "apiKey \<Rightarrow> business \<Rightarrow> content act"
    by (simp add: with_business_def keeps_throw)
  ultimately show ?thesis unfolding answer_def by (cases r) (simp_all only: route.case)
qed

lemma respond_public:
  assumes "find_route (hr_method rq) (hr_path rq) = Some r" "is_public r" "not_admin e rq"
  shows "keeps_db J (respond e srv rq)"
proof -
  have guard: "bnd (bnd (canActivate e True k) (\<lambda>who. seqm m (ret who))) f = seqm m (f None)"
    for k m and f :: "(apiKey \<times> business) option \<Rightarrow> response act"
    by (auto simp: canActivate_def bnd_def ret_def split: prod.split sum.split)
  have "respond e srv rq =
      catch (seqm (ThrottlerGuard srv r) (identified e srv rq None r)) (error_response e rq None)"
    by (simp only: respond_def assms(1,2) option.case eqTrueI guard)
  then show ?thesis
    by (simp only: identified_def Let_def) (intro keeps_intro answer_public, simp add: assms(3))
qed

section \<open>Properties\<close>

text \<open>C30: the printed key works, and it is the only one. Whatever was in the database, when the seed script ends it
  has printed a key that the API accepts, as a key of the judges' business that does not expire; every other
  key of that name is revoked, and the three buckets exist.\<close>

theorem seed_key_accepted:
  assumes "distinct (map biz_id (t_business (db w)))" "seed_main e pe w = (Inr raw, w')"
    and "env_fault e (tick w') = None"
  shows "\<exists>k b. fst (validateApiKey e raw w') = Inr (k, b) \<and> biz_email b = judges_email \<and> key_expiresAt k = None \<and>
    filter (active_judges_key (biz_id b)) (t_apiKey (db w')) = [k] \<and>
    {(biz_id b, ''payroll''), (biz_id b, ''tax-reserve''), (biz_id b, ''savings'')} \<subseteq> bkt_key ` set (t_bucket (db w'))"
proof -
  from wpD_Inr [OF wp_seed_main [OF assms(1)] refl assms(2)] obtain k b where
    k: "find_key (key_hash e raw) (db w') = Some k" "key_business k (db w') = Some b" "key_revokedAt k = None"
      "key_expiresAt k = None" and
    rest: "biz_email b = judges_email" "filter (active_judges_key (biz_id b)) (t_apiKey (db w')) = [k]"
      "\<forall>x \<in> set seed_buckets. (biz_id b, fst x) \<in> bucket_keys (db w')"
    by (auto simp: seeded_def)
  have "fst (validateApiKey e raw w') = Inr (k, b)"
    using k assms(3)
    by (simp add: validateApiKey_def find_key_with_business_def prisma_def bnd_def now_def catch_def ret_def
        split: prod.split sum.split)
  with k rest show ?thesis by (auto simp: seed_buckets_def bucket_keys_def)
qed

definition demo_settings :: variables where
  "demo_settings = map_of [(''ENCRYPTION_KEY'', ''0123456789abcdef0123456789abcdef''), (''NOMBA_CLIENT_SECRET'', ''s''),
     (''ADMIN_SECRET'', ''admin''), (''DATABASE_URL'', ''db''), (''REDIS_URL'', ''redis''),
     (''NOMBA_API_BASE_URL'', ''https://nomba'')]"

theorem seed_key_accepted_witness:
  "\<exists>raw w'. seed_main demo_env demo_settings demo_world = (Inr raw, w') \<and>
     (\<exists>k b. fst (validateApiKey demo_env raw w') = Inr (k, b) \<and> biz_email b = judges_email \<and> key_expiresAt k = None \<and>
        filter (active_judges_key (biz_id b)) (t_apiKey (db w')) = [k])"
proof -
  have "\<not> isl (fst (seed_main demo_env demo_settings demo_world))" by code_simp
  then obtain raw w' where run: "seed_main demo_env demo_settings demo_world = (Inr raw, w')"
    by (cases "seed_main demo_env demo_settings demo_world"; cases "fst (seed_main demo_env demo_settings demo_world)") auto
  have "distinct (map biz_id (t_business (db demo_world)))" by (simp add: demo_defs)
  from seed_key_accepted [OF this run] run show ?thesis by (auto simp: demo_env_def)
qed

text \<open>C13: without the secret of the environment the public endpoints change nothing. An application that starts has
  a non-empty ADMIN_SECRET; a request to a public route can change a table only if it presents a secret whose
  digest, under a random key that \<open>timingSafeCompare\<close> draws, is the digest of ADMIN_SECRET: the secret itself
  or a text that collides with it. Whatever its body, a request without one leaves every table as it is.\<close>

theorem public_request_harmless:
  assumes "bootstrap e srv pe = Some serve"
    and "find_route (hr_method rq) (hr_path rq) = Some r" "is_public r"
  shows "pe ''ADMIN_SECRET'' \<notin> {None, Some []} \<and>
    (db (snd (serve rq w)) \<noteq> db w \<longrightarrow> (\<exists>s n. hr_adminSecret rq = Some s \<and>
       env_hmac e (env_random e n) s = env_hmac e (env_random e n) (the (pe ''ADMIN_SECRET''))))"
proof -
  from assms(1) obtain c where c: "envSchema e pe = Some c"
    "serve = respond (configured_env c e) (configured_server c srv)"
    by (auto simp: bootstrap_def)
  have "db (snd (serve rq w)) = db w" if "not_admin (configured_env c e) rq"
    using keepsD [OF respond_public [OF assms(2,3) that, of "\<lambda>d. d = db w"]] c(2) by simp
  then show ?thesis using envSchema_secrets(1,2) [OF c(1)] by (auto simp: not_admin_def configured_env_def)
qed

theorem public_request_harmless_witness:
  "\<exists>serve. bootstrap demo_env demo_server demo_settings = Some serve \<and>
     db (snd (serve (demo_call\<lparr>hr_path := [''api'', ''v1'', ''businesses''], hr_adminSecret := Some ''guess''\<rparr>) demo_tenants)) =
     db demo_tenants"
proof -
  let ?rq = "demo_call\<lparr>hr_path := [''api'', ''v1'', ''businesses''], hr_adminSecret := Some ''guess''\<rparr>"
  have "envSchema demo_env demo_settings \<noteq> None" by code_simp
  then obtain serve where s: "bootstrap demo_env demo_server demo_settings = Some serve" by (auto simp: bootstrap_def)
  moreover have "find_route (hr_method ?rq) (hr_path ?rq) = Some RegisterBusiness" by code_simp
  moreover have "env_hmac demo_env (env_random demo_env n) ''guess'' \<noteq>
      env_hmac demo_env (env_random demo_env n) (the (demo_settings ''ADMIN_SECRET''))" for n
    by (simp add: demo_settings_def demo_env_def)
  ultimately show ?thesis
    using public_request_harmless [OF s, of ?rq RegisterBusiness demo_tenants] s by auto
qed

text \<open>C29: the serializer of logged requests redacts the secrets and nothing else. In the request it returns, each
  of the headers x-api-key, x-admin-secret, authorization and cookie and each of the body fields
  nombaClientSecret, nombaWebhookSecret, password, secret and token that has a value reads '[REDACTED]'
  (null, false, zero and the empty string stand for no value and are kept); every other header, body field and
  property of the request is as it was.\<close>

theorem log_redacts_secrets:
  assumes "map_of req ''headers'' = Some (JObj hs)"
    and "map_of req ''body'' = Some (JObj body) \<or> map_of req ''body'' = None \<and> body = []"
  shows "\<exists>hs' body'. map_of (serialize_req req) = (map_of req)(''headers'' \<mapsto> JObj hs', ''body'' \<mapsto> JObj body') \<and>
    (\<forall>k. map_of hs' k =
       (if k \<in> {''x-api-key'', ''x-admin-secret'', ''authorization'', ''cookie''} \<and>
           map_of hs k \<notin> {None, Some JNull, Some (JBool False), Some (JNum 0), Some (JStr [])}
        then Some (JStr ''[REDACTED]'') else map_of hs k)) \<and>
    (\<forall>k. map_of body' k =
       (if k \<in> {''nombaClientSecret'', ''nombaWebhookSecret'', ''password'', ''secret'', ''token''} \<and>
           map_of body k \<notin> {None, Some JNull, Some (JBool False), Some (JNum 0), Some (JStr [])}
        then Some (JStr ''[REDACTED]'') else map_of body k))"
proof (intro exI conjI allI)
  show "map_of (serialize_req req) = (map_of req)
      (''headers'' \<mapsto> JObj (redact REDACTED_HEADERS hs), ''body'' \<mapsto> JObj (redact REDACTED_BODY_FIELDS body))"
    using assms by (auto simp: serialize_req_def spread_def update_conv')
  show "map_of (redact REDACTED_HEADERS hs) k =
      (if k \<in> {''x-api-key'', ''x-admin-secret'', ''authorization'', ''cookie''} \<and>
          map_of hs k \<notin> {None, Some JNull, Some (JBool False), Some (JNum 0), Some (JStr [])}
       then Some (JStr ''[REDACTED]'') else map_of hs k)" for k
    by (cases "map_of hs k") (auto simp: map_of_redact REDACTED_HEADERS_def js_truthy_iff)
  show "map_of (redact REDACTED_BODY_FIELDS body) k =
      (if k \<in> {''nombaClientSecret'', ''nombaWebhookSecret'', ''password'', ''secret'', ''token''} \<and>
          map_of body k \<notin> {None, Some JNull, Some (JBool False), Some (JNum 0), Some (JStr [])}
       then Some (JStr ''[REDACTED]'') else map_of body k)" for k
    by (cases "map_of body k") (auto simp: map_of_redact REDACTED_BODY_FIELDS_def js_truthy_iff)
qed

definition demo_logged :: "(string \<times> json) list" where
  "demo_logged = [(''method'', JStr ''POST''), (''headers'', JObj [(''host'', JStr ''h''), (''x-api-key'', JStr ''one'')]),
     (''body'', JObj [(''token'', JStr ''a''), (''name'', JStr ''n'')])]"

theorem log_redacts_secrets_witness:
  "\<exists>hs body. map_of (serialize_req demo_logged) ''headers'' = Some (JObj hs) \<and>
     map_of (serialize_req demo_logged) ''body'' = Some (JObj body) \<and>
     map_of hs ''x-api-key'' = Some (JStr ''[REDACTED]'') \<and> map_of hs ''host'' = Some (JStr ''h'') \<and>
     map_of body ''token'' = Some (JStr ''[REDACTED]'') \<and> map_of body ''name'' = Some (JStr ''n'')"
proof -
  have "map_of demo_logged ''headers'' = Some (JObj [(''host'', JStr ''h''), (''x-api-key'', JStr ''one'')])"
    and "map_of demo_logged ''body'' = Some (JObj [(''token'', JStr ''a''), (''name'', JStr ''n'')])"
    by (simp_all add: demo_logged_def)
  from log_redacts_secrets [OF this(1) disjI1, OF this(2)] show ?thesis by fastforce
qed

end
