(* ===== verification/Spec2Isabelle.thy ===== *)
theory Spec2Isabelle
  imports Treasury_Protocol Name_History Inflow_Protocol App_Setup
begin

text \<open>
  \<^bold>\<open>AccountOS\<close>: programmable virtual accounts on top of the Nomba payment API (a NestJS service in
  TypeScript, under \<open>src/\<close>). Businesses register with encrypted Nomba credentials and API keys, enrol
  customers with a KYC tier, provision virtual accounts with rule sets, receive inflows through signed
  webhooks, and keep allocated money in treasury buckets from which they settle to banks or to other
  buckets. This development models the program, from the parsed request to the rows of the database, as
  executable HOL functions on an explicit world and proves what makes it correct.

  \<^bold>\<open>The model.\<close> A method of a service is an \<open>act\<close>: a function from a \<open>world\<close> (database tables, audit table,
  the two job queues, HTTP calls made, token cache, a counter of effects) to a result and a new world; the
  result is \<open>Inr\<close> of the returned value or \<open>Inl\<close> of the thrown exception (\<open>exn\<close>: a Nest HTTP exception with
  status, code and message, a Prisma error, or another Error). What is not the program's own code is a field of
  the record \<open>env\<close> that every definition takes: the clock, generated ids, database faults (any statement may
  fail), the answers of HTTP peers, queue faults, the cryptographic primitives, the conversions of
  JavaScript between texts and numbers, JSON parsing, date parsing, configuration. What belongs to the web
  framework (the checks of class-validator, the throttler's decision, \<open>updatedAt\<close> columns) is in the record \<open>server\<close>. A
  theorem holds for every \<open>env\<close> and \<open>server\<close> unless it names what it assumes of them. Kobo amounts stored as BIGINT are \<open>int\<close> with the range
  check of the column; JavaScript numbers are rationals, rounded to doubles where the code computes with them.

  \<^bold>\<open>Theories and what they model.\<close>
  \<^item> \<open>AOS_Prelude\<close>: JSON values, JavaScript numbers, the state-and-exception monad with the judgement \<open>keeps\<close>,
    the locales \<open>running_ledger\<close> (rows with stored running totals) and \<open>transition_system\<close>.
  \<^item> \<open>AOS_Store\<close>: the enums and tables of \<open>prisma/schema.prisma\<close>, \<open>world\<close>, \<open>env\<close>, statements and
    transactions, the weakest-precondition calculus \<open>wp\<close>, clock-dependent invariants \<open>timed\<close>.
  \<^item> \<open>AOS_Tables\<close>: create and update statements with the unique, foreign-key and range constraints; the locale
    \<open>unique_table\<close>. \<open>AOS_Demo\<close>: the concrete environment and database of the witnesses.
  \<^item> \<open>Audit_Service\<close> (\<open>audit/audit.service.ts\<close>): \<open>log\<close>, which never throws; the locale \<open>audit_sink\<close>.
  \<^item> \<open>Ledger_Service\<close> (\<open>ledger/ledger.service.ts\<close>): inflows, outflows, reconciliation, paging, summary, balance,
    CSV export.
  \<^item> \<open>Crypto_Utils\<close>, \<open>Auth_Service\<close> (\<open>common/utils/crypto.utils.ts\<close>, \<open>auth\<close>): encryption format, admin secret,
    registration, credentials, API keys and the guard.
  \<^item> \<open>Nomba_Client\<close> (\<open>nomba-client\<close>): requests, token cache, mock mode, error mapping; the locale \<open>outside_call\<close>.
  \<^item> \<open>Allocation_Service\<close>, \<open>Settlement_Service\<close>, \<open>Treasury_Service\<close> (\<open>treasury\<close>): idempotent credits with serializable
    retries, the settlement life cycle, buckets, statements, transfers and withdrawals;
    \<open>Treasury_Protocol\<close>: their transactions interleaved by concurrent requests, and a credit that overlaps them.
  \<^item> \<open>Rule_Schema\<close> (\<open>rule-schema.ts\<close>), \<open>Notification_Service\<close>, \<open>Rule_Engine\<close>, \<open>Rules_Service\<close> (\<open>rules\<close>): validation of rule
    sets, evaluation of rules against an event, execution of the six actions, administration of rules.
  \<^item> \<open>AOS_Invariants\<close>: the life cycle of an account and the relation \<open>evolves\<close> that every operation keeps.
  \<^item> \<open>Account_Lifecycle\<close> (\<open>accounts\<close>), \<open>Identity_Service\<close> (\<open>identity\<close>).
  \<^item> \<open>Job_Queues\<close>, \<open>Webhook_Processor\<close>, \<open>AOS_Faultless\<close>, \<open>Retry_Processor\<close> (\<open>common/queue\<close>): the queues as the locale
    \<open>job_queue\<close>, the two workers, and the judgement \<open>runs\<close> for progress when nothing fails.
  \<^item> \<open>Inflow_Parts\<close>: the webhook job cut into the parts between which other code runs (\<open>advance\<close>, one constructor of
    \<open>job\<close> for each point of the code), and what a part does to the keys of entries and executions (\<open>moves\<close>);
    \<open>Inflow_Protocol\<close>: the system that interleaves any number of deliveries with requests, retries and late writes.
  \<^item> \<open>Webhooks_Service\<close> (\<open>webhooks/webhooks.service.ts\<close>, \<open>events/events.service.ts\<close>): the producers of jobs.
    \<open>Scheduler_Service\<close> (\<open>common/scheduler\<close>). \<open>Http_Layer\<close>: the idempotency interceptor and the exception filter.
  \<^item> \<open>Http_Values\<close>: the values controllers return and how they are serialised (\<open>bigint-serialize.interceptor.ts\<close>), \<open>parseInt\<close>.
    \<open>Dto_Validation\<close>: the decorated DTO classes as tables, the validation pipe of \<open>main.ts\<close>, and the typed record each
    class is read as; the locale \<open>class_validator\<close> states the documented behaviour of the decorators.
  \<^item> \<open>Http_Server\<close>: the route table of all controllers, every controller method, the demo, health and metrics services,
    and \<open>respond\<close>, the way of a request through routing, guards, interceptors, pipe, handler and filter.
  \<^item> \<open>Tenant_Isolation\<close>: the part of the database that belongs to one business, and the locale \<open>tenant_operation\<close> each
    operation is interpreted in; \<open>Http_Isolation\<close> and \<open>Http_Contract\<close> carry this and other invariants to whole
    requests (locale \<open>http_invariant\<close>). \<open>Name_History\<close>: the contract of an operation that keeps the name histories (locale
    \<open>history_keeper\<close>), interpreted on every operation.
  \<^item> \<open>App_Setup\<close>: environment variables and start (\<open>config/config.ts\<close>, \<open>main.ts\<close>), the redacted request log
    (\<open>app.module.ts\<close>), the seed script (\<open>prisma/seed.ts\<close>).
  \<^item> \<open>Account_Machine\<close>: the abstract machine of one account, the locale \<open>account_operation\<close> that each operation of
    each service is interpreted in, and the simulation; this theory composes the operations to serial runs, in which
    they are executed one at a time.

  \<^bold>\<open>What is proved.\<close>
  \<^item> Serial runs of the system: they refine the account machine, a closed or expired account is final, and name
    histories stay chains. These hold of operations that do not overlap.
  \<^item> The HTTP surface: no request reaches into another tenant; without a usable key nothing happens, and public
    endpoints change nothing without the admin secret (or a text whose digest collides with it); the exact answer to
    every request, errors included; a validated body has the types its handler declares; routing is unambiguous;
    requests book only real amounts.
  \<^item> Start: the seeded key is accepted and the only one of its name; the serializer of the request log redacts exactly the listed secrets.
  \<^item> Money: running totals of both ledgers, append-only ledger, no bucket overdrawn by any interleaving of
    settlements (if creation times increase and credits do not overlap them), conservation by transfers, idempotent
    credits, exact release amounts, releases of one inflow bounded by the inflow.
  \<^item> Events: only signed deliveries are queued and they reach the worker unchanged; an inflow is booked once and
    reconciled by whether a rule matched; custom events write no ledger entry; a retried action is always
    resolved; under any interleaving of deliveries, crashes and requests a rule acts at most once on an inflow.
  \<^item> Rules: the schema accepts exactly the well-formed rule sets; evaluation equals its specification; a replacement
    activates exactly the given rules.
  \<^item> Identity and access: a tier change flags exactly the ACTIVE rules created under another tier, accepted keys are
    valid, administrative operations need the secret, credentials survive encryption, keyed requests replay.
  \<^item> Flaws shown by theorems: transfers ignore reservations, a settlement to its own bucket inflates the stored
    balance, a credit that overlaps a settlement stores a stale balance, overlapping renames break a name history, a
    replacement of rules is not atomic, the scheduler runs no action, flagged inflows end as matched, and a booking or
    a status write that follows an earlier read passes the closing of the account.

  \<^bold>\<open>Bounds.\<close> \<open>runSerializable\<close> replays a transaction at most \<open>maxRetries\<close> (five) times, as the code does; \<open>run_job\<close> runs
  a job as often as its \<open>attempts\<close> allow, and the progress theorem shows that this is enough. The bound on
  released amounts assumes what it needs of the number of rules so that rounding stays below one unit. Every
  other function is total; no fuel is used.

  \<^bold>\<open>Not modelled.\<close> The wiring of Nest modules, helmet, Swagger, static pages, log lines (other than the serializer of
  requests), metrics counters beyond their endpoint (no caller increments them), \<open>updatedAt\<close> columns other than as given
  values, the counting of the throttler, the error texts of class-validator and Zod. Express is modelled after parsing: a
  body is a JSON object and a query has one value for each name. Jobs whose JSON has other types than the worker
  declares have no step. Whole operations (and all attempts of a retry job) are single steps in the serial runs of this
  theory, although in the program each statement is a point where others may run; its theorems hold only of such runs.
  Interleaving inside operations is modelled for the treasury (\<open>Treasury_Protocol\<close>) and the inflow
  worker (\<open>Inflow_Protocol\<close>). There the execution of one rule, a transaction and a request are single steps; the status
  override, the status change of a rule, a credit and a rename are also cut between their read and their write. What the
  treasury needs beyond this, increasing creation times of bucket entries and credits that overlap no
  settlement, is a condition of its theorem: neither the code nor the database enforces it. Theorems on one operation
  (closing, settlement, tier change, replacement of rules) are on that operation run alone.

  \<^bold>\<open>Plan.\<close> Next: the execution of a rule cut into its statements, and the bucket ledger as part of the system invariant.
\<close>

section \<open>The whole system\<close>

text \<open>
  One step of a serial run: a worker takes the first job of its queue, a whole HTTP request is answered, or the
  scheduler or another caller runs one operation of a service, with any arguments, from its beginning to its end
  before anything else runs. A webhook job runs once (it is queued without \<open>attempts\<close>); a retry job runs as often as
  its \<open>maxAttempts\<close> allow, and all its attempts are one step.
\<close>

inductive service_step :: "env \<Rightarrow> world \<Rightarrow> world \<Rightarrow> bool" for e where
  work_webhook: "webhookQueue w = j # q \<Longrightarrow> read_job j = Some p \<Longrightarrow>
     service_step e w (snd (WebhookProcessor_process e p (w\<lparr>webhookQueue := q\<rparr>)))"
| work_retry: "retryQueue w = p # q \<Longrightarrow>
     service_step e w (snd (run_job (rty_maxAttempts p) 0 (RetryProcessor_process e p) (w\<lparr>retryQueue := q\<rparr>)))"
| receive: "service_step e w (snd (processInflow e raw sig w))"
| dispatch_event: "service_step e w (snd (dispatch e ref ev name biz w))"
| schedule: "service_step e w (snd (evaluateTimeElapsedRules e w))"
| register: "service_step e w (snd (registerBusiness e bdto secret w))"
| recredential: "service_step e w (snd (updateBusinessCredentials e i cdto secret w))"
| issue_key: "service_step e w (snd (createApiKey e kdto secret w))"
| check_key: "service_step e w (snd (validateApiKey e k w))"
| revoke_key: "service_step e w (snd (revokeApiKey e i biz actor w))"
| create_cust: "service_step e w (snd (createCustomer e ccdto biz w))"
| rename_cust: "service_step e w (snd (renameCustomer e i rndto biz actor w))"
| retier_cust: "service_step e w (snd (updateKycTier e i utdto biz actor w))"
| provision_acc: "service_step e w (snd (provisionAccount e pdto biz w))"
| override_acc: "service_step e w (snd (updateStatus e ref usdto biz actor w))"
| close_acc: "service_step e w (snd (closeAccount e ref biz actor b w))"
| replace_rules: "service_step e w (snd (replaceRuleSet e ref biz rdto w))"
| toggle_rule: "service_step e w (snd (toggleRule e ref i biz enabled w))"
| delete_rule: "service_step e w (snd (deleteRule e ref i biz w))"
| provision_bkt: "service_step e w (snd (provisionBucket e cbdto biz w))"
| rename_bkt: "service_step e w (snd (renameBucket e ref nm biz w))"
| close_bkt: "service_step e w (snd (closeBucket e ref biz actor w))"
| transfer_bkt: "service_step e w (snd (transferBetweenBuckets e ref tbdto biz actor w))"
| withdraw_bkt: "service_step e w (snd (withdraw e ref wdto biz b w))"
| settle_bkt: "service_step e w (snd (initiate e ref csdto biz b actor w))"
| serve: "service_step e w (snd (respond e srv rq w))"

abbreviation serial_run :: "env \<Rightarrow> world \<Rightarrow> world \<Rightarrow> bool" where
  "serial_run e \<equiv> (service_step e)\<^sup>*\<^sup>*"

lemmas operation_refines =
  processing.refines retrying.refines receiving.refines dispatching.refines scheduling.refines
  registering.refines recredentialing.refines keying.refines authenticating.refines revoking.refines
  enrolling.refines renaming.refines retiering.refines provisioning.refines overriding.refines
  closing.refines replacing.refines toggling.refines deleting.refines bucketing.refines
  relabelling.refines unbucketing.refines transferring.refines withdrawing.refines settling.refines
  serving.refines

lemmas operation_consistent =
  processing.run_consistent retrying.run_consistent receiving.run_consistent
  dispatching.run_consistent scheduling.run_consistent registering.run_consistent
  recredentialing.run_consistent keying.run_consistent authenticating.run_consistent
  revoking.run_consistent enrolling.run_consistent renaming.run_consistent
  retiering.run_consistent provisioning.run_consistent overriding.run_consistent
  closing.run_consistent replacing.run_consistent toggling.run_consistent
  deleting.run_consistent bucketing.run_consistent relabelling.run_consistent
  unbucketing.run_consistent transferring.run_consistent withdrawing.run_consistent
  settling.run_consistent serving.run_consistent

lemma step_refines:
  assumes "service_step e w w'" "consistent (db w)"
  shows "account_step\<^sup>*\<^sup>* (account_of i (db w)) (account_of i (db w'))"
  using assms
proof (induction rule: service_step.induct)
  case (work_webhook w j q p)
  then show ?case using processing.refines [of "w\<lparr>webhookQueue := q\<rparr>"] by simp
next
  case (work_retry w p q)
  then show ?case using retrying.refines [of "w\<lparr>retryQueue := q\<rparr>"] by simp
qed (rule operation_refines, assumption)+

lemma step_consistent:
  assumes "service_step e w w'" "consistent (db w)"
  shows "consistent (db w')"
  using assms
proof (induction rule: service_step.induct)
  case (work_webhook w j q p)
  then show ?case using processing.run_consistent [of "w\<lparr>webhookQueue := q\<rparr>"] by simp
next
  case (work_retry w p q)
  then show ?case using retrying.run_consistent [of "w\<lparr>retryQueue := q\<rparr>"] by simp
qed (rule operation_consistent, assumption)+

text \<open>The invariant of a run that started in \<open>w0\<close>: consistent, and the account's view refines the machine.\<close>

interpretation system: transition_system "\<lambda>w. w = w0 \<and> consistent (db w0)" "service_step e"
  "\<lambda>w. consistent (db w) \<and> account_step\<^sup>*\<^sup>* (account_of i (db w0)) (account_of i (db w))" for w0 e i
  by unfold_locales (auto intro: step_consistent rtranclp_trans step_refines)

section \<open>Properties\<close>

text \<open>C1: serial runs of the system refine the account machine. When the operations of the services run one at a time,
  each from its beginning to its end, in any order and with any arguments, faults and answers of the outside,
  each account does only what the machine allows: it is opened ACTIVE with an empty ledger, its status follows the
  life cycle, and the entries added to its ledger are inflows, posted while it is live, each with the right
  running total. The run also ends in a consistent database: right running totals, no transaction reference twice,
  no entry without its account. (Operations that overlap can break the life cycle: \<open>late_writes_ignore_status\<close>.)\<close>

theorem system_refines_account_machine:
  assumes "consistent (db w)" "serial_run e w w'"
  shows "consistent (db w') \<and> account_step\<^sup>*\<^sup>* (account_of i (db w)) (account_of i (db w'))"
  using system.steps_inv [where i = i and ?w0.0 = w, OF assms(2)] assms(1) by simp

text \<open>A run: the demo inflow arrives at the worker.\<close>

definition demo_queued_world :: world where
  "demo_queued_world = demo_rules_world\<lparr>webhookQueue := [inflow_job (delivery_body demo_payload)]\<rparr>"

lemma demo_consistent: "consistent (db demo_queued_world)"
  by (simp add: consistent_def evolves_def ledger_inv_def linked_def ledger_extends_def statuses_follow_refl
      demo_queued_world_def demo_rules_world_def demo_db_def run_ok_by_def)

lemma demo_run:
  "service_step demo_env demo_queued_world (snd (WebhookProcessor_process demo_env demo_payload demo_rules_world))"
proof -
  have "read_job (inflow_job (delivery_body demo_payload)) = Some demo_payload"
    by (rule read_delivery) (simp add: demo_payload_def)
  moreover have "demo_queued_world\<lparr>webhookQueue := []\<rparr> = demo_rules_world"
    by (simp add: demo_queued_world_def demo_rules_world_def demo_world_def)
  ultimately show ?thesis
    using work_webhook [of demo_queued_world "inflow_job (delivery_body demo_payload)" "[]" demo_payload demo_env]
    by (simp add: demo_queued_world_def)
qed

theorem system_refines_account_machine_witness:
  "account_step\<^sup>*\<^sup>* (account_of ''a1'' (db demo_queued_world)) (account_of ''a1'' (db demo_processed))"
  using system_refines_account_machine [OF demo_consistent r_into_rtranclp [of "service_step demo_env", OF demo_run], of "''a1''"]
  by (simp add: demo_processed_def)

text \<open>C2: in serial runs a closed or expired account is final. From a moment when an account is CLOSED or EXPIRED and no
  operation is under way, no sequence of whole operations, whatever webhooks, jobs, rules and requests it contains,
  changes its status or adds an entry to its ledger, as long as they run one at a time. An operation that had read
  the account before it was closed can do both: \<open>late_writes_ignore_status\<close> in \<open>Inflow_Protocol\<close>.\<close>

theorem terminal_account_frozen:
  assumes "consistent (db w)" "serial_run e w w'" "status_of i (db w) = Some s" "s \<in> {EXPIRED, CLOSED}"
  shows "status_of i (db w') = Some s \<and>
    entries_of i (t_ledgerEntry (db w')) = entries_of i (t_ledgerEntry (db w))"
proof -
  have "account_step\<^sup>*\<^sup>* (account_of i (db w)) (account_of i (db w'))"
    using system.steps_inv [where i = i and ?w0.0 = w, OF assms(2)] assms(1) by simp
  from terminal_view_final [OF this, of s] assms(3,4) show ?thesis by (simp add: account_of_def)
qed

text \<open>The same job when the account has been closed.\<close>

definition demo_closed_world :: world where
  "demo_closed_world = demo_queued_world\<lparr>db := (db demo_queued_world)\<lparr>t_account :=
     [demo_account\<lparr>acc_status := CLOSED\<rparr>]\<rparr>\<rparr>"

theorem terminal_account_frozen_witness:
  "\<exists>w'. service_step demo_env demo_closed_world w' \<and> status_of ''a1'' (db w') = Some CLOSED \<and>
     entries_of ''a1'' (t_ledgerEntry (db w')) = []"
proof -
  let ?j = "inflow_job (delivery_body demo_payload)"
  let ?w' = "snd (WebhookProcessor_process demo_env demo_payload (demo_closed_world\<lparr>webhookQueue := []\<rparr>))"
  have "read_job ?j = Some demo_payload"
    by (rule read_delivery) (simp add: demo_payload_def)
  then have step: "service_step demo_env demo_closed_world ?w'"
    by (intro work_webhook [of _ ?j]) (simp_all add: demo_closed_world_def demo_queued_world_def)
  have "consistent (db demo_closed_world)"
    by (simp add: consistent_def evolves_def ledger_inv_def linked_def ledger_extends_def statuses_follow_refl
        demo_closed_world_def demo_queued_world_def demo_rules_world_def demo_db_def run_ok_by_def)
  moreover have "status_of ''a1'' (db demo_closed_world) = Some CLOSED"
    by (simp add: status_of_def demo_closed_world_def demo_account_def)
  ultimately have "status_of ''a1'' (db ?w') = Some CLOSED \<and> entries_of ''a1'' (t_ledgerEntry (db ?w')) =
      entries_of ''a1'' (t_ledgerEntry (db demo_closed_world))"
    using terminal_account_frozen [OF _ r_into_rtranclp [of "service_step demo_env", OF step]] by blast
  moreover have "entries_of ''a1'' (t_ledgerEntry (db demo_closed_world)) = []"
    by (simp add: entries_of_def demo_closed_world_def demo_queued_world_def demo_rules_world_def demo_db_def)
  ultimately show ?thesis using step by auto
qed

section \<open>Names\<close>

lemmas operation_names =
  processing_names.run_names retrying_names.run_names receiving_names.run_names dispatching_names.run_names
  scheduling_names.run_names registering_names.run_names recredentialing_names.run_names keying_names.run_names
  authenticating_names.run_names revoking_names.run_names enrolling_names.run_names renaming_names.run_names
  retiering_names.run_names provisioning_names.run_names overriding_names.run_names closing_names.run_names
  replacing_names.run_names toggling_names.run_names deleting_names.run_names bucketing_names.run_names
  relabelling_names.run_names unbucketing_names.run_names transferring_names.run_names
  withdrawing_names.run_names settling_names.run_names serving_names.run_names

lemma step_names:
  assumes "service_step e w w'" "names_ok (db w)"
  shows "names_ok (db w')"
  using assms
proof (induction rule: service_step.induct)
  case (work_webhook w j q p)
  then show ?case using processing_names.run_names [of "w\<lparr>webhookQueue := q\<rparr>"] by simp
next
  case (work_retry w p q)
  then show ?case using retrying_names.run_names [of "w\<lparr>retryQueue := q\<rparr>"] by simp
qed (rule operation_names, assumption)+

interpretation naming: transition_system "\<lambda>w. t_customer (db w) = [] \<and> t_nameHistory (db w) = []" "service_step e"
  "\<lambda>w. names_ok (db w)" for e
  by unfold_locales (simp add: names_ok_def, rule step_names)

text \<open>C34: in serial runs the name history of every customer is a chain that starts with the empty name and ends with
  the customer's display name, each entry continuing the one before it: if this holds and every entry belongs to a
  customer, it holds after any sequence of whole operations of the services that run one at a time, whatever
  fails on the way. (Two renames that overlap break it: \<open>overlapping_renames_break_history\<close>.)\<close>

theorem names_follow_histories:
  assumes "names_ok (db w)" "serial_run e w w'"
  shows "\<forall>c \<in> set (t_customer (db w')). name_chain '''' (history_of (cus_id c) (db w')) = Some (cus_displayName c)"
  using naming.steps_inv [OF assms(2,1)] by (simp add: names_ok_def)

theorem names_follow_histories_witness:
  "serial_run demo_env demo_named_world demo_renamed_world \<and>
   length (history_of ''k1'' (db demo_renamed_world)) = 2 \<and>
   name_chain '''' (history_of ''k1'' (db demo_renamed_world)) = Some ''Eve''"
proof (intro conjI)
  show run: "serial_run demo_env demo_named_world demo_renamed_world"
    by (simp add: demo_renamed_world_def rename_cust r_into_rtranclp)
  show "length (history_of ''k1'' (db demo_renamed_world)) = 2" by code_simp
  have "t_customer (db demo_renamed_world) = [demo_customer\<lparr>cus_displayName := ''Eve''\<rparr>]" by code_simp
  with names_follow_histories [OF demo_names_ok run]
  show "name_chain '''' (history_of ''k1'' (db demo_renamed_world)) = Some ''Eve''"
    by (simp add: demo_customer_def)
qed

end
